(* ===== verification/Mt_Prelude.thy ===== *)
theory Mt_Prelude
  imports Main "HOL-Library.Word" "HOL-Library.Monad_Syntax"
begin

text \<open>
  Shared vocabulary of the development: the Rust machine integers as words of their
  width, \<open>Result<T, i32>\<close> as a datatype, slices as lists with bounds-checked access,
  little-endian byte order, and the list and word facts the component theories use.

  A function that may panic returns an \<open>option\<close>: \<open>None\<close> is a panic (the crate's panic
  handler in src/src/rust/src/lib.rs loops forever, so a panicking call never returns) or a
  broken \<open>unsafe\<close> precondition, and \<open>Some\<close> carries the value together with every buffer
  the call may write. \<open>usize\<close> is \<open>nat\<close>: the only arithmetic on it is adding small constants
  to slice lengths, which Rust bounds by \<open>isize::MAX\<close>.
\<close>

unbundle bit_operations_syntax

section \<open>Machine integers and results\<close>

type_synonym u8 = "8 word"
type_synonym u16 = "16 word"
type_synonym u32 = "32 word"

text \<open>A signed byte has the same bits; \<^term>\<open>sint\<close> reads its value.\<close>

type_synonym i8 = "8 word"

datatype 'a rresult = Ok 'a | Err int

abbreviation EINVAL :: int where "EINVAL \<equiv> - 22"
abbreviation ENOSPC :: int where "ENOSPC \<equiv> - 28"

text \<open>The two cargo profiles differ in \<open>debug_assert!\<close> and in integer overflow checks.\<close>

datatype profile = Dev | Release

named_theorems slice_simps \<open>evaluation of bounds-checked slice accesses\<close>
named_theorems cell_simps \<open>evaluation of slice writes on a buffer given cell by cell\<close>
named_theorems bytes_simps \<open>little-endian conversions\<close>

section \<open>Bounds-checked slices\<close>

definition load :: "'a list \<Rightarrow> nat \<Rightarrow> 'a option" where
  "load b i = (if i < length b then Some (b ! i) else None)"

definition store :: "'a list \<Rightarrow> nat \<Rightarrow> 'a \<Rightarrow> 'a list option" where
  "store b i v = (if i < length b then Some (b[i := v]) else None)"

definition slice :: "'a list \<Rightarrow> nat \<Rightarrow> nat \<Rightarrow> 'a list option" where
  "slice b lo hi =
     (if lo \<le> hi \<and> hi \<le> length b then Some (take (hi - lo) (drop lo b)) else None)"

text \<open>\<open>b[lo..hi].fill(v)\<close>\<close>

definition fill :: "'a list \<Rightarrow> nat \<Rightarrow> nat \<Rightarrow> 'a \<Rightarrow> 'a list option" where
  "fill b lo hi v =
     (if lo \<le> hi \<and> hi \<le> length b
      then Some (take lo b @ replicate (hi - lo) v @ drop hi b) else None)"

text \<open>\<open>b[lo..hi].copy_from_slice(src)\<close>: panics unless the lengths agree.\<close>

definition copy_from_slice :: "'a list \<Rightarrow> nat \<Rightarrow> nat \<Rightarrow> 'a list \<Rightarrow> 'a list option" where
  "copy_from_slice b lo hi src =
     (if lo \<le> hi \<and> hi \<le> length b \<and> length src = hi - lo
      then Some (take lo b @ src @ drop hi b) else None)"

text \<open>\<open>f(&mut b[lo..hi])\<close>: the callee sees the sub-slice, the rest is untouched.\<close>

definition with_slice ::
  "'a list \<Rightarrow> nat \<Rightarrow> nat \<Rightarrow> ('a list \<Rightarrow> 'a list option) \<Rightarrow> 'a list option" where
  "with_slice b lo hi f = do {
     s \<leftarrow> slice b lo hi;
     s' \<leftarrow> f s;
     Some (take lo b @ s' @ drop hi b)
   }"

lemma load_eq [slice_simps]: "i < length b \<Longrightarrow> load b i = Some (b ! i)"
  by (simp add: load_def)

lemma store_eq [slice_simps]: "i < length b \<Longrightarrow> store b i v = Some (b[i := v])"
  by (simp add: store_def)

lemma slice_eq [slice_simps]:
  "lo \<le> hi \<Longrightarrow> hi \<le> length b \<Longrightarrow> slice b lo hi = Some (take (hi - lo) (drop lo b))"
  by (simp add: slice_def)

lemma fill_eq [slice_simps]:
  "lo \<le> hi \<Longrightarrow> hi \<le> length b \<Longrightarrow>
   fill b lo hi v = Some (take lo b @ replicate (hi - lo) v @ drop hi b)"
  by (simp add: fill_def)

lemma copy_from_slice_eq [slice_simps]:
  "lo \<le> hi \<Longrightarrow> hi \<le> length b \<Longrightarrow> length src = hi - lo \<Longrightarrow>
   copy_from_slice b lo hi src = Some (take lo b @ src @ drop hi b)"
  by (simp add: copy_from_slice_def)

lemma load_eq_Some_iff: "load b i = Some v \<longleftrightarrow> i < length b \<and> b ! i = v"
  by (auto simp: load_def)

lemma store_append_eq:
  "i = length p \<Longrightarrow> store (p @ x # q) i v = Some (p @ v # q)"
  by (simp add: store_def)

text \<open>Writing a known block over the front of a buffer.\<close>

lemma copy_prefix:
  "length src \<le> length b \<Longrightarrow>
   copy_from_slice b 0 (length src) src = Some (src @ drop (length src) b)"
  by (simp add: copy_from_slice_def)

text \<open>
  A buffer whose cells are known, possibly followed by blocks of known length: a write is
  pushed through the cells and blocks in front of it until it reaches the part it changes.
\<close>

lemma store_cell [cell_simps]:
  "store (x # q) 0 v = Some (v # q)"
  "0 < i \<Longrightarrow> store (x # q) i v = do { q' \<leftarrow> store q (i - 1) v; Some (x # q') }"
  "length p \<le> i \<Longrightarrow>
   store (p @ q) i v = do { q' \<leftarrow> store q (i - length p) v; Some (p @ q') }"
  by (cases i; auto simp: store_def list_update_append split: bind_splits)+

lemma fill_cell [cell_simps]:
  "fill b 0 0 v = Some b"
  "0 < hi \<Longrightarrow> fill (x # q) 0 hi v = do { q' \<leftarrow> fill q 0 (hi - 1) v; Some (v # q') }"
  "0 < lo \<Longrightarrow> lo \<le> hi \<Longrightarrow>
   fill (x # q) lo hi v = do { q' \<leftarrow> fill q (lo - 1) (hi - 1) v; Some (x # q') }"
  "length p \<le> lo \<Longrightarrow> lo \<le> hi \<Longrightarrow> fill (p @ q) lo hi v =
     do { q' \<leftarrow> fill q (lo - length p) (hi - length p) v; Some (p @ q') }"
  by (cases hi; auto simp: fill_def take_Cons' drop_Cons')+

lemma copy_from_slice_cell [cell_simps]:
  "copy_from_slice b 0 0 [] = Some b"
  "0 < hi \<Longrightarrow> copy_from_slice (x # q) 0 hi (s # ss) =
     do { q' \<leftarrow> copy_from_slice q 0 (hi - 1) ss; Some (s # q') }"
  "0 < lo \<Longrightarrow> lo \<le> hi \<Longrightarrow> copy_from_slice (x # q) lo hi ss =
     do { q' \<leftarrow> copy_from_slice q (lo - 1) (hi - 1) ss; Some (x # q') }"
  "length p \<le> lo \<Longrightarrow> lo \<le> hi \<Longrightarrow> copy_from_slice (p @ q) lo hi ss =
     do { q' \<leftarrow> copy_from_slice q (lo - length p) (hi - length p) ss; Some (p @ q') }"
  by (auto simp: copy_from_slice_def take_Cons' drop_Cons')

lemma with_slice_cell [cell_simps]:
  "0 < lo \<Longrightarrow> lo \<le> hi \<Longrightarrow> with_slice (x # q) lo hi f =
     do { q' \<leftarrow> with_slice q (lo - 1) (hi - 1) f; Some (x # q') }"
  "hi \<le> length p \<Longrightarrow>
   with_slice (p @ q) lo hi f = do { p' \<leftarrow> with_slice p lo hi f; Some (p' @ q) }"
  "length p \<le> lo \<Longrightarrow> lo \<le> hi \<Longrightarrow> with_slice (p @ q) lo hi f =
     do { q' \<leftarrow> with_slice q (lo - length p) (hi - length p) f; Some (p @ q') }"
  by (auto simp: with_slice_def slice_def take_Cons' drop_Cons' split: bind_splits)

lemma fill_front: "n \<le> length b \<Longrightarrow> fill b 0 n v = Some (replicate n v @ drop n b)"
  by (simp add: fill_def)

lemma replicate_cells:
  "replicate (numeral n) x = x # replicate (pred_numeral n) x"
  by (simp add: numeral_eq_Suc)

lemma cells12:
  assumes "12 \<le> length b"
  obtains c0 c1 c2 c3 c4 c5 c6 c7 c8 c9 c10 c11 r
  where "b = c0 # c1 # c2 # c3 # c4 # c5 # c6 # c7 # c8 # c9 # c10 # c11 # r"
  using assms by (auto simp: numeral_eq_Suc Suc_le_length_iff)

text \<open>\<open>for i in range { body }\<close> over the state the body changes.\<close>

primrec for_loop :: "'i list \<Rightarrow> ('i \<Rightarrow> 's \<Rightarrow> 's option) \<Rightarrow> 's \<Rightarrow> 's option" where
  "for_loop [] body s = Some s"
| "for_loop (i # is) body s = do { s \<leftarrow> body i s; for_loop is body s }"

lemma for_store_eq:
  "lo \<le> hi \<Longrightarrow> hi \<le> length b \<Longrightarrow> for_loop [lo..<hi] (\<lambda>i b. store b i v) b = fill b lo hi v"
proof (induction "hi - lo" arbitrary: lo b)
  case 0
  then show ?case by (simp add: fill_def)
next
  case (Suc n)
  then have "lo < hi" by simp
  with Suc have "for_loop [lo..<hi] (\<lambda>i b. store b i v) b = fill (b[lo := v]) (Suc lo) hi v"
    using Suc(1) [of "Suc lo" "b[lo := v]"] by (simp add: upt_conv_Cons store_eq)
  moreover have "take (Suc lo) (b[lo := v]) = take lo b @ [v]"
    using Suc \<open>lo < hi\<close> by (simp add: take_Suc_conv_app_nth)
  moreover have "replicate (hi - lo) v = v # replicate (hi - Suc lo) v"
    using \<open>lo < hi\<close> by (metis Suc_diff_Suc replicate_Suc)
  ultimately show ?case using Suc \<open>lo < hi\<close> by (simp add: fill_eq)
qed

section \<open>Little-endian bytes\<close>

definition u16_to_le_bytes :: "u16 \<Rightarrow> u8 list" where
  "u16_to_le_bytes w = [ucast w, ucast (drop_bit 8 w)]"

definition u16_from_le_bytes :: "u8 \<Rightarrow> u8 \<Rightarrow> u16" where
  "u16_from_le_bytes b0 b1 = ucast b0 OR push_bit 8 (ucast b1)"

definition u32_to_le_bytes :: "u32 \<Rightarrow> u8 list" where
  "u32_to_le_bytes w =
     [ucast w, ucast (drop_bit 8 w), ucast (drop_bit 16 w), ucast (drop_bit 24 w)]"

definition u32_from_le_bytes :: "u8 \<Rightarrow> u8 \<Rightarrow> u8 \<Rightarrow> u8 \<Rightarrow> u32" where
  "u32_from_le_bytes b0 b1 b2 b3 =
     ucast b0 OR push_bit 8 (ucast b1) OR push_bit 16 (ucast b2) OR push_bit 24 (ucast b3)"

lemma length_to_le_bytes [simp]:
  "length (u16_to_le_bytes h) = 2" "length (u32_to_le_bytes w) = 4"
  by (simp_all add: u16_to_le_bytes_def u32_to_le_bytes_def)

lemma not_bit_high [simp]:
  "8 \<le> n \<Longrightarrow> \<not> bit (b :: u8) n" "16 \<le> n \<Longrightarrow> \<not> bit (h :: u16) n" "32 \<le> n \<Longrightarrow> \<not> bit (w :: u32) n"
  using bit_imp_le_length [of b n] bit_imp_le_length [of h n] bit_imp_le_length [of w n]
  by (auto simp: not_le)

lemma unat_less_simps:
  "unat (b :: u8) < 256" "unat (h :: u16) < 65536" "unat (w :: u32) < 4294967296"
proof -
  have "unat b < 2 ^ LENGTH(8)" "unat h < 2 ^ LENGTH(16)" "unat w < 2 ^ LENGTH(32)"
    by (rule unsigned_less)+
  then show "unat b < 256" "unat h < 65536" "unat w < 4294967296" by simp_all
qed

lemma unat_ucast_widen [simp]:
  "unat (ucast (h :: u16) :: u32) = unat h" "unat (ucast (b :: u8) :: u32) = unat b"
  "unat (ucast (b :: u8) :: u16) = unat b"
  using unat_less_simps(1) [of b] unat_less_simps(2) [of h]
  by (simp_all add: unsigned_ucast_eq take_bit_eq_mod)

lemma even_ucast_widen [simp]:
  "even (ucast (b :: u8) :: u32) = even b" "even (ucast (h :: u16) :: u32) = even h"
  using bit_0 [of "ucast b :: u32"] bit_0 [of b] bit_0 [of "ucast h :: u32"] bit_0 [of h]
  by (simp_all add: bit_ucast_iff)

text \<open>The masks the source writes in hexadecimal, as truncations.\<close>

lemma and_mask_simps:
  fixes x :: "'a::len word"
  shows "x AND 1 = take_bit 1 x" "x AND 3 = take_bit 2 x" "x AND 7 = take_bit 3 x"
    "x AND 15 = take_bit 4 x" "x AND 31 = take_bit 5 x" "x AND 63 = take_bit 6 x"
    "x AND 127 = take_bit 7 x" "x AND 255 = take_bit 8 x" "x AND 4095 = take_bit 12 x"
    "x AND 16383 = take_bit 14 x" "x AND 65535 = take_bit 16 x"
  by (simp_all add: take_bit_eq_mask mask_numeral)

lemma bit_small:
  assumes "unat (a :: u32) < 2 ^ k" "bit a n"
  shows "n < k"
proof -
  have "take_bit k (unat a) = unat a"
    using assms(1) by (rule take_bit_nat_eq_self)
  moreover have "bit (unat a) n" using assms(2) by (simp add: bit_unsigned_iff)
  ultimately show ?thesis by (metis bit_take_bit_iff)
qed

lemma u16_le_roundtrip [bytes_simps]:
  "u16_from_le_bytes (ucast w) (ucast (drop_bit 8 w)) = w"
  unfolding u16_from_le_bytes_def by (rule bit_word_eqI) (auto simp: bit_simps)

lemma u32_le_roundtrip [bytes_simps]:
  "u32_from_le_bytes (ucast w) (ucast (drop_bit 8 w)) (ucast (drop_bit 16 w))
     (ucast (drop_bit 24 w)) = w"
proof (rule bit_word_eqI)
  fix n assume "n < LENGTH(32)"
  then consider "n < 8" | "8 \<le> n" "n < 16" | "16 \<le> n" "n < 24" | "24 \<le> n" "n < 32"
    by fastforce
  then show "bit (u32_from_le_bytes (ucast w) (ucast (drop_bit 8 w)) (ucast (drop_bit 16 w))
     (ucast (drop_bit 24 w))) n = bit w n"
    by cases (auto simp: u32_from_le_bytes_def bit_simps)
qed

lemma u16_le_bytes_inverse [bytes_simps]:
  "u16_to_le_bytes (u16_from_le_bytes a b) = [a, b]"
  unfolding u16_from_le_bytes_def u16_to_le_bytes_def
  by (auto intro!: bit_word_eqI simp: bit_simps)

lemma u32_le_bytes_inverse [bytes_simps]:
  "u32_to_le_bytes (u32_from_le_bytes a b c d) = [a, b, c, d]"
  unfolding u32_from_le_bytes_def u32_to_le_bytes_def
  by (auto intro!: bit_word_eqI simp: bit_simps)

text \<open>The 32-bit word \<open>i\<close> of a byte buffer.\<close>

definition dword :: "u8 list \<Rightarrow> nat \<Rightarrow> u32" where
  "dword b i = u32_from_le_bytes (b ! (4 * i)) (b ! (4 * i + 1)) (b ! (4 * i + 2)) (b ! (4 * i + 3))"

lemma dword_concat:
  "i < length ws \<Longrightarrow> dword (concat (map u32_to_le_bytes ws) @ rest) i = ws ! i"
proof (induction ws arbitrary: i)
  case (Cons w ws)
  show ?case
  proof (cases i)
    case 0
    then show ?thesis by (simp add: dword_def u32_to_le_bytes_def bytes_simps)
  next
    case (Suc j)
    have "dword (u32_to_le_bytes w @ xs) (Suc j) = dword xs j" for xs
      by (simp add: dword_def nth_append ac_simps)
    with Cons Suc show ?thesis by simp
  qed
qed simp

section \<open>MAC addresses\<close>

text \<open>The Rust array type \<open>[u8; 6]\<close>.\<close>

datatype mac6 = Mac6 u8 u8 u8 u8 u8 u8

primrec mac_bytes :: "mac6 \<Rightarrow> u8 list" where
  "mac_bytes (Mac6 a b c d e f) = [a, b, c, d, e, f]"

text \<open>\<open>let mut m = [0u8; 6]; m.copy_from_slice(s)\<close>: panics unless six bytes are given.\<close>

definition mac6_of_slice :: "u8 list \<Rightarrow> mac6 option" where
  "mac6_of_slice bs =
     (case bs of [a, b, c, d, e, f] \<Rightarrow> Some (Mac6 a b c d e f) | _ \<Rightarrow> None)"

lemma length_mac_bytes [simp]: "length (mac_bytes m) = 6"
  by (cases m) simp

lemma mac6_of_slice_bytes [simp]: "mac6_of_slice (mac_bytes m) = Some m"
  by (cases m) (simp add: mac6_of_slice_def)

lemma mac_bytes_inject [simp]: "mac_bytes m = mac_bytes m' \<longleftrightarrow> m = m'"
  by (cases m; cases m') simp

lemma mac6_of_slice_ex: "length bs = 6 \<Longrightarrow> \<exists>m. mac6_of_slice bs = Some m \<and> mac_bytes m = bs"
  by (auto simp: mac6_of_slice_def numeral_eq_Suc length_Suc_conv)

end
