(* ===== verification/Regmap.thy ===== *)
theory Regmap
  imports Mt_Prelude
begin

text \<open>
  src/src/rust/src/regmap.rs: the translation of HIF register addresses to the global
  addresses USB vendor requests use. The lemmas show that the range table is unambiguous,
  that the translation is injective on the whole HIF window and that it keeps the
  alignment of 32-bit registers.
\<close>

section \<open>The translation\<close>

definition MAC_CR_RANGES :: "(u32 \<times> u32 \<times> u32) list" where
  "MAC_CR_RANGES = [
     (0x60000000, 0x20000, 0x200),
     (0x60100000, 0x21000, 0x200),
     (0x60110000, 0x21200, 0x200),
     (0x60120000, 0x21400, 0x200),
     (0x60130000, 0x21600, 0x200),
     (0x60140000, 0x21800, 0x200),
     (0x60150000, 0x21a00, 0x200),
     (0x60160000, 0x21c00, 0x200),
     (0x60170000, 0x21e00, 0x200),
     (0x60180000, 0x22000, 0x1000),
     (0x60190000, 0x23000, 0x200),
     (0x601a0000, 0x23200, 0x200),
     (0x60300000, 0x24000, 0x400),
     (0x60310000, 0x24400, 0x200),
     (0x60320000, 0x28000, 0x4000),
     (0x60330000, 0x2c000, 0x200),
     (0x60400000, 0x2d000, 0x200)]"

text \<open>The loop over the table returns at the first range that holds the address.\<close>

fun mac_cr_range_loop :: "(u32 \<times> u32 \<times> u32) list \<Rightarrow> u32 \<Rightarrow> u32" where
  "mac_cr_range_loop [] a = a"
| "mac_cr_range_loop ((base, seg_start, seg_len) # rs) a =
     (if a \<ge> seg_start \<and> a < seg_start + seg_len then base + (a - seg_start)
      else mac_cr_range_loop rs a)"

definition mac_cr_range_map :: "u32 \<Rightarrow> u32" where
  "mac_cr_range_map a = mac_cr_range_loop MAC_CR_RANGES a"

definition physical_addr_map :: "u32 \<Rightarrow> u32" where
  "physical_addr_map a =
     (if a < 0x2000 then 0x80020000 + a
      else if a < 0x4000 then 0x80000000 + a - 0x2000
      else if a < 0x8000 then 0x50000000 + a - 0x4000
      else if a < 0x10000 then 0xa0000000 + a - 0x8000
      else if a < 0x20000 then 0x60200000 + a - 0x10000
      else if a < 0x40000 then mac_cr_range_map a
      else if a < 0x80000 then 0xa5000000 + a - 0x40000
      else if 0xc0000 \<le> a \<and> a < 0xc0100 then 0x800c0000 + a - 0xc0000
      else a)"

section \<open>The range table as an interval map\<close>

text \<open>
  The documented address map (specs/schemas/registers.md, sections 2.1 and 2.2) over natural
  numbers: windows \<open>(start, length, base)\<close> in HIF order, written down from the tables there and
  not from the code.
\<close>

type_synonym window = "nat \<times> nat \<times> nat"

definition hif_windows :: "window list" where
  "hif_windows =
     [(0x0, 0x2000, 0x80020000), (0x2000, 0x2000, 0x80000000), (0x4000, 0x4000, 0x50000000),
      (0x8000, 0x8000, 0xa0000000), (0x10000, 0x10000, 0x60200000),
      (0x20000, 0x200, 0x60000000), (0x21000, 0x200, 0x60100000), (0x21200, 0x200, 0x60110000),
      (0x21400, 0x200, 0x60120000), (0x21600, 0x200, 0x60130000), (0x21800, 0x200, 0x60140000),
      (0x21a00, 0x200, 0x60150000), (0x21c00, 0x200, 0x60160000), (0x21e00, 0x200, 0x60170000),
      (0x22000, 0x1000, 0x60180000), (0x23000, 0x200, 0x60190000), (0x23200, 0x200, 0x601a0000),
      (0x24000, 0x400, 0x60300000), (0x24400, 0x200, 0x60310000), (0x28000, 0x4000, 0x60320000),
      (0x2c000, 0x200, 0x60330000), (0x2d000, 0x200, 0x60400000),
      (0x40000, 0x40000, 0xa5000000), (0xc0000, 0x100, 0x800c0000)]"

fun window_map :: "window list \<Rightarrow> nat \<Rightarrow> nat" where
  "window_map [] a = a"
| "window_map ((start, len, base) # ws) a =
     (if start \<le> a \<and> a < start + len then base + (a - start) else window_map ws a)"

fun in_window :: "nat \<Rightarrow> window \<Rightarrow> bool" where
  "in_window a (start, len, base) \<longleftrightarrow> start \<le> a \<and> a < start + len"

fun window_after :: "window \<Rightarrow> window \<Rightarrow> bool" where
  "window_after (s, l, b) (s', l', b') \<longleftrightarrow> s + l \<le> s'"

fun images_apart :: "window \<Rightarrow> window \<Rightarrow> bool" where
  "images_apart (s, l, b) (s', l', b') \<longleftrightarrow> b + l \<le> b' \<or> b' + l' \<le> b"

text \<open>
  What a table promises: its windows are in ascending order without overlap, their images
  do not overlap, and every image lies above \<open>top\<close>, so a translated address is never
  confused with one below \<open>top\<close> that was passed through.
\<close>

locale window_table =
  fixes ws :: "window list" and top :: nat
  assumes ascending: "sorted_wrt window_after ws"
    and apart: "sorted_wrt images_apart ws"
    and above: "\<forall>(s, l, b) \<in> set ws. top \<le> b"
begin

lemma ascending_unique:
  "w \<in> set ws \<Longrightarrow> w' \<in> set ws \<Longrightarrow> in_window a w \<Longrightarrow> in_window a w' \<Longrightarrow> w = w'"
proof -
  have "sorted_wrt window_after vs \<Longrightarrow> w \<in> set vs \<Longrightarrow> w' \<in> set vs \<Longrightarrow>
      in_window a w \<Longrightarrow> in_window a w' \<Longrightarrow> w = w'" for vs
    by (induction vs) (cases w; cases w'; fastforce)+
  then show "w \<in> set ws \<Longrightarrow> w' \<in> set ws \<Longrightarrow> in_window a w \<Longrightarrow> in_window a w' \<Longrightarrow> w = w'"
    using ascending by blast
qed

lemma apart_disjoint:
  assumes "(s, l, b) \<in> set ws" "(s', l', b') \<in> set ws" "(s, l, b) \<noteq> (s', l', b')"
  shows "b + l \<le> b' \<or> b' + l' \<le> b"
proof -
  have "sorted_wrt images_apart vs \<Longrightarrow> (s, l, b) \<in> set vs \<Longrightarrow> (s', l', b') \<in> set vs \<Longrightarrow>
      b + l \<le> b' \<or> b' + l' \<le> b" for vs
    using assms(3) by (induction vs) fastforce+
  with apart assms(1,2) show ?thesis by blast
qed

lemma window_map_hits:
  "(\<exists>(s, l, b) \<in> set vs. in_window a (s, l, b) \<and> window_map vs a = b + (a - s)) \<or>
   (\<forall>w \<in> set vs. \<not> in_window a w) \<and> window_map vs a = a"
  by (induction vs a rule: window_map.induct) auto

lemma window_hit:
  assumes "(s, l, b) \<in> set ws" "s \<le> a" "a < s + l"
  shows "window_map ws a = b + (a - s)"
proof -
  obtain s' l' b' where w: "(s', l', b') \<in> set ws" "in_window a (s', l', b')"
      "window_map ws a = b' + (a - s')"
    using window_map_hits [of ws a] assms by fastforce
  then have "(s', l', b') = (s, l, b)"
    using ascending_unique assms by (meson in_window.simps)
  with w show ?thesis by simp
qed

lemma window_inj: "inj_on (window_map ws) {..<top}"
proof (rule inj_onI)
  fix x y assume xy: "x \<in> {..<top}" "y \<in> {..<top}" and eq: "window_map ws x = window_map ws y"
  consider (hh) s l b s' l' b' where "(s, l, b) \<in> set ws" "in_window x (s, l, b)"
      "window_map ws x = b + (x - s)" "(s', l', b') \<in> set ws" "in_window y (s', l', b')"
      "window_map ws y = b' + (y - s')"
    | (hm) s l b where "(s, l, b) \<in> set ws" "window_map ws x = b + (x - s)" "window_map ws y = y"
    | (mh) s l b where "(s, l, b) \<in> set ws" "window_map ws y = b + (y - s)" "window_map ws x = x"
    | (mm) "window_map ws x = x" "window_map ws y = y"
    using window_map_hits [of ws x] window_map_hits [of ws y] by fast
  then show "x = y"
  proof cases
    case hh
    show ?thesis
    proof (cases "(s, l, b) = (s', l', b')")
      case True with hh eq show ?thesis by auto
    next
      case False
      from apart_disjoint [OF hh(1,4) False] hh eq show ?thesis by auto
    qed
  next
    case hm with above eq xy show ?thesis by fastforce
  next
    case mh with above eq xy show ?thesis by fastforce
  next
    case mm with eq show ?thesis by simp
  qed
qed

end

interpretation hif: window_table hif_windows "0x50000000"
  by unfold_locales (simp_all add: hif_windows_def)

section \<open>The code implements the interval map\<close>

lemma unat_translate:
  fixes a base start len :: u32
  assumes "start \<le> a" "a < start + len" "unat start + unat len < 2 ^ 32"
    and "unat base + unat len < 2 ^ 32"
  shows "unat (base + (a - start)) = unat base + (unat a - unat start)"
proof -
  have sub: "unat (a - start) = unat a - unat start"
    using assms(1) by (simp add: unat_sub)
  have "unat a < unat start + unat len"
    using assms(2,3) by (simp add: word_less_nat_alt unat_word_ariths)
  then have "unat base + unat (a - start) < 2 ^ 32"
    using assms(4) sub by linarith
  then show ?thesis
    using sub by (simp add: unat_word_ariths)
qed

lemma in_segment_unat:
  fixes a start len :: u32
  assumes "unat start + unat len < 2 ^ 32"
  shows "(start \<le> a \<and> a < start + len) = (unat start \<le> unat a \<and> unat a < unat start + unat len)"
  using assms by (simp add: word_le_nat_alt word_less_nat_alt unat_word_ariths)

lemma mac_cr_range_loop_window:
  "\<forall>(b, s, l) \<in> set rs. unat s + unat l < 2 ^ 32 \<and> unat b + unat l < 2 ^ 32 \<Longrightarrow>
   unat (mac_cr_range_loop rs a) =
     window_map (map (\<lambda>(b, s, l). (unat s, unat l, unat b)) rs) (unat a)"
proof (induction rs a rule: mac_cr_range_loop.induct)
  case (2 base seg_start seg_len rs a)
  have bounds: "unat seg_start + unat seg_len < 2 ^ 32" "unat base + unat seg_len < 2 ^ 32"
    using 2(2) by simp_all
  show ?case
  proof (cases "seg_start \<le> a \<and> a < seg_start + seg_len")
    case True
    moreover have "unat seg_start \<le> unat a \<and> unat a < unat seg_start + unat seg_len"
      using True in_segment_unat [OF bounds(1), of a] by blast
    ultimately show ?thesis
      using unat_translate [of seg_start a seg_len base] bounds by simp
  next
    case False
    moreover have "\<not> (unat seg_start \<le> unat a \<and> unat a < unat seg_start + unat seg_len)"
      using False in_segment_unat [OF bounds(1), of a] by blast
    ultimately show ?thesis using 2 by auto
  qed
qed simp

lemma window_map_append:
  "window_map (us @ vs) a =
     (if \<exists>w \<in> set us. in_window a w then window_map us a else window_map vs a)"
  by (induction us a rule: window_map.induct) auto

lemma window_map_miss: "\<forall>w \<in> set ws. \<not> in_window a w \<Longrightarrow> window_map ws a = a"
  by (induction ws a rule: window_map.induct) auto

abbreviation mac_windows :: "window list" where
  "mac_windows \<equiv>
     map (\<lambda>(base, seg_start, seg_len). (unat seg_start, unat seg_len, unat base)) MAC_CR_RANGES"

text \<open>The table in the code has the documented segments.\<close>

lemma hif_windows_split:
  "hif_windows =
     [(0x0, 0x2000, 0x80020000), (0x2000, 0x2000, 0x80000000), (0x4000, 0x4000, 0x50000000),
      (0x8000, 0x8000, 0xa0000000), (0x10000, 0x10000, 0x60200000)] @ mac_windows @
     [(0x40000, 0x40000, 0xa5000000), (0xc0000, 0x100, 0x800c0000)]"
  by (simp add: hif_windows_def MAC_CR_RANGES_def)

lemma mac_windows_span: "w \<in> set mac_windows \<Longrightarrow> in_window a w \<Longrightarrow> 0x20000 \<le> a \<and> a < 0x40000"
  by (auto simp: MAC_CR_RANGES_def)

lemma mac_cr_range_map_window: "unat (mac_cr_range_map a) = window_map mac_windows (unat a)"
  unfolding mac_cr_range_map_def
  by (rule mac_cr_range_loop_window) (simp add: MAC_CR_RANGES_def)

lemma window_map_hif_mac:
  "0x20000 \<le> a \<Longrightarrow> a < 0x40000 \<Longrightarrow> window_map hif_windows a = window_map mac_windows a"
  by (auto simp: hif_windows_split window_map_append window_map_miss)

lemma window_map_hif_other:
  "a < 0x20000 \<or> 0x40000 \<le> a \<Longrightarrow>
   window_map hif_windows a =
     (if a < 0x2000 then 0x80020000 + a
      else if a < 0x4000 then 0x80000000 + (a - 0x2000)
      else if a < 0x8000 then 0x50000000 + (a - 0x4000)
      else if a < 0x10000 then 0xa0000000 + (a - 0x8000)
      else if a < 0x20000 then 0x60200000 + (a - 0x10000)
      else if a < 0x80000 then 0xa5000000 + (a - 0x40000)
      else if 0xc0000 \<le> a \<and> a < 0xc0100 then 0x800c0000 + (a - 0xc0000)
      else a)"
proof -
  assume a: "a < 0x20000 \<or> 0x40000 \<le> a"
  then have "\<not> (\<exists>w \<in> set mac_windows. in_window a w)"
    using mac_windows_span by (meson leD)
  then have skip: "window_map (mac_windows @ vs) a = window_map vs a" for vs
    by (simp only: window_map_append if_False)
  show ?thesis
    using a by (auto simp: hif_windows_split skip)
qed

lemma unat_less_numeral: "(a :: u32) < numeral k \<longleftrightarrow> unat a < unat (numeral k :: u32)"
  by (simp add: word_less_nat_alt)

lemma unat_le_numeral: "numeral k \<le> (a :: u32) \<longleftrightarrow> unat (numeral k :: u32) \<le> unat a"
  by (simp add: word_le_nat_alt)

lemma physical_addr_map_unat:
  "unat (physical_addr_map a) = window_map hif_windows (unat a)"
proof (cases "0x20000 \<le> a \<and> a < 0x40000")
  case True
  then have r: "0x20000 \<le> unat a" "unat a < 0x40000"
    by (simp_all add: unat_less_numeral unat_le_numeral)
  then have "physical_addr_map a = mac_cr_range_map a"
    by (simp add: physical_addr_map_def unat_less_numeral)
  with r show ?thesis
    by (simp add: mac_cr_range_map_window window_map_hif_mac)
next
  case False
  then have r: "unat a < 0x20000 \<or> 0x40000 \<le> unat a"
    by (auto simp: unat_less_numeral unat_le_numeral not_le not_less)
  have t: "unat (base + a - start) = unat base + (unat a - unat start)"
    if "unat start \<le> unat a" "unat a < unat start + unat len" "unat start + unat len < 2 ^ 32"
      "unat base + unat len < 2 ^ 32" for base start len :: u32
    using unat_translate [where start = start and a = a and len = len and base = base] that
      in_segment_unat [where start = start and a = a and len = len]
    by (simp add: add_diff_eq)
  show ?thesis
    using r t [where start = "0" and len = "0x2000" and base = "0x80020000"]
      t [where start = "0x2000" and len = "0x2000" and base = "0x80000000"]
      t [where start = "0x4000" and len = "0x4000" and base = "0x50000000"]
      t [where start = "0x8000" and len = "0x8000" and base = "0xa0000000"]
      t [where start = "0x10000" and len = "0x10000" and base = "0x60200000"]
      t [where start = "0x40000" and len = "0x40000" and base = "0xa5000000"]
      t [where start = "0xc0000" and len = "0x100" and base = "0x800c0000"]
    by (auto simp: physical_addr_map_def window_map_hif_other unat_less_numeral unat_le_numeral)
qed

text \<open>
  C17: the address translation of regmap.rs is the documented map of specs/schemas/registers.md:
  an address inside one of the documented windows goes to the window's base plus its offset, every
  other address is passed through, and no step of the computation wraps around 32 bits. In
  particular 0x50029018 is passed through; a comment in regops.c expects another image for it.
\<close>

theorem physical_addr_map_windows:
  "unat (physical_addr_map a) = window_map hif_windows (unat a)"
  by (rule physical_addr_map_unat)

lemma physical_addr_map_eqD:
  assumes "x < 0x50000000" "y < 0x50000000" "physical_addr_map x = physical_addr_map y"
  shows "x = y"
proof -
  have "unat x \<in> {..<0x50000000}" "unat y \<in> {..<0x50000000}"
    and "window_map hif_windows (unat x) = window_map hif_windows (unat y)"
    using assms by (simp_all add: unat_less_numeral flip: physical_addr_map_unat)
  then have "unat x = unat y" by (rule inj_onD [OF hif.window_inj, rotated])
  then show "x = y" by (simp add: word_unat_eq_iff)
qed

text \<open>No two HIF addresses below 0x50000000 are translated to the same global address, so
  two register writes of the driver never alias by accident.
\<close>

theorem physical_addr_map_inj: "inj_on physical_addr_map {a. a < 0x50000000}"
  by (rule inj_onI) (simp add: physical_addr_map_eqD)

text \<open>a register inside a segment of the MAC CR table is reached at that segment's base plus
  its offset, whatever the order of the table: the first match is the only match.
\<close>

theorem mac_cr_segment:
  assumes "(base, seg_start, seg_len) \<in> set MAC_CR_RANGES"
    and "seg_start \<le> a" and "a < seg_start + seg_len"
  shows "physical_addr_map a = base + (a - seg_start)"
proof -
  have b: "unat seg_start + unat seg_len < 2 ^ 32" "unat base + unat seg_len < 2 ^ 32"
    using assms(1) by (auto simp: MAC_CR_RANGES_def)
  have "(unat seg_start, unat seg_len, unat base) \<in> set hif_windows"
    using imageI [OF assms(1), of "\<lambda>(b, s, l). (unat s, unat l, unat b)"]
    by (simp add: hif_windows_split)
  moreover have "unat seg_start \<le> unat a \<and> unat a < unat seg_start + unat seg_len"
    using in_segment_unat [OF b(1), of a] assms(2,3) by blast
  ultimately have "unat (physical_addr_map a) = unat (base + (a - seg_start))"
    using hif.window_hit [of "unat seg_start" "unat seg_len" "unat base" "unat a"]
      unat_translate [OF assms(2,3) b]
    by (simp add: physical_addr_map_unat)
  then show ?thesis by (simp add: word_unat_eq_iff)
qed

theorem mac_cr_segment_witness:
  "(0x60320000, 0x28000, 0x4000) \<in> set MAC_CR_RANGES \<and> physical_addr_map 0x2A300 = 0x60322300"
proof -
  have m: "(0x60320000, 0x28000, 0x4000) \<in> set MAC_CR_RANGES" by (simp add: MAC_CR_RANGES_def)
  show ?thesis using m mac_cr_segment [OF m, of "0x2A300"] by simp
qed

lemma window_map_mod:
  assumes "\<forall>(s, l, b) \<in> set ws. s mod m = 0 \<and> b mod m = 0"
  shows "window_map ws n mod m = n mod m"
  using assms
proof (induction ws n rule: window_map.induct)
  case (2 start len base ws a)
  have "start mod m = 0" "base mod m = 0" using 2(2) by simp_all
  then have "(base + (a - start)) mod m = (a - start + start) mod m"
    by (metis add_0 add_0_right mod_add_left_eq mod_add_right_eq)
  with 2 show ?case by auto
qed simp

text \<open>the translation keeps the low nine bits of every address, so 32-bit registers stay
  aligned and keep their place inside a 512-byte block.
\<close>

theorem physical_addr_map_low_bits: "take_bit 9 (physical_addr_map a) = take_bit 9 a"
proof -
  have "window_map hif_windows (unat a) mod 512 = unat a mod 512"
    by (rule window_map_mod) (simp add: hif_windows_def)
  then have "unat (take_bit 9 (physical_addr_map a)) = unat (take_bit 9 a)"
    by (simp add: take_bit_eq_mod unat_mod physical_addr_map_unat)
  then show ?thesis by (simp add: word_unat_eq_iff)
qed

end
