(* ===== verification/Ffi_Types.thy ===== *)
theory Ffi_Types
  imports Mt_Prelude
begin

text \<open>
  src/src/rust/src/ffi.rs: the \<open>repr(C)\<close> structures that cross the C boundary. Field names carry
  a prefix where two structures share one. Fixed-size byte arrays other than MAC addresses
  are lists whose length is part of the structure's well-formedness predicate.
\<close>

record RegWriteOp =
  addr :: u32
  val :: u32

abbreviation op_write :: "u32 \<Rightarrow> u32 \<Rightarrow> RegWriteOp" where
  "op_write a v \<equiv> \<lparr>addr = a, val = v\<rparr>"

text \<open>
  The registers after a sequence of writes, as far as the sequence determines them.
\<close>

primrec reg_effect :: "RegWriteOp list \<Rightarrow> u32 \<rightharpoonup> u32" where
  "reg_effect [] = Map.empty"
| "reg_effect (op # ops) = [addr op \<mapsto> val op] ++ reg_effect ops"

lemma reg_effect_append: "reg_effect (xs @ ys) = reg_effect xs ++ reg_effect ys"
  by (induction xs) simp_all

lemma dom_reg_effect: "dom (reg_effect ops) = addr ` set ops"
  by (induction ops) auto

record EepromData =
  e_mac_addr :: mac6
  tx_power_2g :: "u8 list"
  nic_config :: u8
  country_code :: "u8 list"
  eeprom_version :: u16
  rssi_offset_2g :: i8
  is_valid :: u8

definition EepromData_default :: EepromData where
  "EepromData_default = \<lparr>
     e_mac_addr = Mac6 0x00 0x0C 0x43 0x76 0x03 0x01,
     tx_power_2g = replicate 14 0,
     nic_config = 0,
     country_code = [0x55, 0x53],
     eeprom_version = 0x7603,
     rssi_offset_2g = 0,
     is_valid = 0 \<rparr>"

record RxInfo =
  rx_pkt_len :: u16
  rx_hdr_len :: u16
  rx_rssi :: i8
  rx_channel :: u8
  rx_rate :: u8
  is_beacon :: u8
  is_data :: u8
  is_crc_error :: u8

definition RxInfo_default :: RxInfo where
  "RxInfo_default = \<lparr> rx_pkt_len = 0, rx_hdr_len = 0, rx_rssi = 0, rx_channel = 0,
     rx_rate = 0, is_beacon = 0, is_data = 0, is_crc_error = 0 \<rparr>"

record TxParams =
  rate_idx :: u8
  pid :: u8
  queue :: u8
  hdr_len :: u8
  frm_type :: u8
  sub_type :: u8
  no_ack :: u8
  is_bm :: u8
  rate_mode :: u8
  rate_mcs :: u8
  preamble :: u8
  bw :: u8
  pkt_len :: u16
  protect_frm :: u8

record StaBssInfo =
  bss_bssid :: mac6
  bss_ssid :: "u8 list"
  ssid_len :: u8
  bss_channel :: u8
  bss_rssi :: i8
  capability :: u16

definition StaBssInfo_default :: StaBssInfo where
  "StaBssInfo_default = \<lparr> bss_bssid = Mac6 0 0 0 0 0 0, bss_ssid = replicate 32 0,
     ssid_len = 0, bss_channel = 0, bss_rssi = 0, capability = 0 \<rparr>"

end
