(* ===== verification/Eeprom.thy ===== *)
theory Eeprom
  imports Ffi_Types
begin

text \<open>
  src/src/rust/src/eeprom.rs: parsing of an EEPROM / eFuse image. The theorems give the
  exact error condition, the well-formedness of every parsed record and where each of its
  fields comes from.
\<close>

definition fallback_mac :: mac6 where
  "fallback_mac = Mac6 0x00 0x0C 0x43 0x76 0x03 0x01"

definition rssi_in_range :: "i8 \<Rightarrow> bool" where
  "rssi_in_range offset \<longleftrightarrow> - 10 \<le> sint offset \<and> sint offset \<le> 10"

definition parse_eeprom :: "u8 list \<Rightarrow> EepromData rresult option" where
  "parse_eeprom buf =
     (if length buf < 256 then Some (Err EINVAL)
      else do {
        let data = EepromData_default;
        let mac_offset = 0x04;
        mac_slice \<leftarrow> slice buf mac_offset (mac_offset + 6);
        let is_all_zero = list_all (\<lambda>b. b = 0x00) mac_slice;
        let is_all_ff = list_all (\<lambda>b. b = 0xFF) mac_slice;
        mac \<leftarrow> (if is_all_zero \<or> is_all_ff then Some fallback_mac
                else mac6_of_slice mac_slice);
        let data = data\<lparr>e_mac_addr := mac\<rparr>;
        data \<leftarrow> (if length buf \<ge> 0x50 + 14 then do {
                   src \<leftarrow> slice buf 0x50 (0x50 + 14);
                   pw \<leftarrow> copy_from_slice (tx_power_2g data) 0 14 src;
                   Some (data\<lparr>tx_power_2g := pw\<rparr>) }
                 else Some data);
        data \<leftarrow> (if length buf \<ge> 0x47 then do {
                   offset \<leftarrow> load buf 0x46;
                   Some (data\<lparr>rssi_offset_2g := (if rssi_in_range offset then offset else 0)\<rparr>) }
                 else Some data);
        let data = data\<lparr>is_valid := 1\<rparr>;
        Some (Ok data)
      })"

text \<open>What a valid record looks like: a usable unicast-or-fallback MAC, the array lengths of
  the C structure, and an RSSI offset in the calibrated range.\<close>

definition eeprom_wf :: "EepromData \<Rightarrow> bool" where
  "eeprom_wf d \<longleftrightarrow>
     e_mac_addr d \<noteq> Mac6 0 0 0 0 0 0 \<and>
     e_mac_addr d \<noteq> Mac6 0xFF 0xFF 0xFF 0xFF 0xFF 0xFF \<and>
     length (tx_power_2g d) = 14 \<and> length (country_code d) = 2 \<and>
     - 10 \<le> sint (rssi_offset_2g d) \<and> sint (rssi_offset_2g d) \<le> 10 \<and> is_valid d = 1"

text \<open>The MAC address as a function of its six bytes.\<close>

definition eeprom_mac :: "u8 list \<Rightarrow> mac6" where
  "eeprom_mac bs =
     (if list_all (\<lambda>b. b = 0x00) bs \<or> list_all (\<lambda>b. b = 0xFF) bs then fallback_mac
      else the (mac6_of_slice bs))"

lemma parse_eeprom_long:
  assumes "256 \<le> length buf"
  shows "parse_eeprom buf = Some (Ok (EepromData_default\<lparr>
     e_mac_addr := eeprom_mac (take 6 (drop 4 buf)),
     tx_power_2g := take 14 (drop 0x50 buf),
     rssi_offset_2g := (if rssi_in_range (buf ! 0x46) then buf ! 0x46 else 0),
     is_valid := 1\<rparr>))"
proof -
  have "length (take 6 (drop 4 buf)) = 6" using assms by simp
  then obtain m where m: "mac6_of_slice (take 6 (drop 4 buf)) = Some m"
    using mac6_of_slice_ex by blast
  show ?thesis
    using assms m
    by (simp add: parse_eeprom_def eeprom_mac_def slice_simps EepromData_default_def Let_def)
qed

lemma eeprom_mac_usable:
  assumes "length bs = 6"
  shows "eeprom_mac bs \<noteq> Mac6 0 0 0 0 0 0 \<and> eeprom_mac bs \<noteq> Mac6 0xFF 0xFF 0xFF 0xFF 0xFF 0xFF"
proof -
  obtain m where m: "mac6_of_slice bs = Some m" "mac_bytes m = bs"
    using mac6_of_slice_ex [OF assms] by blast
  show ?thesis
    using m by (cases m) (auto simp: eeprom_mac_def fallback_mac_def)
qed

text \<open>For every image, parsing returns (it never panics): an image shorter than 256 bytes is
  rejected with -EINVAL, and any other image yields a well-formed record, with a MAC address
  that is neither all zero nor all ones and an RSSI offset between -10 and 10.
\<close>

theorem parse_eeprom_total:
  "(length buf < 256 \<and> parse_eeprom buf = Some (Err EINVAL)) \<or>
   (256 \<le> length buf \<and> (\<exists>d. parse_eeprom buf = Some (Ok d) \<and> eeprom_wf d))"
proof (cases "length buf < 256")
  case False
  then have l: "256 \<le> length buf" by simp
  then have "length (take 6 (drop 4 buf)) = 6" by simp
  from eeprom_mac_usable [OF this] show ?thesis
    using l by (simp add: parse_eeprom_long eeprom_wf_def EepromData_default_def rssi_in_range_def)
qed (simp add: parse_eeprom_def)

text \<open>The fields of an accepted image: a MAC address that is not blank is taken over
  byte for byte from offset 4, the fourteen power values from offset 0x50, and the signed
  RSSI offset from 0x46 when it is in range and 0 otherwise; the remaining fields keep their
  defaults.
\<close>

theorem parse_eeprom_fields:
  assumes "256 \<le> length buf"
    and "\<not> list_all (\<lambda>b. b = 0) (take 6 (drop 4 buf))"
    and "\<not> list_all (\<lambda>b. b = 0xFF) (take 6 (drop 4 buf))"
  shows "\<exists>d. parse_eeprom buf = Some (Ok d) \<and> mac_bytes (e_mac_addr d) = take 6 (drop 4 buf) \<and>
     tx_power_2g d = take 14 (drop 0x50 buf) \<and>
     sint (rssi_offset_2g d) =
       (if \<bar>sint (buf ! 0x46)\<bar> \<le> 10 then sint (buf ! 0x46) else 0) \<and>
     nic_config d = 0 \<and> country_code d = [0x55, 0x53] \<and> eeprom_version d = 0x7603"
proof -
  have "length (take 6 (drop 4 buf)) = 6" using assms(1) by simp
  then obtain m where "mac6_of_slice (take 6 (drop 4 buf)) = Some m" "mac_bytes m = take 6 (drop 4 buf)"
    using mac6_of_slice_ex by blast
  then show ?thesis
    using assms
    by (auto simp: parse_eeprom_long eeprom_mac_def EepromData_default_def rssi_in_range_def)
qed

theorem parse_eeprom_fields_witness:
  "\<exists>d. parse_eeprom (replicate 4 0 @ [0x00, 0x0C, 0x43, 0x76, 0x03, 0x01] @ replicate 502 0xF6) =
       Some (Ok d) \<and> mac_bytes (e_mac_addr d) = [0x00, 0x0C, 0x43, 0x76, 0x03, 0x01] \<and>
     sint (rssi_offset_2g d) = - 10"
  using parse_eeprom_fields
    [of "replicate 4 0 @ [0x00, 0x0C, 0x43, 0x76, 0x03, 0x01] @ replicate 502 0xF6"]
  by (auto simp: nth_append)

end
