(* ===== verification/Rx.thy ===== *)
theory Rx
  imports Ffi_Types
begin

text \<open>
  src/src/rust/src/rx.rs: parsing of an RMAC receive descriptor. The theorems show that no
  buffer makes the parser read out of bounds, when it reports an error, and that the header
  and payload lengths it reports stay inside the buffer the caller handed over.
\<close>

abbreviation RMAC_RXD_MIN_SIZE :: nat where "RMAC_RXD_MIN_SIZE \<equiv> 16"

text \<open>\<open>i8::saturating_add\<close>\<close>

definition i8_saturating_add :: "i8 \<Rightarrow> i8 \<Rightarrow> i8" where
  "i8_saturating_add a b = word_of_int (max (- 128) (min 127 (sint a + sint b)))"

text \<open>The descriptor length implied by the group-valid flags: groups 4, 1, 2 precede group 3.\<close>

definition grp3_offset :: "u8 \<Rightarrow> nat" where
  "grp3_offset grp_vld =
     (let n = RMAC_RXD_MIN_SIZE;
          n = (if grp_vld AND 0x08 \<noteq> 0 then n + 16 else n);
          n = (if grp_vld AND 0x01 \<noteq> 0 then n + 16 else n)
      in (if grp_vld AND 0x02 \<noteq> 0 then n + 8 else n))"

definition rmac_header_len :: "u8 \<Rightarrow> u8 \<Rightarrow> nat" where
  "rmac_header_len grp_vld hdr_offset =
     (let n = RMAC_RXD_MIN_SIZE;
          n = (if grp_vld AND 0x08 \<noteq> 0 then n + 16 else n);
          n = (if grp_vld AND 0x01 \<noteq> 0 then n + 16 else n);
          n = (if grp_vld AND 0x02 \<noteq> 0 then n + 8 else n);
          n = (if grp_vld AND 0x04 \<noteq> 0 then n + 24 else n)
      in (if hdr_offset = 1 then n + 2 else n))"

definition ofdm_rate_idx :: "u8 \<Rightarrow> u8" where
  "ofdm_rate_idx r =
     (if r = 11 then 4 else if r = 15 then 5 else if r = 10 then 6 else if r = 14 then 7
      else if r = 9 then 8 else if r = 13 then 9 else if r = 8 then 10 else if r = 12 then 11
      else 4)"

definition rxv_rate_enc :: "u32 \<Rightarrow> u8" where
  "rxv_rate_enc rxv1_dw0 =
     (let tx_rate = ucast (rxv1_dw0 AND 0x7f) :: u8;
          tx_mode = ucast (drop_bit 12 rxv1_dw0 AND 0x07) :: u8;
          fr_mode = ucast (drop_bit 15 rxv1_dw0 AND 0x03) :: u8;
          short_gi = ucast (drop_bit 19 rxv1_dw0 AND 0x01) :: u8;
          rate_enc = 0;
          rate_enc = (if fr_mode = 1 then rate_enc OR 0x40 else rate_enc);
          rate_enc = (if short_gi \<noteq> 0 then rate_enc OR 0x20 else rate_enc)
      in (if tx_mode \<ge> 2 then rate_enc OR (0x80 OR (tx_rate AND 0x0f))
          else if tx_mode = 1 then rate_enc OR ofdm_rate_idx (tx_rate AND 0x0f)
          else rate_enc OR (tx_rate AND 0x03)))"

definition parse_rx_frame :: "u8 list \<Rightarrow> i8 \<Rightarrow> RxInfo rresult option" where
  "parse_rx_frame buf rssi_offset =
     (if length buf < RMAC_RXD_MIN_SIZE then Some (Err EINVAL)
      else do {
        let info = RxInfo_default;
        b0 \<leftarrow> load buf 0;
        b1 \<leftarrow> load buf 1;
        let rx_byte_cnt = u16_from_le_bytes b0 b1;
        b3 \<leftarrow> load buf 3;
        let grp_vld = drop_bit 1 b3 AND 0x0F;
        let pkt_type = drop_bit 5 b3 AND 0x07;
        if pkt_type \<noteq> 0x02 \<and> pkt_type \<noteq> 0x03 then Some (Ok (info\<lparr>rx_pkt_len := 0\<rparr>))
        else do {
          b6 \<leftarrow> load buf 6;
          let hdr_offset = drop_bit 6 b6 AND 0x01;
          let rmac_info_len = rmac_header_len grp_vld hdr_offset;
          b10 \<leftarrow> load buf 10;
          let info = info\<lparr>is_crc_error := drop_bit 1 b10 AND 0x01\<rparr>;
          let info = info\<lparr>rx_hdr_len := word_of_nat rmac_info_len\<rparr>;
          if length buf < rmac_info_len then Some (Err EINVAL)
          else do {
            info \<leftarrow> (if grp_vld AND 0x04 \<noteq> 0 then do {
                let grp3_off = grp3_offset grp_vld;
                ibrssi0 \<leftarrow> load buf (grp3_off + 12);
                let info = (if ibrssi0 \<noteq> 0
                            then info\<lparr>rx_rssi := i8_saturating_add ibrssi0 rssi_offset\<rparr> else info);
                v0 \<leftarrow> load buf grp3_off;
                v1 \<leftarrow> load buf (grp3_off + 1);
                v2 \<leftarrow> load buf (grp3_off + 2);
                v3 \<leftarrow> load buf (grp3_off + 3);
                Some (info\<lparr>rx_rate := rxv_rate_enc (u32_from_le_bytes v0 v1 v2 v3)\<rparr>)
              } else Some info);
            let total_len = (if unat rx_byte_cnt \<le> length buf \<and> rx_byte_cnt > 0
                             then unat rx_byte_cnt else length buf);
            let mpdu_len = total_len - rmac_info_len;
            let info = info\<lparr>rx_pkt_len := word_of_nat mpdu_len\<rparr>;
            b5 \<leftarrow> load buf 5;
            let info = info\<lparr>rx_channel := b5\<rparr>;
            b4 \<leftarrow> load buf 4;
            let beacon_mc = drop_bit 4 b4 AND 0x01;
            let beacon_uc = drop_bit 5 b4 AND 0x01;
            if mpdu_len \<ge> 2 then do {
              frame_ctrl \<leftarrow> load buf rmac_info_len;
              let frame_type = drop_bit 2 frame_ctrl AND 0x03;
              let frame_subtype = drop_bit 4 frame_ctrl AND 0x0F;
              Some (Ok (if (frame_type = 0 \<and> frame_subtype = 8) \<or> beacon_mc \<noteq> 0 \<or> beacon_uc \<noteq> 0
                        then info\<lparr>is_beacon := 1\<rparr>
                        else if frame_type = 2 then info\<lparr>is_data := 1\<rparr> else info))
            } else Some (Ok info)
          }
        }
      })"

section \<open>Header lengths\<close>

lemma grp3_fits: "grp_vld AND 0x04 \<noteq> 0 \<Longrightarrow> grp3_offset grp_vld + 24 \<le> rmac_header_len grp_vld h"
  by (simp add: grp3_offset_def rmac_header_len_def Let_def)

lemma rmac_header_len_bounds: "16 \<le> rmac_header_len g h \<and> rmac_header_len g h \<le> 82"
  by (simp add: rmac_header_len_def Let_def)

text \<open>The descriptor fields of a buffer, and the length of its header.\<close>

definition rx_grp_vld :: "u8 list \<Rightarrow> u8" where
  "rx_grp_vld buf = drop_bit 1 (buf ! 3) AND 0x0F"

definition rx_pkt_type :: "u8 list \<Rightarrow> u8" where
  "rx_pkt_type buf = drop_bit 5 (buf ! 3) AND 0x07"

definition rx_header :: "u8 list \<Rightarrow> nat" where
  "rx_header buf = rmac_header_len (rx_grp_vld buf) (drop_bit 6 (buf ! 6) AND 0x01)"

definition is_frame_type :: "u8 list \<Rightarrow> bool" where
  "is_frame_type buf \<longleftrightarrow> rx_pkt_type buf = 2 \<or> rx_pkt_type buf = 3"

definition rx_total :: "u8 list \<Rightarrow> nat" where
  "rx_total buf =
     (let cnt = unat (u16_from_le_bytes (buf ! 0) (buf ! 1))
      in if cnt \<le> length buf \<and> cnt > 0 then cnt else length buf)"

definition rx_class :: "u8 list \<Rightarrow> RxInfo \<Rightarrow> RxInfo" where
  "rx_class buf info =
     (let fc = buf ! rx_header buf in
      if rx_total buf - rx_header buf < 2 then info
      else if (drop_bit 2 fc AND 3 = 0 \<and> drop_bit 4 fc AND 15 = 8) \<or>
              drop_bit 4 (buf ! 4) AND 1 \<noteq> 0 \<or> drop_bit 5 (buf ! 4) AND 1 \<noteq> 0
      then info\<lparr>is_beacon := 1\<rparr>
      else if drop_bit 2 fc AND 3 = 2 then info\<lparr>is_data := 1\<rparr> else info)"

definition rx_vector :: "u8 list \<Rightarrow> i8 \<Rightarrow> RxInfo \<Rightarrow> RxInfo" where
  "rx_vector buf rssi_offset info =
     (let g = rx_grp_vld buf; o3 = grp3_offset g in
      if g AND 4 = 0 then info
      else info\<lparr>
        rx_rssi := (if buf ! (o3 + 12) = 0 then 0
                    else i8_saturating_add (buf ! (o3 + 12)) rssi_offset),
        rx_rate := rxv_rate_enc (u32_from_le_bytes (buf ! o3) (buf ! (o3 + 1))
                     (buf ! (o3 + 2)) (buf ! (o3 + 3)))\<rparr>)"

text \<open>The record an accepted frame yields, without the bounds checks.\<close>

definition rx_info_spec :: "u8 list \<Rightarrow> i8 \<Rightarrow> RxInfo" where
  "rx_info_spec buf rssi_offset =
     rx_class buf (rx_vector buf rssi_offset (RxInfo_default\<lparr>
       is_crc_error := drop_bit 1 (buf ! 10) AND 1,
       rx_hdr_len := word_of_nat (rx_header buf),
       rx_pkt_len := word_of_nat (rx_total buf - rx_header buf),
       rx_channel := buf ! 5\<rparr>))"

lemma rx_total_le: "rx_total buf \<le> length buf"
  by (simp add: rx_total_def Let_def)

lemma u16_pos_iff: "(0 < (w :: u16)) = (0 < unat w)"
  by (simp add: word_less_nat_alt)

lemma rx_total_fold:
  "(if unat (u16_from_le_bytes (buf ! 0) (buf ! Suc 0)) \<le> length buf \<and>
       0 < u16_from_le_bytes (buf ! 0) (buf ! Suc 0)
    then unat (u16_from_le_bytes (buf ! 0) (buf ! Suc 0)) else length buf) = rx_total buf"
  by (simp add: rx_total_def u16_pos_iff Let_def)

lemma rx_folds:
  "drop_bit (Suc 0) (buf ! 3) AND 15 = rx_grp_vld buf"
  "rmac_header_len (rx_grp_vld buf) (drop_bit 6 (buf ! 6) AND 1) = rx_header buf"
  by (simp_all add: rx_grp_vld_def rx_header_def)

lemma parse_rx_frame_accepts:
  assumes "16 \<le> length buf" "is_frame_type buf" "rx_header buf \<le> length buf"
  shows "parse_rx_frame buf off = Some (Ok (rx_info_spec buf off))"
proof -
  have l: "i < length buf" if "i < 16" for i using assms(1) that by linarith
  have g3: "grp3_offset (rx_grp_vld buf) + j < length buf"
    if "rx_grp_vld buf AND 4 \<noteq> 0" "j < 24" for j
    using grp3_fits [OF that(1), of "drop_bit 6 (buf ! 6) AND 1"] that(2) assms(3)
    by (simp add: rx_header_def)
  have fc: "rx_header buf < length buf" if "2 \<le> rx_total buf - rx_header buf"
    using that rx_total_le [of buf] by linarith
  have rd: "load buf i = Some (buf ! i)" if "i < 16" for i
    using l [OF that] by (rule load_eq)
  have vec: "load buf (grp3_offset (rx_grp_vld buf) + j) =
      Some (buf ! (grp3_offset (rx_grp_vld buf) + j))"
    if "rx_grp_vld buf AND 4 \<noteq> 0" "j < 24" for j
    using g3 [OF that] by (rule load_eq)
  have ctl: "load buf (rx_header buf) = Some (buf ! rx_header buf)"
    if "2 \<le> rx_total buf - rx_header buf"
    using fc [OF that] by (rule load_eq)
  note defs = parse_rx_frame_def rx_info_spec_def rx_class_def rx_vector_def Let_def
  show ?thesis
    using assms vec [of 0] vec [of 1] vec [of 2] vec [of 3] vec [of 12] ctl
    by (cases "drop_bit 5 (buf ! 3) AND 7 = 2"; cases "rx_grp_vld buf AND 4 = 0";
        cases "2 \<le> rx_total buf - rx_header buf")
      (simp_all add: defs rd RxInfo_default_def is_frame_type_def rx_pkt_type_def rx_total_fold
        rx_folds)
qed

section \<open>Properties\<close>

lemma rx_load: "16 \<le> length buf \<Longrightarrow> i < 16 \<Longrightarrow> load buf i = Some (buf ! i)"
  by (simp add: load_def)

lemma parse_rx_frame_other:
  assumes "16 \<le> length buf" "\<not> is_frame_type buf"
  shows "parse_rx_frame buf off = Some (Ok RxInfo_default)"
  using assms
  by (simp add: parse_rx_frame_def rx_load is_frame_type_def rx_pkt_type_def Let_def
      RxInfo_default_def)

lemma parse_rx_frame_truncated:
  assumes "16 \<le> length buf" "is_frame_type buf" "length buf < rx_header buf"
  shows "parse_rx_frame buf off = Some (Err EINVAL)"
  using assms
  by (cases "drop_bit 5 (buf ! 3) AND 7 = 2")
    (simp_all add: parse_rx_frame_def rx_load is_frame_type_def rx_pkt_type_def Let_def
      rx_folds)

lemma parse_rx_frame_cases:
  "parse_rx_frame buf off = Some (
     if length buf < 16 then Err EINVAL
     else if \<not> is_frame_type buf then Ok RxInfo_default
     else if length buf < rx_header buf then Err EINVAL
     else Ok (rx_info_spec buf off))"
proof -
  have "length buf < 16 \<Longrightarrow> parse_rx_frame buf off = Some (Err EINVAL)"
    by (simp add: parse_rx_frame_def)
  then show ?thesis
    using parse_rx_frame_other parse_rx_frame_truncated parse_rx_frame_accepts
    by (simp add: not_less)
qed


lemma rx_info_spec_lengths:
  "rx_hdr_len (rx_info_spec buf off) = word_of_nat (rx_header buf)"
  "rx_pkt_len (rx_info_spec buf off) = word_of_nat (rx_total buf - rx_header buf)"
  by (simp_all add: rx_info_spec_def rx_class_def rx_vector_def Let_def)

lemma unat_word_of_nat_le: "unat (word_of_nat n :: u16) \<le> n"
  by (simp add: unat_of_nat)

text \<open>Whatever the descriptor claims, the header length and the payload length the parser
  reports together stay inside the buffer, so a caller that strips the header and hands on
  the payload never reads past the received bytes; a frame of at most 65535 bytes has its
  payload length reported exactly.
\<close>

theorem rx_lengths_in_buffer:
  assumes "parse_rx_frame buf off = Some (Ok info)"
  shows "unat (rx_hdr_len info) + unat (rx_pkt_len info) \<le> length buf \<and>
    (is_frame_type buf \<and> length buf \<le> 0xFFFF \<longrightarrow>
       unat (rx_hdr_len info) = rx_header buf \<and>
       unat (rx_pkt_len info) = rx_total buf - rx_header buf)"
proof (cases "is_frame_type buf")
  case False
  with assms have "info = RxInfo_default"
    by (simp add: parse_rx_frame_cases split: if_splits)
  with False show ?thesis by (simp add: RxInfo_default_def)
next
  case True
  with assms have i: "info = rx_info_spec buf off" and h: "rx_header buf \<le> length buf"
    by (simp_all add: parse_rx_frame_cases split: if_splits)
  have t: "rx_total buf \<le> length buf" by (rule rx_total_le)
  have hd: "unat (rx_hdr_len info) = rx_header buf"
    using rmac_header_len_bounds [of "rx_grp_vld buf" "drop_bit 6 (buf ! 6) AND 1"]
    by (simp add: i rx_info_spec_lengths unat_of_nat rx_header_def)
  have "unat (rx_pkt_len info) \<le> rx_total buf - rx_header buf"
    unfolding i rx_info_spec_lengths by (rule unat_word_of_nat_le)
  moreover have "unat (rx_pkt_len info) = rx_total buf - rx_header buf" if "length buf \<le> 0xFFFF"
    using t that by (simp add: i rx_info_spec_lengths unat_of_nat)
  ultimately show ?thesis using hd h t by auto
qed

text \<open>A minimal frame: descriptor of type 2 with no optional groups, two payload bytes.\<close>

definition sample_rx :: "u8 list" where
  "sample_rx = [18, 0, 0, 0x40, 0, 6, 0, 0, 0, 0, 0, 0, 0, 0, 0, 0, 0x80, 0]"

theorem rx_lengths_in_buffer_witness:
  "\<exists>info. parse_rx_frame sample_rx 0 = Some (Ok info) \<and> unat (rx_hdr_len info) = 16 \<and>
     unat (rx_pkt_len info) = 2"
proof -
  have t: "is_frame_type sample_rx" "rx_header sample_rx = 16" "rx_total sample_rx = 18"
    "length sample_rx = 18"
    by (simp_all add: is_frame_type_def rx_pkt_type_def rx_header_def rx_grp_vld_def
        rmac_header_len_def rx_total_def u16_from_le_bytes_def sample_rx_def)
  then have p: "parse_rx_frame sample_rx 0 = Some (Ok (rx_info_spec sample_rx 0))"
    by (simp add: parse_rx_frame_accepts)
  show ?thesis using rx_lengths_in_buffer [OF p] p t by auto
qed

text \<open>A received frame is never classified as a beacon and as data at once, and the
  flags of the record are 0 or 1.
\<close>

theorem rx_class_exclusive:
  assumes "parse_rx_frame buf off = Some (Ok info)"
  shows "is_beacon info \<in> {0, 1} \<and> is_data info \<in> {0, 1} \<and> is_crc_error info \<in> {0, 1} \<and>
    \<not> (is_beacon info = 1 \<and> is_data info = 1)"
proof -
  have b: "x AND 1 = 0 \<or> x AND 1 = 1" for x :: u8
    by (simp add: and_one_eq mod_2_eq_odd)
  show ?thesis
    using assms b [of "drop_bit 1 (buf ! 10)"]
    by (auto simp: parse_rx_frame_cases rx_info_spec_def rx_class_def rx_vector_def Let_def
        RxInfo_default_def split: if_splits)
qed

theorem rx_class_exclusive_witness:
  "\<exists>info. parse_rx_frame sample_rx 0 = Some (Ok info) \<and> is_beacon info = 1 \<and> is_data info = 0"
proof -
  have "parse_rx_frame sample_rx 0 = Some (Ok (RxInfo_default\<lparr>
      rx_hdr_len := 16, rx_pkt_len := 2, rx_channel := 6, is_beacon := 1\<rparr>))"
    by (simp add: parse_rx_frame_cases is_frame_type_def rx_pkt_type_def rx_header_def
        rx_grp_vld_def rmac_header_len_def rx_total_def u16_from_le_bytes_def sample_rx_def
        rx_info_spec_def rx_class_def rx_vector_def RxInfo_default_def)
  from rx_class_exclusive [OF this] this show ?thesis by (auto simp: RxInfo_default_def)
qed

lemma sint_i8_saturating_add:
  "sint (i8_saturating_add a b) = max (- 128) (min 127 (sint a + sint b))"
  by (simp add: i8_saturating_add_def sint_sbintrunc' signed_take_bit_int_eq_self)

text \<open>The signal strength of an accepted frame is the calibrated value: group 3 byte 12 as a
  signed number plus the EEPROM offset, saturated to a signed byte instead of wrapping, and
  0 (unknown) when group 3 is absent or that byte is 0.
\<close>

theorem rx_rssi_saturates:
  assumes "parse_rx_frame buf off = Some (Ok info)" and "is_frame_type buf"
  shows "sint (rx_rssi info) =
    (let raw = buf ! (grp3_offset (rx_grp_vld buf) + 12)
     in if rx_grp_vld buf AND 4 = 0 \<or> raw = 0 then 0
        else max (- 128) (min 127 (sint raw + sint off)))"
proof -
  from assms have "info = rx_info_spec buf off"
    by (simp add: parse_rx_frame_cases split: if_splits)
  then show ?thesis
    by (simp add: rx_info_spec_def rx_class_def rx_vector_def Let_def RxInfo_default_def
        sint_i8_saturating_add)
qed

definition sample_rxv :: "u8 list" where
  "sample_rxv = [40, 0, 0, 0x48, 0, 6, 0, 0, 0, 0, 0, 0, 0, 0, 0, 0] @ replicate 12 0 @ [0x9A] @
     replicate 11 0"

theorem rx_rssi_saturates_witness:
  "\<exists>info. parse_rx_frame sample_rxv 2 = Some (Ok info) \<and> sint (rx_rssi info) = - 100"
proof -
  have t: "is_frame_type sample_rxv" "rx_header sample_rxv = 40" "length sample_rxv = 40"
    "rx_grp_vld sample_rxv = 4" "sample_rxv ! 28 = 0x9A"
    by (simp_all add: is_frame_type_def rx_pkt_type_def rx_header_def rx_grp_vld_def
        rmac_header_len_def sample_rxv_def nth_append)
  then have p: "parse_rx_frame sample_rxv 2 = Some (Ok (rx_info_spec sample_rxv 2))"
    by (simp add: parse_rx_frame_accepts)
  show ?thesis
    using rx_rssi_saturates [OF p t(1)] p t by (simp add: grp3_offset_def)
qed

lemma ofdm_rate_idx_bits: "take_bit 5 (ofdm_rate_idx r) = ofdm_rate_idx r"
  "ofdm_rate_idx r \<le> 11" "\<not> bit (ofdm_rate_idx r) 5" "\<not> bit (ofdm_rate_idx r) 6"
  "\<not> bit (ofdm_rate_idx r) 7"
  by (simp_all add: ofdm_rate_idx_def)

lemma unat_ucast_take_bit:
  "n \<le> 8 \<Longrightarrow> unat (ucast (take_bit n x :: u32) :: u8) = unat (take_bit n x)"
  by (simp add: unsigned_ucast_eq unsigned_take_bit_eq min_def)

lemma u8_and_bounds: "(x :: u8) AND 15 \<le> 15" "(x :: u8) AND 3 \<le> 11"
  using word_and_le1 [of x 15] word_and_le1 [of x 3] by (auto intro: order_trans)

text \<open>The byte is three flag bits above a five-bit index.\<close>

lemma rxv_rate_enc_split:
  obtains flags idx :: u8 where "rxv_rate_enc v = flags OR idx" "take_bit 5 flags = 0"
    "take_bit 5 idx = idx" "bit flags 7 = (2 \<le> take_bit 3 (drop_bit 12 v))"
    "bit flags 6 = (take_bit 2 (drop_bit 15 v) = 1)" "bit flags 5 = bit v 19"
    "idx \<le> (if 2 \<le> take_bit 3 (drop_bit 12 v) then 15 else 11)"
proof
  let ?mode = "take_bit 3 (drop_bit 12 v)"
  let ?rate = "ucast (v AND 0x7f) :: u8"
  let ?flags = "(if ?mode \<ge> 2 then 0x80 else 0) OR (if take_bit 2 (drop_bit 15 v) = 1 then 0x40 else 0)
    OR (if bit v 19 then 0x20 else 0) :: u8"
  let ?idx = "if ?mode \<ge> 2 then ?rate AND 15 else if ?mode = 1 then ofdm_rate_idx (?rate AND 15)
    else ?rate AND 3 :: u8"
  have m: "(2 \<le> (ucast ?mode :: u8)) = (2 \<le> ?mode)" "((ucast ?mode :: u8) = 1) = (?mode = 1)"
    "((ucast (take_bit 2 (drop_bit 15 v)) :: u8) = 1) = (take_bit 2 (drop_bit 15 v) = 1)"
    by (simp_all add: word_le_nat_alt word_unat_eq_iff unat_ucast_take_bit)
  have g: "((ucast (take_bit 1 (drop_bit 19 v)) :: u8) \<noteq> 0) = bit v 19"
  proof -
    have "(ucast (take_bit 1 (drop_bit 19 v)) :: u8) = of_bool (bit v 19)"
      by (rule bit_word_eqI) (auto simp: bit_simps bit_iff_odd_drop_bit [of v 19])
    then show ?thesis by simp
  qed
  show "rxv_rate_enc v = ?flags OR ?idx"
    unfolding rxv_rate_enc_def Let_def and_mask_simps(1-3) m g by (simp add: ac_simps)
  show "take_bit 5 ?flags = 0" "take_bit 5 ?idx = ?idx" "bit ?flags 7 = (2 \<le> ?mode)"
    "bit ?flags 6 = (take_bit 2 (drop_bit 15 v) = 1)" "bit ?flags 5 = bit v 19"
    by (simp_all add: ofdm_rate_idx_bits and_mask_simps bit_simps)
  show "?idx \<le> (if 2 \<le> ?mode then 15 else 11)"
    by (simp add: ofdm_rate_idx_bits u8_and_bounds)
qed

text \<open>The compact rate byte is decodable: bit 7 tells HT from legacy rates, bit 6 is the
  40 MHz flag, bit 5 the short guard interval, and the low five bits are an index that is
  at most 15 for HT rates and at most 11 for legacy ones, whatever the receive vector holds.
\<close>

theorem rxv_rate_enc_fields:
  "bit (rxv_rate_enc v) 7 = (2 \<le> take_bit 3 (drop_bit 12 v)) \<and>
   bit (rxv_rate_enc v) 6 = (take_bit 2 (drop_bit 15 v) = 1) \<and>
   bit (rxv_rate_enc v) 5 = bit v 19 \<and>
   take_bit 5 (rxv_rate_enc v) \<le> (if bit (rxv_rate_enc v) 7 then 15 else 11)"
proof -
  obtain flags idx where s: "rxv_rate_enc v = flags OR idx" "take_bit 5 flags = 0"
    "take_bit 5 idx = idx" "bit flags 7 = (2 \<le> take_bit 3 (drop_bit 12 v))"
    "bit flags 6 = (take_bit 2 (drop_bit 15 v) = 1)" "bit flags 5 = bit v 19"
    "idx \<le> (if 2 \<le> take_bit 3 (drop_bit 12 v) then 15 else 11)"
    by (rule rxv_rate_enc_split)
  have "\<not> bit idx n" if "5 \<le> n" for n
    using s(3) that by (metis bit_take_bit_iff not_less)
  then show ?thesis using s by (simp add: bit_or_iff)
qed

end
