(* ===== verification/Tx.thy ===== *)
theory Tx
  imports Ffi_Types
begin

text \<open>
  src/src/rust/src/tx.rs: construction of the 32-byte long transmit descriptor. The theorems
  give the exact outcome of every call (success, either errno, or the panic of an
  out-of-range rate index), read the descriptor back field by field, and pin down the
  byte-count overflow that the length check does not exclude.
\<close>

abbreviation TXWI_SIZE :: nat where "TXWI_SIZE \<equiv> 32"
abbreviation P_IDX_LMAC :: u32 where "P_IDX_LMAC \<equiv> 0"
abbreviation TMI_HDR_FT_NOR_80211 :: u32 where "TMI_HDR_FT_NOR_80211 \<equiv> 0x2"
abbreviation TMI_FT_LONG :: u32 where "TMI_FT_LONG \<equiv> 0x1"
abbreviation MT_TX_SHORT_RETRY :: u32 where "MT_TX_SHORT_RETRY \<equiv> 0x0f"
abbreviation TMI_DAS_FROM_MPDU :: u32 where "TMI_DAS_FROM_MPDU \<equiv> 0"
abbreviation TMI_BSN_CFG_BY_SW :: u32 where "TMI_BSN_CFG_BY_SW \<equiv> 0x1"
abbreviation TMI_PM_BIT_CFG_BY_HW :: u32 where "TMI_PM_BIT_CFG_BY_HW \<equiv> 0x0"
abbreviation TMI_HDR_PAD_MODE_TAIL :: u32 where "TMI_HDR_PAD_MODE_TAIL \<equiv> 0"
abbreviation MODE_CCK :: u32 where "MODE_CCK \<equiv> 0"
abbreviation MODE_OFDM :: u32 where "MODE_OFDM \<equiv> 1"
abbreviation MODE_HTMIX :: u32 where "MODE_HTMIX \<equiv> 2"
abbreviation MODE_HTGF :: u32 where "MODE_HTGF \<equiv> 3"
abbreviation SHORT_PREAMBLE :: u32 where "SHORT_PREAMBLE \<equiv> 0"
abbreviation LONG_PREAMBLE :: u32 where "LONG_PREAMBLE \<equiv> 1"
abbreviation TMI_TX_RATE_BIT_MODE :: nat where "TMI_TX_RATE_BIT_MODE \<equiv> 6"
abbreviation TMI_TX_RATE_BIT_NSS :: nat where "TMI_TX_RATE_BIT_NSS \<equiv> 9"
abbreviation TMI_TX_RATE_BIT_STBC :: nat where "TMI_TX_RATE_BIT_STBC \<equiv> 11"
abbreviation TMI_TX_RATE_MASK_NSS :: u32 where "TMI_TX_RATE_MASK_NSS \<equiv> 0x3"

text \<open>The rate tables are indexed without a range test, so a large \<open>mcs\<close> panics. The only caller
  passes \<open>nss\<close> at least 1, so \<open>nss - 1\<close> does not wrap.\<close>

definition tx_rate_to_tmi :: "u32 \<Rightarrow> u32 \<Rightarrow> u32 \<Rightarrow> u32 \<Rightarrow> u32 \<Rightarrow> u32 option" where
  "tx_rate_to_tmi mode mcs stbc nss preamb =
     (if mode = MODE_CCK then do {
        mcs_id \<leftarrow> (if preamb = LONG_PREAMBLE then load [0, 1, 2, 3] (unat mcs)
                   else load [5, 5, 6, 7] (unat mcs));
        Some (push_bit TMI_TX_RATE_BIT_MODE MODE_CCK OR mcs_id)
      } else if mode = MODE_OFDM then do {
        mcs_id \<leftarrow> load [11, 15, 10, 14, 9, 13, 8, 12] (unat mcs);
        Some (push_bit TMI_TX_RATE_BIT_MODE MODE_OFDM OR mcs_id)
      } else if mode = MODE_HTMIX \<or> mode = MODE_HTGF then
        Some (push_bit TMI_TX_RATE_BIT_STBC stbc OR push_bit TMI_TX_RATE_BIT_NSS ((nss - 1) AND TMI_TX_RATE_MASK_NSS)
          OR push_bit TMI_TX_RATE_BIT_MODE mode OR mcs)
      else Some 0)"

definition hdr_pad_len :: "TxParams \<Rightarrow> u32" where
  "hdr_pad_len p = (4 - (ucast (hdr_len p) AND 0x03)) AND 0x03"

definition txd_dw0 :: "TxParams \<Rightarrow> u32" where
  "txd_dw0 p =
     (ucast (pkt_len p) + hdr_pad_len p + 32)
     OR push_bit 27 (ucast (queue p) AND 0x0f)
     OR push_bit 31 P_IDX_LMAC"

definition txd_dw1 :: "TxParams \<Rightarrow> u32" where
  "txd_dw1 p =
     (let hdr_pad = push_bit 2 TMI_HDR_PAD_MODE_TAIL OR (hdr_pad_len p AND 0x03)
      in (ucast (pid p) AND 0xff)
         OR push_bit 8 (drop_bit 1 (ucast (hdr_len p)) AND 0x1f)
         OR push_bit 13 TMI_HDR_FT_NOR_80211
         OR push_bit 15 TMI_FT_LONG
         OR push_bit 16 (hdr_pad AND 0x07)
         OR push_bit 19 (ucast (no_ack p) AND 0x1)
         OR push_bit 23 (ucast (protect_frm p) AND 0x1))"

definition txd_dw2 :: "TxParams \<Rightarrow> u32" where
  "txd_dw2 p =
     (ucast (sub_type p) AND 0x0f)
     OR push_bit 4 (ucast (frm_type p) AND 0x03)
     OR push_bit 10 (ucast (is_bm p) AND 0x1)
     OR push_bit 29 1
     OR push_bit 31 1"

definition txd_dw3 :: u32 where
  "txd_dw3 = push_bit 11 (MT_TX_SHORT_RETRY AND 0x1f)"

definition txd_dw5 :: u32 where
  "txd_dw5 = push_bit 11 TMI_DAS_FROM_MPDU OR push_bit 12 TMI_BSN_CFG_BY_SW
     OR push_bit 13 TMI_PM_BIT_CFG_BY_HW"

definition is_ht :: "u32 \<Rightarrow> bool" where
  "is_ht mode \<longleftrightarrow> mode = MODE_HTMIX \<or> mode = MODE_HTGF"

definition tx_nss :: "u32 \<Rightarrow> u32 \<Rightarrow> u32" where
  "tx_nss mode mcs = (if is_ht mode \<and> mcs \<noteq> 32 then 1 + drop_bit 3 mcs else 1)"

definition tx_rate_of :: "TxParams \<Rightarrow> u32 option" where
  "tx_rate_of p =
     (let mode = ucast (rate_mode p); mcs = ucast (rate_mcs p)
      in tx_rate_to_tmi mode mcs 0 (tx_nss mode mcs) (ucast (preamble p AND 0x1)))"

definition txd_dw6 :: "TxParams \<Rightarrow> u32 \<Rightarrow> u32" where
  "txd_dw6 p tx_rate =
     (let gi = (if is_ht (ucast (rate_mode p)) \<and> preamble p AND 0x2 \<noteq> 0 then 1 else 0);
          bw_field = push_bit 2 1 OR (ucast (bw p) AND 0x3)
      in push_bit 8 bw_field OR push_bit 11 1 OR push_bit 18 (tx_rate AND 0x0fff)
         OR push_bit 31 gi)"

definition build_txwi :: "TxParams \<Rightarrow> u8 list \<Rightarrow> (nat rresult \<times> u8 list) option" where
  "build_txwi p out_buf =
     (if length out_buf < TXWI_SIZE then Some (Err ENOSPC, out_buf)
      else if (ucast (pkt_len p) :: u32) + 32 > 0xffff then Some (Err EINVAL, out_buf)
      else do {
        out_buf \<leftarrow> fill out_buf 0 TXWI_SIZE 0;
        if (ucast (hdr_len p) :: u32) AND 1 \<noteq> 0 then Some (Err EINVAL, out_buf)
        else do {
          tx_rate \<leftarrow> tx_rate_of p;
          out_buf \<leftarrow> copy_from_slice out_buf 0 4 (u32_to_le_bytes (txd_dw0 p));
          out_buf \<leftarrow> copy_from_slice out_buf 4 8 (u32_to_le_bytes (txd_dw1 p));
          out_buf \<leftarrow> copy_from_slice out_buf 8 12 (u32_to_le_bytes (txd_dw2 p));
          out_buf \<leftarrow> copy_from_slice out_buf 12 16 (u32_to_le_bytes txd_dw3);
          out_buf \<leftarrow> copy_from_slice out_buf 20 24 (u32_to_le_bytes txd_dw5);
          out_buf \<leftarrow> copy_from_slice out_buf 24 28 (u32_to_le_bytes (txd_dw6 p tx_rate));
          Some (Ok TXWI_SIZE, out_buf)
        }
      })"

section \<open>The descriptor as a block\<close>

definition txd_block :: "TxParams \<Rightarrow> u32 \<Rightarrow> u8 list" where
  "txd_block p tx_rate =
     u32_to_le_bytes (txd_dw0 p) @ u32_to_le_bytes (txd_dw1 p) @ u32_to_le_bytes (txd_dw2 p) @
     u32_to_le_bytes txd_dw3 @ replicate 4 0 @ u32_to_le_bytes txd_dw5 @
     u32_to_le_bytes (txd_dw6 p tx_rate) @ replicate 4 0"

lemma length_txd_block [simp]: "length (txd_block p r) = 32"
  by (simp add: txd_block_def)

lemma build_txwi_writes:
  assumes "32 \<le> length out" "\<not> (ucast (pkt_len p) :: u32) + 32 > 0xffff"
    and "(ucast (hdr_len p) :: u32) AND 1 = 0" and "tx_rate_of p = Some r"
  shows "build_txwi p out = Some (Ok 32, txd_block p r @ drop 32 out)"
  using assms
  by (simp add: build_txwi_def slice_simps txd_block_def numeral_eq_Suc)

lemma pkt_len_limit:
  "(ucast (w :: u16) + 32 :: u32) > 0xffff \<longleftrightarrow> 65503 < unat w"
  using unat_less_simps(2) [of w] by (simp add: word_less_nat_alt unat_word_ariths)

lemma hdr_len_odd: "(ucast (h :: u8) :: u32) AND 1 \<noteq> 0 \<longleftrightarrow> odd (unat h)"
  by (simp add: and_one_eq word_unat_eq_iff unat_mod odd_iff_mod_2_eq_one)

lemma tx_rate_to_tmi_None:
  "tx_rate_to_tmi mode mcs stbc nss pre = None \<longleftrightarrow>
     (mode = MODE_CCK \<and> 4 \<le> unat mcs) \<or> (mode = MODE_OFDM \<and> 8 \<le> unat mcs)"
  by (auto simp: tx_rate_to_tmi_def load_def)

text \<open>
  C37: exactly which calls panic: a CCK rate index above 3 or an OFDM rate index above 7
  runs past its rate table; every other combination of the parameters yields a rate.
\<close>

theorem tx_rate_panics_iff:
  "tx_rate_of p = None \<longleftrightarrow>
     (rate_mode p = 0 \<and> 4 \<le> unat (rate_mcs p)) \<or> (rate_mode p = 1 \<and> 8 \<le> unat (rate_mcs p))"
proof -
  have "(ucast (rate_mode p) :: u32) = 0 \<longleftrightarrow> rate_mode p = 0"
    "(ucast (rate_mode p) :: u32) = 1 \<longleftrightarrow> rate_mode p = 1"
    by (simp_all add: word_unat_eq_iff)
  then show ?thesis by (simp add: tx_rate_of_def tx_rate_to_tmi_None Let_def)
qed

lemma build_txwi_cases:
  "build_txwi p out =
     (if length out < 32 then Some (Err ENOSPC, out)
      else if 65503 < unat (pkt_len p) then Some (Err EINVAL, out)
      else if odd (unat (hdr_len p)) then Some (Err EINVAL, replicate 32 0 @ drop 32 out)
      else map_option (\<lambda>r. (Ok 32, txd_block p r @ drop 32 out)) (tx_rate_of p))"
proof -
  consider "length out < 32" | "32 \<le> length out" "65503 < unat (pkt_len p)"
    | "32 \<le> length out" "\<not> 65503 < unat (pkt_len p)" "odd (unat (hdr_len p))"
    | "32 \<le> length out" "\<not> 65503 < unat (pkt_len p)" "even (unat (hdr_len p))" by linarith
  then show ?thesis
  proof cases
    case 4
    then show ?thesis
      using build_txwi_writes [of out p] pkt_len_limit [of "pkt_len p"] hdr_len_odd [of "hdr_len p"]
      by (cases "tx_rate_of p") (auto simp: build_txwi_def slice_simps)
  qed (simp_all add: build_txwi_def slice_simps pkt_len_limit hdr_len_odd)
qed

text \<open>
  C14: the complete outcome of building a descriptor. A short buffer is refused with -ENOSPC
  and a frame over 65503 bytes with -EINVAL, both leaving the buffer alone; an odd header
  length is refused with -EINVAL after the first 32 bytes have been zeroed; otherwise the call
  panics exactly when the rate lookup does, and else writes the 32-byte descriptor and
  nothing behind it. This is the long descriptor of rx\_tx.spec.md; sta.spec.md still describes a
  descriptor of 16 bytes and asks for -ENOSPC below 16 only, so the two disagree on buffers of 16
  to 31 bytes.
\<close>

theorem build_txwi_outcome:
  "build_txwi p out =
     (if length out < 32 then Some (Err ENOSPC, out)
      else if 65503 < unat (pkt_len p) then Some (Err EINVAL, out)
      else if odd (unat (hdr_len p)) then Some (Err EINVAL, replicate 32 0 @ drop 32 out)
      else map_option (\<lambda>r. (Ok 32, txd_block p r @ drop 32 out)) (tx_rate_of p))"
  by (rule build_txwi_cases)

section \<open>Reading the descriptor back\<close>

lemma txd_block_words:
  "txd_block p r =
     concat (map u32_to_le_bytes [txd_dw0 p, txd_dw1 p, txd_dw2 p, txd_dw3, 0, txd_dw5, txd_dw6 p r, 0])"
  by (simp add: txd_block_def u32_to_le_bytes_def [of 0] numeral_eq_Suc)

lemma dword_block:
  "dword (txd_block p r @ rest) 0 = txd_dw0 p" "dword (txd_block p r @ rest) 1 = txd_dw1 p"
  "dword (txd_block p r @ rest) 2 = txd_dw2 p" "dword (txd_block p r @ rest) 3 = txd_dw3"
  "dword (txd_block p r @ rest) 4 = 0" "dword (txd_block p r @ rest) 5 = txd_dw5"
  "dword (txd_block p r @ rest) 6 = txd_dw6 p r" "dword (txd_block p r @ rest) 7 = 0"
  unfolding txd_block_words by (subst dword_concat; simp)+

lemma dw1_fields:
  "take_bit 8 (txd_dw1 p) = ucast (pid p)"
  "take_bit 5 (drop_bit 8 (txd_dw1 p)) = take_bit 5 (drop_bit 1 (ucast (hdr_len p)))"
  "take_bit 2 (drop_bit 13 (txd_dw1 p)) = TMI_HDR_FT_NOR_80211"
  "bit (txd_dw1 p) 15"
  "take_bit 3 (drop_bit 16 (txd_dw1 p)) = take_bit 2 (hdr_pad_len p)"
  "bit (txd_dw1 p) 19 = odd (no_ack p)" "bit (txd_dw1 p) 23 = odd (protect_frm p)"
  "take_bit 3 (drop_bit 20 (txd_dw1 p)) = 0" "drop_bit 24 (txd_dw1 p) = 0"
  unfolding txd_dw1_def Let_def and_mask_simps
  by (auto intro!: bit_word_eqI simp: bit_simps)

lemma dw2_fields:
  "take_bit 4 (txd_dw2 p) = take_bit 4 (ucast (sub_type p))"
  "take_bit 2 (drop_bit 4 (txd_dw2 p)) = take_bit 2 (ucast (frm_type p))"
  "bit (txd_dw2 p) 10 = odd (is_bm p)" "bit (txd_dw2 p) 29" "bit (txd_dw2 p) 31"
  "take_bit 4 (drop_bit 6 (txd_dw2 p)) = 0" "take_bit 18 (drop_bit 11 (txd_dw2 p)) = 0" "\<not> bit (txd_dw2 p) 30"
  unfolding txd_dw2_def Let_def and_mask_simps
  by (auto intro!: bit_word_eqI simp: bit_simps)

lemma dw6_fields:
  "take_bit 3 (drop_bit 8 (txd_dw6 p r)) = 4 OR take_bit 2 (ucast (bw p))"
  "bit (txd_dw6 p r) 11" "take_bit 12 (drop_bit 18 (txd_dw6 p r)) = take_bit 12 r"
  "bit (txd_dw6 p r) 31 = (is_ht (ucast (rate_mode p)) \<and> preamble p AND 2 \<noteq> 0)"
  "take_bit 8 (txd_dw6 p r) = 0" "take_bit 6 (drop_bit 12 (txd_dw6 p r)) = 0" "\<not> bit (txd_dw6 p r) 30"
  unfolding txd_dw6_def Let_def and_mask_simps
  by (auto intro!: bit_word_eqI simp: bit_simps)

lemma unat_hdr_pad_len: "unat (hdr_pad_len p) = (4 - unat (hdr_len p) mod 4) mod 4"
proof -
  have l: "unat (ucast (hdr_len p) AND 3 :: u32) = unat (hdr_len p) mod 4"
    by (simp add: and_mask_simps take_bit_eq_mod unat_mod)
  moreover have "unat (hdr_len p) mod 4 < 4" by simp
  ultimately have "unat (4 - (ucast (hdr_len p) AND 3) :: u32) = 4 - unat (hdr_len p) mod 4"
    by (subst unat_sub) (simp_all add: word_le_nat_alt)
  then show ?thesis
    by (simp add: hdr_pad_len_def and_mask_simps(2) take_bit_eq_mod unat_mod)
qed

definition tx_count :: "TxParams \<Rightarrow> nat" where
  "tx_count p = unat (pkt_len p) + (4 - unat (hdr_len p) mod 4) mod 4 + 32"

lemma dw0_fields:
  "take_bit 16 (txd_dw0 p) = take_bit 16 (word_of_nat (tx_count p))"
  "bit (txd_dw0 p) 16 = (65536 \<le> tx_count p)"
  "take_bit 4 (drop_bit 27 (txd_dw0 p)) = take_bit 4 (ucast (queue p))" "\<not> bit (txd_dw0 p) 31"
  "unat (take_bit 27 (txd_dw0 p)) = tx_count p"
proof -
  let ?s = "ucast (pkt_len p) + hdr_pad_len p + 32 :: u32"
  have s: "unat ?s = tx_count p" "tx_count p < 131072"
    using unat_less_simps(2) [of "pkt_len p"] unat_hdr_pad_len [of p]
    by (simp_all add: tx_count_def unat_word_ariths)
  have w: "?s = word_of_nat (tx_count p)" unfolding s(1) [symmetric] by simp
  have hi: "\<not> bit ?s n" if "17 \<le> n" for n
  proof -
    have "unat ?s < 2 ^ n"
      using s power_increasing [OF that, of "2::nat"] by simp
    then have "\<not> bit (unat ?s) n" by (simp add: bit_iff_odd)
    then show ?thesis by (auto simp: bit_unsigned_iff dest: bit_imp_le_length)
  qed
  show "take_bit 16 (txd_dw0 p) = take_bit 16 (word_of_nat (tx_count p))"
    unfolding txd_dw0_def w [symmetric] and_mask_simps by (auto intro!: bit_word_eqI simp: bit_simps)
  show "take_bit 4 (drop_bit 27 (txd_dw0 p)) = take_bit 4 (ucast (queue p))" "\<not> bit (txd_dw0 p) 31"
    unfolding txd_dw0_def and_mask_simps using hi by (auto intro!: bit_word_eqI simp: bit_simps)
  have "take_bit 27 (txd_dw0 p) = ?s"
    unfolding txd_dw0_def and_mask_simps using hi
    by (auto intro!: bit_word_eqI simp: bit_simps simp del: not_less simp add: not_less [symmetric] bit_or_iff)
  then show "unat (take_bit 27 (txd_dw0 p)) = tx_count p" using s(1) by simp
  have "bit (txd_dw0 p) 16 = bit ?s 16"
    unfolding txd_dw0_def and_mask_simps by (auto simp: bit_simps)
  also have "\<dots> = bit (unat ?s) 16" by (simp only: bit_unsigned_iff) simp
  also have "\<dots> = odd (tx_count p div 65536)" by (simp only: s(1) bit_iff_odd) simp
  also have "\<dots> = (65536 \<le> tx_count p)"
  proof (cases "65536 \<le> tx_count p")
    case True
    then have "tx_count p div 65536 = 1" using s(2) by (intro div_nat_eqI) simp_all
    with True show ?thesis by simp
  qed simp
  finally show "bit (txd_dw0 p) 16 = (65536 \<le> tx_count p)" .
qed

text \<open>
  C9: every bit of a successfully built descriptor is accounted for by the field table of
  rx\_tx.spec.md. The parameters read back: byte count, queue, WCID, header length in half words,
  padding, the ACK and protection flags, frame type and subtype, the multicast flag, bandwidth, the
  hardware rate code and the guard interval, which follows bit 1 of the preamble parameter in HT modes.
  The fixed fields have their values: header format 2, long descriptor, no block ack, fixed rate, fifteen
  retries, sequence control by software, and spatial extension enabled. All others are zero: port,
  TID, own MAC, the sounding, duration, fragment, time and power fields of word 2, timing measurement,
  packet number, antenna selection, beam forming and LDPC. The 16-byte descriptor that sta.spec.md
  describes, with the rate index in byte 8, is not this one.
\<close>

theorem build_txwi_fields:
  assumes "build_txwi p out = Some (Ok n, buf)"
  shows "n = 32 \<and> drop 32 buf = drop 32 out \<and>
    unat (take_bit 27 (dword buf 0)) = unat (pkt_len p) + (4 - unat (hdr_len p) mod 4) mod 4 + 32 \<and>
    take_bit 4 (drop_bit 27 (dword buf 0)) = take_bit 4 (ucast (queue p)) \<and> \<not> bit (dword buf 0) 31 \<and>
    take_bit 8 (dword buf 1) = ucast (pid p) \<and>
    take_bit 5 (drop_bit 8 (dword buf 1)) = take_bit 5 (drop_bit 1 (ucast (hdr_len p))) \<and>
    take_bit 2 (drop_bit 13 (dword buf 1)) = 2 \<and> bit (dword buf 1) 15 \<and>
    unat (take_bit 3 (drop_bit 16 (dword buf 1))) = (4 - unat (hdr_len p) mod 4) mod 4 \<and>
    bit (dword buf 1) 19 = odd (no_ack p) \<and> take_bit 3 (drop_bit 20 (dword buf 1)) = 0 \<and>
    bit (dword buf 1) 23 = odd (protect_frm p) \<and> drop_bit 24 (dword buf 1) = 0 \<and>
    take_bit 4 (dword buf 2) = take_bit 4 (ucast (sub_type p)) \<and>
    take_bit 2 (drop_bit 4 (dword buf 2)) = take_bit 2 (ucast (frm_type p)) \<and>
    take_bit 4 (drop_bit 6 (dword buf 2)) = 0 \<and> bit (dword buf 2) 10 = odd (is_bm p) \<and>
    take_bit 18 (drop_bit 11 (dword buf 2)) = 0 \<and>
    bit (dword buf 2) 29 \<and> \<not> bit (dword buf 2) 30 \<and> bit (dword buf 2) 31 \<and>
    dword buf 3 = 0x7800 \<and> dword buf 4 = 0 \<and> dword buf 5 = 0x1000 \<and> dword buf 7 = 0 \<and>
    take_bit 8 (dword buf 6) = 0 \<and>
    take_bit 3 (drop_bit 8 (dword buf 6)) = 4 OR take_bit 2 (ucast (bw p)) \<and>
    bit (dword buf 6) 11 \<and> take_bit 6 (drop_bit 12 (dword buf 6)) = 0 \<and> \<not> bit (dword buf 6) 30 \<and>
    Some (take_bit 12 (drop_bit 18 (dword buf 6))) = map_option (take_bit 12) (tx_rate_of p) \<and>
    bit (dword buf 6) 31 = (is_ht (ucast (rate_mode p)) \<and> preamble p AND 2 \<noteq> 0)"
proof -
  from assms obtain r where r: "tx_rate_of p = Some r" and n: "n = 32"
    and buf: "buf = txd_block p r @ drop 32 out"
    by (auto simp: build_txwi_cases split: if_splits)
  have dw3: "txd_dw3 = 0x7800" and dw5: "txd_dw5 = 0x1000"
    by (simp_all add: txd_dw3_def txd_dw5_def)
  have pad: "unat (take_bit 2 (hdr_pad_len p)) = (4 - unat (hdr_len p) mod 4) mod 4"
    by (simp add: take_bit_eq_mod unat_mod unat_hdr_pad_len)
  show ?thesis
    unfolding buf dword_block dw3 dw5
    using r n by (simp add: dw0_fields dw1_fields dw2_fields dw6_fields pad tx_count_def)
qed

definition probe_params :: TxParams where
  "probe_params = \<lparr>rate_idx = 0, pid = 0, queue = 4, hdr_len = 24, frm_type = 0, sub_type = 4,
     no_ack = 1, is_bm = 1, rate_mode = 0, rate_mcs = 0, preamble = 1, bw = 0, pkt_len = 211,
     protect_frm = 0\<rparr>"

theorem build_txwi_fields_witness:
  "\<exists>buf. build_txwi probe_params (replicate 32 0) = Some (Ok 32, buf) \<and>
     take_bit 4 (drop_bit 27 (dword buf 0)) = 4 \<and> bit (dword buf 1) 19 \<and>
     take_bit 4 (dword buf 2) = 4 \<and> dword buf 3 = 0x7800"
proof -
  have r: "tx_rate_of probe_params = Some 0"
    by (simp add: tx_rate_of_def probe_params_def tx_rate_to_tmi_def load_def)
  have "build_txwi probe_params (replicate 32 0) = Some (Ok 32, txd_block probe_params 0)"
    by (simp add: build_txwi_cases r) (simp add: probe_params_def)
  from build_txwi_fields [OF this] this show ?thesis by (simp add: probe_params_def)
qed

text \<open>
  C38: the 16-bit byte count of the descriptor is the length of descriptor, padding and frame
  exactly when that sum fits 16 bits; when it does not, the count is short by 65536 and the
  carry lands in bit 16, which belongs to the next field. The count follows rx\_tx.spec.md
  (SPEC-RXTX-006); sta.spec.md (SPEC-STA-005) expects the plain frame length there, 256 for a frame
  of 256 bytes where the code writes 288.
\<close>

theorem build_txwi_byte_count:
  assumes "build_txwi p out = Some (Ok n, buf)"
  shows "unat (take_bit 16 (dword buf 0)) =
      (if tx_count p < 65536 then tx_count p else tx_count p - 65536) \<and>
    bit (dword buf 0) 16 = (65536 \<le> tx_count p)"
proof -
  from assms obtain r where buf: "buf = txd_block p r @ drop 32 out"
    by (auto simp: build_txwi_cases split: if_splits)
  have c: "tx_count p < 131072"
    using unat_less_simps(2) [of "pkt_len p"] by (simp add: tx_count_def)
  have "unat (take_bit 16 (word_of_nat (tx_count p) :: u32)) = tx_count p mod 65536"
    using c by (simp add: take_bit_eq_mod unat_mod unat_of_nat)
  also have "\<dots> = (if tx_count p < 65536 then tx_count p else tx_count p - 65536)"
    using c by (simp add: mod_if [of "tx_count p" 65536])
  finally show ?thesis unfolding buf dword_block by (simp add: dw0_fields)
qed

definition overflow_params :: TxParams where
  "overflow_params = probe_params\<lparr>hdr_len := 26, pkt_len := 65503\<rparr>"

text \<open>A frame the length check accepts and whose descriptor announces one byte.\<close>

theorem build_txwi_byte_count_witness:
  "\<exists>buf. build_txwi overflow_params (replicate 32 0) = Some (Ok 32, buf) \<and>
     unat (take_bit 16 (dword buf 0)) = 1 \<and> bit (dword buf 0) 16"
proof -
  have r: "tx_rate_of overflow_params = Some 0"
    by (simp add: tx_rate_of_def overflow_params_def probe_params_def tx_rate_to_tmi_def load_def)
  have b: "build_txwi overflow_params (replicate 32 0) = Some (Ok 32, txd_block overflow_params 0)"
    by (simp add: build_txwi_cases r) (simp add: overflow_params_def probe_params_def)
  have "tx_count overflow_params = 65537"
    by (simp add: tx_count_def overflow_params_def probe_params_def)
  with build_txwi_byte_count [OF b] b show ?thesis by simp
qed

end
