(* ===== verification/Util.thy ===== *)
theory Util
  imports Mt_Prelude
begin

text \<open>
  src/src/rust/src/util.rs: the volatile byte copy, and the interface every builder of the
  crate has. A builder writes one block (a frame or a register-write sequence) to the front
  of a caller-supplied slice; the locale \<open>slice_writer\<close> states that contract once, and each
  component interprets it on its own builders.
\<close>

section \<open>copy\_bytes\<close>

text \<open>
  The loop \<open>for i in 0..src.len()\<close>; an index outside \<open>dst\<close> is the undefined behaviour the
  caller has to exclude, here \<open>None\<close>.
\<close>

function copy_bytes_loop :: "nat \<Rightarrow> 'a list \<Rightarrow> 'a list \<Rightarrow> 'a list option" where
  "copy_bytes_loop i dst src =
     (if i < length src
      then do { b \<leftarrow> load src i; dst \<leftarrow> store dst i b; copy_bytes_loop (Suc i) dst src }
      else Some dst)"
  by pat_completeness auto
termination
  by (relation "measure (\<lambda>(i, dst, src). length src - i)") auto

declare copy_bytes_loop.simps [simp del]

definition copy_bytes :: "'a list \<Rightarrow> 'a list \<Rightarrow> 'a list option" where
  "copy_bytes dst src = copy_bytes_loop 0 dst src"

lemma copy_bytes_loop_eq:
  "i \<le> length src \<Longrightarrow> length src \<le> length dst \<Longrightarrow> take i dst = take i src \<Longrightarrow>
   copy_bytes_loop i dst src = Some (src @ drop (length src) dst)"
proof (induction i dst src rule: copy_bytes_loop.induct)
  case (1 i dst src)
  show ?case
  proof (cases "i < length src")
    case True
    have "take (Suc i) (dst[i := src ! i]) = take (Suc i) src"
      using True 1(2-4) by (simp add: take_Suc_conv_app_nth)
    then have "copy_bytes_loop (Suc i) (dst[i := src ! i]) src
        = Some (src @ drop (length src) (dst[i := src ! i]))"
      using True 1(1) [of "src ! i" "dst[i := src ! i]"] 1(3) by (simp add: slice_simps)
    with True 1(3) show ?thesis
      by (simp add: copy_bytes_loop.simps [of i dst src] slice_simps)
  next
    case False
    with 1(2-4) have "i = length src" by simp
    with 1(4) have "dst = src @ drop (length src) dst"
      by (metis append_take_drop_id take_all_iff order_refl)
    with False show ?thesis by (simp add: copy_bytes_loop.simps [of i dst src])
  qed
qed

lemma copy_bytes_eq [slice_simps]:
  "length src \<le> length dst \<Longrightarrow> copy_bytes dst src = Some (src @ drop (length src) dst)"
  by (simp add: copy_bytes_def copy_bytes_loop_eq)

lemma copy_bytes_overrun: "length dst < length src \<Longrightarrow> copy_bytes dst src = None"
proof -
  have "length dst < length src \<Longrightarrow> i \<le> length dst \<Longrightarrow> copy_bytes_loop i dst src = None" for i
  proof (induction i dst src rule: copy_bytes_loop.induct)
    case (1 i dst src)
    then show ?case
      unfolding copy_bytes_loop.simps [of i dst src]
      by (cases "i < length dst") (simp_all add: load_def store_def)
  qed
  then show "length dst < length src \<Longrightarrow> copy_bytes dst src = None"
    by (simp add: copy_bytes_def)
qed

text \<open>The form every caller uses: copying into an exactly sized sub-slice.\<close>

lemma with_slice_copy_bytes [slice_simps]:
  "lo \<le> hi \<Longrightarrow> hi \<le> length b \<Longrightarrow> length src = hi - lo \<Longrightarrow>
   with_slice b lo hi (\<lambda>s. copy_bytes s src) = Some (take lo b @ src @ drop hi b)"
  by (simp add: with_slice_def slice_eq copy_bytes_eq)

lemma copy_bytes_cell [cell_simps]:
  "length src = n \<Longrightarrow> n \<le> length b \<Longrightarrow>
   with_slice b 0 n (\<lambda>s. copy_bytes s src) = Some (src @ drop n b)"
  by (simp add: with_slice_copy_bytes)

section \<open>The builder interface\<close>

text \<open>
  \<open>build out\<close> returns the result and the final content of \<open>out\<close>. When \<open>guard\<close> fails the
  arguments are rejected with -EINVAL, when the slice is too short the answer is -ENOSPC,
  and in both cases the slice is left alone; otherwise exactly \<open>block\<close> is written to its
  front, its length is returned and the rest of the slice is left alone.
\<close>

definition write_block :: "'a list \<Rightarrow> 'a list \<Rightarrow> (nat rresult \<times> 'a list) option" where
  "write_block block out =
     Some (if length out < length block then (Err ENOSPC, out)
           else (Ok (length block), block @ drop (length block) out))"

locale slice_writer =
  fixes build :: "'a list \<Rightarrow> (nat rresult \<times> 'a list) option"
    and guard :: bool
    and block :: "'a list"
  assumes rejects: "\<not> guard \<Longrightarrow> build out = Some (Err EINVAL, out)"
    and short: "guard \<Longrightarrow> length out < length block \<Longrightarrow> build out = Some (Err ENOSPC, out)"
    and fits: "guard \<Longrightarrow> length block \<le> length out \<Longrightarrow>
      build out = Some (Ok (length block), block @ drop (length block) out)"
begin

lemma build_cases:
  "build out =
     Some (if \<not> guard then (Err EINVAL, out)
           else if length out < length block then (Err ENOSPC, out)
           else (Ok (length block), block @ drop (length block) out))"
  using rejects short fits by (simp add: not_less)

lemma refines: "guard \<Longrightarrow> build out = write_block block out"
  by (simp add: build_cases write_block_def)

lemma never_panics: "\<exists>r out'. build out = Some (r, out')"
  by (simp add: build_cases)

lemma keeps_length: "build out = Some (r, out') \<Longrightarrow> length out' = length out"
  by (auto simp: build_cases split: if_splits)

lemma ok_iff: "build out = Some (Ok n, out') \<longleftrightarrow>
    guard \<and> length block \<le> length out \<and> n = length block \<and>
    out' = block @ drop (length block) out"
  by (auto simp: build_cases)

lemma written_prefix: "build out = Some (Ok n, out') \<Longrightarrow> take n out' = block"
  by (simp add: ok_iff)

lemma rest_untouched: "build out = Some (Ok n, out') \<Longrightarrow> drop n out' = drop n out"
  by (simp add: ok_iff)

lemma error_untouched: "build out = Some (Err e, out') \<Longrightarrow> out' = out \<and> e \<in> {EINVAL, ENOSPC}"
  by (auto simp: build_cases split: if_splits)

end

end
