(* ===== verification/Frames.thy ===== *)
theory Frames
  imports Util Ffi_Types
begin

text \<open>
  The 802.11 management frames the driver exchanges, as plain byte blocks: the reference
  against which the buffer-writing builders of src/src/rust/src/sta.rs and ap.rs are
  compared, and the element list a receiver reads from the body of a frame.
\<close>

section \<open>Headers and elements\<close>

definition SUPPORTED_RATES :: "u8 list" where
  "SUPPORTED_RATES = [0x82, 0x84, 0x8b, 0x96, 0x24, 0x30, 0x48, 0x6c]"

definition broadcast :: mac6 where
  "broadcast = Mac6 0xFF 0xFF 0xFF 0xFF 0xFF 0xFF"

text \<open>Frame control, duration, three addresses, sequence control.\<close>

definition mgmt_header :: "u8 \<Rightarrow> mac6 \<Rightarrow> mac6 \<Rightarrow> mac6 \<Rightarrow> u8 list" where
  "mgmt_header fc a1 a2 a3 =
     [fc, 0, 0, 0] @ mac_bytes a1 @ mac_bytes a2 @ mac_bytes a3 @ [0, 0]"

text \<open>An information element: identifier, length byte, payload.\<close>

definition element :: "u8 \<Rightarrow> u8 list \<Rightarrow> u8 list" where
  "element i payload = [i, word_of_nat (length payload)] @ payload"

lemma length_mgmt_header [simp]: "length (mgmt_header fc a1 a2 a3) = 24"
  by (simp add: mgmt_header_def)

lemma length_element [simp]: "length (element i payload) = 2 + length payload"
  by (simp add: element_def)

lemma length_SUPPORTED_RATES [simp]: "length SUPPORTED_RATES = 8"
  by (simp add: SUPPORTED_RATES_def)

section \<open>Reading an element list\<close>

text \<open>
  The elements of a body: reading stops at an element of length zero, at one that is cut off
  and at the end.
\<close>

fun elements :: "u8 list \<Rightarrow> (u8 \<times> u8 list) list" where
  "elements (i # l # rest) =
     (if l = 0 \<or> length rest < unat l then []
      else (i, take (unat l) rest) # elements (drop (unat l) rest))"
| "elements _ = []"

declare elements.simps(1) [simp del]

lemma elements_element [simp]:
  assumes "0 < length payload" "length payload < 256"
  shows "elements (element i payload @ rest) = (i, payload) # elements rest"
proof -
  have u: "unat (word_of_nat (length payload) :: u8) = length payload"
    using assms by (simp add: unat_of_nat)
  then have "(word_of_nat (length payload) :: u8) \<noteq> 0"
    using assms by (metis unat_0 less_irrefl)
  with u show ?thesis by (simp add: element_def elements.simps(1))
qed

lemma elements_empty_element: "elements (element i [] @ rest) = []"
  by (simp add: element_def elements.simps(1))

lemma elements_single [simp]:
  "0 < length payload \<Longrightarrow> length payload < 256 \<Longrightarrow> elements (element i payload) = [(i, payload)]"
  using elements_element [of payload i "[]"] by simp

lemma elements_payload: "(i, p) \<in> set (elements bs) \<Longrightarrow> 0 < length p \<and> length p < 256"
proof (induction bs rule: elements.induct)
  case (1 j l rest)
  have "unat l < 256" by (rule unat_less_simps)
  with 1 show ?case
    by (auto simp: elements.simps(1) unsigned_eq_0_iff split: if_splits)
qed simp_all

end
