(* ===== verification/Sta.thy ===== *)
theory Sta
  imports Frames
begin

text \<open>
  src/src/rust/src/sta.rs: probe request, beacon parser and the WTBL cross-links of the
  station. The probe request is shown equal to a reference frame, the beacon parser equal to
  a specification over the element list, and the WTBL sequence is decoded field by field.
\<close>

section \<open>Probe request\<close>

definition build_probe_request ::
  "u8 list \<Rightarrow> mac6 \<Rightarrow> u8 list \<Rightarrow> (nat rresult \<times> u8 list) option" where
  "build_probe_request ssid src_mac out_buf =
     (let total_len = 24 + 2 + length ssid + 10
      in if length out_buf < total_len then Some (Err ENOSPC, out_buf)
      else do {
        out_buf \<leftarrow> fill out_buf 0 total_len 0;
        out_buf \<leftarrow> store out_buf 0 0x40;
        out_buf \<leftarrow> store out_buf 1 0x00;
        out_buf \<leftarrow> fill out_buf 4 10 0xFF;
        out_buf \<leftarrow> copy_from_slice out_buf 10 16 (mac_bytes src_mac);
        out_buf \<leftarrow> fill out_buf 16 22 0xFF;
        out_buf \<leftarrow> store out_buf 22 0x00;
        out_buf \<leftarrow> store out_buf 23 0x00;
        let pos = 24;
        out_buf \<leftarrow> store out_buf pos 0;
        out_buf \<leftarrow> store out_buf (pos + 1) (word_of_nat (length ssid));
        out_buf \<leftarrow> with_slice out_buf (pos + 2) (pos + 2 + length ssid) (\<lambda>s. copy_bytes s ssid);
        let pos = pos + (2 + length ssid);
        out_buf \<leftarrow> store out_buf pos 1;
        out_buf \<leftarrow> store out_buf (pos + 1) 8;
        out_buf \<leftarrow> with_slice out_buf (pos + 2) (pos + 10) (\<lambda>s. copy_bytes s SUPPORTED_RATES);
        Some (Ok total_len, out_buf)
      })"

text \<open>The reference frame.\<close>

definition probe_frame :: "u8 list \<Rightarrow> mac6 \<Rightarrow> u8 list" where
  "probe_frame ssid src_mac =
     mgmt_header 0x40 broadcast src_mac broadcast @ element 0 ssid @ element 1 SUPPORTED_RATES"

lemma length_probe_frame: "length (probe_frame ssid src_mac) = 24 + 2 + length ssid + 10"
  by (simp add: probe_frame_def)

lemma build_probe_request_fits:
  assumes "length (probe_frame ssid mac) \<le> length out"
  shows "build_probe_request ssid mac out =
    Some (Ok (length (probe_frame ssid mac)),
          probe_frame ssid mac @ drop (length (probe_frame ssid mac)) out)"
proof -
  obtain a b c d e f where m: "mac = Mac6 a b c d e f" by (cases mac)
  have z: "fill out 0 (24 + 2 + length ssid + 10) 0 =
      Some (replicate 26 0 @ replicate (length ssid) 0 @ replicate 10 0 @
            drop (24 + 2 + length ssid + 10) out)"
    using assms unfolding length_probe_frame
    by (subst fill_front) (simp_all flip: replicate_add append_assoc)
  have g: "\<not> length out < 24 + 2 + length ssid + 10"
    using assms by (simp add: length_probe_frame)
  show ?thesis
    unfolding build_probe_request_def Let_def z length_probe_frame if_not_P [OF g]
    by (simp add: cell_simps replicate_cells m SUPPORTED_RATES_def probe_frame_def
        mgmt_header_def element_def broadcast_def)
qed

interpretation probe: slice_writer "build_probe_request ssid src_mac" True "probe_frame ssid src_mac"
  for ssid src_mac
  by unfold_locales
    (auto simp: build_probe_request_fits, auto simp: build_probe_request_def length_probe_frame Let_def)

text \<open>For every SSID and source address and whatever the output slice holds, the probe
  request builder never panics: it answers -ENOSPC and leaves the slice alone when the frame
  does not fit, and otherwise writes exactly the reference frame (broadcast management header,
  SSID element, supported-rates element) to the front and nothing behind it.\<close>

theorem build_probe_request_refines:
  "build_probe_request ssid src_mac out = write_block (probe_frame ssid src_mac) out"
  by (rule probe.refines) simp

section \<open>Beacon parsing\<close>

text \<open>One information element of the loop body.\<close>

definition parse_beacon_ie :: "u8 \<Rightarrow> nat \<Rightarrow> u8 list \<Rightarrow> StaBssInfo \<Rightarrow> StaBssInfo option" where
  "parse_beacon_ie ie_id ie_len ie_payload info =
     (if ie_id = 0 \<and> ssid_len info = 0 then do {
        let copy_len = min (length ie_payload) 32;
        src \<leftarrow> slice ie_payload 0 copy_len;
        ssid \<leftarrow> with_slice (bss_ssid info) 0 copy_len (\<lambda>d. copy_bytes d src);
        Some (info\<lparr>bss_ssid := ssid, ssid_len := word_of_nat copy_len\<rparr>)
      }
      else if ie_id = 3 \<and> ie_len \<ge> 1 then do {
        c \<leftarrow> load ie_payload 0;
        Some (info\<lparr>bss_channel := c\<rparr>)
      }
      else Some info)"

text \<open>The \<open>while\<close> loop over the elements.\<close>

function parse_beacon_loop :: "u8 list \<Rightarrow> nat \<Rightarrow> StaBssInfo \<Rightarrow> StaBssInfo option" where
  "parse_beacon_loop frame_buf pos info =
     (if pos + 2 \<le> length frame_buf then do {
        ie_id \<leftarrow> load frame_buf pos;
        l \<leftarrow> load frame_buf (pos + 1);
        let ie_len = unat l;
        (if ie_len = 0 \<or> pos + 2 + ie_len > length frame_buf then Some info
         else do {
           ie_payload \<leftarrow> slice frame_buf (pos + 2) (pos + 2 + ie_len);
           info \<leftarrow> parse_beacon_ie ie_id ie_len ie_payload info;
           parse_beacon_loop frame_buf (pos + (2 + ie_len)) info
         })
      }
      else Some info)"
  by pat_completeness auto
termination
  by (relation "measure (\<lambda>(frame_buf, pos, info). length frame_buf - pos)") auto

declare parse_beacon_loop.simps [simp del]

definition parse_beacon :: "u8 list \<Rightarrow> StaBssInfo rresult option" where
  "parse_beacon frame_buf =
     (if length frame_buf < 36 then Some (Err EINVAL)
      else do {
        let info = StaBssInfo_default;
        bssid_slice \<leftarrow> slice frame_buf 16 22;
        bssid \<leftarrow> mac6_of_slice bssid_slice;
        let info = info\<lparr>bss_bssid := bssid\<rparr>;
        c0 \<leftarrow> load frame_buf 34;
        c1 \<leftarrow> load frame_buf 35;
        let info = info\<lparr>capability := u16_from_le_bytes c0 c1\<rparr>;
        let pos = 36;
        info \<leftarrow> parse_beacon_loop frame_buf pos info;
        Some (Ok info)
      })"

text \<open>
  The specification: the SSID is the payload of the first element 0, cut to 32 bytes and
  padded with zeros, the channel the first byte of the last element 3.
\<close>

definition beacon_ssid :: "(u8 \<times> u8 list) list \<Rightarrow> u8 list" where
  "beacon_ssid es =
     (case filter (\<lambda>(i, p). i = 0) es of [] \<Rightarrow> [] | (i, p) # _ \<Rightarrow> take 32 p)"

definition beacon_channel :: "(u8 \<times> u8 list) list \<Rightarrow> u8" where
  "beacon_channel es =
     (case filter (\<lambda>(i, p). i = 3) es of [] \<Rightarrow> 0 | xs \<Rightarrow> hd (snd (last xs)))"

definition beacon_info :: "u8 list \<Rightarrow> StaBssInfo" where
  "beacon_info frame =
     (let es = elements (drop 36 frame); ssid = beacon_ssid es
      in \<lparr> bss_bssid = the (mac6_of_slice (take 6 (drop 16 frame))),
           bss_ssid = ssid @ replicate (32 - length ssid) 0,
           ssid_len = word_of_nat (length ssid),
           bss_channel = beacon_channel es,
           bss_rssi = 0,
           capability = u16_from_le_bytes (frame ! 34) (frame ! 35) \<rparr>)"

text \<open>The effect of one element, as a total function.\<close>

definition see_element :: "u8 \<times> u8 list \<Rightarrow> StaBssInfo \<Rightarrow> StaBssInfo" where
  "see_element e info =
     (case e of (i, p) \<Rightarrow>
        if i = 0 \<and> ssid_len info = 0
        then info\<lparr>bss_ssid := take 32 p @ drop (length (take 32 p)) (bss_ssid info),
                  ssid_len := word_of_nat (length (take 32 p))\<rparr>
        else if i = 3 then info\<lparr>bss_channel := hd p\<rparr> else info)"

lemma parse_beacon_ie_eq:
  assumes "0 < length p" "length (bss_ssid info) = 32"
  shows "parse_beacon_ie i (length p) p info = Some (see_element (i, p) info)"
  using assms
  by (cases p) (auto simp: parse_beacon_ie_def see_element_def Let_def slice_simps cell_simps
      min_def take_Cons')

lemma see_element_ssid [simp]:
  "length (bss_ssid info) = 32 \<Longrightarrow> length (bss_ssid (see_element e info)) = 32"
  by (auto simp: see_element_def split: prod.split)

lemma parse_beacon_loop_eq:
  "length (bss_ssid info) = 32 \<Longrightarrow>
   parse_beacon_loop buf pos info = Some (fold see_element (elements (drop pos buf)) info)"
proof (induction buf pos info rule: parse_beacon_loop.induct)
  case (1 buf pos info)
  show ?case
  proof (cases "pos + 2 \<le> length buf")
    case False
    then have "elements (drop pos buf) = []"
      by (cases "drop pos buf" rule: elements.cases) (auto dest: arg_cong [where f = length])
    with False show ?thesis by (simp add: parse_beacon_loop.simps [of buf pos])
  next
    case True
    then have d: "drop pos buf = buf ! pos # buf ! (pos + 1) # drop (pos + 2) buf"
      by (simp add: Cons_nth_drop_Suc)
    let ?l = "unat (buf ! (pos + 1))"
    let ?p = "take ?l (drop (pos + 2) buf)"
    show ?thesis
    proof (cases "buf ! (pos + 1) = 0 \<or> length (drop (pos + 2) buf) < ?l")
      case stop: True
      then have "?l = 0 \<or> length buf < pos + 2 + ?l" by auto
      then show ?thesis using True stop
        by (simp add: parse_beacon_loop.simps [of buf pos] d elements.simps(1) slice_simps Let_def)
    next
      case False
      then have p: "length ?p = ?l" "0 < ?l" by (auto simp: unat_gt_0 unsigned_eq_0_iff)
      have g: "\<not> (?l = 0 \<or> length buf < pos + 2 + ?l)" using False True p(2) by auto
      have h: "slice buf (pos + 2) (pos + 2 + ?l) = Some ?p" using g by (simp add: slice_def)
      have ie: "parse_beacon_ie (buf ! pos) ?l ?p info = Some (see_element (buf ! pos, ?p) info)"
        using parse_beacon_ie_eq [of ?p info "buf ! pos"] 1(2) p by simp
      have ld: "load buf pos = Some (buf ! pos)" "load buf (pos + 1) = Some (buf ! (pos + 1))"
        using True by (simp_all add: load_eq)
      have "parse_beacon_loop buf pos info =
          parse_beacon_loop buf (pos + (2 + ?l)) (see_element (buf ! pos, ?p) info)"
        unfolding parse_beacon_loop.simps [of buf pos info]
        by (simp only: if_P [OF True] ld bind.simps Let_def if_not_P [OF g] h ie)
      also have "\<dots> = Some (fold see_element (elements (drop (pos + (2 + ?l)) buf))
          (see_element (buf ! pos, ?p) info))"
        by (rule 1(1) [OF True ld refl g h ie]) (simp add: 1(2))
      finally show ?thesis using False
        by (simp add: d elements.simps(1) ac_simps)
    qed
  qed
qed

lemma see_element_simps [simp]:
  "bss_bssid (see_element e info) = bss_bssid info"
  "bss_rssi (see_element e info) = bss_rssi info"
  "capability (see_element e info) = capability info"
  "bss_channel (see_element e info) = (if fst e = 3 then hd (snd e) else bss_channel info)"
  by (auto simp: see_element_def split: prod.split)

lemma fold_see_element_fixed:
  "bss_bssid (fold see_element es info) = bss_bssid info"
  "bss_rssi (fold see_element es info) = bss_rssi info"
  "capability (fold see_element es info) = capability info"
  by (induction es arbitrary: info) simp_all

lemma fold_see_element_channel:
  "bss_channel (fold see_element es info) =
     (case filter (\<lambda>(i, p). i = 3) es of [] \<Rightarrow> bss_channel info | xs \<Rightarrow> hd (snd (last xs)))"
  by (induction es arbitrary: info) (auto split: list.splits)

lemma fold_see_element_known:
  "ssid_len info \<noteq> 0 \<Longrightarrow>
   ssid_len (fold see_element es info) = ssid_len info \<and>
   bss_ssid (fold see_element es info) = bss_ssid info"
proof (induction es arbitrary: info)
  case (Cons e es)
  then have "ssid_len (see_element e info) = ssid_len info"
      "bss_ssid (see_element e info) = bss_ssid info"
    by (auto simp: see_element_def split: prod.split)
  with Cons show ?case by simp
qed simp

lemma short_len_nonzero:
  "0 < n \<Longrightarrow> n \<le> 32 \<Longrightarrow> (word_of_nat n :: u8) \<noteq> 0"
  by (auto simp: word_of_nat_eq_0_iff dest: dvd_imp_le)

lemma fold_see_element_ssid:
  assumes "ssid_len info = 0" "bss_ssid info = replicate 32 0"
    and "\<forall>(i, p) \<in> set es. 0 < length p"
  shows "ssid_len (fold see_element es info) = word_of_nat (length (beacon_ssid es)) \<and>
    bss_ssid (fold see_element es info) =
      beacon_ssid es @ replicate (32 - length (beacon_ssid es)) 0"
  using assms
proof (induction es arbitrary: info)
  case Nil
  then show ?case by (simp add: beacon_ssid_def)
next
  case (Cons e es)
  obtain i p where e: "e = (i, p)" by (cases e)
  show ?case
  proof (cases "i = 0")
    case True
    let ?n = "length (take 32 p)"
    have "(word_of_nat ?n :: u8) \<noteq> 0"
      using Cons(4) e by (intro short_len_nonzero) auto
    moreover have "ssid_len (see_element e info) = word_of_nat ?n"
        "bss_ssid (see_element e info) = take 32 p @ replicate (32 - ?n) 0"
      using Cons(2,3) True e by (simp_all add: see_element_def)
    moreover have "beacon_ssid (e # es) = take 32 p"
      using True e by (simp add: beacon_ssid_def)
    ultimately show ?thesis
      using fold_see_element_known [of "see_element e info" es] by simp
  next
    case False
    then have "ssid_len (see_element e info) = 0" "bss_ssid (see_element e info) = replicate 32 0"
      using Cons(2,3) e by (auto simp: see_element_def)
    then show ?thesis
      using Cons(1) [of "see_element e info"] Cons(4) False e by (simp add: beacon_ssid_def)
  qed
qed

lemma length_beacon_ssid: "length (beacon_ssid es) \<le> 32"
  by (auto simp: beacon_ssid_def split: list.split)

lemma parse_beacon_long:
  assumes "36 \<le> length frame"
  shows "parse_beacon frame = Some (Ok (beacon_info frame))"
proof -
  let ?es = "elements (drop 36 frame)"
  obtain m where m: "mac6_of_slice (take 6 (drop 16 frame)) = Some m"
    using mac6_of_slice_ex [of "take 6 (drop 16 frame)"] assms by auto
  let ?i = "StaBssInfo_default\<lparr>bss_bssid := m,
    capability := u16_from_le_bytes (frame ! 34) (frame ! 35)\<rparr>"
  have "parse_beacon frame = Some (Ok (fold see_element ?es ?i))"
    using assms m by (simp add: parse_beacon_def slice_simps parse_beacon_loop_eq StaBssInfo_default_def)
  moreover have "\<forall>(i, p) \<in> set ?es. 0 < length p"
    using elements_payload by fastforce
  then have "fold see_element ?es ?i = beacon_info frame"
    using fold_see_element_ssid [of ?i ?es]
    by (intro StaBssInfo.equality)
      (auto simp: fold_see_element_fixed fold_see_element_channel beacon_info_def Let_def m
        StaBssInfo_default_def beacon_channel_def split: list.split)
  ultimately show ?thesis by simp
qed

text \<open>C18: a frame shorter than the 36 bytes of header and fixed fields is rejected with
  -EINVAL; every other byte string is parsed without a panic and gives exactly the record
  specified over its element list: the first SSID element cut to 32 bytes and zero-padded, the
  channel of the last DS element, the BSSID and the capability word.\<close>

theorem parse_beacon_spec:
  "parse_beacon frame =
     Some (if length frame < 36 then Err EINVAL else Ok (beacon_info frame))"
  by (auto simp: parse_beacon_long not_less, simp add: parse_beacon_def)

text \<open>The record handed to C is well formed for every input: the SSID array has 32 bytes,
  the length byte never exceeds 32 and everything behind it is zero.\<close>

theorem parse_beacon_ssid_bounded:
  assumes "parse_beacon frame = Some (Ok info)"
  shows "length (bss_ssid info) = 32 \<and> unat (ssid_len info) \<le> 32 \<and>
    drop (unat (ssid_len info)) (bss_ssid info) = replicate (32 - unat (ssid_len info)) 0"
proof -
  have info: "info = beacon_info frame"
    using assms parse_beacon_long [of frame]
    by (cases "length frame < 36") (auto simp: parse_beacon_def)
  let ?s = "beacon_ssid (elements (drop 36 frame))"
  have "length ?s \<le> 32" by (rule length_beacon_ssid)
  moreover from this have "unat (word_of_nat (length ?s) :: u8) = length ?s"
    by (simp add: unat_of_nat)
  ultimately show ?thesis by (simp add: info beacon_info_def Let_def)
qed

theorem parse_beacon_ssid_bounded_witness:
  "\<exists>info. parse_beacon (replicate 36 7 @ [0, 2, 65, 66, 3, 1, 11]) = Some (Ok info) \<and>
    length (bss_ssid info) = 32 \<and> take (unat (ssid_len info)) (bss_ssid info) = [65, 66]"
proof -
  let ?f = "replicate 36 7 @ [0, 2, 65, 66, 3, 1, 11] :: u8 list"
  have "parse_beacon ?f = Some (Ok (beacon_info ?f))" by (rule parse_beacon_long) simp
  moreover from this have "length (bss_ssid (beacon_info ?f)) = 32"
    using parse_beacon_ssid_bounded [of ?f "beacon_info ?f"] by simp
  ultimately show ?thesis
    by (auto simp: beacon_info_def Let_def elements.simps beacon_ssid_def)
qed

section \<open>WTBL entries of the station\<close>

abbreviation WTBL1_BASE :: u32 where "WTBL1_BASE \<equiv> 0x00028000"
abbreviation WTBL1_ENTRY_SIZE :: u32 where "WTBL1_ENTRY_SIZE \<equiv> 0x20"
abbreviation WTBL1OR :: u32 where "WTBL1OR \<equiv> 0x0002A300"
abbreviation WTBL3_KEY_BASE :: u32 where "WTBL3_KEY_BASE \<equiv> 0x00042000"
abbreviation WTBL3_ENTRY_SIZE :: u32 where "WTBL3_ENTRY_SIZE \<equiv> 0x40"

definition div_ceil :: "u32 \<Rightarrow> u32 \<Rightarrow> u32" where
  "div_ceil a b = a div b + (if a mod b = 0 then 0 else 1)"

definition wtbl_entry234 :: "u32 \<Rightarrow> u32 \<times> u32 \<times> u32 \<times> u32 \<times> u32 \<times> u32" where
  "wtbl_entry234 wcid =
     (let PAGE_SIZE = 128;
          ecnt2 = PAGE_SIZE div 64;
          ecnt3 = PAGE_SIZE div 64;
          ecnt4 = PAGE_SIZE div 32;
          page_cnt2 = div_ceil 128 ecnt2;
          page_cnt3 = div_ceil 128 ecnt3;
          base_fid2 = 0;
          base_fid3 = base_fid2 + page_cnt2;
          base_fid4 = base_fid3 + page_cnt3;
          page_off2 = wcid div ecnt2;
          elem_off2 = wcid mod ecnt2;
          page_off3 = wcid div ecnt3;
          elem_off3 = wcid mod ecnt3;
          page_off4 = wcid div ecnt4;
          elem_off4 = wcid mod ecnt4;
          fid2 = base_fid2 + page_off2;
          eid2 = elem_off2;
          fid3 = base_fid3 + page_off3;
          eid3 = elem_off3 * 2;
          fid4 = base_fid4 + page_off4;
          eid4 = elem_off4
      in (fid2, eid2, fid3, eid3, fid4, eid4))"

definition wtbl_dw3_dw4 :: "u32 \<Rightarrow> u32 \<times> u32" where
  "wtbl_dw3_dw4 wcid =
     (let (fid2, eid2, fid3, eid3, fid4, eid4) = wtbl_entry234 wcid;
          dw3 = push_bit 29 1 OR push_bit 28 1 OR fid2 OR push_bit 11 eid2 OR push_bit 16 fid4;
          dw4 = fid3 OR push_bit 11 eid3 OR push_bit 17 eid4
      in (dw3, dw4))"


lemma wtbl_entry234_eq:
  "wtbl_entry234 wcid =
     (wcid div 2, wcid mod 2, 64 + wcid div 2, (wcid mod 2) * 2, 128 + wcid div 4, wcid mod 4)"
  by (simp add: wtbl_entry234_def div_ceil_def)

lemma pack_dw3:
  fixes a b c :: u32
  assumes "unat a < 2 ^ 11" "unat b < 2 ^ 5" "unat c < 2 ^ 11"
  defines "w \<equiv> push_bit 29 1 OR push_bit 28 1 OR a OR push_bit 11 b OR push_bit 16 c"
  shows "take_bit 11 w = a" "take_bit 5 (drop_bit 11 w) = b" "take_bit 11 (drop_bit 16 w) = c"
    "drop_bit 27 w = 6"
proof -
  note small = assms(1-3) [THEN bit_small]
  note eqI = bit_word_eqI
  show "take_bit 11 w = a"  unfolding w_def
    by (rule eqI) (auto simp: bit_simps dest: small)
  show "take_bit 5 (drop_bit 11 w) = b" unfolding w_def
    by (rule eqI) (auto simp: bit_simps dest: small)
  show "take_bit 11 (drop_bit 16 w) = c" unfolding w_def
    by (rule eqI) (auto simp: bit_simps dest: small)
  have "drop_bit 27 (a OR push_bit 11 b OR push_bit 16 c) = 0"
    by (rule eqI) (auto simp: bit_simps dest: small)
  then show "drop_bit 27 w = 6"
    unfolding w_def by (simp only: or.assoc drop_bit_or) simp
qed

lemma pack_dw4:
  fixes a b c :: u32
  assumes "unat a < 2 ^ 11" "unat b < 2 ^ 6" "unat c < 2 ^ 6"
  defines "w \<equiv> a OR push_bit 11 b OR push_bit 17 c"
  shows "take_bit 11 w = a" "take_bit 6 (drop_bit 11 w) = b" "drop_bit 17 w = c"
proof -
  note small = assms(1-3) [THEN bit_small]
  note eqI = bit_word_eqI
  show "take_bit 11 w = a"  unfolding w_def
    by (rule eqI) (auto simp: bit_simps dest: small)
  show "take_bit 6 (drop_bit 11 w) = b" unfolding w_def
    by (rule eqI) (auto simp: bit_simps dest: small)
  show "drop_bit 17 w = c" unfolding w_def
    by (rule eqI) (auto simp: bit_simps dest: small)
qed

lemma wcid_bounds:
  fixes wcid :: u32
  assumes "wcid < 128"
  shows "wcid div 2 < 64" "64 + wcid div 2 < 128" "128 + wcid div 4 < 160" "wcid mod 2 < 2" "wcid mod 2 * 2 < 4" "wcid mod 4 < 4"
proof -
  have "unat wcid < 128" using assms by (simp add: word_less_nat_alt)
  then show "wcid div 2 < 64" "64 + wcid div 2 < 128" "128 + wcid div 4 < 160" "wcid mod 2 < 2" "wcid mod 2 * 2 < 4" "wcid mod 4 < 4"
    by (auto simp: word_less_nat_alt unat_word_ariths unat_div unat_mod)
qed


text \<open>For each of the 128 wireless client ids the cross-link words hold, in the documented
  bit fields, the page and element of its WTBL2, WTBL3 and WTBL4 entries together with the
  power-save flags; the page ranges of the three tables do not overlap, and no other bit is
  set.\<close>

theorem wtbl_dw3_dw4_fields:
  assumes "wcid < 128" "wtbl_dw3_dw4 wcid = (dw3, dw4)"
  shows "take_bit 11 dw3 = wcid div 2 \<and> take_bit 5 (drop_bit 11 dw3) = wcid mod 2 \<and>
    take_bit 11 (drop_bit 16 dw3) = 128 + wcid div 4 \<and> drop_bit 27 dw3 = 6 \<and>
    take_bit 11 dw4 = 64 + wcid div 2 \<and> take_bit 6 (drop_bit 11 dw4) = wcid mod 2 * 2 \<and>
    drop_bit 17 dw4 = wcid mod 4 \<and>
    wcid div 2 < 64 \<and> 64 + wcid div 2 < 128 \<and> 128 + wcid div 4 < 160"
proof -
  note b = wcid_bounds [OF assms(1)]
  have "unat (wcid div 2) < 2 ^ 11" "unat (wcid mod 2) < 2 ^ 5"
    "unat (128 + wcid div 4) < 2 ^ 11" "unat (64 + wcid div 2) < 2 ^ 11"
    "unat (wcid mod 2 * 2) < 2 ^ 6" "unat (wcid mod 4) < 2 ^ 6"
    using b by (simp_all add: word_less_nat_alt)
  note p = pack_dw3 [OF this(1-3)] pack_dw4 [OF this(4-6)]
  show ?thesis
    using assms(2) p b by (auto simp: wtbl_dw3_dw4_def wtbl_entry234_eq Let_def)
qed

theorem wtbl_dw3_dw4_fields_witness:
  "(1 :: u32) < 128 \<and> wtbl_dw3_dw4 1 = (0x30800800, 0x21040) \<and> take_bit 5 (drop_bit 11 (0x30800800 :: u32)) = 1 mod 2"
  using wtbl_dw3_dw4_fields [of 1 "0x30800800" "0x21040"]
  by (simp add: wtbl_dw3_dw4_def wtbl_entry234_eq)


definition build_wtbl_sta_sequence ::
  "mac6 \<Rightarrow> RegWriteOp list \<Rightarrow> (nat rresult \<times> RegWriteOp list) option" where
  "build_wtbl_sta_sequence bssid out_ops =
     (if length out_ops < 12 then Some (Err ENOSPC, out_ops)
      else case bssid of Mac6 b0 b1 b2 b3 b4 b5 \<Rightarrow> do {
        let dw0_mcast = push_bit 29 1 OR push_bit 28 1 OR push_bit 22 1 OR push_bit 16 0x0E
                        OR push_bit 8 0xFF OR 0xFF;
        let dw1_mcast = 0xFFFFFFFF;
        let dw2_mcast = 0x00000000;
        let (dw3_mcast, dw4_mcast) = wtbl_dw3_dw4 0;
        let dw0_ap = push_bit 29 1 OR push_bit 28 1 OR push_bit 8 (ucast b5) OR ucast b4;
        let dw1_ap = u32_from_le_bytes b0 b1 b2 b3;
        let dw2_ap = push_bit 30 1 OR push_bit 28 1 OR push_bit 27 1 OR push_bit 21 1
                     OR push_bit 20 1;
        let (dw3_ap, dw4_ap) = wtbl_dw3_dw4 1;
        out_ops \<leftarrow> store out_ops 0 (op_write WTBL1_BASE dw0_mcast);
        out_ops \<leftarrow> store out_ops 1 (op_write (WTBL1_BASE + 0x04) dw1_mcast);
        out_ops \<leftarrow> store out_ops 2 (op_write (WTBL1_BASE + 0x08) dw2_mcast);
        out_ops \<leftarrow> store out_ops 3 (op_write (WTBL1_BASE + WTBL1_ENTRY_SIZE) dw0_ap);
        out_ops \<leftarrow> store out_ops 4 (op_write (WTBL1_BASE + WTBL1_ENTRY_SIZE + 0x04) dw1_ap);
        out_ops \<leftarrow> store out_ops 5 (op_write (WTBL1_BASE + WTBL1_ENTRY_SIZE + 0x08) dw2_ap);
        out_ops \<leftarrow> store out_ops 6 (op_write WTBL1OR 0x80000000);
        out_ops \<leftarrow> store out_ops 7 (op_write (WTBL1_BASE + 0x0C) dw3_mcast);
        out_ops \<leftarrow> store out_ops 8 (op_write (WTBL1_BASE + 0x10) dw4_mcast);
        out_ops \<leftarrow> store out_ops 9 (op_write (WTBL1_BASE + WTBL1_ENTRY_SIZE + 0x0C) dw3_ap);
        out_ops \<leftarrow> store out_ops 10 (op_write (WTBL1_BASE + WTBL1_ENTRY_SIZE + 0x10) dw4_ap);
        out_ops \<leftarrow> store out_ops 11 (op_write WTBL1OR 0x00000000);
        Some (Ok 12, out_ops)
      })"

text \<open>The reference sequence, with the words computed.\<close>

definition wtbl_sta_ops :: "mac6 \<Rightarrow> RegWriteOp list" where
  "wtbl_sta_ops bssid =
     (case bssid of Mac6 b0 b1 b2 b3 b4 b5 \<Rightarrow>
       [op_write 0x28000 0x304EFFFF, op_write 0x28004 0xFFFFFFFF, op_write 0x28008 0,
        op_write 0x28020 (0x30000000 OR push_bit 8 (ucast b5) OR ucast b4),
        op_write 0x28024 (u32_from_le_bytes b0 b1 b2 b3),
        op_write 0x28028 0x58300000,
        op_write 0x2A300 0x80000000,
        op_write 0x2800C 0x30800000, op_write 0x28010 0x40,
        op_write 0x2802C 0x30800800, op_write 0x28030 0x21040,
        op_write 0x2A300 0])"

lemma length_wtbl_sta_ops [simp]: "length (wtbl_sta_ops bssid) = 12"
  by (cases bssid) (simp add: wtbl_sta_ops_def)

lemma wtbl_dw3_dw4_used:
  "wtbl_dw3_dw4 0 = (0x30800000, 0x40)" "wtbl_dw3_dw4 1 = (0x30800800, 0x21040)"
  by (simp_all add: wtbl_dw3_dw4_def wtbl_entry234_eq)

lemma build_wtbl_sta_sequence_fits:
  assumes "12 \<le> length out"
  shows "build_wtbl_sta_sequence bssid out =
    Some (Ok 12, wtbl_sta_ops bssid @ drop 12 out)"
proof -
  obtain b0 b1 b2 b3 b4 b5 where m: "bssid = Mac6 b0 b1 b2 b3 b4 b5" by (cases bssid)
  show ?thesis
    using assms
    by (elim cells12) (simp add: build_wtbl_sta_sequence_def m wtbl_sta_ops_def cell_simps
        wtbl_dw3_dw4_used flip: or.assoc)
qed

interpretation wtbl: slice_writer "build_wtbl_sta_sequence bssid" True "wtbl_sta_ops bssid"
  for bssid
  by unfold_locales
    (auto simp: build_wtbl_sta_sequence_fits, auto simp: build_wtbl_sta_sequence_def)

text \<open>
  The power-save words DW3 and DW4 of a WTBL1 entry may only be written while \<open>PSM_W_FLAG\<close> (bit
  31 of \<open>WTBL1OR\<close>) is set: the flag is tracked along the sequence and has to be clear again at
  its end.
\<close>

definition is_psm_word :: "u32 \<Rightarrow> bool" where
  "is_psm_word a \<longleftrightarrow> WTBL1_BASE \<le> a \<and> a < WTBL1_BASE + 128 * WTBL1_ENTRY_SIZE \<and>
     (a - WTBL1_BASE) mod WTBL1_ENTRY_SIZE \<in> {0x0C, 0x10}"

fun psm_guarded :: "bool \<Rightarrow> RegWriteOp list \<Rightarrow> bool" where
  "psm_guarded unlocked [] \<longleftrightarrow> \<not> unlocked"
| "psm_guarded unlocked (op # ops) \<longleftrightarrow>
     (if addr op = WTBL1OR then psm_guarded (bit (val op) 31) ops
      else (is_psm_word (addr op) \<longrightarrow> unlocked) \<and> psm_guarded unlocked ops)"

lemma wtbl_sta_ops_guarded: "psm_guarded False (wtbl_sta_ops bssid)"
  by (cases bssid) (simp add: wtbl_sta_ops_def is_psm_word_def bit_iff_odd_drop_bit)

lemma wtbl_address_bytes:
  "u32_to_le_bytes (u32_from_le_bytes b0 b1 b2 b3) @
     take 2 (u32_to_le_bytes (0x30000000 OR push_bit 8 (ucast b5) OR ucast b4)) =
   [b0, b1, b2, b3, b4, b5]"
proof -
  let ?w = "0x30000000 OR push_bit 8 (ucast b5) OR ucast b4 :: u32"
  have "ucast (push_bit 28 x OR push_bit 8 (ucast b5) OR ucast b4 :: u32) = b4"
    "ucast (drop_bit 8 (push_bit 28 x OR push_bit 8 (ucast b5) OR ucast b4 :: u32)) = b5" for x
    by (rule bit_word_eqI; auto simp: bit_simps)+
  from this [of 3] have "ucast ?w = b4" "ucast (drop_bit 8 ?w) = b5" by simp_all
  then show ?thesis by (simp add: u32_le_bytes_inverse) (simp add: u32_to_le_bytes_def)
qed

text \<open>Whenever the station sequence is accepted, the access point's address can be read
  back byte for byte from words 0 and 1 of WTBL entry 1, and every power-save word is written
  between the setting and the clearing of the write-enable flag.\<close>

theorem wtbl_sta_sequence_installs:
  assumes "build_wtbl_sta_sequence bssid out = Some (Ok n, out')"
  shows "(\<exists>dw0 dw1. reg_effect (take n out') (WTBL1_BASE + WTBL1_ENTRY_SIZE) = Some dw0 \<and>
      reg_effect (take n out') (WTBL1_BASE + WTBL1_ENTRY_SIZE + 4) = Some dw1 \<and>
      u32_to_le_bytes dw1 @ take 2 (u32_to_le_bytes dw0) = mac_bytes bssid) \<and>
    psm_guarded False (take n out')"
  using wtbl.written_prefix [OF assms]
  by (cases bssid; simp add: wtbl_sta_ops_guarded;
      simp add: wtbl_sta_ops_def wtbl_address_bytes)

theorem wtbl_sta_sequence_installs_witness:
  "psm_guarded False (take 12 (wtbl_sta_ops (Mac6 2 0 0 0 0 9) @ [op_write 1 2]))"
proof -
  have "build_wtbl_sta_sequence (Mac6 2 0 0 0 0 9) (replicate 13 (op_write 1 2)) =
      Some (Ok 12, wtbl_sta_ops (Mac6 2 0 0 0 0 9) @ [op_write 1 2])"
    by (subst build_wtbl_sta_sequence_fits) simp_all
  from wtbl_sta_sequence_installs [OF this] show ?thesis by (rule conjunct2)
qed

end
