(* ===== verification/Ap.thy ===== *)
theory Ap
  imports Sta
begin

text \<open>
  src/src/rust/src/ap.rs: beacon, association response and request, and the BSS-sync register
  sequence of access-point mode. The builders are shown equal to reference frames; the beacon
  and the association response are read back by the parsers of the crate.
\<close>

section \<open>Beacon\<close>

definition build_beacon ::
  "u8 list \<Rightarrow> mac6 \<Rightarrow> u8 \<Rightarrow> u8 list \<Rightarrow> (nat rresult \<times> u8 list) option" where
  "build_beacon ssid bssid channel out_buf =
     (let total_len = 24 + 12 + 2 + length ssid + 10 + 3
      in if length out_buf < total_len then Some (Err ENOSPC, out_buf)
      else do {
        out_buf \<leftarrow> fill out_buf 0 total_len 0;
        out_buf \<leftarrow> store out_buf 0 0x80;
        out_buf \<leftarrow> store out_buf 1 0x00;
        out_buf \<leftarrow> fill out_buf 4 10 0xFF;
        out_buf \<leftarrow> copy_from_slice out_buf 10 16 (mac_bytes bssid);
        out_buf \<leftarrow> copy_from_slice out_buf 16 22 (mac_bytes bssid);
        out_buf \<leftarrow> store out_buf 32 0x64;
        out_buf \<leftarrow> store out_buf 33 0x00;
        out_buf \<leftarrow> store out_buf 34 0x01;
        out_buf \<leftarrow> store out_buf 35 0x00;
        let pos = 36;
        out_buf \<leftarrow> store out_buf pos 0;
        out_buf \<leftarrow> store out_buf (pos + 1) (word_of_nat (length ssid));
        out_buf \<leftarrow> with_slice out_buf (pos + 2) (pos + 2 + length ssid) (\<lambda>s. copy_bytes s ssid);
        let pos = pos + (2 + length ssid);
        out_buf \<leftarrow> store out_buf pos 1;
        out_buf \<leftarrow> store out_buf (pos + 1) 8;
        out_buf \<leftarrow> with_slice out_buf (pos + 2) (pos + 10) (\<lambda>s. copy_bytes s SUPPORTED_RATES);
        let pos = pos + 10;
        out_buf \<leftarrow> store out_buf pos 3;
        out_buf \<leftarrow> store out_buf (pos + 1) 1;
        out_buf \<leftarrow> store out_buf (pos + 2) channel;
        Some (Ok total_len, out_buf)
      })"

text \<open>The reference frame: header, timestamp 0, interval 100 TU, capability ESS, elements.\<close>

definition beacon_frame :: "u8 list \<Rightarrow> mac6 \<Rightarrow> u8 \<Rightarrow> u8 list" where
  "beacon_frame ssid bssid channel =
     mgmt_header 0x80 broadcast bssid bssid @
     replicate 8 0 @ u16_to_le_bytes 100 @ u16_to_le_bytes 1 @
     element 0 ssid @ element 1 SUPPORTED_RATES @ element 3 [channel]"

lemma length_beacon_frame:
  "length (beacon_frame ssid bssid channel) = 24 + 12 + 2 + length ssid + 10 + 3"
  by (simp add: beacon_frame_def)

lemma build_beacon_fits:
  assumes "length (beacon_frame ssid bssid ch) \<le> length out"
  shows "build_beacon ssid bssid ch out =
    Some (Ok (length (beacon_frame ssid bssid ch)),
          beacon_frame ssid bssid ch @ drop (length (beacon_frame ssid bssid ch)) out)"
proof -
  obtain a b c d e f where m: "bssid = Mac6 a b c d e f" by (cases bssid)
  let ?n = "24 + 12 + 2 + length ssid + 10 + 3"
  have z: "fill out 0 ?n 0 =
      Some (replicate 38 0 @ replicate (length ssid) 0 @ replicate 13 0 @ drop ?n out)"
    using assms unfolding length_beacon_frame
    by (subst fill_front) (simp_all flip: replicate_add append_assoc)
  have g: "\<not> length out < ?n" using assms by (simp add: length_beacon_frame)
  show ?thesis
    unfolding build_beacon_def Let_def z length_beacon_frame if_not_P [OF g]
    by (simp add: cell_simps replicate_cells m SUPPORTED_RATES_def beacon_frame_def
        mgmt_header_def element_def broadcast_def u16_to_le_bytes_def)
qed

interpretation beacon: slice_writer "build_beacon ssid bssid ch" True "beacon_frame ssid bssid ch"
  for ssid bssid ch
  by unfold_locales
    (auto simp: build_beacon_fits, auto simp: build_beacon_def length_beacon_frame Let_def)

text \<open>What the station's parser sees in the reference frame.\<close>

lemma beacon_frame_body:
  "drop 36 (beacon_frame ssid bssid ch) =
   element 0 ssid @ element 1 SUPPORTED_RATES @ element 3 [ch]"
  by (simp add: beacon_frame_def)

lemma beacon_frame_fixed:
  "take 6 (drop 16 (beacon_frame ssid bssid ch)) = mac_bytes bssid"
  "beacon_frame ssid bssid ch ! 34 = 1" "beacon_frame ssid bssid ch ! 35 = 0"
  by (cases bssid; simp add: beacon_frame_def mgmt_header_def broadcast_def replicate_cells
      u16_to_le_bytes_def)+

lemma parse_beacon_frame:
  "parse_beacon (beacon_frame ssid bssid ch) = Some (Ok (beacon_info (beacon_frame ssid bssid ch)))"
  by (rule parse_beacon_long) (simp add: length_beacon_frame)

text \<open>C19: a station that receives a beacon built by the access-point code reads back exactly
  the BSSID, the SSID, its length, the channel and the ESS capability, for every SSID of 1 to 32
  bytes.\<close>

theorem beacon_roundtrip:
  assumes "build_beacon ssid bssid ch out = Some (Ok n, out')"
    and "1 \<le> length ssid" "length ssid \<le> 32"
  shows "parse_beacon (take n out') = Some (Ok
    \<lparr> bss_bssid = bssid, bss_ssid = ssid @ replicate (32 - length ssid) 0,
      ssid_len = word_of_nat (length ssid), bss_channel = ch, bss_rssi = 0, capability = 1 \<rparr>)"
proof -
  have "elements (drop 36 (beacon_frame ssid bssid ch)) = [(0, ssid), (1, SUPPORTED_RATES), (3, [ch])]"
    unfolding beacon_frame_body using assms(2,3) by (subst elements_element) auto
  with assms(3) show ?thesis
    unfolding beacon.written_prefix [OF assms(1)] parse_beacon_frame
    by (simp add: beacon_info_def Let_def beacon_ssid_def beacon_channel_def beacon_frame_fixed
        u16_from_le_bytes_def)
qed

theorem beacon_roundtrip_witness:
  "parse_beacon (beacon_frame [0x41, 0x50] (Mac6 2 0 0 0 0 1) 6) = Some (Ok
    \<lparr> bss_bssid = Mac6 2 0 0 0 0 1, bss_ssid = [0x41, 0x50] @ replicate 30 0,
      ssid_len = 2, bss_channel = 6, bss_rssi = 0, capability = 1 \<rparr>)"
proof -
  have "build_beacon [0x41, 0x50] (Mac6 2 0 0 0 0 1) 6 (replicate 53 7) =
      Some (Ok 53, beacon_frame [0x41, 0x50] (Mac6 2 0 0 0 0 1) 6)"
    by (subst build_beacon_fits) (simp_all add: length_beacon_frame)
  from beacon_roundtrip [OF this] show ?thesis by (simp add: length_beacon_frame)
qed

text \<open>C39: with a hidden (empty) SSID the parser stops at the first element: the station reads
  back the BSSID and the capability, but channel 0 whatever channel the beacon announces.\<close>

theorem hidden_beacon_loses_channel:
  "parse_beacon (beacon_frame [] bssid ch) = Some (Ok
    \<lparr> bss_bssid = bssid, bss_ssid = replicate 32 0, ssid_len = 0, bss_channel = 0,
      bss_rssi = 0, capability = 1 \<rparr>)"
proof -
  have "elements (drop 36 (beacon_frame [] bssid ch)) = []"
    by (simp only: beacon_frame_body elements_empty_element)
  then show ?thesis
    unfolding parse_beacon_frame
    by (simp add: beacon_info_def Let_def beacon_ssid_def beacon_channel_def beacon_frame_fixed
        u16_from_le_bytes_def)
qed

section \<open>Association\<close>

definition build_assoc_resp ::
  "mac6 \<Rightarrow> mac6 \<Rightarrow> u16 \<Rightarrow> u16 \<Rightarrow> u8 list \<Rightarrow> (nat rresult \<times> u8 list) option" where
  "build_assoc_resp sta_mac bssid aid status_code out_buf =
     (let total_len = 24 + 6 + 10
      in if length out_buf < total_len then Some (Err ENOSPC, out_buf)
      else do {
        out_buf \<leftarrow> fill out_buf 0 total_len 0;
        out_buf \<leftarrow> store out_buf 0 0x10;
        out_buf \<leftarrow> store out_buf 1 0x00;
        out_buf \<leftarrow> copy_from_slice out_buf 4 10 (mac_bytes sta_mac);
        out_buf \<leftarrow> copy_from_slice out_buf 10 16 (mac_bytes bssid);
        out_buf \<leftarrow> copy_from_slice out_buf 16 22 (mac_bytes bssid);
        out_buf \<leftarrow> store out_buf 24 0x01;
        out_buf \<leftarrow> store out_buf 25 0x00;
        let status_bytes = u16_to_le_bytes status_code;
        s0 \<leftarrow> load status_bytes 0;
        out_buf \<leftarrow> store out_buf 26 s0;
        s1 \<leftarrow> load status_bytes 1;
        out_buf \<leftarrow> store out_buf 27 s1;
        let aid_val = 0xC000 OR (aid AND 0x3FFF);
        let aid_bytes = u16_to_le_bytes aid_val;
        a0 \<leftarrow> load aid_bytes 0;
        out_buf \<leftarrow> store out_buf 28 a0;
        a1 \<leftarrow> load aid_bytes 1;
        out_buf \<leftarrow> store out_buf 29 a1;
        let pos = 30;
        out_buf \<leftarrow> store out_buf pos 1;
        out_buf \<leftarrow> store out_buf (pos + 1) 8;
        out_buf \<leftarrow> copy_from_slice out_buf (pos + 2) (pos + 10) SUPPORTED_RATES;
        Some (Ok total_len, out_buf)
      })"

definition assoc_resp_frame :: "mac6 \<Rightarrow> mac6 \<Rightarrow> u16 \<Rightarrow> u16 \<Rightarrow> u8 list" where
  "assoc_resp_frame sta_mac bssid aid status_code =
     mgmt_header 0x10 sta_mac bssid bssid @ u16_to_le_bytes 1 @ u16_to_le_bytes status_code @
     u16_to_le_bytes (0xC000 OR (aid AND 0x3FFF)) @ element 1 SUPPORTED_RATES"

lemma length_assoc_resp_frame [simp]: "length (assoc_resp_frame sta bssid aid status) = 40"
  by (simp add: assoc_resp_frame_def)

lemma build_assoc_resp_fits:
  assumes "40 \<le> length out"
  shows "build_assoc_resp sta bssid aid status out =
    Some (Ok 40, assoc_resp_frame sta bssid aid status @ drop 40 out)"
proof -
  obtain a b c d e f where m: "bssid = Mac6 a b c d e f" by (cases bssid)
  obtain a b c d e f where s: "sta = Mac6 a b c d e f" by (cases sta)
  show ?thesis
    using assms fill_front [of 40 out 0]
    by (simp add: build_assoc_resp_def cell_simps replicate_cells m s SUPPORTED_RATES_def
        assoc_resp_frame_def mgmt_header_def element_def load_eq u16_to_le_bytes_def)
qed

interpretation assoc: slice_writer "build_assoc_resp sta bssid aid status" True
    "assoc_resp_frame sta bssid aid status" for sta bssid aid status
  by unfold_locales
    (auto simp: build_assoc_resp_fits, auto simp: build_assoc_resp_def)

definition parse_assoc_req :: "u8 list \<Rightarrow> (mac6 \<times> u16 \<times> u16) rresult option" where
  "parse_assoc_req frame_buf =
     (if length frame_buf < 28 then Some (Err EINVAL)
      else do {
        f0 \<leftarrow> load frame_buf 0;
        f1 \<leftarrow> load frame_buf 1;
        let fc = u16_from_le_bytes f0 f1;
        if (fc AND 0x00FC) \<noteq> 0x0000 \<and> (fc AND 0x00FC) \<noteq> 0x0020 then Some (Err EINVAL)
        else do {
          src \<leftarrow> slice frame_buf 10 16;
          sta_mac \<leftarrow> mac6_of_slice src;
          c0 \<leftarrow> load frame_buf 24;
          c1 \<leftarrow> load frame_buf 25;
          let capability = u16_from_le_bytes c0 c1;
          l0 \<leftarrow> load frame_buf 26;
          l1 \<leftarrow> load frame_buf 27;
          let listen_interval = u16_from_le_bytes l0 l1;
          Some (Ok (sta_mac, capability, listen_interval))
        }
      })"

text \<open>The frame kinds the parser takes: type and subtype bits of the first byte.\<close>

definition assoc_req_kind :: "u8 list \<Rightarrow> bool" where
  "assoc_req_kind frame \<longleftrightarrow> frame ! 0 AND 0xFC \<in> {0x00, 0x20}"

lemma fc_kind:
  "u16_from_le_bytes a b AND 0x00FC = ucast (a AND 0xFC)"
proof -
  have k: "(0xFC :: u16) = push_bit 2 (mask 6)" "(0xFC :: u8) = push_bit 2 (mask 6)"
    by (simp_all add: mask_numeral)
  show ?thesis unfolding k u16_from_le_bytes_def
    by (rule bit_word_eqI) (auto simp: bit_simps)
qed

text \<open>The association-request parser never panics. It rejects with -EINVAL exactly the
  frames that are too short or are neither an association nor a reassociation request, and
  otherwise returns the transmitter address, the capability and the listen interval.\<close>

theorem parse_assoc_req_spec:
  "parse_assoc_req frame = Some
     (if 28 \<le> length frame \<and> assoc_req_kind frame
      then Ok (the (mac6_of_slice (take 6 (drop 10 frame))),
               u16_from_le_bytes (frame ! 24) (frame ! 25),
               u16_from_le_bytes (frame ! 26) (frame ! 27))
      else Err EINVAL)"
proof (cases "length frame < 28")
  case False
  then obtain m where "mac6_of_slice (take 6 (drop 10 frame)) = Some m"
    using mac6_of_slice_ex [of "take 6 (drop 10 frame)"] by auto
  moreover have "(ucast x :: u16) = 0 \<longleftrightarrow> x = 0" "(ucast x :: u16) = 0x20 \<longleftrightarrow> x = 0x20" for x :: u8
    by (simp_all add: word_unat_eq_iff)
  moreover have "load frame 0 = Some (frame ! 0)" using False by (subst load_eq) auto
  ultimately show ?thesis using False
    by (simp add: parse_assoc_req_def load_eq slice_eq fc_kind assoc_req_kind_def)
qed (simp add: parse_assoc_req_def)

text \<open>none of the frames the driver itself builds (probe request, beacon, association
  response) is mistaken for an association request.\<close>

theorem own_frames_not_assoc_req:
  "parse_assoc_req (probe_frame ssid mac) = Some (Err EINVAL) \<and>
   parse_assoc_req (beacon_frame ssid mac ch) = Some (Err EINVAL) \<and>
   parse_assoc_req (assoc_resp_frame sta mac aid status) = Some (Err EINVAL)"
  by (simp add: parse_assoc_req_def length_probe_frame length_beacon_frame load_eq fc_kind;
      simp add: probe_frame_def beacon_frame_def assoc_resp_frame_def mgmt_header_def)

text \<open>An accepted association response is addressed to the station, carries the given status
  unchanged and an association id whose two top bits are set and whose low 14 bits are those of
  the given id; the rest of the output slice is untouched.\<close>

theorem assoc_resp_fields:
  assumes "build_assoc_resp sta bssid aid status out = Some (Ok n, out')"
  shows "n = 40 \<and> drop 40 out' = drop 40 out \<and> mac6_of_slice (take 6 (drop 4 out')) = Some sta \<and>
    mac6_of_slice (take 6 (drop 16 out')) = Some bssid \<and>
    u16_from_le_bytes (out' ! 26) (out' ! 27) = status \<and>
    take_bit 14 (u16_from_le_bytes (out' ! 28) (out' ! 29)) = take_bit 14 aid \<and>
    drop_bit 14 (u16_from_le_bytes (out' ! 28) (out' ! 29)) = 3"
proof -
  have k: "n = 40" "out' = assoc_resp_frame sta bssid aid status @ drop 40 out"
    using assms unfolding assoc.ok_iff by simp_all
  define w where "w = 0xC000 OR (aid AND 0x3FFF)"
  have "take_bit 14 w = take_bit 14 aid"
    by (simp add: w_def and_mask_simps take_bit_or)
  moreover have "drop_bit 14 (take_bit 14 aid) = 0" by (rule bit_word_eqI) (simp add: bit_simps)
  then have "drop_bit 14 w = 3" by (simp add: w_def and_mask_simps drop_bit_or)
  moreover obtain a b c d e f where "bssid = Mac6 a b c d e f" by (cases bssid)
  moreover obtain a' b' c' d' e' f' where "sta = Mac6 a' b' c' d' e' f'" by (cases sta)
  ultimately show ?thesis
    by (simp add: k assoc_resp_frame_def mgmt_header_def u16_to_le_bytes_def bytes_simps
        mac6_of_slice_def flip: w_def)
qed

theorem assoc_resp_fields_witness:
  "take_bit 14 (u16_from_le_bytes (assoc_resp_frame broadcast broadcast 1 0 ! 28)
     (assoc_resp_frame broadcast broadcast 1 0 ! 29)) = 1"
proof -
  have "build_assoc_resp broadcast broadcast 1 0 (replicate 40 7) =
      Some (Ok 40, assoc_resp_frame broadcast broadcast 1 0)"
    by (subst build_assoc_resp_fits) simp_all
  from assoc_resp_fields [OF this] show ?thesis by simp
qed

section \<open>BSS synchronisation\<close>

abbreviation ARB_SCR :: u32 where "ARB_SCR \<equiv> 0x00021480"
abbreviation ARB_BCNQCR0 :: u32 where "ARB_BCNQCR0 \<equiv> 0x00021518"
abbreviation ARB_BCNQCR1 :: u32 where "ARB_BCNQCR1 \<equiv> 0x0002151C"
abbreviation LPON_T0CR :: u32 where "LPON_T0CR \<equiv> 0x00024010"
abbreviation LPON_PISR :: u32 where "LPON_PISR \<equiv> 0x00024030"
abbreviation LPON_T0TPCR :: u32 where "LPON_T0TPCR \<equiv> 0x00024034"
abbreviation LPON_MPTCR0 :: u32 where "LPON_MPTCR0 \<equiv> 0x0002405C"

text \<open>\<open>for (i, op) in seq.iter().enumerate() { out_ops[i] = *op; }\<close>\<close>

primrec store_ops :: "nat \<Rightarrow> RegWriteOp list \<Rightarrow> RegWriteOp list \<Rightarrow> RegWriteOp list option" where
  "store_ops i [] out_ops = Some out_ops"
| "store_ops i (op # seq) out_ops = do {
     out_ops \<leftarrow> store out_ops i op;
     store_ops (Suc i) seq out_ops
   }"

lemma store_ops_eq:
  "store_ops (length pre) seq (pre @ todo) =
     (if length seq \<le> length todo then Some (pre @ seq @ drop (length seq) todo) else None)"
proof (induction seq arbitrary: pre todo)
  case (Cons op seq)
  show ?case
  proof (cases todo)
    case Nil
    then show ?thesis by (simp add: store_def)
  next
    case (Cons x todo')
    with Cons.IH [of "pre @ [op]" todo'] show ?thesis by (simp add: store_append_eq)
  qed
qed simp

definition build_ap_bss_sync_sequence ::
  "u16 \<Rightarrow> bool \<Rightarrow> RegWriteOp list \<Rightarrow> (nat rresult \<times> RegWriteOp list) option" where
  "build_ap_bss_sync_sequence beacon_period enable out_ops =
     (if enable then
        let period = (if beacon_period = 0 then 100 else ucast beacon_period :: u32);
            seq = [op_write LPON_T0TPCR ((period AND 0xFFFF) OR 0x80000000),
                   op_write LPON_MPTCR0 0x00000099,
                   op_write LPON_PISR 0x00000050,
                   op_write LPON_T0CR 0x0000000C,
                   op_write ARB_SCR 0x00000001,
                   op_write ARB_BCNQCR0 0x00000001]
        in if length out_ops < length seq then Some (Err ENOSPC, out_ops)
           else do {
             out_ops \<leftarrow> store_ops 0 seq out_ops;
             Some (Ok (length seq), out_ops)
           }
      else
        let seq = [op_write LPON_T0TPCR 0x00000000,
                   op_write LPON_MPTCR0 0x00000000,
                   op_write ARB_SCR 0x00000000,
                   op_write ARB_BCNQCR1 0x00000001]
        in if length out_ops < length seq then Some (Err ENOSPC, out_ops)
           else do {
             out_ops \<leftarrow> store_ops 0 seq out_ops;
             Some (Ok (length seq), out_ops)
           })"

definition bss_sync_ops :: "u16 \<Rightarrow> bool \<Rightarrow> RegWriteOp list" where
  "bss_sync_ops period enable =
     (if enable
      then [op_write LPON_T0TPCR ((if period = 0 then 100 else ucast period) OR 0x80000000),
            op_write LPON_MPTCR0 0x99, op_write LPON_PISR 0x50, op_write LPON_T0CR 0x0C,
            op_write ARB_SCR 1, op_write ARB_BCNQCR0 1]
      else [op_write LPON_T0TPCR 0, op_write LPON_MPTCR0 0, op_write ARB_SCR 0,
            op_write ARB_BCNQCR1 1])"

lemma period_mask: "ucast (p :: u16) AND 0xFFFF = (ucast p :: u32)"
  by (rule bit_word_eqI) (auto simp: and_mask_simps bit_simps dest: bit_imp_le_length)

interpretation bss_sync: slice_writer "build_ap_bss_sync_sequence period enable" True
    "bss_sync_ops period enable" for period enable
proof
  fix out :: "RegWriteOp list"
  note store = store_ops_eq [of "[]", simplified]
  show "build_ap_bss_sync_sequence period enable out = Some (Err ENOSPC, out)"
    if "length out < length (bss_sync_ops period enable)"
    using that by (simp add: build_ap_bss_sync_sequence_def bss_sync_ops_def Let_def split: if_splits)
  show "build_ap_bss_sync_sequence period enable out = Some (Ok (length (bss_sync_ops period enable)),
      bss_sync_ops period enable @ drop (length (bss_sync_ops period enable)) out)"
    if "length (bss_sync_ops period enable) \<le> length out"
    using that store
    by (auto simp: build_ap_bss_sync_sequence_def bss_sync_ops_def Let_def period_mask
        simp del: store_ops.simps split: if_splits)
qed simp

text \<open>Enabling AP mode programs the beacon period (100 TU when the caller gives 0) with the
  TBTT calculation switched on and selects AP beacon-queue mode; disabling afterwards clears the
  period, the TBTT timers and the AP mode again and flushes the beacon queue, whatever the
  period was.\<close>

theorem bss_sync_enable_disable:
  assumes "build_ap_bss_sync_sequence period True out = Some (Ok n, on)"
    and "build_ap_bss_sync_sequence period' False out2 = Some (Ok m, off)"
  shows "(\<exists>v. reg_effect (take n on) LPON_T0TPCR = Some v \<and> bit v 31 \<and>
      take_bit 16 v = (if period = 0 then 100 else ucast period)) \<and>
    reg_effect (take n on) ARB_SCR = Some 1 \<and>
    reg_effect (take n on @ take m off) LPON_T0TPCR = Some 0 \<and>
    reg_effect (take n on @ take m off) LPON_MPTCR0 = Some 0 \<and>
    reg_effect (take n on @ take m off) ARB_SCR = Some 0 \<and>
    reg_effect (take n on @ take m off) ARB_BCNQCR1 = Some 1"
proof -
  have "bit (x OR 0x80000000 :: u32) 31" for x
    by (simp add: bit_or_iff bit_iff_odd_drop_bit even_or_iff)
  moreover have "take_bit 16 (ucast period OR 0x80000000 :: u32) = ucast period"
    by (simp add: take_bit_or) (rule bit_word_eqI, auto simp: bit_simps dest: bit_imp_le_length)
  ultimately show ?thesis
    unfolding bss_sync.written_prefix [OF assms(1)] bss_sync.written_prefix [OF assms(2)]
    by (simp add: bss_sync_ops_def reg_effect_append)
qed

theorem bss_sync_enable_disable_witness:
  "reg_effect (bss_sync_ops 0 True) ARB_SCR = Some 1"
  using bss_sync_enable_disable [of 0 "replicate 6 (op_write 0 0)" 6 "bss_sync_ops 0 True"
      0 "replicate 4 (op_write 0 0)" 4 "bss_sync_ops 0 False"]
  by (simp add: bss_sync.build_cases bss_sync_ops_def)
end
