(* ===== verification/Mac.thy ===== *)
theory Mac
  imports Util Ffi_Types
begin

text \<open>
  src/src/rust/src/mac.rs: the register-write sequences for MAC initialisation, own address,
  channel, receive filter and block-ack sessions. The sequences are compared with reference
  lists; their effect is read off the register map they leave behind.
\<close>

section \<open>Register addresses\<close>

abbreviation TMAC_TCR :: u32 where "TMAC_TCR \<equiv> 0x00021600"
abbreviation TMAC_CDTR :: u32 where "TMAC_CDTR \<equiv> 0x00021608"
abbreviation TMAC_RRCR :: u32 where "TMAC_RRCR \<equiv> 0x0002160C"
abbreviation TMAC_TRCR :: u32 where "TMAC_TRCR \<equiv> 0x00021614"
text \<open>The same register as in the access-point code.\<close>

abbreviation ARB_SCR :: u32 where "ARB_SCR \<equiv> 0x00021480"

abbreviation ARB_RQCR :: u32 where "ARB_RQCR \<equiv> 0x00021470"
abbreviation ARB_TQCR0 :: u32 where "ARB_TQCR0 \<equiv> 0x00021500"
abbreviation RMAC_RFCR :: u32 where "RMAC_RFCR \<equiv> 0x00021800"
abbreviation RMAC_OMA0R0 :: u32 where "RMAC_OMA0R0 \<equiv> 0x00021824"
abbreviation RMAC_OMA0R1 :: u32 where "RMAC_OMA0R1 \<equiv> 0x00021828"
abbreviation RMAC_RMACDR :: u32 where "RMAC_RMACDR \<equiv> 0x00021878"
abbreviation RMAC_RMCR :: u32 where "RMAC_RMCR \<equiv> 0x00021880"
abbreviation RMAC_MAXMINLEN :: u32 where "RMAC_MAXMINLEN \<equiv> 0x00021898"
abbreviation RMAC_RFCR1 :: u32 where "RMAC_RFCR1 \<equiv> 0x000218A4"
abbreviation AGG_AWSCR :: u32 where "AGG_AWSCR \<equiv> 0x00021248"
abbreviation AGG_AWSCR1 :: u32 where "AGG_AWSCR1 \<equiv> 0x0002124C"
abbreviation AGG_AALCR :: u32 where "AGG_AALCR \<equiv> 0x00021250"
abbreviation AGG_AALCR1 :: u32 where "AGG_AALCR1 \<equiv> 0x00021254"
abbreviation DMA_DCR1 :: u32 where "DMA_DCR1 \<equiv> 0x00021C04"
abbreviation DMA_RCFR0 :: u32 where "DMA_RCFR0 \<equiv> 0x00021C70"
abbreviation DMA_VCFR0 :: u32 where "DMA_VCFR0 \<equiv> 0x00021C7C"
abbreviation WTBL_OFF_RMVTCR :: u32 where "WTBL_OFF_RMVTCR \<equiv> 0x00023008"
abbreviation USB_DMA_CFG :: u32 where "USB_DMA_CFG \<equiv> 0x00024000"
abbreviation FC_FRP :: u32 where "FC_FRP \<equiv> 0x00008138"
abbreviation MT_TXTIME_THD_0 :: u32 where "MT_TXTIME_THD_0 \<equiv> 0x00004500"
abbreviation MT_TXTIME_THD_1 :: u32 where "MT_TXTIME_THD_1 \<equiv> 0x00004504"
abbreviation MT_TXTIME_THD_2 :: u32 where "MT_TXTIME_THD_2 \<equiv> 0x00004508"
abbreviation MT_TXTIME_THD_3 :: u32 where "MT_TXTIME_THD_3 \<equiv> 0x0000450C"
abbreviation MT_TXTIME_THD_4 :: u32 where "MT_TXTIME_THD_4 \<equiv> 0x00004510"
abbreviation MT_TXTIME_THD_5 :: u32 where "MT_TXTIME_THD_5 \<equiv> 0x00004514"
abbreviation MT_TXTIME_THD_6 :: u32 where "MT_TXTIME_THD_6 \<equiv> 0x00004518"
abbreviation MT_TXTIME_THD_7 :: u32 where "MT_TXTIME_THD_7 \<equiv> 0x0000451C"
abbreviation MT_TXTIME_THD_8 :: u32 where "MT_TXTIME_THD_8 \<equiv> 0x00004520"
abbreviation MT_TXTIME_THD_9 :: u32 where "MT_TXTIME_THD_9 \<equiv> 0x00004524"
abbreviation MT_TXTIME_THD_10 :: u32 where "MT_TXTIME_THD_10 \<equiv> 0x00004528"
abbreviation MT_TXTIME_THD_11 :: u32 where "MT_TXTIME_THD_11 \<equiv> 0x0000452C"
abbreviation MT_TXTIME_THD_12 :: u32 where "MT_TXTIME_THD_12 \<equiv> 0x00004530"
abbreviation MT_TXTIME_THD_13 :: u32 where "MT_TXTIME_THD_13 \<equiv> 0x00004534"
abbreviation MT_TXTIME_THD_14 :: u32 where "MT_TXTIME_THD_14 \<equiv> 0x00004538"
abbreviation MT_TXTIME_THD_15 :: u32 where "MT_TXTIME_THD_15 \<equiv> 0x0000453C"
abbreviation MT_PAGE_CNT_0 :: u32 where "MT_PAGE_CNT_0 \<equiv> 0x00004540"
abbreviation MT_PAGE_CNT_1 :: u32 where "MT_PAGE_CNT_1 \<equiv> 0x00004544"
abbreviation MT_PAGE_CNT_2 :: u32 where "MT_PAGE_CNT_2 \<equiv> 0x00004548"
abbreviation MT_PAGE_CNT_3 :: u32 where "MT_PAGE_CNT_3 \<equiv> 0x0000454C"
abbreviation MT_PAGE_CNT_4 :: u32 where "MT_PAGE_CNT_4 \<equiv> 0x00004550"
abbreviation MT_PAGE_CNT_5 :: u32 where "MT_PAGE_CNT_5 \<equiv> 0x00004554"
abbreviation MT_PAGE_CNT_7 :: u32 where "MT_PAGE_CNT_7 \<equiv> 0x0000455C"
abbreviation MT_PAGE_CNT_8 :: u32 where "MT_PAGE_CNT_8 \<equiv> 0x00004560"
abbreviation MT_QUEUE_PRIORITY_1 :: u32 where "MT_QUEUE_PRIORITY_1 \<equiv> 0x00004580"
abbreviation MT_QUEUE_PRIORITY_2 :: u32 where "MT_QUEUE_PRIORITY_2 \<equiv> 0x00004584"
abbreviation MT_SCH_REG_1 :: u32 where "MT_SCH_REG_1 \<equiv> 0x00004588"
abbreviation MT_SCH_REG_2 :: u32 where "MT_SCH_REG_2 \<equiv> 0x0000458C"
abbreviation SCH_REG4 :: u32 where "SCH_REG4 \<equiv> 0x00004594"
abbreviation MT_GROUP_THD_0 :: u32 where "MT_GROUP_THD_0 \<equiv> 0x00004598"
abbreviation MT_GROUP_THD_1 :: u32 where "MT_GROUP_THD_1 \<equiv> 0x0000459C"
abbreviation MT_GROUP_THD_2 :: u32 where "MT_GROUP_THD_2 \<equiv> 0x000045A0"
abbreviation MT_BMAP_0 :: u32 where "MT_BMAP_0 \<equiv> 0x000045B0"
abbreviation MT_BMAP_1 :: u32 where "MT_BMAP_1 \<equiv> 0x000045B4"
abbreviation MT_HIGH_PRIORITY_1 :: u32 where "MT_HIGH_PRIORITY_1 \<equiv> 0x000045BC"
abbreviation MT_HIGH_PRIORITY_2 :: u32 where "MT_HIGH_PRIORITY_2 \<equiv> 0x000045C0"
abbreviation MT_PRIORITY_MASK :: u32 where "MT_PRIORITY_MASK \<equiv> 0x000045C4"
abbreviation MT_RSV_MAX_THD :: u32 where "MT_RSV_MAX_THD \<equiv> 0x000045C8"
abbreviation PSE_CLIENT_TX_PAD_DW2 :: u32 where "PSE_CLIENT_TX_PAD_DW2 \<equiv> 0x000C0040"
abbreviation PSE_CLIENT_TX_PAD_DW3 :: u32 where "PSE_CLIENT_TX_PAD_DW3 \<equiv> 0x000C0044"
abbreviation PSE_CLIENT_TX_PAD_DW4 :: u32 where "PSE_CLIENT_TX_PAD_DW4 \<equiv> 0x000C0048"
abbreviation PSE_CLIENT_TX_PAD_DW5 :: u32 where "PSE_CLIENT_TX_PAD_DW5 \<equiv> 0x000C004C"
abbreviation PSE_CLIENT_TX_PAD_DW6 :: u32 where "PSE_CLIENT_TX_PAD_DW6 \<equiv> 0x000C0050"
abbreviation PSE_CLIENT_RXINF :: u32 where "PSE_CLIENT_RXINF \<equiv> 0x000C0068"
abbreviation RMAC_CHFREQ :: u32 where "RMAC_CHFREQ \<equiv> 0x00021890"

section \<open>Initialisation\<close>

definition static_seq :: "RegWriteOp list" where
  "static_seq =
    [op_write USB_DMA_CFG 0x00180000,
     op_write FC_FRP 0x00004037,
     op_write MT_HIGH_PRIORITY_1 0x55555555,
     op_write MT_HIGH_PRIORITY_2 0x78555555,
     op_write MT_QUEUE_PRIORITY_1 0x2B1A096E,
     op_write MT_QUEUE_PRIORITY_2 0x785F4D3C,
     op_write MT_PRIORITY_MASK 0xFFFFFFFF,
     op_write MT_SCH_REG_1 0x20000288,
     op_write MT_SCH_REG_2 0x0000000E,
     op_write MT_PAGE_CNT_0 0x0000000E,
     op_write MT_PAGE_CNT_1 0x0000000E,
     op_write MT_PAGE_CNT_2 0x0000000E,
     op_write MT_PAGE_CNT_3 0x0000000E,
     op_write MT_PAGE_CNT_4 0x0000000E,
     op_write MT_PAGE_CNT_5 0x00000020,
     op_write MT_PAGE_CNT_7 0x0000000E,
     op_write MT_PAGE_CNT_8 0x00000032,
     op_write MT_RSV_MAX_THD 0x00000288,
     op_write MT_GROUP_THD_0 0x0000025A,
     op_write MT_GROUP_THD_1 0x0000000E,
     op_write MT_BMAP_0 0x0080FF5F,
     op_write MT_GROUP_THD_2 0x00000020,
     op_write MT_BMAP_1 0x00000020,
     op_write MT_TXTIME_THD_0 0x000FFFFF,
     op_write MT_TXTIME_THD_1 0x000FFFFF,
     op_write MT_TXTIME_THD_2 0x000FFFFF,
     op_write MT_TXTIME_THD_3 0x000FFFFF,
     op_write MT_TXTIME_THD_4 0x000FFFFF,
     op_write MT_TXTIME_THD_5 0x000FFFFF,
     op_write MT_TXTIME_THD_6 0x000FFFFF,
     op_write MT_TXTIME_THD_7 0x000FFFFF,
     op_write MT_TXTIME_THD_8 0x000FFFFF,
     op_write MT_TXTIME_THD_9 0x000FFFFF,
     op_write MT_TXTIME_THD_10 0x000FFFFF,
     op_write MT_TXTIME_THD_11 0x000FFFFF,
     op_write MT_TXTIME_THD_12 0x000FFFFF,
     op_write MT_TXTIME_THD_13 0x000FFFFF,
     op_write MT_TXTIME_THD_14 0x000FFFFF,
     op_write MT_TXTIME_THD_15 0x000FFFFF,
     op_write SCH_REG4 0x00000040,
     op_write PSE_CLIENT_RXINF 0x00000007,
     op_write PSE_CLIENT_TX_PAD_DW2 0x00000000,
     op_write PSE_CLIENT_TX_PAD_DW3 0x00000001,
     op_write PSE_CLIENT_TX_PAD_DW4 0x00000000,
     op_write PSE_CLIENT_TX_PAD_DW5 0x00000020,
     op_write PSE_CLIENT_TX_PAD_DW6 0x00000000,
     op_write TMAC_TCR 0x00040001,
     op_write TMAC_CDTR 0x003000E7,
     op_write TMAC_RRCR 0x00000004,
     op_write TMAC_TRCR 0x80000000,
     op_write ARB_SCR 0x00000000,
     op_write ARB_TQCR0 0xFFFFFFFF,
     op_write ARB_RQCR 0x0000000F,
     op_write RMAC_RMACDR 0x40000000,
     op_write RMAC_MAXMINLEN 0x0E019000,
     op_write RMAC_RFCR 0x00000002,
     op_write RMAC_RFCR1 0x00000000,
     op_write RMAC_RMCR 0x00F00000,
     op_write AGG_AWSCR 0x00000040,
     op_write AGG_AWSCR1 0x2A151410,
     op_write AGG_AALCR 0x00000010,
     op_write AGG_AALCR1 0x15151515,
     op_write DMA_RCFR0 0xC0210000,
     op_write DMA_VCFR0 0x00002000,
     op_write DMA_DCR1 0x00003800,
     op_write WTBL_OFF_RMVTCR 0x00800000,
     op_write PSE_CLIENT_RXINF 0x00000007]"

definition build_mac_init_sequence ::
  "RegWriteOp list \<Rightarrow> (nat rresult \<times> RegWriteOp list) option" where
  "build_mac_init_sequence out_ops =
     (if length out_ops < length static_seq then Some (Err ENOSPC, out_ops)
      else do {
        out_ops \<leftarrow> copy_from_slice out_ops 0 (length static_seq) static_seq;
        Some (Ok (length static_seq), out_ops)
      })"

definition build_own_mac_sequence ::
  "mac6 \<Rightarrow> RegWriteOp list \<Rightarrow> (nat rresult \<times> RegWriteOp list) option" where
  "build_own_mac_sequence mac out_ops =
     (if length out_ops < 2 then Some (Err ENOSPC, out_ops)
      else case mac of Mac6 m0 m1 m2 m3 m4 m5 \<Rightarrow> do {
        let val0 = ucast m0 OR push_bit 8 (ucast m1) OR push_bit 16 (ucast m2)
                   OR push_bit 24 (ucast m3);
        let val1 = ucast m4 OR push_bit 8 (ucast m5) OR push_bit 16 1;
        out_ops \<leftarrow> store out_ops 0 (op_write RMAC_OMA0R0 val0);
        out_ops \<leftarrow> store out_ops 1 (op_write RMAC_OMA0R1 val1);
        Some (Ok 2, out_ops)
      })"

definition build_channel_sequence ::
  "u8 \<Rightarrow> u8 \<Rightarrow> RegWriteOp list \<Rightarrow> (nat rresult \<times> RegWriteOp list) option" where
  "build_channel_sequence channel bw' out_ops =
     (if \<not> (1 \<le> channel \<and> channel \<le> 14) then Some (Err EINVAL, out_ops)
      else
        let seq = [op_write RMAC_CHFREQ 1,
                   op_write RMAC_RMCR 0x00F00000,
                   op_write ARB_RQCR 0x0000000F,
                   op_write ARB_SCR 0x00000000]
        in if length out_ops < length seq then Some (Err ENOSPC, out_ops)
           else do {
             out_ops \<leftarrow> copy_from_slice out_ops 0 (length seq) seq;
             Some (Ok (length seq), out_ops)
           })"

definition build_rx_filter_sequence ::
  "bool \<Rightarrow> bool \<Rightarrow> RegWriteOp list \<Rightarrow> (nat rresult \<times> RegWriteOp list) option" where
  "build_rx_filter_sequence promisc fcs_fail out_ops =
     (if length out_ops < 2 then Some (Err ENOSPC, out_ops)
      else do {
        let rfcr = (if promisc then (if fcs_fail then 0x00000004 else 0x00000006)
                    else 0x001D93A2);
        out_ops \<leftarrow> store out_ops 0 (op_write RMAC_RFCR rfcr);
        out_ops \<leftarrow> store out_ops 1 (op_write RMAC_RFCR1 0x00000000);
        Some (Ok 2, out_ops)
      })"

section \<open>Block-ack sessions\<close>

definition BA_RANGE :: "u8 list" where
  "BA_RANGE = [4, 5, 8, 10, 16, 20, 21, 42]"

text \<open>The \<open>while\<close> loop that searches the window table.\<close>

function ba_range_loop :: "u8 \<Rightarrow> nat \<Rightarrow> nat option" where
  "ba_range_loop ba_size idx =
     (if idx < 7 then do {
        r \<leftarrow> load BA_RANGE idx;
        if r < ba_size then ba_range_loop ba_size (idx + 1) else Some idx
      }
      else Some idx)"
  by pat_completeness auto
termination
  by (relation "measure (\<lambda>(ba_size, idx). 7 - idx)") auto

declare ba_range_loop.simps [simp del]

definition ba_range_index :: "u8 \<Rightarrow> nat option" where
  "ba_range_index ba_size = do {
     idx \<leftarrow> ba_range_loop ba_size 0;
     (if idx > 0 then do {
        r \<leftarrow> load BA_RANGE idx;
        Some (if r > ba_size then idx - 1 else idx)
      }
      else Some idx)
   }"

definition build_ba_session_sequence ::
  "u8 \<Rightarrow> u8 \<Rightarrow> u8 \<Rightarrow> bool \<Rightarrow> u32 \<Rightarrow> RegWriteOp list \<Rightarrow> (nat rresult \<times> RegWriteOp list) option" where
  "build_ba_session_sequence wcid tid ba_size enable prev_dw15 out_ops =
     (if tid \<ge> 8 then Some (Err EINVAL, out_ops)
      else if out_ops = [] then Some (Err ENOSPC, out_ops)
      else do {
        idx \<leftarrow> ba_range_index ba_size;
        let shift = unat tid * 3;
        let range_mask = push_bit shift 0x7;
        let ba_en_bit = push_bit (24 + unat tid) 1;
        let reg = 0x00040000 + ucast wcid * 64 + 15 * 4;
        let dw15 = prev_dw15 AND NOT range_mask;
        let dw15 = (if enable
                    then dw15 OR (ba_en_bit OR push_bit shift (word_of_nat idx AND 0x7))
                    else dw15 AND NOT ba_en_bit);
        out_ops \<leftarrow> store out_ops 0 (op_write reg dw15);
        Some (Ok 1, out_ops)
      })"

section \<open>Reference sequences\<close>

definition own_mac_ops :: "mac6 \<Rightarrow> RegWriteOp list" where
  "own_mac_ops mac =
     (case mac of Mac6 m0 m1 m2 m3 m4 m5 \<Rightarrow>
        [op_write RMAC_OMA0R0 (u32_from_le_bytes m0 m1 m2 m3),
         op_write RMAC_OMA0R1 (u32_from_le_bytes m4 m5 1 0)])"

definition channel_ops :: "RegWriteOp list" where
  "channel_ops = [op_write RMAC_CHFREQ 1, op_write RMAC_RMCR 0xF00000, op_write ARB_RQCR 0xF,
     op_write ARB_SCR 0]"

definition rx_filter_ops :: "bool \<Rightarrow> bool \<Rightarrow> RegWriteOp list" where
  "rx_filter_ops promisc fcs_fail =
     [op_write RMAC_RFCR (if promisc then if fcs_fail then 4 else 6 else 0x1D93A2),
      op_write RMAC_RFCR1 0]"

lemma ge2_cells:
  assumes "2 \<le> length b" obtains c0 c1 r where "b = c0 # c1 # r"
  using assms by (auto simp: numeral_eq_Suc Suc_le_length_iff)

lemma build_own_mac_fits:
  assumes "2 \<le> length out"
  shows "build_own_mac_sequence mac out = Some (Ok 2, own_mac_ops mac @ drop 2 out)"
proof -
  obtain m0 m1 m2 m3 m4 m5 where "mac = Mac6 m0 m1 m2 m3 m4 m5" by (cases mac)
  with assms show ?thesis
    by (elim ge2_cells) (simp add: build_own_mac_sequence_def own_mac_ops_def cell_simps
        u32_from_le_bytes_def)
qed

interpretation mac_init: slice_writer build_mac_init_sequence True static_seq
  by unfold_locales (auto simp: build_mac_init_sequence_def copy_prefix)

lemma length_own_mac_ops [simp]: "length (own_mac_ops mac) = 2"
  by (cases mac) (simp add: own_mac_ops_def)

interpretation own_mac: slice_writer "build_own_mac_sequence mac" True "own_mac_ops mac" for mac
  by unfold_locales (auto simp: build_own_mac_fits, auto simp: build_own_mac_sequence_def)

interpretation channel: slice_writer "build_channel_sequence ch bw'" "1 \<le> ch \<and> ch \<le> 14" channel_ops
  for ch bw'
  by unfold_locales (auto simp: build_channel_sequence_def channel_ops_def copy_from_slice_def)

interpretation rx_filter: slice_writer "build_rx_filter_sequence promisc fcs_fail" True
    "rx_filter_ops promisc fcs_fail" for promisc fcs_fail
proof
  fix out :: "RegWriteOp list"
  show "build_rx_filter_sequence promisc fcs_fail out = Some (Err ENOSPC, out)"
    if "length out < length (rx_filter_ops promisc fcs_fail)"
    using that by (simp add: build_rx_filter_sequence_def rx_filter_ops_def)
  show "build_rx_filter_sequence promisc fcs_fail out =
      Some (Ok (length (rx_filter_ops promisc fcs_fail)),
        rx_filter_ops promisc fcs_fail @ drop (length (rx_filter_ops promisc fcs_fail)) out)"
    if l: "length (rx_filter_ops promisc fcs_fail) \<le> length out"
  proof -
    have "2 \<le> length out" using l by (simp add: rx_filter_ops_def)
    then show ?thesis
      by (elim ge2_cells) (simp add: build_rx_filter_sequence_def rx_filter_ops_def cell_simps)
  qed
qed simp

text \<open>The own-address sequence is accepted whenever two operations fit; the six address bytes
  can be read back in order from the two registers, the enable bit is set and the rest of the
  second register is zero.\<close>

theorem own_mac_readback:
  assumes "build_own_mac_sequence mac out = Some (Ok n, out')"
  shows "\<exists>r0 r1. reg_effect (take n out') RMAC_OMA0R0 = Some r0 \<and>
    reg_effect (take n out') RMAC_OMA0R1 = Some r1 \<and>
    u32_to_le_bytes r0 @ u32_to_le_bytes r1 = mac_bytes mac @ [1, 0]"
  using own_mac.written_prefix [OF assms]
  by (cases mac) (simp add: own_mac_ops_def u32_le_bytes_inverse)

theorem own_mac_readback_witness:
  "\<exists>r0 r1. reg_effect (own_mac_ops (Mac6 2 3 4 5 6 7)) RMAC_OMA0R0 = Some r0 \<and>
    reg_effect (own_mac_ops (Mac6 2 3 4 5 6 7)) RMAC_OMA0R1 = Some r1 \<and>
    u32_to_le_bytes r0 @ u32_to_le_bytes r1 = [2, 3, 4, 5, 6, 7, 1, 0]"
  using own_mac_readback [of "Mac6 2 3 4 5 6 7" "replicate 2 (op_write 0 0)" 2
      "own_mac_ops (Mac6 2 3 4 5 6 7)"]
  by (simp add: build_own_mac_fits own_mac_ops_def)

text \<open>the channel sequence is produced exactly for the channels 1 to 14; any other channel
  is rejected with -EINVAL, before the size of the slice is looked at.\<close>

theorem channel_sequence_spec:
  "build_channel_sequence ch bw' out =
     (if 1 \<le> unat ch \<and> unat ch \<le> 14 then write_block channel_ops out else Some (Err EINVAL, out))"
proof -
  have "1 \<le> ch \<and> ch \<le> 14 \<longleftrightarrow> 1 \<le> unat ch \<and> unat ch \<le> 14"
    by (simp add: word_le_nat_alt)
  then show ?thesis using channel.refines [of ch bw' out] channel.rejects [of ch bw' out] by auto
qed

section \<open>Order independence\<close>

text \<open>A sequence in which equal addresses get equal values.\<close>

definition consistent :: "RegWriteOp list \<Rightarrow> bool" where
  "consistent ops \<longleftrightarrow> (\<forall>x \<in> set ops. \<forall>y \<in> set ops. addr x = addr y \<longrightarrow> val x = val y)"

lemma reg_effect_in: "reg_effect ops a = Some v \<Longrightarrow> op_write a v \<in> set ops"
  by (induction ops) (auto simp: map_add_Some_iff split: if_splits)

lemma reg_effect_consistent:
  assumes "consistent ops"
  shows "reg_effect ops a = Some v \<longleftrightarrow> op_write a v \<in> set ops"
proof
  assume m: "op_write a v \<in> set ops"
  then have "a \<in> dom (reg_effect ops)" 
    unfolding dom_reg_effect by (rule rev_image_eqI) simp
  then obtain v' where v': "reg_effect ops a = Some v'" by auto
  with m reg_effect_in [OF v'] assms have "v = v'" by (force simp: consistent_def)
  with v' show "reg_effect ops a = Some v" by simp
qed (rule reg_effect_in)

lemma consistent_reordered:
  assumes "consistent ops" "set ops' = set ops"
  shows "reg_effect ops' = reg_effect ops"
proof
  fix a
  have "consistent ops'" using assms(1) unfolding consistent_def assms(2) .
  note c = reg_effect_consistent [OF this, of a] reg_effect_consistent [OF assms(1), of a]
  have "reg_effect ops' a = Some v \<longleftrightarrow> reg_effect ops a = Some v" for v
    unfolding c assms(2) by (rule refl)
  then show "reg_effect ops' a = reg_effect ops a"
    by (cases "reg_effect ops a"; cases "reg_effect ops' a") auto
qed

lemma consistent_distinct:
  assumes "distinct (map addr ops)"
  shows "consistent ops"
  using assms by (auto simp: consistent_def distinct_map dest: inj_onD)

lemma static_seq_split: "static_seq = butlast static_seq @ [op_write PSE_CLIENT_RXINF 7]"
  by (simp add: static_seq_def)

lemma static_seq_distinct: "distinct (map addr (butlast static_seq))"
  by code_simp

lemma static_seq_consistent: "consistent static_seq"
proof -
  have "op_write PSE_CLIENT_RXINF 7 \<in> set (butlast static_seq)" by (simp add: static_seq_def)
  then have "set static_seq = set (butlast static_seq)"
    by (subst static_seq_split) auto
  moreover have "consistent (butlast static_seq)"
    by (rule consistent_distinct [OF static_seq_distinct])
  ultimately show ?thesis unfolding consistent_def by (simp only:)
qed

text \<open>The initialisation sequence does not depend on its order: any sequence of the same
  writes, in any order and with any repetition, leaves every register with the same value, so
  running it again after an interrupted run is harmless.\<close>

theorem mac_init_order_independent:
  assumes "build_mac_init_sequence out = Some (Ok n, out')" and "set ops = set (take n out')"
  shows "reg_effect ops = reg_effect static_seq"
  using assms(2) mac_init.written_prefix [OF assms(1)]
  by (intro consistent_reordered static_seq_consistent) simp

theorem mac_init_order_independent_witness:
  "reg_effect (rev static_seq @ static_seq) = reg_effect static_seq"
proof -
  have "build_mac_init_sequence (replicate (length static_seq) (op_write 0 0)) =
      Some (Ok (length static_seq), static_seq)"
    by (subst mac_init.build_cases) simp
  then show ?thesis by (rule mac_init_order_independent) simp
qed

section \<open>Block-ack window index\<close>

lemma ba_range_loop_step:
  "i < 7 \<Longrightarrow> j = Suc i \<Longrightarrow> BA_RANGE ! i = r \<Longrightarrow>
   ba_range_loop b i = (if r < b then ba_range_loop b j else Some i)"
  by (subst ba_range_loop.simps) (auto simp: load_def BA_RANGE_def)

lemma ba_range_loop_eq:
  "ba_range_loop b 0 =
     Some (if b \<le> 4 then 0 else if b \<le> 5 then 1 else if b \<le> 8 then 2 else if b \<le> 10 then 3
           else if b \<le> 16 then 4 else if b \<le> 20 then 5 else if b \<le> 21 then 6 else 7)"
proof -
  have "ba_range_loop b 7 = Some 7" by (subst ba_range_loop.simps) simp
  moreover have "ba_range_loop b 0 = (if 4 < b then ba_range_loop b 1 else Some 0)"
    "ba_range_loop b 1 = (if 5 < b then ba_range_loop b 2 else Some 1)"
    "ba_range_loop b 2 = (if 8 < b then ba_range_loop b 3 else Some 2)"
    "ba_range_loop b 3 = (if 10 < b then ba_range_loop b 4 else Some 3)"
    "ba_range_loop b 4 = (if 16 < b then ba_range_loop b 5 else Some 4)"
    "ba_range_loop b 5 = (if 20 < b then ba_range_loop b 6 else Some 5)"
    "ba_range_loop b 6 = (if 21 < b then ba_range_loop b 7 else Some 6)"
    by (rule ba_range_loop_step; simp add: BA_RANGE_def)+
  ultimately show ?thesis by (simp only: flip: not_le) (simp only: if_not_P split: if_split, simp)
qed

lemma ba_range_index_eq:
  "ba_range_index b =
     Some (if b < 5 then 0 else if b < 8 then 1 else if b < 10 then 2 else if b < 16 then 3
           else if b < 20 then 4 else if b < 21 then 5 else if b < 42 then 6 else 7)"
  unfolding ba_range_index_def ba_range_loop_eq
  by (auto simp: load_def BA_RANGE_def word_less_nat_alt word_le_nat_alt)

lemma ba_range_index_best:
  assumes "ba_range_index b = Some i"
  shows "i < 8" "4 \<le> unat b \<Longrightarrow> unat (BA_RANGE ! i) \<le> unat b"
    "list_all (\<lambda>r. unat r \<le> unat b \<longrightarrow> unat r \<le> unat (BA_RANGE ! i)) BA_RANGE"
  using assms unfolding ba_range_index_eq
  by (auto simp: BA_RANGE_def word_less_nat_alt split: if_splits)


text \<open>The session word, with the index given.\<close>

definition ba_dw15 :: "u8 \<Rightarrow> nat \<Rightarrow> bool \<Rightarrow> u32 \<Rightarrow> u32" where
  "ba_dw15 tid i enable prev =
     (let clear = prev AND NOT (push_bit (3 * unat tid) 7)
      in if enable then clear OR push_bit (24 + unat tid) 1 OR push_bit (3 * unat tid) (word_of_nat i)
         else clear AND NOT (push_bit (24 + unat tid) 1))"

definition ba_session_ops :: "u8 \<Rightarrow> u8 \<Rightarrow> u8 \<Rightarrow> bool \<Rightarrow> u32 \<Rightarrow> RegWriteOp list" where
  "ba_session_ops wcid tid ba_size enable prev =
     [op_write (0x4003C + 64 * ucast wcid) (ba_dw15 tid (the (ba_range_index ba_size)) enable prev)]"

lemma bit_seven: "bit (7 :: int) n \<longleftrightarrow> n < 3"
proof -
  have "bit (mask 3 :: int) n \<longleftrightarrow> n < 3" by (simp only: bit_mask_iff) auto
  then show ?thesis by (simp add: mask_numeral)
qed

lemma ba_dw15_bits:
  assumes "unat tid < 8" "i < 8" "k < 32"
  shows "bit (ba_dw15 tid i enable prev) k =
    (if k = 24 + unat tid then enable
     else if 3 * unat tid \<le> k \<and> k < 3 * unat tid + 3 then enable \<and> bit i (k - 3 * unat tid)
     else bit prev k)"
proof -
  have "take_bit 3 i = i" using assms(2) by (intro take_bit_nat_eq_self) simp
  then have w: "bit i j \<longleftrightarrow> bit i j \<and> j < 3" for j by (metis bit_take_bit_iff)
  define t where "t = unat tid"
  have t: "t < 8" using assms(1) by (simp add: t_def)
  have "k = 24 + t \<Longrightarrow> \<not> k - 3 * t < 3" using t by auto
  then consider "k = 24 + t" "\<not> (3 * t \<le> k \<and> k - 3 * t < 3)"
    | j where "k = 3 * t + j" "j < 3" "k \<noteq> 24 + t"
    | "k \<noteq> 24 + t" "\<not> (3 * t \<le> k \<and> k - 3 * t < 3)"
    by (cases "3 * t \<le> k \<and> k - 3 * t < 3"; cases "k = 24 + t") (auto dest: le_Suc_ex)
  then show ?thesis
    unfolding ba_dw15_def Let_def t_def [symmetric] using assms(3)
    by cases (auto simp: bit_simps bit_seven dest: iffD1 [OF w])
qed

lemma build_ba_session_eq:
  assumes "unat tid < 8" "out \<noteq> []"
  shows "build_ba_session_sequence wcid tid ba_size enable prev out =
    Some (Ok 1, ba_session_ops wcid tid ba_size enable prev @ tl out)"
proof -
  obtain i where i: "ba_range_index ba_size = Some i" by (simp add: ba_range_index_eq)
  have "i < 8" by (rule ba_range_index_best [OF i])
  then have "word_of_nat i AND 7 = (word_of_nat i :: u32)"
    by (simp add: and_mask_simps take_bit_of_nat take_bit_nat_eq_self)
  moreover have "\<not> 8 \<le> tid" using assms(1) by (simp add: word_le_nat_alt)
  moreover obtain x r where "out = x # r" using assms(2) by (cases out) auto
  ultimately show ?thesis
    by (simp add: build_ba_session_sequence_def ba_session_ops_def i cell_simps ba_dw15_def Let_def
        ac_simps)
qed

interpretation ba_session: slice_writer "build_ba_session_sequence wcid tid ba_size enable prev"
    "unat tid < 8" "ba_session_ops wcid tid ba_size enable prev"
  for wcid tid ba_size enable prev
proof
  fix out :: "RegWriteOp list"
  have e: "8 \<le> tid \<longleftrightarrow> \<not> unat tid < 8" by (simp add: word_le_nat_alt not_less)
  show "\<not> unat tid < 8 \<Longrightarrow>
      build_ba_session_sequence wcid tid ba_size enable prev out = Some (Err EINVAL, out)"
    using e by (simp add: build_ba_session_sequence_def)
  show "build_ba_session_sequence wcid tid ba_size enable prev out = Some (Err ENOSPC, out)"
    if "unat tid < 8" "length out < length (ba_session_ops wcid tid ba_size enable prev)"
    using that e by (simp add: build_ba_session_sequence_def ba_session_ops_def)
  show "build_ba_session_sequence wcid tid ba_size enable prev out =
      Some (Ok (length (ba_session_ops wcid tid ba_size enable prev)),
        ba_session_ops wcid tid ba_size enable prev @
        drop (length (ba_session_ops wcid tid ba_size enable prev)) out)"
    if "unat tid < 8" "length (ba_session_ops wcid tid ba_size enable prev) \<le> length out"
    using that by (subst build_ba_session_eq) (auto simp: ba_session_ops_def drop_Suc)
qed

text \<open>An accepted block-ack update writes word 15 of the station's WTBL2 entry. Of the previous
  word only the enable bit and the three-bit window field of the given TID change: enabling sets
  the bit and stores the index of the largest window size the table has below or at the requested
  one, disabling clears both; the other seven TIDs keep their state.\<close>

theorem ba_session_word:
  assumes "build_ba_session_sequence wcid tid ba_size enable prev out = Some (Ok n, out')"
  shows "\<exists>dw15 i. take n out' = [op_write (0x4003C + 64 * ucast wcid) dw15] \<and>
    (4 \<le> unat ba_size \<longrightarrow> unat (BA_RANGE ! i) \<le> unat ba_size) \<and>
    list_all (\<lambda>r. unat r \<le> unat ba_size \<longrightarrow> unat r \<le> unat (BA_RANGE ! i)) BA_RANGE \<and>
    (\<forall>k < 32. bit dw15 k =
      (if k = 24 + unat tid then enable
       else if 3 * unat tid \<le> k \<and> k < 3 * unat tid + 3 then enable \<and> bit i (k - 3 * unat tid)
       else bit prev k))"
proof -
  obtain i where i: "ba_range_index ba_size = Some i" by (simp add: ba_range_index_eq)
  have "unat tid < 8" using assms unfolding ba_session.ok_iff by simp
  moreover have "take n out' = ba_session_ops wcid tid ba_size enable prev"
    by (rule ba_session.written_prefix [OF assms])
  ultimately show ?thesis
    using ba_range_index_best [OF i] ba_dw15_bits [of tid i _ enable prev]
    by (intro exI [of _ "ba_dw15 tid i enable prev"] exI [of _ i]) (simp add: ba_session_ops_def i)
qed

theorem ba_session_word_witness:
  "\<exists>dw15 i. [op_write 0x4007C 0x01000003] = [op_write (0x4003C + 64 * ucast (1 :: u8)) dw15] \<and>
    bit dw15 24 \<and> unat (BA_RANGE ! i) \<le> 15"
proof -
  have "build_ba_session_sequence 1 0 15 True 0 [op_write 0 0] = Some (Ok 1, [op_write 0x4007C 0x01000003])"
    by (subst build_ba_session_eq) (simp_all add: ba_session_ops_def ba_range_index_eq ba_dw15_def)
  from ba_session_word [OF this] obtain dw15 i where
    "[op_write 0x4007C 0x01000003] = [op_write (0x4003C + 64 * ucast (1 :: u8)) dw15]"
    "4 \<le> unat (15 :: u8) \<longrightarrow> unat (BA_RANGE ! i) \<le> unat (15 :: u8)"
    by auto
  then show ?thesis by (intro exI [of _ dw15] exI [of _ i]) (auto simp: bit_iff_odd_drop_bit)
qed
end
