(* ===== verification/Mcu.thy ===== *)
theory Mcu
  imports Util
begin

text \<open>
  src/src/rust/src/mcu.rs: the FW\_TXD framing of MCU commands, the command builders on top of
  it and the firmware image checks. Every command is shown to be the reference frame around
  its reference payload; the receiver's view of a frame is a decoder that reads all header
  fields back.
\<close>

section \<open>Constants\<close>

abbreviation FW_TXD_HDR_SIZE :: nat where "FW_TXD_HDR_SIZE \<equiv> 12"
abbreviation USB_END_PADDING :: nat where "USB_END_PADDING \<equiv> 4"
abbreviation MT7603_E2_FW_SIZE :: nat where "MT7603_E2_FW_SIZE \<equiv> 86348"
abbreviation MT_TARGET_ADDRESS_LEN_REQ :: u8 where "MT_TARGET_ADDRESS_LEN_REQ \<equiv> 0x01"
abbreviation MT_FW_START_REQ :: u8 where "MT_FW_START_REQ \<equiv> 0x02"
abbreviation MT_FW_SCATTER :: u8 where "MT_FW_SCATTER \<equiv> 0xEE"
abbreviation MT_RESTART_DL_REQ :: u8 where "MT_RESTART_DL_REQ \<equiv> 0xEF"
abbreviation EXT_CID :: u8 where "EXT_CID \<equiv> 0xED"
abbreviation EXT_CMD_NA :: u8 where "EXT_CMD_NA \<equiv> 0"
abbreviation EXT_CMD_RADIO_ON_OFF_CTRL :: u8 where "EXT_CMD_RADIO_ON_OFF_CTRL \<equiv> 0x05"
abbreviation EXT_CMD_EDCA_SET :: u8 where "EXT_CMD_EDCA_SET \<equiv> 0x27"
abbreviation EXT_CMD_CHANNEL_SWITCH :: u8 where "EXT_CMD_CHANNEL_SWITCH \<equiv> 0x08"
abbreviation EXT_CMD_SET_TX_POWER_CTRL :: u8 where "EXT_CMD_SET_TX_POWER_CTRL \<equiv> 0x11"
abbreviation EXT_CMD_EFUSE_BUFFER_MODE :: u8 where "EXT_CMD_EFUSE_BUFFER_MODE \<equiv> 0x21"
abbreviation CMD_CH_PRIVILEGE :: u8 where "CMD_CH_PRIVILEGE \<equiv> 0x20"
abbreviation PKT_ID_CMD :: u8 where "PKT_ID_CMD \<equiv> 0xA0"
abbreviation CMD_SET :: u8 where "CMD_SET \<equiv> 1"
abbreviation CMD_QUERY :: u8 where "CMD_QUERY \<equiv> 0"
abbreviation CMD_NA :: u8 where "CMD_NA \<equiv> 3"
abbreviation EXT_CID_OPTION_NEED_ACK :: u8 where "EXT_CID_OPTION_NEED_ACK \<equiv> 1"
abbreviation EXT_CID_OPTION_NO_NEED_ACK :: u8 where "EXT_CID_OPTION_NO_NEED_ACK \<equiv> 0"
abbreviation P1_Q0 :: u16 where "P1_Q0 \<equiv> 0x8000"
abbreviation FW_SCATTER_PQ_ID :: u16 where "FW_SCATTER_PQ_ID \<equiv> 0xC000"
abbreviation FW_CODE_START_ADDRESS1 :: u32 where "FW_CODE_START_ADDRESS1 \<equiv> 0x100000"
abbreviation TARGET_ADDR_LEN_NEED_RSP :: u32 where "TARGET_ADDR_LEN_NEED_RSP \<equiv> 0x80000000"
abbreviation MT_UPLOAD_FW_UNIT :: nat where "MT_UPLOAD_FW_UNIT \<equiv> 4096"
abbreviation FW_TXD_FULL_SIZE :: nat where "FW_TXD_FULL_SIZE \<equiv> 32"
abbreviation FW_SCATTER_MAX_PAYLOAD :: nat where
  "FW_SCATTER_MAX_PAYLOAD \<equiv> MT_UPLOAD_FW_UNIT - FW_TXD_FULL_SIZE"

section \<open>Framing\<close>

definition build_fw_txd_frame ::
  "profile \<Rightarrow> u8 \<Rightarrow> u16 \<Rightarrow> u8 \<Rightarrow> u8 \<Rightarrow> u8 \<Rightarrow> bool \<Rightarrow> nat \<Rightarrow> u8 list \<Rightarrow> u8 list
   \<Rightarrow> (nat rresult \<times> u8 list) option" where
  "build_fw_txd_frame prof cid pq_id set_query ext_cid seq need_rsp hdr_size payload out_buf =
     (if prof = Dev \<and> \<not> (hdr_size = FW_TXD_HDR_SIZE \<or> hdr_size = FW_TXD_FULL_SIZE) then None
      else
        let total_len = length payload + hdr_size
        in if length out_buf < total_len then Some (Err ENOSPC, out_buf)
        else do {
          out_buf \<leftarrow>
            (if hdr_size > FW_TXD_HDR_SIZE
             then for_loop [FW_TXD_HDR_SIZE..<hdr_size] (\<lambda>i out_buf. store out_buf i 0) out_buf
             else Some out_buf);
          let len = u16_to_le_bytes (word_of_nat total_len);
          out_buf \<leftarrow> store out_buf 0 (len ! 0);
          out_buf \<leftarrow> store out_buf 1 (len ! 1);
          let pq = u16_to_le_bytes pq_id;
          out_buf \<leftarrow> store out_buf 2 (pq ! 0);
          out_buf \<leftarrow> store out_buf 3 (pq ! 1);
          out_buf \<leftarrow> store out_buf 4 cid;
          out_buf \<leftarrow> store out_buf 5 PKT_ID_CMD;
          out_buf \<leftarrow> store out_buf 6 set_query;
          out_buf \<leftarrow> store out_buf 7 seq;
          out_buf \<leftarrow> store out_buf 8 0x00;
          out_buf \<leftarrow> store out_buf 9 ext_cid;
          out_buf \<leftarrow> store out_buf 10 0x00;
          let need_ack = cid = EXT_CID \<and> (set_query = CMD_SET \<or> set_query = CMD_QUERY) \<and>
                         need_rsp \<and> seq \<noteq> 0;
          out_buf \<leftarrow> store out_buf 11
            (if need_ack then EXT_CID_OPTION_NEED_ACK else EXT_CID_OPTION_NO_NEED_ACK);
          out_buf \<leftarrow> with_slice out_buf hdr_size total_len (\<lambda>s. copy_bytes s payload);
          Some (Ok total_len, out_buf)
        })"

text \<open>The reference frame.\<close>

definition fw_txd_needs_ack :: "u8 \<Rightarrow> u8 \<Rightarrow> u8 \<Rightarrow> bool \<Rightarrow> bool" where
  "fw_txd_needs_ack cid set_query seq need_rsp \<longleftrightarrow>
     cid = EXT_CID \<and> set_query \<in> {CMD_SET, CMD_QUERY} \<and> need_rsp \<and> seq \<noteq> 0"

definition fw_txd_block ::
  "u8 \<Rightarrow> u16 \<Rightarrow> u8 \<Rightarrow> u8 \<Rightarrow> u8 \<Rightarrow> bool \<Rightarrow> nat \<Rightarrow> u8 list \<Rightarrow> u8 list" where
  "fw_txd_block cid pq_id set_query ext_cid seq need_rsp hdr_size payload =
     u16_to_le_bytes (word_of_nat (length payload + hdr_size)) @ u16_to_le_bytes pq_id @
     [cid, PKT_ID_CMD, set_query, seq, 0, ext_cid, 0,
      if fw_txd_needs_ack cid set_query seq need_rsp then 1 else 0] @
     replicate (hdr_size - 12) 0 @ payload"

lemma length_fw_txd_block:
  "12 \<le> h \<Longrightarrow> length (fw_txd_block cid pq sq ext seq rsp h payload) = length payload + h"
  by (simp add: fw_txd_block_def)

lemma build_fw_txd_frame_fits:
  assumes h: "h = 12 \<or> h = 32" and l: "length payload + h \<le> length out"
  shows "build_fw_txd_frame prof cid pq sq ext seq rsp h payload out =
    Some (Ok (length payload + h),
      fw_txd_block cid pq sq ext seq rsp h payload @ drop (length payload + h) out)"
proof -
  have "12 \<le> length (take h out)" using h l by auto
  then obtain c0 c1 c2 c3 c4 c5 c6 c7 c8 c9 c10 c11 r where
    c: "take h out = c0 # c1 # c2 # c3 # c4 # c5 # c6 # c7 # c8 # c9 # c10 # c11 # r"
    by (rule cells12)
  have r: "length r = h - 12" using arg_cong [OF c, of length] h l by auto
  have out: "out = (c0 # c1 # c2 # c3 # c4 # c5 # c6 # c7 # c8 # c9 # c10 # c11 # r) @ drop h out"
    by (metis c append_take_drop_id)
  have z: "(if h > 12 then for_loop [12..<h] (\<lambda>i b. store b i 0) out else Some out) =
      Some (c0 # c1 # c2 # c3 # c4 # c5 # c6 # c7 # c8 # c9 # c10 # c11 # replicate (h - 12) 0 @ drop h out)"
    using h l r by (subst out, subst (2) out) (auto simp: for_store_eq fill_def)
  have g: "\<not> length out < length payload + h" "\<not> (prof = Dev \<and> \<not> (h = 12 \<or> h = 32))"
    using h l by auto
  show ?thesis
    unfolding build_fw_txd_frame_def Let_def z if_not_P [OF g(1)] if_not_P [OF g(2)]
    using h l
    by (auto simp: cell_simps fw_txd_block_def fw_txd_needs_ack_def u16_to_le_bytes_def add.commute)
qed

interpretation short_frame: slice_writer
    "build_fw_txd_frame prof cid pq sq ext seq rsp FW_TXD_HDR_SIZE payload" True
    "fw_txd_block cid pq sq ext seq rsp FW_TXD_HDR_SIZE payload"
  for prof cid pq sq ext seq rsp payload
  by unfold_locales
    (auto simp: build_fw_txd_frame_fits length_fw_txd_block, auto simp: build_fw_txd_frame_def length_fw_txd_block)

interpretation full_frame: slice_writer
    "build_fw_txd_frame prof cid pq sq ext seq rsp FW_TXD_FULL_SIZE payload" True
    "fw_txd_block cid pq sq ext seq rsp FW_TXD_FULL_SIZE payload"
  for prof cid pq sq ext seq rsp payload
  by unfold_locales
    (auto simp: build_fw_txd_frame_fits length_fw_txd_block, auto simp: build_fw_txd_frame_def length_fw_txd_block)

section \<open>Download-phase commands\<close>

definition build_addr_len_req ::
  "profile \<Rightarrow> u32 \<Rightarrow> u32 \<Rightarrow> u8 \<Rightarrow> u8 list \<Rightarrow> (nat rresult \<times> u8 list) option" where
  "build_addr_len_req prof address dl_len seq out_buf = do {
     let payload = replicate 12 0;
     payload \<leftarrow> copy_from_slice payload 0 4 (u32_to_le_bytes address);
     payload \<leftarrow> copy_from_slice payload 4 8 (u32_to_le_bytes dl_len);
     payload \<leftarrow> copy_from_slice payload 8 12 (u32_to_le_bytes TARGET_ADDR_LEN_NEED_RSP);
     build_fw_txd_frame prof MT_TARGET_ADDRESS_LEN_REQ P1_Q0 CMD_NA EXT_CMD_NA seq True
       FW_TXD_HDR_SIZE payload out_buf
   }"

definition build_fw_start_req ::
  "profile \<Rightarrow> u32 \<Rightarrow> u32 \<Rightarrow> u8 \<Rightarrow> u8 list \<Rightarrow> (nat rresult \<times> u8 list) option" where
  "build_fw_start_req prof override address seq out_buf = do {
     let payload = replicate 8 0;
     payload \<leftarrow> copy_from_slice payload 0 4 (u32_to_le_bytes override);
     payload \<leftarrow> copy_from_slice payload 4 8 (u32_to_le_bytes address);
     build_fw_txd_frame prof MT_FW_START_REQ P1_Q0 CMD_NA EXT_CMD_NA seq True
       FW_TXD_HDR_SIZE payload out_buf
   }"

definition build_restart_dl_req ::
  "profile \<Rightarrow> u8 \<Rightarrow> u8 list \<Rightarrow> (nat rresult \<times> u8 list) option" where
  "build_restart_dl_req prof seq out_buf =
     build_fw_txd_frame prof MT_RESTART_DL_REQ P1_Q0 CMD_NA EXT_CMD_NA seq True
       FW_TXD_HDR_SIZE [] out_buf"

definition build_fw_scatter_frame ::
  "profile \<Rightarrow> u8 list \<Rightarrow> u8 list \<Rightarrow> (nat rresult \<times> u8 list) option" where
  "build_fw_scatter_frame prof chunk out_buf =
     (if length chunk > FW_SCATTER_MAX_PAYLOAD then Some (Err EINVAL, out_buf)
      else build_fw_txd_frame prof MT_FW_SCATTER FW_SCATTER_PQ_ID CMD_NA EXT_CMD_NA 0 False
             FW_TXD_HDR_SIZE chunk out_buf)"

lemma build_addr_len_req_eq:
  "build_addr_len_req prof address dl_len seq =
     build_fw_txd_frame prof MT_TARGET_ADDRESS_LEN_REQ P1_Q0 CMD_NA EXT_CMD_NA seq True
       FW_TXD_HDR_SIZE (u32_to_le_bytes address @ u32_to_le_bytes dl_len @
        u32_to_le_bytes TARGET_ADDR_LEN_NEED_RSP)"
  by (rule ext) (simp add: build_addr_len_req_def cell_simps replicate_cells u32_to_le_bytes_def)

lemma build_fw_start_req_eq:
  "build_fw_start_req prof override address seq =
     build_fw_txd_frame prof MT_FW_START_REQ P1_Q0 CMD_NA EXT_CMD_NA seq True
       FW_TXD_HDR_SIZE (u32_to_le_bytes override @ u32_to_le_bytes address)"
  by (rule ext) (simp add: build_fw_start_req_def cell_simps replicate_cells u32_to_le_bytes_def)

section \<open>Run-time commands\<close>

definition build_channel_switch_cmd ::
  "profile \<Rightarrow> u8 \<Rightarrow> u8 \<Rightarrow> u8 \<Rightarrow> u8 \<Rightarrow> u8 \<Rightarrow> u8 \<Rightarrow> u8 list \<Rightarrow> (nat rresult \<times> u8 list) option" where
  "build_channel_switch_cmd prof ctrl_ch central_ch bw tx_streams rx_streams seq out_buf = do {
     let payload = replicate 36 0;
     payload \<leftarrow> store payload 0 ctrl_ch;
     payload \<leftarrow> store payload 1 central_ch;
     payload \<leftarrow> store payload 2 bw;
     payload \<leftarrow> store payload 3 tx_streams;
     payload \<leftarrow> store payload 4 rx_streams;
     payload \<leftarrow> fill payload 12 33 0xFF;
     build_fw_txd_frame prof EXT_CID P1_Q0 CMD_SET EXT_CMD_CHANNEL_SWITCH seq True
       FW_TXD_FULL_SIZE payload out_buf
   }"

lemma build_channel_switch_cmd_eq:
  "build_channel_switch_cmd prof ctrl_ch central_ch bw tx_streams rx_streams seq =
     build_fw_txd_frame prof EXT_CID P1_Q0 CMD_SET EXT_CMD_CHANNEL_SWITCH seq True
       FW_TXD_FULL_SIZE
       ([ctrl_ch, central_ch, bw, tx_streams, rx_streams] @ replicate 7 0 @ replicate 21 0xFF @
        replicate 3 0)"
  by (rule ext) (simp add: build_channel_switch_cmd_def cell_simps replicate_cells)

text \<open>\<open>eeprom.get(addr).copied().unwrap_or(0xff)\<close>\<close>

definition e2p_byte :: "u8 list \<Rightarrow> nat \<Rightarrow> u8" where
  "e2p_byte eeprom addr = (case load eeprom addr of Some b \<Rightarrow> b | None \<Rightarrow> 0xFF)"

definition read16 :: "u8 list \<Rightarrow> nat \<Rightarrow> u16" where
  "read16 eeprom addr =
     (let lo = ucast (e2p_byte eeprom addr);
          hi = ucast (e2p_byte eeprom (addr + 1))
      in lo OR push_bit 8 hi)"

abbreviation NIC_CONFIGURE_1 :: nat where "NIC_CONFIGURE_1 \<equiv> 0x36"
abbreviation G_BAND_20_40_BW_PWR_DELTA :: nat where "G_BAND_20_40_BW_PWR_DELTA \<equiv> 0x50"
abbreviation TX0_G_BAND_TARGET_PWR :: nat where "TX0_G_BAND_TARGET_PWR \<equiv> 0x58"
abbreviation TX0_G_BAND_CHL_PWR_DELTA_MID :: nat where "TX0_G_BAND_CHL_PWR_DELTA_MID \<equiv> 0x5A"
abbreviation TX1_G_BAND_TARGET_PWR :: nat where "TX1_G_BAND_TARGET_PWR \<equiv> 0x5E"
abbreviation TX1_G_BAND_CHL_PWR_DELTA_MID :: nat where "TX1_G_BAND_CHL_PWR_DELTA_MID \<equiv> 0x60"
abbreviation TX_PWR_CCK_1_2M :: nat where "TX_PWR_CCK_1_2M \<equiv> 0xA0"
abbreviation STEP_NUM_NEG_7 :: nat where "STEP_NUM_NEG_7 \<equiv> 0xC6"

definition build_tx_power_ctrl_cmd ::
  "profile \<Rightarrow> u8 list \<Rightarrow> u8 \<Rightarrow> u8 \<Rightarrow> u8 list \<Rightarrow> (nat rresult \<times> u8 list) option" where
  "build_tx_power_ctrl_cmd prof eeprom central_ch seq out_buf = do {
     let payload = replicate 44 0;
     payload \<leftarrow> store payload 0 central_ch;
     let nic_conf1 = read16 eeprom NIC_CONFIGURE_1;
     payload \<leftarrow> store payload 1 (ucast (drop_bit 8 nic_conf1));
     payload \<leftarrow> store payload 2 (ucast nic_conf1);
     payload \<leftarrow> store payload 3 (ucast (read16 eeprom TX0_G_BAND_TARGET_PWR));
     payload \<leftarrow> store payload 4 (ucast (read16 eeprom TX1_G_BAND_TARGET_PWR));
     payload \<leftarrow> for_loop [0..<7] (\<lambda>i payload. do {
       let v = read16 eeprom (TX_PWR_CCK_1_2M + i * 2);
       payload \<leftarrow> store payload (5 + i * 2) (ucast v);
       store payload (6 + i * 2) (ucast (drop_bit 8 v))
     }) payload;
     payload \<leftarrow> store payload 19 (ucast (read16 eeprom G_BAND_20_40_BW_PWR_DELTA));
     payload \<leftarrow> store payload 20 (ucast (drop_bit 8 (read16 eeprom TX0_G_BAND_TARGET_PWR)));
     payload \<leftarrow> store payload 21 (ucast (read16 eeprom TX0_G_BAND_CHL_PWR_DELTA_MID));
     payload \<leftarrow> store payload 22 (ucast (drop_bit 8 (read16 eeprom TX0_G_BAND_CHL_PWR_DELTA_MID)));
     payload \<leftarrow> store payload 23 (ucast (drop_bit 8 (read16 eeprom TX1_G_BAND_TARGET_PWR)));
     payload \<leftarrow> store payload 24 (ucast (read16 eeprom TX1_G_BAND_CHL_PWR_DELTA_MID));
     payload \<leftarrow> store payload 25 (ucast (drop_bit 8 (read16 eeprom TX1_G_BAND_CHL_PWR_DELTA_MID)));
     let j = 26;
     (payload, j) \<leftarrow> for_loop [0..<9] (\<lambda>i (payload, j). do {
       let v = read16 eeprom (STEP_NUM_NEG_7 + i * 2);
       payload \<leftarrow> store payload j (ucast v);
       let j = j + 1;
       if i \<noteq> 8 then do {
         payload \<leftarrow> store payload j (ucast (drop_bit 8 v));
         let j = j + 1;
         Some (payload, j)
       }
       else Some (payload, j)
     }) (payload, j);
     build_fw_txd_frame prof EXT_CID P1_Q0 CMD_SET EXT_CMD_SET_TX_POWER_CTRL seq True
       FW_TXD_FULL_SIZE payload out_buf
   }"

text \<open>The payload as a list of EEPROM bytes.\<close>

definition tx_power_payload :: "u8 list \<Rightarrow> u8 \<Rightarrow> u8 list" where
  "tx_power_payload eeprom central_ch =
     central_ch # map (e2p_byte eeprom)
       ([0x37, 0x36, 0x58, 0x5E] @ [0xA0..<0xAE] @ [0x50, 0x59, 0x5A, 0x5B, 0x5F, 0x60, 0x61] @
        [0xC6..<0xD7]) @ [0]"

lemma read16_bytes:
  "ucast (read16 eeprom a) = e2p_byte eeprom a"
  "ucast (drop_bit 8 (read16 eeprom a)) = e2p_byte eeprom (a + 1)"
  unfolding read16_def Let_def by (rule bit_word_eqI; auto simp: bit_simps)+

lemma build_tx_power_ctrl_cmd_eq:
  "build_tx_power_ctrl_cmd prof eeprom central_ch seq =
     build_fw_txd_frame prof EXT_CID P1_Q0 CMD_SET EXT_CMD_SET_TX_POWER_CTRL seq True
       FW_TXD_FULL_SIZE (tx_power_payload eeprom central_ch)"
  by (rule ext) (simp add: build_tx_power_ctrl_cmd_def cell_simps replicate_cells upt_conv_Cons
      read16_bytes tx_power_payload_def)

text \<open>
  The eFuse payload starts as an array of \<open>MaybeUninit\<close> slots (\<^term>\<open>None\<close> here). Viewing the
  array as bytes while a slot is uninitialised would be undefined behaviour.
\<close>

primrec assume_init :: "'a option list \<Rightarrow> 'a list option" where
  "assume_init [] = Some []"
| "assume_init (x # xs) = do { b \<leftarrow> x; bs \<leftarrow> assume_init xs; Some (b # bs) }"

lemma assume_init_Some [simp]: "assume_init (map Some bs) = Some bs"
  by (induction bs) simp_all

abbreviation EFUSE_CONTENT_BUFFER_SIZE :: nat where "EFUSE_CONTENT_BUFFER_SIZE \<equiv> 0xF0"
abbreviation PAYLOAD_SIZE :: nat where "PAYLOAD_SIZE \<equiv> 4 + EFUSE_CONTENT_BUFFER_SIZE * 4"

definition build_efuse_buffer_mode_cmd ::
  "profile \<Rightarrow> u8 list \<Rightarrow> u8 \<Rightarrow> u8 list \<Rightarrow> (nat rresult \<times> u8 list) option" where
  "build_efuse_buffer_mode_cmd prof eeprom seq out_buf = do {
     let payload = replicate PAYLOAD_SIZE None;
     payload \<leftarrow> for_loop [0..<length payload] (\<lambda>i payload. store payload i (Some 0)) payload;
     payload \<leftarrow> store payload 0 (Some 0);
     payload \<leftarrow> store payload 1 (Some 0);
     payload_bytes \<leftarrow> assume_init payload;
     build_fw_txd_frame prof EXT_CID P1_Q0 CMD_SET EXT_CMD_EFUSE_BUFFER_MODE seq True
       FW_TXD_FULL_SIZE payload_bytes out_buf
   }"

lemma build_efuse_buffer_mode_cmd_eq:
  "build_efuse_buffer_mode_cmd prof eeprom seq =
     build_fw_txd_frame prof EXT_CID P1_Q0 CMD_SET EXT_CMD_EFUSE_BUFFER_MODE seq True
       FW_TXD_FULL_SIZE (replicate 964 0)"
proof
  fix out :: "u8 list"
  let ?p = "replicate 964 (None :: u8 option)"
  have "for_loop [0..<964] (\<lambda>i b. store b i (Some 0)) ?p = Some (replicate 964 (Some 0))"
    by (simp add: for_store_eq fill_def)
  moreover have "store (replicate 964 (Some 0)) i (Some 0) = Some (replicate 964 (Some (0 :: u8)))"
    if "i < 964" for i
    using that by (simp add: store_eq list_update_same_conv)
  moreover have "assume_init (replicate 964 (Some (0 :: u8))) = Some (replicate 964 0)"
    using assume_init_Some [of "replicate 964 (0 :: u8)"] by simp
  ultimately show "build_efuse_buffer_mode_cmd prof eeprom seq out =
     build_fw_txd_frame prof EXT_CID P1_Q0 CMD_SET EXT_CMD_EFUSE_BUFFER_MODE seq True
       FW_TXD_FULL_SIZE (replicate 964 0) out"
    by (simp add: build_efuse_buffer_mode_cmd_def)
qed

definition build_ch_privilege_cmd ::
  "profile \<Rightarrow> u8 \<Rightarrow> u8 \<Rightarrow> u8 list \<Rightarrow> (nat rresult \<times> u8 list) option" where
  "build_ch_privilege_cmd prof channel seq out_buf = do {
     let payload = replicate 16 0;
     payload \<leftarrow> store payload 2 0;
     payload \<leftarrow> store payload 3 channel;
     payload \<leftarrow> store payload 4 0;
     payload \<leftarrow> store payload 5 0;
     payload \<leftarrow> store payload 6 0;
     payload \<leftarrow> store payload 9 0;
     build_fw_txd_frame prof CMD_CH_PRIVILEGE P1_Q0 CMD_SET EXT_CMD_NA seq False
       FW_TXD_FULL_SIZE payload out_buf
   }"

lemma build_ch_privilege_cmd_eq:
  "build_ch_privilege_cmd prof channel seq =
     build_fw_txd_frame prof CMD_CH_PRIVILEGE P1_Q0 CMD_SET EXT_CMD_NA seq False
       FW_TXD_FULL_SIZE ([0, 0, 0, channel] @ replicate 12 0)"
  by (rule ext) (simp add: build_ch_privilege_cmd_def cell_simps replicate_cells)

definition build_radio_on_off_cmd ::
  "profile \<Rightarrow> bool \<Rightarrow> u8 \<Rightarrow> u8 list \<Rightarrow> (nat rresult \<times> u8 list) option" where
  "build_radio_on_off_cmd prof on seq out_buf = do {
     let payload = replicate 4 0;
     payload \<leftarrow> store payload 0 (if on then 1 else 2);
     build_fw_txd_frame prof EXT_CID P1_Q0 CMD_SET EXT_CMD_RADIO_ON_OFF_CTRL seq True
       FW_TXD_FULL_SIZE payload out_buf
   }"

lemma build_radio_on_off_cmd_eq:
  "build_radio_on_off_cmd prof on seq =
     build_fw_txd_frame prof EXT_CID P1_Q0 CMD_SET EXT_CMD_RADIO_ON_OFF_CTRL seq True
       FW_TXD_FULL_SIZE [if on then 1 else 2, 0, 0, 0]"
  by (rule ext) (simp add: build_radio_on_off_cmd_def cell_simps replicate_cells)

definition WMM_EDCA_AIFSN :: "u8 list" where "WMM_EDCA_AIFSN = [3, 7, 2, 2]"
definition WMM_EDCA_CWMIN :: "u8 list" where "WMM_EDCA_CWMIN = [4, 4, 3, 2]"
definition WMM_EDCA_CWMAX :: "u8 list" where "WMM_EDCA_CWMAX = [10, 10, 4, 3]"
definition WMM_EDCA_TXOP :: "u16 list" where "WMM_EDCA_TXOP = [0, 0, 0x60, 0x2F]"
definition WMM_ACI_TO_HW_QUEUE :: "nat list" where "WMM_ACI_TO_HW_QUEUE = [1, 0, 2, 3]"

lemmas wmm_tables = WMM_EDCA_AIFSN_def WMM_EDCA_CWMIN_def WMM_EDCA_CWMAX_def WMM_EDCA_TXOP_def
  WMM_ACI_TO_HW_QUEUE_def

text \<open>\<open>1u16 << s\<close>; a shift by 16 or more would panic in a debug build, the table entries are
  below that.\<close>

definition build_edca_set_cmd ::
  "profile \<Rightarrow> u8 \<Rightarrow> u8 list \<Rightarrow> (nat rresult \<times> u8 list) option" where
  "build_edca_set_cmd prof seq out_buf = do {
     let payload = replicate (4 + 4 * 8) 0;
     payload \<leftarrow> store payload 0 4;
     payload \<leftarrow> for_loop [0..<4] (\<lambda>ac payload. do {
       hw_q \<leftarrow> load WMM_ACI_TO_HW_QUEUE ac;
       let base = 4 + hw_q * 8;
       payload \<leftarrow> store payload base (word_of_nat ac);
       payload \<leftarrow> store payload (base + 1) 0x0F;
       aifsn \<leftarrow> load WMM_EDCA_AIFSN ac;
       payload \<leftarrow> store payload (base + 2) aifsn;
       cwmin \<leftarrow> load WMM_EDCA_CWMIN ac;
       payload \<leftarrow> store payload (base + 3) (ucast (push_bit (unat cwmin) 1 :: u16) - 1);
       cwmax \<leftarrow> load WMM_EDCA_CWMAX ac;
       let win_max = push_bit (unat cwmax) 1 - 1;
       payload \<leftarrow> copy_from_slice payload (base + 4) (base + 6) (u16_to_le_bytes win_max);
       txop \<leftarrow> load WMM_EDCA_TXOP ac;
       copy_from_slice payload (base + 6) (base + 8) (u16_to_le_bytes txop)
     }) payload;
     build_fw_txd_frame prof EXT_CID P1_Q0 CMD_SET EXT_CMD_EDCA_SET seq True
       FW_TXD_FULL_SIZE payload out_buf
   }"

text \<open>One access category as the firmware reads it.\<close>

definition edca_entry :: "nat \<Rightarrow> u8 list" where
  "edca_entry ac =
     [word_of_nat ac, 0x0F, WMM_EDCA_AIFSN ! ac,
      word_of_nat (2 ^ unat (WMM_EDCA_CWMIN ! ac) - 1)] @
     u16_to_le_bytes (word_of_nat (2 ^ unat (WMM_EDCA_CWMAX ! ac) - 1)) @
     u16_to_le_bytes (WMM_EDCA_TXOP ! ac)"

text \<open>Background comes first: the hardware order of the queues is BK, BE, VI, VO.\<close>

definition edca_payload :: "u8 list" where
  "edca_payload = [4, 0, 0, 0] @ edca_entry 1 @ edca_entry 0 @ edca_entry 2 @ edca_entry 3"

lemma build_edca_set_cmd_eq:
  "build_edca_set_cmd prof seq =
     build_fw_txd_frame prof EXT_CID P1_Q0 CMD_SET EXT_CMD_EDCA_SET seq True
       FW_TXD_FULL_SIZE edca_payload"
  by (rule ext) (simp add: build_edca_set_cmd_def edca_payload_def edca_entry_def cell_simps
      replicate_cells upt_conv_Cons wmm_tables load_def u16_to_le_bytes_def)

section \<open>Firmware image\<close>

definition fw_dl_len :: "profile \<Rightarrow> u8 list \<Rightarrow> u32 option option" where
  "fw_dl_len prof fw_buf =
     (if length fw_buf < 4 then Some None
      else case slice fw_buf (length fw_buf - 4) (length fw_buf) of
        None \<Rightarrow> Some None
      | Some tail \<Rightarrow> do {
          t0 \<leftarrow> load tail 0;
          t1 \<leftarrow> load tail 1;
          t2 \<leftarrow> load tail 2;
          t3 \<leftarrow> load tail 3;
          let n = u32_from_le_bytes t0 t1 t2 t3;
          if prof = Dev \<and> unat n + 4 \<ge> 2 ^ 32 then None else Some (Some (n + 4))
        })"

definition verify_firmware :: "u8 list \<Rightarrow> unit rresult option" where
  "verify_firmware fw_buf =
     (if length fw_buf < 1024 then Some (Err EINVAL)
      else do {
        b0 \<leftarrow> load fw_buf 0;
        b1 \<leftarrow> load fw_buf 1;
        b2 \<leftarrow> load fw_buf 2;
        b3 \<leftarrow> load fw_buf 3;
        if b0 \<noteq> 0x46 \<or> b1 \<noteq> 0x00 \<or> b2 \<noteq> 0x01 \<or> b3 \<noteq> 0x00 then Some (Err EINVAL)
        else Some (Ok ())
      })"

section \<open>Contracts of the commands\<close>

interpretation addr_len: slice_writer "build_addr_len_req prof address dl_len seq" True
    "fw_txd_block MT_TARGET_ADDRESS_LEN_REQ P1_Q0 CMD_NA EXT_CMD_NA seq True FW_TXD_HDR_SIZE
       (u32_to_le_bytes address @ u32_to_le_bytes dl_len @
        u32_to_le_bytes TARGET_ADDR_LEN_NEED_RSP)"
  for prof address dl_len seq
  unfolding build_addr_len_req_eq by (rule short_frame.slice_writer_axioms)

interpretation fw_start: slice_writer "build_fw_start_req prof override address seq" True
    "fw_txd_block MT_FW_START_REQ P1_Q0 CMD_NA EXT_CMD_NA seq True FW_TXD_HDR_SIZE
       (u32_to_le_bytes override @ u32_to_le_bytes address)"
  for prof override address seq
  unfolding build_fw_start_req_eq by (rule short_frame.slice_writer_axioms)

interpretation restart_dl: slice_writer "build_restart_dl_req prof seq" True
    "fw_txd_block MT_RESTART_DL_REQ P1_Q0 CMD_NA EXT_CMD_NA seq True FW_TXD_HDR_SIZE []"
  for prof seq
  unfolding build_restart_dl_req_def by (rule short_frame.slice_writer_axioms)

interpretation scatter: slice_writer "build_fw_scatter_frame prof chunk"
    "length chunk \<le> FW_SCATTER_MAX_PAYLOAD"
    "fw_txd_block MT_FW_SCATTER FW_SCATTER_PQ_ID CMD_NA EXT_CMD_NA 0 False FW_TXD_HDR_SIZE chunk"
  for prof chunk
  by unfold_locales (auto simp: build_fw_scatter_frame_def short_frame.build_cases)

interpretation channel_switch: slice_writer
    "build_channel_switch_cmd prof ctrl_ch central_ch bw tx_streams rx_streams seq" True
    "fw_txd_block EXT_CID P1_Q0 CMD_SET EXT_CMD_CHANNEL_SWITCH seq True FW_TXD_FULL_SIZE
       ([ctrl_ch, central_ch, bw, tx_streams, rx_streams] @ replicate 7 0 @ replicate 21 0xFF @
        replicate 3 0)"
  for prof ctrl_ch central_ch bw tx_streams rx_streams seq
  unfolding build_channel_switch_cmd_eq by (rule full_frame.slice_writer_axioms)

interpretation tx_power: slice_writer "build_tx_power_ctrl_cmd prof eeprom central_ch seq" True
    "fw_txd_block EXT_CID P1_Q0 CMD_SET EXT_CMD_SET_TX_POWER_CTRL seq True FW_TXD_FULL_SIZE
       (tx_power_payload eeprom central_ch)"
  for prof eeprom central_ch seq
  unfolding build_tx_power_ctrl_cmd_eq by (rule full_frame.slice_writer_axioms)

interpretation efuse: slice_writer "build_efuse_buffer_mode_cmd prof eeprom seq" True
    "fw_txd_block EXT_CID P1_Q0 CMD_SET EXT_CMD_EFUSE_BUFFER_MODE seq True FW_TXD_FULL_SIZE
       (replicate 964 0)"
  for prof eeprom seq
  unfolding build_efuse_buffer_mode_cmd_eq by (rule full_frame.slice_writer_axioms)

interpretation ch_privilege: slice_writer "build_ch_privilege_cmd prof channel seq" True
    "fw_txd_block CMD_CH_PRIVILEGE P1_Q0 CMD_SET EXT_CMD_NA seq False FW_TXD_FULL_SIZE
       ([0, 0, 0, channel] @ replicate 12 0)"
  for prof channel seq
  unfolding build_ch_privilege_cmd_eq by (rule full_frame.slice_writer_axioms)

interpretation radio: slice_writer "build_radio_on_off_cmd prof on seq" True
    "fw_txd_block EXT_CID P1_Q0 CMD_SET EXT_CMD_RADIO_ON_OFF_CTRL seq True FW_TXD_FULL_SIZE
       [if on then 1 else 2, 0, 0, 0]"
  for prof on seq
  unfolding build_radio_on_off_cmd_eq by (rule full_frame.slice_writer_axioms)

interpretation edca: slice_writer "build_edca_set_cmd prof seq" True
    "fw_txd_block EXT_CID P1_Q0 CMD_SET EXT_CMD_EDCA_SET seq True FW_TXD_FULL_SIZE edca_payload"
  for prof seq
  unfolding build_edca_set_cmd_eq by (rule full_frame.slice_writer_axioms)

section \<open>Properties\<close>

text \<open>The receiver's view of a frame with a header of \<open>h\<close> bytes.\<close>

record fw_txd =
  txd_len :: nat
  txd_pq :: u16
  txd_cid :: u8
  txd_pkt :: u8
  txd_set_query :: u8
  txd_seq :: u8
  txd_ext_cid :: u8
  txd_ack :: bool
  txd_payload :: "u8 list"

definition decode_fw_txd :: "nat \<Rightarrow> u8 list \<Rightarrow> fw_txd" where
  "decode_fw_txd h f =
     \<lparr> txd_len = unat (u16_from_le_bytes (f ! 0) (f ! 1)), txd_pq = u16_from_le_bytes (f ! 2) (f ! 3),
       txd_cid = f ! 4, txd_pkt = f ! 5, txd_set_query = f ! 6, txd_seq = f ! 7,
       txd_ext_cid = f ! 9, txd_ack = (f ! 11 = 1), txd_payload = drop h f \<rparr>"

lemma decode_fw_txd_block:
  assumes "h = 12 \<or> h = 32" "length payload + h < 2 ^ 16"
  shows "decode_fw_txd h (fw_txd_block cid pq sq ext seq rsp h payload) =
    \<lparr> txd_len = length payload + h, txd_pq = pq, txd_cid = cid, txd_pkt = PKT_ID_CMD,
      txd_set_query = sq, txd_seq = seq, txd_ext_cid = ext,
      txd_ack = fw_txd_needs_ack cid sq seq rsp, txd_payload = payload \<rparr>"
proof -
  have "unat (word_of_nat (length payload + h) :: u16) = length payload + h"
    using assms(2) by (simp add: unat_of_nat del: of_nat_add)
  then show ?thesis
    using assms(1) by (auto simp: decode_fw_txd_def fw_txd_block_def u16_to_le_bytes_def bytes_simps)
qed

text \<open>C20: with either header size and in both build profiles the frame builder never panics; it
  answers -ENOSPC and leaves the slice alone when header and payload do not fit and otherwise
  writes exactly the reference frame, including the twenty zeroed reserved bytes of the long
  header.\<close>

theorem build_fw_txd_frame_refines:
  "build_fw_txd_frame prof cid pq sq ext seq rsp
     (if running then FW_TXD_FULL_SIZE else FW_TXD_HDR_SIZE) payload out =
   write_block (fw_txd_block cid pq sq ext seq rsp
     (if running then FW_TXD_FULL_SIZE else FW_TXD_HDR_SIZE) payload) out"
  using short_frame.refines full_frame.refines by (cases running) simp_all

text \<open>A receiver that knows the header size reads back from an accepted frame the exact
  length, queue, command, sequence number and payload, and sees the acknowledge option exactly
  for extended set or query commands that ask for a response under a non-zero sequence
  number.\<close>

theorem fw_txd_roundtrip:
  assumes "build_fw_txd_frame prof cid pq sq ext seq rsp h payload out = Some (Ok n, out')"
    and "h = FW_TXD_HDR_SIZE \<or> h = FW_TXD_FULL_SIZE" and "length payload + h < 2 ^ 16"
  shows "decode_fw_txd h (take n out') =
    \<lparr> txd_len = n, txd_pq = pq, txd_cid = cid, txd_pkt = PKT_ID_CMD, txd_set_query = sq,
      txd_seq = seq, txd_ext_cid = ext,
      txd_ack = (cid = EXT_CID \<and> (sq = CMD_SET \<or> sq = CMD_QUERY) \<and> rsp \<and> seq \<noteq> 0),
      txd_payload = payload \<rparr>"
proof -
  have "take n out' = fw_txd_block cid pq sq ext seq rsp h payload" "n = length payload + h"
    using assms(1,2) short_frame.ok_iff full_frame.ok_iff by (auto simp: length_fw_txd_block)
  then show ?thesis
    using decode_fw_txd_block [OF assms(2,3)] by (auto simp: fw_txd_needs_ack_def)
qed

theorem fw_txd_roundtrip_witness:
  "decode_fw_txd 12 (fw_txd_block 0xEE 0xC000 3 0 0 False 12 [1, 2, 3]) =
    \<lparr> txd_len = 15, txd_pq = 0xC000, txd_cid = 0xEE, txd_pkt = 0xA0, txd_set_query = 3,
      txd_seq = 0, txd_ext_cid = 0, txd_ack = False, txd_payload = [1, 2, 3] \<rparr>"
  using fw_txd_roundtrip [of Dev "0xEE" "0xC000" 3 0 0 False 12 "[1, 2, 3]" "replicate 15 7" 15
      "fw_txd_block 0xEE 0xC000 3 0 0 False 12 [1, 2, 3]"]
  by (simp add: build_fw_txd_frame_fits length_fw_txd_block)

text \<open>A firmware chunk is sent exactly when it has at most 4064 bytes and the frame fits; a
  longer chunk is rejected with -EINVAL before the slice is touched, and an accepted frame
  together with the USB end padding stays within one upload unit, with the whole chunk as its
  payload.\<close>

theorem fw_scatter_chunk:
  "build_fw_scatter_frame prof chunk out =
     (if length chunk > FW_SCATTER_MAX_PAYLOAD then Some (Err EINVAL, out)
      else write_block (fw_txd_block MT_FW_SCATTER FW_SCATTER_PQ_ID CMD_NA EXT_CMD_NA 0 False
             FW_TXD_HDR_SIZE chunk) out) \<and>
   (length chunk \<le> FW_SCATTER_MAX_PAYLOAD \<longrightarrow>
      length chunk + FW_TXD_HDR_SIZE + USB_END_PADDING \<le> MT_UPLOAD_FW_UNIT \<and>
      decode_fw_txd FW_TXD_HDR_SIZE (fw_txd_block MT_FW_SCATTER FW_SCATTER_PQ_ID CMD_NA
        EXT_CMD_NA 0 False FW_TXD_HDR_SIZE chunk) =
      \<lparr> txd_len = length chunk + FW_TXD_HDR_SIZE, txd_pq = FW_SCATTER_PQ_ID,
        txd_cid = MT_FW_SCATTER, txd_pkt = PKT_ID_CMD, txd_set_query = CMD_NA, txd_seq = 0,
        txd_ext_cid = EXT_CMD_NA, txd_ack = False, txd_payload = chunk \<rparr>)"
  using scatter.rejects scatter.refines decode_fw_txd_block [of 12 chunk]
  by (simp add: not_less fw_txd_needs_ack_def)

theorem fw_scatter_chunk_witness:
  "txd_payload (decode_fw_txd 12 (fw_txd_block 0xEE 0xC000 3 0 0 False 12 [9, 8])) = [9, 8]"
  using fw_scatter_chunk [of Release "[9, 8]" "[]"] by simp

text \<open>the three need-wait commands of the download phase use the short header, ask for no
  extended acknowledge whatever their sequence number, and carry their arguments little-endian
  in the order the boot ROM expects.\<close>

theorem download_commands:
  "build_addr_len_req prof address dl_len seq out =
     write_block (fw_txd_block 0x01 0x8000 3 0 seq False 12
       (u32_to_le_bytes address @ u32_to_le_bytes dl_len @ u32_to_le_bytes 0x80000000)) out \<and>
   build_fw_start_req prof override address seq out =
     write_block (fw_txd_block 0x02 0x8000 3 0 seq False 12
       (u32_to_le_bytes override @ u32_to_le_bytes address)) out \<and>
   build_restart_dl_req prof seq out = write_block (fw_txd_block 0xEF 0x8000 3 0 seq False 12 []) out"
  unfolding addr_len.refines [OF TrueI] fw_start.refines [OF TrueI] restart_dl.refines [OF TrueI]
  by (simp add: fw_txd_block_def fw_txd_needs_ack_def)

text \<open>The transmit-power command carries 44 bytes: the channel, 42 EEPROM bytes at the
  documented offsets in the documented order (with the two bytes of NIC\_CONFIGURE\_1 swapped and
  0xFF for every byte the image does not have), and a zero byte.\<close>

theorem tx_power_ctrl_refines:
  "build_tx_power_ctrl_cmd prof eeprom central_ch seq out =
     write_block (fw_txd_block EXT_CID P1_Q0 CMD_SET EXT_CMD_SET_TX_POWER_CTRL seq True
       FW_TXD_FULL_SIZE (tx_power_payload eeprom central_ch)) out \<and>
   length (tx_power_payload eeprom central_ch) = 44"
  using tx_power.refines by (simp add: tx_power_payload_def)

text \<open>The EDCA command carries one record per access category at the position of its
  hardware queue; the queue table is a permutation, and each record holds the category's AIFS,
  its contention windows (one less than a power of two, minimum not above maximum) and TXOP.\<close>

theorem edca_set_entries:
  "build_edca_set_cmd prof seq out =
     write_block (fw_txd_block EXT_CID P1_Q0 CMD_SET EXT_CMD_EDCA_SET seq True FW_TXD_FULL_SIZE
       edca_payload) out \<and>
   length edca_payload = 36 \<and> distinct WMM_ACI_TO_HW_QUEUE \<and> set WMM_ACI_TO_HW_QUEUE = {0, 1, 2, 3} \<and>
   list_all (\<lambda>ac. take 8 (drop (4 + 8 * WMM_ACI_TO_HW_QUEUE ! ac) edca_payload) = edca_entry ac \<and>
     unat (WMM_EDCA_CWMIN ! ac) \<le> unat (WMM_EDCA_CWMAX ! ac) \<and>
     unat (edca_entry ac ! 3) = 2 ^ unat (WMM_EDCA_CWMIN ! ac) - 1 \<and>
     unat (u16_from_le_bytes (edca_entry ac ! 4) (edca_entry ac ! 5)) =
       2 ^ unat (WMM_EDCA_CWMAX ! ac) - 1) [0..<4]"
  by (rule conjI, rule edca.refines, simp)
    (auto simp: edca_payload_def edca_entry_def wmm_tables upt_conv_Cons u16_to_le_bytes_def
      u16_from_le_bytes_def)

text \<open>an image is accepted exactly when it has at least 1024 bytes and starts with the four
  signature bytes; every other byte string is answered with -EINVAL and none makes the check
  panic.\<close>

theorem verify_firmware_spec:
  "verify_firmware fw =
     Some (if 1024 \<le> length fw \<and> take 4 fw = [0x46, 0x00, 0x01, 0x00] then Ok () else Err EINVAL)"
proof (cases "1024 \<le> length fw")
  case True
  then have "4 \<le> length fw" by simp
  then obtain a b c d r where "fw = a # b # c # d # r"
    by (auto simp: numeral_eq_Suc Suc_le_length_iff)
  with True show ?thesis by (simp add: verify_firmware_def load_def)
qed (simp add: verify_firmware_def)

text \<open>The download length is the little-endian word in the last four bytes plus four. When
  the sum does not fit 32 bits, a debug build panics and a release build returns the sum modulo
  2 to the 32nd power, a length below four.\<close>

theorem fw_dl_len_value:
  "fw_dl_len prof (body @ u32_to_le_bytes n) =
     (if unat n + 4 < 2 ^ 32 then Some (Some (word_of_nat (unat n + 4)))
      else if prof = Dev then None
      else Some (Some (word_of_nat (unat n + 4 - 2 ^ 32))))"
proof -
  have "word_of_nat (2 ^ 32) = (0 :: u32)" by simp
  then have "word_of_nat (unat n + 4 - 2 ^ 32) = n + 4" if "\<not> unat n + 4 < 2 ^ 32"
    using that by (subst of_nat_diff) (simp_all add: not_less)
  moreover have "word_of_nat (unat n + 4) = n + 4" by simp
  moreover have "fw_dl_len prof (body @ u32_to_le_bytes n) =
      (if prof = Dev \<and> unat n + 4 \<ge> 2 ^ 32 then None else Some (Some (n + 4)))"
    by (simp add: fw_dl_len_def slice_def load_def u32_to_le_bytes_def bytes_simps)
  ultimately show ?thesis by (simp only: not_less split: if_split) simp
qed

end
