(* ===== verification/Lib.thy ===== *)
theory Lib
  imports Regmap Eeprom Rx Tx Ap Mac Mcu
begin

text \<open>
  src/src/rust/src/lib.rs: the C ABI. A pointer is an \<open>option\<close>, \<^term>\<open>None\<close> the null pointer;
  a pointer to an array carries the cells that are valid behind it, and \<open>from_raw_parts\<close> with a
  length beyond them is the undefined behaviour the caller has to exclude. Every call returns
  its status code together with the memory behind each output pointer. The buffers of one call
  do not overlap, which the \<open>unsafe\<close> contracts of the source require.
\<close>

section \<open>Raw slices\<close>

definition from_raw_parts :: "'a list \<Rightarrow> nat \<Rightarrow> 'a list option" where
  "from_raw_parts region len = (if len \<le> length region then Some (take len region) else None)"

lemma from_raw_parts_eq: "len \<le> length region \<Longrightarrow> from_raw_parts region len = Some (take len region)"
  by (simp add: from_raw_parts_def)

text \<open>
  The common tail of the builder entry points, once their pointers are known not to be null:
  view the buffer as a slice, run the builder, store the count or pass the error on.
\<close>

definition ffi_write ::
  "('a list \<Rightarrow> (nat rresult \<times> 'a list) option) \<Rightarrow> 'a list \<Rightarrow> nat \<Rightarrow> nat
   \<Rightarrow> (int \<times> 'a list option \<times> nat option) option" where
  "ffi_write build region max_len count = do {
     s \<leftarrow> from_raw_parts region max_len;
     (r, s') \<leftarrow> build s;
     let region' = s' @ drop max_len region;
     Some (case r of
         Ok n \<Rightarrow> (0, Some region', Some n)
       | Err e \<Rightarrow> (e, Some region', Some count))
   }"

text \<open>The common tail of the parser entry points.\<close>

definition ffi_read :: "'r rresult option \<Rightarrow> 'r \<Rightarrow> (int \<times> 'r option) option" where
  "ffi_read parsed old = do {
     r \<leftarrow> parsed;
     Some (case r of Ok v \<Rightarrow> (0, Some v) | Err e \<Rightarrow> (e, Some old))
   }"

text \<open>\<open>if ssid.is_null() || ssid_len == 0 { &[] } else { from_raw_parts(ssid, ssid_len) }\<close>\<close>

definition ssid_slice :: "u8 list option \<Rightarrow> nat \<Rightarrow> u8 list option" where
  "ssid_slice ssid len =
     (case ssid of
        None \<Rightarrow> Some []
      | Some region \<Rightarrow> if len = 0 then Some [] else from_raw_parts region len)"

text \<open>A pointer read as \<open>[u8; 6]\<close>.\<close>

definition mac_at :: "u8 list \<Rightarrow> mac6 option" where
  "mac_at region = do { s \<leftarrow> from_raw_parts region 6; mac6_of_slice s }"

section \<open>Parsers and checks\<close>

definition mt7603_rust_map_register_addr :: "u32 \<Rightarrow> u32" where
  "mt7603_rust_map_register_addr a = physical_addr_map a"

definition mt7603_rust_parse_eeprom ::
  "u8 list option \<Rightarrow> nat \<Rightarrow> EepromData option \<Rightarrow> (int \<times> EepromData option) option" where
  "mt7603_rust_parse_eeprom buf len out =
     (case (buf, out) of
        (Some region, Some old) \<Rightarrow> do {
          s \<leftarrow> from_raw_parts region len;
          ffi_read (parse_eeprom s) old
        }
      | _ \<Rightarrow> Some (EINVAL, out))"

definition mt7603_rust_parse_rx_frame ::
  "u8 list option \<Rightarrow> nat \<Rightarrow> i8 \<Rightarrow> RxInfo option \<Rightarrow> (int \<times> RxInfo option) option" where
  "mt7603_rust_parse_rx_frame data len rssi_offset out =
     (case (data, out) of
        (Some region, Some old) \<Rightarrow> do {
          s \<leftarrow> from_raw_parts region len;
          ffi_read (parse_rx_frame s rssi_offset) old
        }
      | _ \<Rightarrow> Some (EINVAL, out))"

definition mt7603_rust_parse_beacon ::
  "u8 list option \<Rightarrow> nat \<Rightarrow> StaBssInfo option \<Rightarrow> (int \<times> StaBssInfo option) option" where
  "mt7603_rust_parse_beacon frame_buf frame_len out_info =
     (case (frame_buf, out_info) of
        (Some region, Some old) \<Rightarrow> do {
          s \<leftarrow> from_raw_parts region frame_len;
          ffi_read (parse_beacon s) old
        }
      | _ \<Rightarrow> Some (EINVAL, out_info))"

definition mt7603_rust_parse_assoc_req ::
  "u8 list option \<Rightarrow> nat \<Rightarrow> u8 list option \<Rightarrow> u16 option \<Rightarrow> u16 option
   \<Rightarrow> (int \<times> u8 list option \<times> u16 option \<times> u16 option) option" where
  "mt7603_rust_parse_assoc_req frame_buf frame_len out_sta_mac out_cap out_listen =
     (case (frame_buf, out_sta_mac, out_cap, out_listen) of
        (Some region, Some mac_region, Some _, Some _) \<Rightarrow> do {
          s \<leftarrow> from_raw_parts region frame_len;
          r \<leftarrow> parse_assoc_req s;
          (case r of
             Ok (sta_mac, cap, listen) \<Rightarrow> do {
               mac_region \<leftarrow> copy_from_slice mac_region 0 6 (mac_bytes sta_mac);
               Some (0, Some mac_region, Some cap, Some listen)
             }
           | Err e \<Rightarrow> Some (e, out_sta_mac, out_cap, out_listen))
        }
      | _ \<Rightarrow> Some (EINVAL, out_sta_mac, out_cap, out_listen))"

definition mt7603_rust_fw_dl_len ::
  "profile \<Rightarrow> u8 list option \<Rightarrow> nat \<Rightarrow> u32 option \<Rightarrow> (int \<times> u32 option) option" where
  "mt7603_rust_fw_dl_len prof fw_buf fw_len out =
     (case (fw_buf, out) of
        (Some region, Some _) \<Rightarrow> do {
          s \<leftarrow> from_raw_parts region fw_len;
          r \<leftarrow> fw_dl_len prof s;
          Some (case r of Some n \<Rightarrow> (0, Some n) | None \<Rightarrow> (EINVAL, out))
        }
      | _ \<Rightarrow> Some (EINVAL, out))"

definition mt7603_rust_verify_firmware :: "u8 list option \<Rightarrow> nat \<Rightarrow> int option" where
  "mt7603_rust_verify_firmware fw_buf fw_len =
     (case fw_buf of
        None \<Rightarrow> Some EINVAL
      | Some region \<Rightarrow> do {
          s \<leftarrow> from_raw_parts region fw_len;
          r \<leftarrow> verify_firmware s;
          Some (case r of Ok _ \<Rightarrow> 0 | Err e \<Rightarrow> e)
        })"

text \<open>The descriptor builder has no count to report.\<close>

definition mt7603_rust_build_txwi ::
  "TxParams option \<Rightarrow> u8 list option \<Rightarrow> nat \<Rightarrow> (int \<times> u8 list option) option" where
  "mt7603_rust_build_txwi params txwi_buf txwi_len =
     (case (params, txwi_buf) of
        (Some p, Some region) \<Rightarrow> do {
          s \<leftarrow> from_raw_parts region txwi_len;
          (r, s') \<leftarrow> build_txwi p s;
          Some (case r of Ok _ \<Rightarrow> 0 | Err e \<Rightarrow> e, Some (s' @ drop txwi_len region))
        }
      | _ \<Rightarrow> Some (EINVAL, txwi_buf))"

section \<open>Register sequences\<close>

definition mt7603_rust_get_mac_init_sequence ::
  "RegWriteOp list option \<Rightarrow> nat \<Rightarrow> nat option
   \<Rightarrow> (int \<times> RegWriteOp list option \<times> nat option) option" where
  "mt7603_rust_get_mac_init_sequence ops_buf max_ops out_count =
     (case (ops_buf, out_count) of
        (Some region, Some count) \<Rightarrow> ffi_write build_mac_init_sequence region max_ops count
      | _ \<Rightarrow> Some (EINVAL, ops_buf, out_count))"

definition mt7603_rust_get_channel_sequence ::
  "u8 \<Rightarrow> u8 \<Rightarrow> RegWriteOp list option \<Rightarrow> nat \<Rightarrow> nat option
   \<Rightarrow> (int \<times> RegWriteOp list option \<times> nat option) option" where
  "mt7603_rust_get_channel_sequence channel bw' ops_buf max_ops out_count =
     (case (ops_buf, out_count) of
        (Some region, Some count) \<Rightarrow> ffi_write (build_channel_sequence channel bw') region max_ops count
      | _ \<Rightarrow> Some (EINVAL, ops_buf, out_count))"

definition mt7603_rust_build_own_mac_sequence ::
  "u8 list option \<Rightarrow> RegWriteOp list option \<Rightarrow> nat \<Rightarrow> nat option
   \<Rightarrow> (int \<times> RegWriteOp list option \<times> nat option) option" where
  "mt7603_rust_build_own_mac_sequence mac ops_buf max_ops out_count =
     (case (mac, ops_buf, out_count) of
        (Some mac_region, Some region, Some count) \<Rightarrow> do {
          mac_arr \<leftarrow> mac_at mac_region;
          ffi_write (build_own_mac_sequence mac_arr) region max_ops count
        }
      | _ \<Rightarrow> Some (EINVAL, ops_buf, out_count))"

definition mt7603_rust_build_wtbl_sta_sequence ::
  "u8 list option \<Rightarrow> RegWriteOp list option \<Rightarrow> nat \<Rightarrow> nat option
   \<Rightarrow> (int \<times> RegWriteOp list option \<times> nat option) option" where
  "mt7603_rust_build_wtbl_sta_sequence bssid ops_buf max_ops out_count =
     (case (bssid, ops_buf, out_count) of
        (Some mac_region, Some region, Some count) \<Rightarrow> do {
          bssid_arr \<leftarrow> mac_at mac_region;
          ffi_write (build_wtbl_sta_sequence bssid_arr) region max_ops count
        }
      | _ \<Rightarrow> Some (EINVAL, ops_buf, out_count))"

definition mt7603_rust_build_ap_bss_sync_sequence ::
  "u16 \<Rightarrow> bool \<Rightarrow> RegWriteOp list option \<Rightarrow> nat \<Rightarrow> nat option
   \<Rightarrow> (int \<times> RegWriteOp list option \<times> nat option) option" where
  "mt7603_rust_build_ap_bss_sync_sequence beacon_period enable ops_buf max_ops out_count =
     (case (ops_buf, out_count) of
        (Some region, Some count) \<Rightarrow> ffi_write (build_ap_bss_sync_sequence beacon_period enable) region max_ops count
      | _ \<Rightarrow> Some (EINVAL, ops_buf, out_count))"

definition mt7603_rust_build_rx_filter_sequence ::
  "bool \<Rightarrow> bool \<Rightarrow> RegWriteOp list option \<Rightarrow> nat \<Rightarrow> nat option
   \<Rightarrow> (int \<times> RegWriteOp list option \<times> nat option) option" where
  "mt7603_rust_build_rx_filter_sequence promisc fcs_fail ops_buf max_ops out_count =
     (case (ops_buf, out_count) of
        (Some region, Some count) \<Rightarrow> ffi_write (build_rx_filter_sequence promisc fcs_fail) region max_ops count
      | _ \<Rightarrow> Some (EINVAL, ops_buf, out_count))"

definition mt7603_rust_build_ba_session_sequence ::
  "u8 \<Rightarrow> u8 \<Rightarrow> u8 \<Rightarrow> bool \<Rightarrow> u32 \<Rightarrow> RegWriteOp list option \<Rightarrow> nat \<Rightarrow> nat option
   \<Rightarrow> (int \<times> RegWriteOp list option \<times> nat option) option" where
  "mt7603_rust_build_ba_session_sequence wcid tid ba_size enable prev_dw15 ops_buf max_ops out_count =
     (case (ops_buf, out_count) of
        (Some region, Some count) \<Rightarrow> ffi_write (build_ba_session_sequence wcid tid ba_size enable prev_dw15) region max_ops count
      | _ \<Rightarrow> Some (EINVAL, ops_buf, out_count))"

section \<open>Frames\<close>

definition mt7603_rust_build_addr_len_req ::
  "profile \<Rightarrow> u32 \<Rightarrow> u32 \<Rightarrow> u8 \<Rightarrow> u8 list option \<Rightarrow> nat \<Rightarrow> nat option
   \<Rightarrow> (int \<times> u8 list option \<times> nat option) option" where
  "mt7603_rust_build_addr_len_req prof address dl_len seq out_buf max_out_len out_written =
     (case (out_buf, out_written) of
        (Some region, Some count) \<Rightarrow> ffi_write (build_addr_len_req prof address dl_len seq) region max_out_len count
      | _ \<Rightarrow> Some (EINVAL, out_buf, out_written))"

definition mt7603_rust_build_fw_start_req ::
  "profile \<Rightarrow> u32 \<Rightarrow> u32 \<Rightarrow> u8 \<Rightarrow> u8 list option \<Rightarrow> nat \<Rightarrow> nat option
   \<Rightarrow> (int \<times> u8 list option \<times> nat option) option" where
  "mt7603_rust_build_fw_start_req prof override_flag address seq out_buf max_out_len out_written =
     (case (out_buf, out_written) of
        (Some region, Some count) \<Rightarrow> ffi_write (build_fw_start_req prof override_flag address seq) region max_out_len count
      | _ \<Rightarrow> Some (EINVAL, out_buf, out_written))"

definition mt7603_rust_build_restart_dl_req ::
  "profile \<Rightarrow> u8 \<Rightarrow> u8 list option \<Rightarrow> nat \<Rightarrow> nat option
   \<Rightarrow> (int \<times> u8 list option \<times> nat option) option" where
  "mt7603_rust_build_restart_dl_req prof seq out_buf max_out_len out_written =
     (case (out_buf, out_written) of
        (Some region, Some count) \<Rightarrow> ffi_write (build_restart_dl_req prof seq) region max_out_len count
      | _ \<Rightarrow> Some (EINVAL, out_buf, out_written))"

definition mt7603_rust_build_chan_switch_cmd ::
  "profile \<Rightarrow> u8 \<Rightarrow> u8 \<Rightarrow> u8 \<Rightarrow> u8 \<Rightarrow> u8 \<Rightarrow> u8 \<Rightarrow> u8 list option \<Rightarrow> nat \<Rightarrow> nat option
   \<Rightarrow> (int \<times> u8 list option \<times> nat option) option" where
  "mt7603_rust_build_chan_switch_cmd prof ctrl_ch central_ch bw' tx_streams rx_streams seq out_buf max_out_len out_written =
     (case (out_buf, out_written) of
        (Some region, Some count) \<Rightarrow> ffi_write (build_channel_switch_cmd prof ctrl_ch central_ch bw' tx_streams rx_streams seq) region max_out_len count
      | _ \<Rightarrow> Some (EINVAL, out_buf, out_written))"

definition mt7603_rust_build_radio_on_off_cmd ::
  "profile \<Rightarrow> bool \<Rightarrow> u8 \<Rightarrow> u8 list option \<Rightarrow> nat \<Rightarrow> nat option
   \<Rightarrow> (int \<times> u8 list option \<times> nat option) option" where
  "mt7603_rust_build_radio_on_off_cmd prof on seq out_buf max_out_len out_written =
     (case (out_buf, out_written) of
        (Some region, Some count) \<Rightarrow> ffi_write (build_radio_on_off_cmd prof on seq) region max_out_len count
      | _ \<Rightarrow> Some (EINVAL, out_buf, out_written))"

definition mt7603_rust_build_edca_set_cmd ::
  "profile \<Rightarrow> u8 \<Rightarrow> u8 list option \<Rightarrow> nat \<Rightarrow> nat option
   \<Rightarrow> (int \<times> u8 list option \<times> nat option) option" where
  "mt7603_rust_build_edca_set_cmd prof seq out_buf max_out_len out_written =
     (case (out_buf, out_written) of
        (Some region, Some count) \<Rightarrow> ffi_write (build_edca_set_cmd prof seq) region max_out_len count
      | _ \<Rightarrow> Some (EINVAL, out_buf, out_written))"

definition mt7603_rust_build_ch_privilege_cmd ::
  "profile \<Rightarrow> u8 \<Rightarrow> u8 \<Rightarrow> u8 list option \<Rightarrow> nat \<Rightarrow> nat option
   \<Rightarrow> (int \<times> u8 list option \<times> nat option) option" where
  "mt7603_rust_build_ch_privilege_cmd prof channel seq out_buf max_out_len out_written =
     (case (out_buf, out_written) of
        (Some region, Some count) \<Rightarrow> ffi_write (build_ch_privilege_cmd prof channel seq) region max_out_len count
      | _ \<Rightarrow> Some (EINVAL, out_buf, out_written))"

definition mt7603_rust_build_fw_scatter_frame ::
  "profile \<Rightarrow> u8 list option \<Rightarrow> nat \<Rightarrow> u8 list option \<Rightarrow> nat \<Rightarrow> nat option
   \<Rightarrow> (int \<times> u8 list option \<times> nat option) option" where
  "mt7603_rust_build_fw_scatter_frame prof chunk chunk_len out_buf max_out_len out_written =
     (case (chunk, out_buf, out_written) of
        (Some src_region, Some region, Some count) \<Rightarrow> do {
          src \<leftarrow> from_raw_parts src_region chunk_len;
          ffi_write (build_fw_scatter_frame prof src) region max_out_len count
        }
      | _ \<Rightarrow> Some (EINVAL, out_buf, out_written))"

definition mt7603_rust_build_tx_power_ctrl_cmd ::
  "profile \<Rightarrow> u8 list option \<Rightarrow> nat \<Rightarrow> u8 \<Rightarrow> u8 \<Rightarrow> u8 list option \<Rightarrow> nat \<Rightarrow> nat option
   \<Rightarrow> (int \<times> u8 list option \<times> nat option) option" where
  "mt7603_rust_build_tx_power_ctrl_cmd prof eeprom eeprom_len central_ch seq out_buf max_out_len out_written =
     (case (eeprom, out_buf, out_written) of
        (Some src_region, Some region, Some count) \<Rightarrow> do {
          src \<leftarrow> from_raw_parts src_region eeprom_len;
          ffi_write (build_tx_power_ctrl_cmd prof src central_ch seq) region max_out_len count
        }
      | _ \<Rightarrow> Some (EINVAL, out_buf, out_written))"

definition mt7603_rust_build_efuse_buffer_mode_cmd ::
  "profile \<Rightarrow> u8 list option \<Rightarrow> nat \<Rightarrow> u8 \<Rightarrow> u8 list option \<Rightarrow> nat \<Rightarrow> nat option
   \<Rightarrow> (int \<times> u8 list option \<times> nat option) option" where
  "mt7603_rust_build_efuse_buffer_mode_cmd prof eeprom eeprom_len seq out_buf max_out_len out_written =
     (case (eeprom, out_buf, out_written) of
        (Some src_region, Some region, Some count) \<Rightarrow> do {
          src \<leftarrow> from_raw_parts src_region eeprom_len;
          ffi_write (build_efuse_buffer_mode_cmd prof src seq) region max_out_len count
        }
      | _ \<Rightarrow> Some (EINVAL, out_buf, out_written))"

definition mt7603_rust_build_probe_req ::
  "u8 list option \<Rightarrow> nat \<Rightarrow> u8 list option \<Rightarrow> u8 list option \<Rightarrow> nat \<Rightarrow> nat option
   \<Rightarrow> (int \<times> u8 list option \<times> nat option) option" where
  "mt7603_rust_build_probe_req ssid len src_mac out_buf max_out_len out_written =
     (case (src_mac, out_buf, out_written) of
        (Some mac_region, Some region, Some count) \<Rightarrow> do {
          s \<leftarrow> ssid_slice ssid len;
          mac \<leftarrow> mac_at mac_region;
          ffi_write (build_probe_request s mac) region max_out_len count
        }
      | _ \<Rightarrow> Some (EINVAL, out_buf, out_written))"

definition mt7603_rust_build_beacon ::
  "u8 list option \<Rightarrow> nat \<Rightarrow> u8 list option \<Rightarrow> u8 \<Rightarrow> u8 list option \<Rightarrow> nat \<Rightarrow> nat option
   \<Rightarrow> (int \<times> u8 list option \<times> nat option) option" where
  "mt7603_rust_build_beacon ssid len bssid channel out_buf max_out_len out_written =
     (case (bssid, out_buf, out_written) of
        (Some mac_region, Some region, Some count) \<Rightarrow> do {
          s \<leftarrow> ssid_slice ssid len;
          mac \<leftarrow> mac_at mac_region;
          ffi_write (build_beacon s mac channel) region max_out_len count
        }
      | _ \<Rightarrow> Some (EINVAL, out_buf, out_written))"

definition mt7603_rust_build_assoc_resp ::
  "u8 list option \<Rightarrow> u8 list option \<Rightarrow> u16 \<Rightarrow> u16 \<Rightarrow> u8 list option \<Rightarrow> nat \<Rightarrow> nat option
   \<Rightarrow> (int \<times> u8 list option \<times> nat option) option" where
  "mt7603_rust_build_assoc_resp sta_mac bssid aid status_code out_buf max_out_len out_written =
     (case (sta_mac, bssid, out_buf, out_written) of
        (Some sta_region, Some bssid_region, Some region, Some count) \<Rightarrow> do {
          mac_sta \<leftarrow> mac_at sta_region;
          mac_bssid \<leftarrow> mac_at bssid_region;
          ffi_write (build_assoc_resp mac_sta mac_bssid aid status_code) region max_out_len count
        }
      | _ \<Rightarrow> Some (EINVAL, out_buf, out_written))"

section \<open>Contracts\<close>

text \<open>
  What a builder entry point does to the caller's memory: on success the block is at the front
  of the buffer and its length in the count, on failure both are as before.
\<close>

definition ffi_outcome ::
  "bool \<Rightarrow> 'a list \<Rightarrow> 'a list \<Rightarrow> nat \<Rightarrow> nat \<Rightarrow> int \<times> 'a list option \<times> nat option" where
  "ffi_outcome guard block region max_len count =
     (if \<not> guard then (EINVAL, Some region, Some count)
      else if max_len < length block then (ENOSPC, Some region, Some count)
      else (0, Some (block @ drop (length block) region), Some (length block)))"

context slice_writer
begin

lemma ffi_write_outcome:
  assumes "max_len \<le> length region"
  shows "ffi_write build region max_len count = Some (ffi_outcome guard block region max_len count)"
proof -
  have "drop (length block) (take max_len region) @ drop max_len region = drop (length block) region"
    if "length block \<le> max_len"
    using that assms by (metis append_take_drop_id drop_append diff_is_0_eq' drop0 length_take min.absorb2)
  with assms show ?thesis
    by (auto simp: ffi_write_def from_raw_parts_def build_cases ffi_outcome_def)
qed

end

text \<open>Every register-sequence entry point, called with valid pointers and a buffer of at
  least the stated size, returns without a panic one of the codes 0, -EINVAL and -ENOSPC; on
  success the sequence stands at the front of the buffer and its length in the count, on failure
  neither buffer nor count has changed, and nothing behind the written block ever changes.\<close>

theorem ffi_sequence_outcomes:
  assumes "max_ops \<le> length region" "6 \<le> length mac_region"
    "mac6_of_slice (take 6 mac_region) = Some mac"
  shows
    "mt7603_rust_get_mac_init_sequence (Some region) max_ops (Some c) =
       Some (ffi_outcome True static_seq region max_ops c) \<and>
     mt7603_rust_get_channel_sequence ch bw' (Some region) max_ops (Some c) =
       Some (ffi_outcome (1 \<le> ch \<and> ch \<le> 14) channel_ops region max_ops c) \<and>
     mt7603_rust_build_own_mac_sequence (Some mac_region) (Some region) max_ops (Some c) =
       Some (ffi_outcome True (own_mac_ops mac) region max_ops c) \<and>
     mt7603_rust_build_wtbl_sta_sequence (Some mac_region) (Some region) max_ops (Some c) =
       Some (ffi_outcome True (wtbl_sta_ops mac) region max_ops c) \<and>
     mt7603_rust_build_ap_bss_sync_sequence period enable (Some region) max_ops (Some c) =
       Some (ffi_outcome True (bss_sync_ops period enable) region max_ops c) \<and>
     mt7603_rust_build_rx_filter_sequence promisc fcs_fail (Some region) max_ops (Some c) =
       Some (ffi_outcome True (rx_filter_ops promisc fcs_fail) region max_ops c) \<and>
     mt7603_rust_build_ba_session_sequence wcid tid ba_size enable prev (Some region) max_ops (Some c) =
       Some (ffi_outcome (unat tid < 8) (ba_session_ops wcid tid ba_size enable prev) region max_ops c)"
  using assms(2,3)
  by (simp add: mt7603_rust_get_mac_init_sequence_def mt7603_rust_get_channel_sequence_def
      mt7603_rust_build_own_mac_sequence_def mt7603_rust_build_wtbl_sta_sequence_def
      mt7603_rust_build_ap_bss_sync_sequence_def mt7603_rust_build_rx_filter_sequence_def
      mt7603_rust_build_ba_session_sequence_def mac_at_def from_raw_parts_eq
      mac_init.ffi_write_outcome [OF assms(1)] channel.ffi_write_outcome [OF assms(1)]
      own_mac.ffi_write_outcome [OF assms(1)] wtbl.ffi_write_outcome [OF assms(1)]
      bss_sync.ffi_write_outcome [OF assms(1)] rx_filter.ffi_write_outcome [OF assms(1)]
      ba_session.ffi_write_outcome [OF assms(1)])

theorem ffi_sequence_outcomes_witness:
  "mt7603_rust_build_own_mac_sequence (Some [2, 3, 4, 5, 6, 7]) (Some (replicate 3 (op_write 9 9))) 3 (Some 0)
   = Some (0, Some (own_mac_ops (Mac6 2 3 4 5 6 7) @ [op_write 9 9]), Some 2)"
  using ffi_sequence_outcomes [of 3 "replicate 3 (op_write 9 9)" "[2, 3, 4, 5, 6, 7]" "Mac6 2 3 4 5 6 7"
      0 0 0 0 False False False 0 0 0 0]
  by (simp add: mac6_of_slice_def ffi_outcome_def)

text \<open>C30: every frame-building entry point, in both build profiles and called with valid pointers
  and a buffer of at least the stated size, returns without a panic one of the codes 0, -EINVAL and
  -ENOSPC; on success exactly the reference frame stands at the front of the buffer and its length
  in the count, on failure neither has changed, and nothing behind the frame ever changes. In a probe
  request and in a beacon a null or empty SSID means the empty SSID element. Two of the frames differ
  from a comment: the restart request has 12 bytes, as the download commands of mcu.spec.md do (its
  SPEC-MCU-004b says 32), and the eFuse command carries zeros and not the calibration data that the
  comment on its entry point announces.\<close>

theorem ffi_frame_outcomes:
  assumes "n \<le> length region" "6 \<le> length m1" "mac6_of_slice (take 6 m1) = Some mac"
    "6 \<le> length m2" "mac6_of_slice (take 6 m2) = Some mac'" "len \<le> length src"
  shows
    "mt7603_rust_build_addr_len_req prof a d seq (Some region) n (Some c) =
       Some (ffi_outcome True (fw_txd_block 1 0x8000 3 0 seq True 12
         (u32_to_le_bytes a @ u32_to_le_bytes d @ u32_to_le_bytes 0x80000000)) region n c) \<and>
     mt7603_rust_build_fw_start_req prof ov a seq (Some region) n (Some c) =
       Some (ffi_outcome True (fw_txd_block 2 0x8000 3 0 seq True 12
         (u32_to_le_bytes ov @ u32_to_le_bytes a)) region n c) \<and>
     mt7603_rust_build_restart_dl_req prof seq (Some region) n (Some c) =
       Some (ffi_outcome True (fw_txd_block 0xEF 0x8000 3 0 seq True 12 []) region n c) \<and>
     mt7603_rust_build_fw_scatter_frame prof (Some src) len (Some region) n (Some c) =
       Some (ffi_outcome (len \<le> 4064) (fw_txd_block 0xEE 0xC000 3 0 0 False 12 (take len src)) region n c) \<and>
     mt7603_rust_build_tx_power_ctrl_cmd prof (Some src) len ch seq (Some region) n (Some c) =
       Some (ffi_outcome True (fw_txd_block 0xED 0x8000 1 0x11 seq True 32
         (tx_power_payload (take len src) ch)) region n c) \<and>
     mt7603_rust_build_efuse_buffer_mode_cmd prof (Some src) len seq (Some region) n (Some c) =
       Some (ffi_outcome True (fw_txd_block 0xED 0x8000 1 0x21 seq True 32 (replicate 964 0)) region n c) \<and>
     mt7603_rust_build_chan_switch_cmd prof ch cch bw' txs rxs seq (Some region) n (Some c) =
       Some (ffi_outcome True (fw_txd_block 0xED 0x8000 1 0x08 seq True 32
         ([ch, cch, bw', txs, rxs] @ replicate 7 0 @ replicate 21 0xFF @ replicate 3 0)) region n c) \<and>
     mt7603_rust_build_radio_on_off_cmd prof on seq (Some region) n (Some c) =
       Some (ffi_outcome True (fw_txd_block 0xED 0x8000 1 0x05 seq True 32
         [if on then 1 else 2, 0, 0, 0]) region n c) \<and>
     mt7603_rust_build_ch_privilege_cmd prof ch seq (Some region) n (Some c) =
       Some (ffi_outcome True (fw_txd_block 0x20 0x8000 1 0 seq False 32
         ([0, 0, 0, ch] @ replicate 12 0)) region n c) \<and>
     mt7603_rust_build_edca_set_cmd prof seq (Some region) n (Some c) =
       Some (ffi_outcome True (fw_txd_block 0xED 0x8000 1 0x27 seq True 32 edca_payload) region n c) \<and>
     mt7603_rust_build_probe_req None len (Some m1) (Some region) n (Some c) =
       Some (ffi_outcome True (probe_frame [] mac) region n c) \<and>
     mt7603_rust_build_probe_req (Some src) len (Some m1) (Some region) n (Some c) =
       Some (ffi_outcome True (probe_frame (take len src) mac) region n c) \<and>
     mt7603_rust_build_probe_req (Some src) 0 (Some m1) (Some region) n (Some c) =
       Some (ffi_outcome True (probe_frame [] mac) region n c) \<and>
     mt7603_rust_build_beacon None len (Some m1) ch (Some region) n (Some c) =
       Some (ffi_outcome True (beacon_frame [] mac ch) region n c) \<and>
     mt7603_rust_build_beacon (Some src) 0 (Some m1) ch (Some region) n (Some c) =
       Some (ffi_outcome True (beacon_frame [] mac ch) region n c) \<and>
     mt7603_rust_build_beacon (Some src) len (Some m1) ch (Some region) n (Some c) =
       Some (ffi_outcome True (beacon_frame (take len src) mac ch) region n c) \<and>
     mt7603_rust_build_assoc_resp (Some m1) (Some m2) aid status (Some region) n (Some c) =
       Some (ffi_outcome True (assoc_resp_frame mac mac' aid status) region n c)"
  using assms(2-6)
  by (simp add: mt7603_rust_build_addr_len_req_def mt7603_rust_build_fw_start_req_def
      mt7603_rust_build_restart_dl_req_def mt7603_rust_build_fw_scatter_frame_def
      mt7603_rust_build_tx_power_ctrl_cmd_def mt7603_rust_build_efuse_buffer_mode_cmd_def
      mt7603_rust_build_edca_set_cmd_def mt7603_rust_build_probe_req_def
      mt7603_rust_build_chan_switch_cmd_def mt7603_rust_build_radio_on_off_cmd_def
      mt7603_rust_build_ch_privilege_cmd_def
      mt7603_rust_build_beacon_def mt7603_rust_build_assoc_resp_def mac_at_def from_raw_parts_eq
      ssid_slice_def
      addr_len.ffi_write_outcome [OF assms(1)] fw_start.ffi_write_outcome [OF assms(1)]
      restart_dl.ffi_write_outcome [OF assms(1)] scatter.ffi_write_outcome [OF assms(1)]
      tx_power.ffi_write_outcome [OF assms(1)] efuse.ffi_write_outcome [OF assms(1)]
      channel_switch.ffi_write_outcome [OF assms(1)] radio.ffi_write_outcome [OF assms(1)]
      ch_privilege.ffi_write_outcome [OF assms(1)] edca.ffi_write_outcome [OF assms(1)] probe.ffi_write_outcome [OF assms(1)]
      beacon.ffi_write_outcome [OF assms(1)] assoc.ffi_write_outcome [OF assms(1)])

theorem ffi_frame_outcomes_witness:
  "mt7603_rust_build_restart_dl_req Release 5 (Some (replicate 13 0xAA)) 13 (Some 0) =
     Some (0, Some (fw_txd_block 0xEF 0x8000 3 0 5 True 12 [] @ [0xAA]), Some 12)"
  using ffi_frame_outcomes [of 13 "replicate 13 0xAA" "[0, 0, 0, 0, 0, 0]" "Mac6 0 0 0 0 0 0"
      "[0, 0, 0, 0, 0, 0]" "Mac6 0 0 0 0 0 0" 0 "[]" Release 0 0 5 0 0 0 0 0]
  by (simp add: mac6_of_slice_def ffi_outcome_def length_fw_txd_block)

text \<open>any entry point that is handed a null pointer where it needs memory answers -EINVAL
  without touching the other buffers.\<close>

theorem ffi_null_pointers:
  "mt7603_rust_parse_eeprom None n out = Some (EINVAL, out) \<and>
   mt7603_rust_parse_eeprom buf n None = Some (EINVAL, None) \<and>
   mt7603_rust_parse_rx_frame None n off rx = Some (EINVAL, rx) \<and>
   mt7603_rust_parse_rx_frame buf n off None = Some (EINVAL, None) \<and>
   mt7603_rust_parse_beacon None n bss = Some (EINVAL, bss) \<and>
   mt7603_rust_parse_beacon buf n None = Some (EINVAL, None) \<and>
   mt7603_rust_parse_assoc_req None n mac cap li = Some (EINVAL, mac, cap, li) \<and>
   mt7603_rust_parse_assoc_req buf n None cap li = Some (EINVAL, None, cap, li) \<and>
   mt7603_rust_build_txwi None buf n = Some (EINVAL, buf) \<and>
   mt7603_rust_build_txwi params None n = Some (EINVAL, None) \<and>
   mt7603_rust_verify_firmware None n = Some EINVAL \<and>
   mt7603_rust_fw_dl_len prof None n dl = Some (EINVAL, dl) \<and>
   mt7603_rust_get_mac_init_sequence ops n None = Some (EINVAL, ops, None) \<and>
   mt7603_rust_build_own_mac_sequence None ops n cnt = Some (EINVAL, ops, cnt) \<and>
   mt7603_rust_build_wtbl_sta_sequence None ops n cnt = Some (EINVAL, ops, cnt) \<and>
   mt7603_rust_build_ba_session_sequence wcid tid sz en prev None n cnt = Some (EINVAL, None, cnt) \<and>
   mt7603_rust_build_fw_scatter_frame prof None n buf m cnt = Some (EINVAL, buf, cnt) \<and>
   mt7603_rust_build_probe_req ssid n None buf m cnt = Some (EINVAL, buf, cnt) \<and>
   mt7603_rust_build_beacon ssid n None ch buf m cnt = Some (EINVAL, buf, cnt) \<and>
   mt7603_rust_build_assoc_resp mac None aid st buf m cnt = Some (EINVAL, buf, cnt)"
  by (auto simp: mt7603_rust_parse_eeprom_def mt7603_rust_parse_rx_frame_def
      mt7603_rust_parse_beacon_def mt7603_rust_parse_assoc_req_def mt7603_rust_build_txwi_def
      mt7603_rust_verify_firmware_def mt7603_rust_fw_dl_len_def
      mt7603_rust_get_mac_init_sequence_def mt7603_rust_build_own_mac_sequence_def
      mt7603_rust_build_wtbl_sta_sequence_def mt7603_rust_build_ba_session_sequence_def
      mt7603_rust_build_fw_scatter_frame_def mt7603_rust_build_probe_req_def
      mt7603_rust_build_beacon_def mt7603_rust_build_assoc_resp_def split: option.split)
end
