(* ===== verification/Abi.thy ===== *)
theory Abi
  imports Lib
begin

text \<open>
  The structures that cross the language border, declared once in src/src/c/mt7603u\_rust.h and
  once in src/src/rust/src/ffi.rs (\<open>repr(C)\<close>). Both compilers lay a structure out by the same
  rule: each field at the next multiple of its alignment, the size rounded up to the largest
  alignment. The declarations are transcribed from both files, the rule gives the offsets, and a
  structure written field by field, each under its name, through one declaration is read back by the
  names of the other. A field that the two files declare in different places is read wrong.
\<close>

section \<open>Structure layout\<close>

text \<open>The field types in use: \<open>uint8_t\<close>/\<open>u8\<close>, \<open>int8_t\<close>/\<open>i8\<close>, \<open>uint16_t\<close>/\<open>u16\<close>,
  \<open>uint32_t\<close>/\<open>u32\<close> and arrays of bytes.\<close>

datatype c_type = U8 | I8 | U16 | U32 | Bytes nat

type_synonym decl = "(string \<times> c_type) list"

primrec size_of :: "c_type \<Rightarrow> nat" where
  "size_of U8 = 1"
| "size_of I8 = 1"
| "size_of U16 = 2"
| "size_of U32 = 4"
| "size_of (Bytes n) = n"

primrec align_of :: "c_type \<Rightarrow> nat" where
  "align_of U8 = 1"
| "align_of I8 = 1"
| "align_of U16 = 2"
| "align_of U32 = 4"
| "align_of (Bytes n) = 1"

text \<open>The next multiple of an alignment.\<close>

definition align_up :: "nat \<Rightarrow> nat \<Rightarrow> nat" where
  "align_up a n = (n + (a - 1)) div a * a"

lemma align_up_ge: "0 < a \<Longrightarrow> n \<le> align_up a n"
  unfolding align_up_def using div_mult_mod_eq [of "n + (a - 1)" a] mod_less_divisor [of a "n + (a - 1)"]
  by linarith

lemma align_up_less: "0 < a \<Longrightarrow> align_up a n < n + a"
  unfolding align_up_def using div_times_less_eq_dividend [of "n + (a - 1)" a] by linarith

lemma align_up_dvd [simp]: "a dvd align_up a n"
  by (simp add: align_up_def)

lemma align_of_pos [simp]: "0 < align_of t"
  by (cases t) simp_all

text \<open>The offset of each field, from a start offset.\<close>

primrec layout :: "nat \<Rightarrow> decl \<Rightarrow> (string \<times> nat \<times> c_type) list" where
  "layout at [] = []"
| "layout at (d # ds) =
     (let p = align_up (align_of (snd d)) at
      in (fst d, p, snd d) # layout (p + size_of (snd d)) ds)"

primrec fields_end :: "nat \<Rightarrow> decl \<Rightarrow> nat" where
  "fields_end at [] = at"
| "fields_end at (d # ds) = fields_end (align_up (align_of (snd d)) at + size_of (snd d)) ds"

definition struct_align :: "decl \<Rightarrow> nat" where
  "struct_align ds = foldr (\<lambda>d. max (align_of (snd d))) ds 1"

definition struct_size :: "decl \<Rightarrow> nat" where
  "struct_size ds = align_up (struct_align ds) (fields_end 0 ds)"

text \<open>The bytes in front of the last field's end that belong to no field.\<close>

definition hidden_padding :: "decl \<Rightarrow> nat list" where
  "hidden_padding ds =
     filter (\<lambda>i. list_all (\<lambda>(f, p, t). i < p \<or> p + size_of t \<le> i) (layout 0 ds))
       [0..<fields_end 0 ds]"

lemma struct_align_pos [simp]: "0 < struct_align ds"
  by (induction ds) (simp_all add: struct_align_def less_max_iff_disj)

lemma fields_end_ge: "at \<le> fields_end at ds"
proof (induction ds arbitrary: at)
  case (Cons d ds)
  have "at \<le> align_up (align_of (snd d)) at + size_of (snd d)"
    using align_up_ge [OF align_of_pos, of at "snd d"] by simp
  also have "\<dots> \<le> fields_end at (d # ds)" using Cons.IH by simp
  finally show ?case .
qed simp

lemma fields_end_le_size: "fields_end 0 ds \<le> struct_size ds"
  by (simp add: struct_size_def align_up_ge)

text \<open>Every field is aligned and lies inside the structure.\<close>

lemma layout_aligned: "(f, p, t) \<in> set (layout at ds) \<Longrightarrow> align_of t dvd p"
  by (induction ds arbitrary: at) (auto simp: Let_def)

lemma layout_inside: "(f, p, t) \<in> set (layout at ds) \<Longrightarrow> at \<le> p \<and> p + size_of t \<le> fields_end at ds"
proof (induction ds arbitrary: at)
  case (Cons d ds)
  have "at \<le> align_up (align_of (snd d)) at" by (simp add: align_up_ge)
  with Cons.prems Cons.IH [of "align_up (align_of (snd d)) at + size_of (snd d)"] show ?case
    by (auto simp: Let_def fields_end_ge intro: fields_end_ge)
qed simp

section \<open>Writing and reading a structure in memory\<close>

text \<open>A structure value gives each field name its bytes. The declared fields are written one after
  the other; padding keeps what was there before, which may be anything.\<close>

type_synonym struct_val = "string \<rightharpoonup> u8 list"

primrec write_fields :: "nat \<Rightarrow> decl \<Rightarrow> struct_val \<Rightarrow> u8 list \<Rightarrow> u8 list option" where
  "write_fields at [] f mem = Some mem"
| "write_fields at (d # ds) f mem =
     (let p = align_up (align_of (snd d)) at in do {
       v \<leftarrow> f (fst d);
       mem \<leftarrow> copy_from_slice mem p (p + size_of (snd d)) v;
       write_fields (p + size_of (snd d)) ds f mem
     })"

primrec read_fields :: "nat \<Rightarrow> decl \<Rightarrow> u8 list \<Rightarrow> (string \<times> u8 list) list option" where
  "read_fields at [] mem = Some []"
| "read_fields at (d # ds) mem =
     (let p = align_up (align_of (snd d)) at in do {
       v \<leftarrow> slice mem p (p + size_of (snd d));
       vs \<leftarrow> read_fields (p + size_of (snd d)) ds mem;
       Some ((fst d, v) # vs)
     })"

text \<open>A value that has the declared fields in the declared sizes.\<close>

definition fits :: "decl \<Rightarrow> struct_val \<Rightarrow> bool" where
  "fits ds f \<longleftrightarrow> list_all (\<lambda>d. map_option length (f (fst d)) = Some (size_of (snd d))) ds"

lemma write_read_fields:
  assumes "fits ds f" "fields_end at ds \<le> length mem"
  shows "\<exists>mem'. write_fields at ds f mem = Some mem' \<and> length mem' = length mem \<and>
    take at mem' = take at mem \<and> read_fields at ds mem' = Some (map (\<lambda>d. (fst d, the (f (fst d)))) ds)"
  using assms
proof (induction ds arbitrary: at mem)
  case (Cons d ds)
  let ?p = "align_up (align_of (snd d)) at" and ?s = "size_of (snd d)"
  obtain v where vs: "f (fst d) = Some v" "length v = ?s" "fits ds f"
    using Cons.prems(1) by (auto simp: fits_def)
  have e: "fields_end (?p + ?s) ds \<le> length mem" using Cons.prems(2) by simp
  then have p: "?p + ?s \<le> length mem" "at \<le> ?p"
    using fields_end_ge [of "?p + ?s" ds] by (auto simp: align_up_ge)
  let ?m = "take ?p mem @ v @ drop (?p + ?s) mem"
  have m: "length ?m = length mem" "take (?p + ?s) ?m = take ?p mem @ v"
    using p vs(2) by auto
  obtain mem' where w: "write_fields (?p + ?s) ds f ?m = Some mem'" "length mem' = length mem"
      "take (?p + ?s) mem' = take ?p mem @ v"
      "read_fields (?p + ?s) ds mem' = Some (map (\<lambda>d. (fst d, the (f (fst d)))) ds)"
    using Cons.IH [OF vs(3), of "?p + ?s" ?m] e m by auto
  have "drop ?p (take (?p + ?s) mem') = v" using w(3) p by simp
  then have v: "take ?s (drop ?p mem') = v" by (simp add: drop_take)
  have "take at mem' = take at (take (?p + ?s) mem')" using p by (simp add: min_def)
  also have "\<dots> = take at mem" using w(3) p by (simp add: min_def)
  finally show ?case
    using w v p vs by (simp add: Let_def slice_simps)
qed simp

definition write_struct :: "decl \<Rightarrow> struct_val \<Rightarrow> u8 list \<Rightarrow> u8 list option" where
  "write_struct ds f mem = write_fields 0 ds f mem"

text \<open>The reader finds each field by its name.\<close>

definition read_struct :: "decl \<Rightarrow> (struct_val \<Rightarrow> 'r option) \<Rightarrow> u8 list \<Rightarrow> 'r option" where
  "read_struct ds of_fields mem = do { vs \<leftarrow> read_fields 0 ds mem; of_fields (map_of vs) }"

text \<open>An array holds its elements one behind the other.\<close>

primrec write_array :: "decl \<Rightarrow> struct_val list \<Rightarrow> u8 list \<Rightarrow> u8 list option" where
  "write_array ds [] mem = Some mem"
| "write_array ds (vs # vss) mem = do {
     s \<leftarrow> slice mem 0 (struct_size ds);
     s \<leftarrow> write_struct ds vs s;
     rest \<leftarrow> write_array ds vss (drop (struct_size ds) mem);
     Some (s @ rest)
   }"

primrec read_array :: "decl \<Rightarrow> (struct_val \<Rightarrow> 'r option) \<Rightarrow> nat \<Rightarrow> u8 list \<Rightarrow> 'r list option" where
  "read_array ds of_fields 0 mem = Some []"
| "read_array ds of_fields (Suc n) mem = do {
     s \<leftarrow> slice mem 0 (struct_size ds);
     r \<leftarrow> read_struct ds of_fields s;
     rs \<leftarrow> read_array ds of_fields n (drop (struct_size ds) mem);
     Some (r # rs)
   }"

lemma read_names: "map_of (map (\<lambda>d. (fst d, the (f (fst d)))) ds) = (\<lambda>n. if n \<in> fst ` set ds then Some (the (f n)) else None)"
  by (induction ds) auto

text \<open>What a record type needs to cross the border: its named fields have the declared sizes and
  those among them that are declared determine it.\<close>

locale c_struct =
  fixes decl :: decl
    and fields :: "'r \<Rightarrow> struct_val"
    and of_fields :: "struct_val \<Rightarrow> 'r option"
    and wf :: "'r \<Rightarrow> bool"
  assumes sizes: "wf r \<Longrightarrow> fits decl (fields r)"
    and recovers: "wf r \<Longrightarrow> of_fields (\<lambda>n. if n \<in> fst ` set decl then Some (the (fields r n)) else None) = Some r"
begin

lemma crossing:
  assumes "wf r" "struct_size decl \<le> length mem"
  shows "\<exists>mem'. write_struct decl (fields r) mem = Some mem' \<and> length mem' = length mem \<and>
    read_struct decl of_fields mem' = Some r"
proof -
  have "fields_end 0 decl \<le> length mem" using fields_end_le_size assms(2) by (rule order_trans)
  from write_read_fields [OF sizes [OF assms(1)] this] show ?thesis
    by (auto simp: write_struct_def read_struct_def read_names recovers [OF assms(1)])
qed

lemma array_crossing:
  assumes "list_all wf rs" "length rs * struct_size decl \<le> length mem"
  shows "\<exists>mem'. write_array decl (map fields rs) mem = Some mem' \<and> length mem' = length mem \<and>
    read_array decl of_fields (length rs) mem' = Some rs"
  using assms
proof (induction rs arbitrary: mem)
  case (Cons r rs)
  let ?n = "struct_size decl"
  have n: "?n \<le> length mem" "length rs * ?n \<le> length (drop ?n mem)" using Cons.prems(2) by auto
  obtain s where s: "write_struct decl (fields r) (take ?n mem) = Some s" "length s = ?n"
      "read_struct decl of_fields s = Some r"
    using crossing [of r "take ?n mem"] Cons.prems(1) n by (auto simp: min_absorb2)
  obtain m where m: "write_array decl (map fields rs) (drop ?n mem) = Some m"
      "length m = length (drop ?n mem)" "read_array decl of_fields (length rs) m = Some rs"
    using Cons.IH [OF _ n(2)] Cons.prems(1) by auto
  show ?case using n s m by (simp add: slice_simps)
qed simp

end

section \<open>The declarations\<close>

text \<open>mt7603u\_rust.h\<close>

definition reg_write_op :: decl where
  "reg_write_op = [(''addr'', U32), (''val'', U32)]"

definition mt7603_eeprom_data :: decl where
  "mt7603_eeprom_data =
     [(''mac_addr'', Bytes 6), (''tx_power_2g'', Bytes 14), (''nic_config'', U8),
      (''country_code'', Bytes 2), (''eeprom_version'', U16), (''rssi_offset_2g'', I8),
      (''is_valid'', U8)]"

definition mt7603_rx_info :: decl where
  "mt7603_rx_info =
     [(''pkt_len'', U16), (''hdr_len'', U16), (''rssi'', I8), (''channel'', U8), (''rate'', U8),
      (''is_beacon'', U8), (''is_data'', U8), (''is_crc_error'', U8)]"

definition mt7603_tx_params :: decl where
  "mt7603_tx_params =
     [(''rate_idx'', U8), (''pid'', U8), (''queue'', U8), (''hdr_len'', U8), (''frm_type'', U8),
      (''sub_type'', U8), (''no_ack'', U8), (''is_bm'', U8), (''rate_mode'', U8),
      (''rate_mcs'', U8), (''preamble'', U8), (''bw'', U8), (''pkt_len'', U16),
      (''protect_frm'', U8)]"

definition mt7603_sta_bss_info :: decl where
  "mt7603_sta_bss_info =
     [(''bssid'', Bytes 6), (''ssid'', Bytes 32), (''ssid_len'', U8), (''channel'', U8),
      (''rssi'', I8), (''capability'', U16)]"

text \<open>ffi.rs\<close>

definition RegWriteOp_repr :: decl where
  "RegWriteOp_repr = [(''addr'', U32), (''val'', U32)]"

definition EepromData_repr :: decl where
  "EepromData_repr =
     [(''mac_addr'', Bytes 6), (''tx_power_2g'', Bytes 14), (''nic_config'', U8),
      (''country_code'', Bytes 2), (''eeprom_version'', U16), (''rssi_offset_2g'', I8),
      (''is_valid'', U8)]"

definition RxInfo_repr :: decl where
  "RxInfo_repr =
     [(''pkt_len'', U16), (''hdr_len'', U16), (''rssi'', I8), (''channel'', U8), (''rate'', U8),
      (''is_beacon'', U8), (''is_data'', U8), (''is_crc_error'', U8)]"

definition TxParams_repr :: decl where
  "TxParams_repr =
     [(''rate_idx'', U8), (''pid'', U8), (''queue'', U8), (''hdr_len'', U8), (''frm_type'', U8),
      (''sub_type'', U8), (''no_ack'', U8), (''is_bm'', U8), (''rate_mode'', U8),
      (''rate_mcs'', U8), (''preamble'', U8), (''bw'', U8), (''pkt_len'', U16),
      (''protect_frm'', U8)]"

definition StaBssInfo_repr :: decl where
  "StaBssInfo_repr =
     [(''bssid'', Bytes 6), (''ssid'', Bytes 32), (''ssid_len'', U8), (''channel'', U8),
      (''rssi'', I8), (''capability'', U16)]"

lemmas c_decls = reg_write_op_def mt7603_eeprom_data_def mt7603_rx_info_def mt7603_tx_params_def
  mt7603_sta_bss_info_def

lemmas rust_decls = RegWriteOp_repr_def EepromData_repr_def RxInfo_repr_def TxParams_repr_def
  StaBssInfo_repr_def

lemma decls_agree:
  "RegWriteOp_repr = reg_write_op" "EepromData_repr = mt7603_eeprom_data"
  "RxInfo_repr = mt7603_rx_info" "TxParams_repr = mt7603_tx_params"
  "StaBssInfo_repr = mt7603_sta_bss_info"
  by (simp_all add: c_decls rust_decls)

lemma struct_sizes:
  "struct_size reg_write_op = 8" "struct_size mt7603_eeprom_data = 28"
  "struct_size mt7603_rx_info = 10" "struct_size mt7603_tx_params = 16"
  "struct_size mt7603_sta_bss_info = 44"
  by code_simp+

section \<open>The records as fields\<close>

text \<open>Numbers are stored little-endian, on both sides.\<close>

fun byte_of :: "u8 list \<Rightarrow> u8 option" where
  "byte_of [b] = Some b"
| "byte_of _ = None"

fun u16_of :: "u8 list \<Rightarrow> u16 option" where
  "u16_of [b0, b1] = Some (u16_from_le_bytes b0 b1)"
| "u16_of _ = None"

fun u32_of :: "u8 list \<Rightarrow> u32 option" where
  "u32_of [b0, b1, b2, b3] = Some (u32_from_le_bytes b0 b1 b2 b3)"
| "u32_of _ = None"

lemma u16_of_bytes [simp]: "u16_of (u16_to_le_bytes w) = Some w"
  by (simp add: u16_to_le_bytes_def bytes_simps)

lemma u32_of_bytes [simp]: "u32_of (u32_to_le_bytes w) = Some w"
  by (simp add: u32_to_le_bytes_def bytes_simps)

text \<open>Access to a field by its name.\<close>

definition get8 :: "struct_val \<Rightarrow> string \<Rightarrow> u8 option" where
  "get8 f n = Option.bind (f n) byte_of"

definition get16 :: "struct_val \<Rightarrow> string \<Rightarrow> u16 option" where
  "get16 f n = Option.bind (f n) u16_of"

definition get32 :: "struct_val \<Rightarrow> string \<Rightarrow> u32 option" where
  "get32 f n = Option.bind (f n) u32_of"

lemmas gets = get8_def get16_def get32_def

definition RegWriteOp_fields :: "RegWriteOp \<Rightarrow> struct_val" where
  "RegWriteOp_fields op = [''addr'' \<mapsto> u32_to_le_bytes (addr op), ''val'' \<mapsto> u32_to_le_bytes (val op)]"

definition RegWriteOp_of :: "struct_val \<Rightarrow> RegWriteOp option" where
  "RegWriteOp_of f = do { a \<leftarrow> get32 f ''addr''; v \<leftarrow> get32 f ''val''; Some (op_write a v) }"

definition EepromData_fields :: "EepromData \<Rightarrow> struct_val" where
  "EepromData_fields d =
     [''mac_addr'' \<mapsto> mac_bytes (e_mac_addr d), ''tx_power_2g'' \<mapsto> tx_power_2g d,
      ''nic_config'' \<mapsto> [nic_config d], ''country_code'' \<mapsto> country_code d,
      ''eeprom_version'' \<mapsto> u16_to_le_bytes (eeprom_version d), ''rssi_offset_2g'' \<mapsto> [rssi_offset_2g d],
      ''is_valid'' \<mapsto> [is_valid d]]"

definition EepromData_of :: "struct_val \<Rightarrow> EepromData option" where
  "EepromData_of f = do {
     m \<leftarrow> f ''mac_addr''; m \<leftarrow> mac6_of_slice m; p \<leftarrow> f ''tx_power_2g''; n \<leftarrow> get8 f ''nic_config'';
     c \<leftarrow> f ''country_code''; v \<leftarrow> get16 f ''eeprom_version''; r \<leftarrow> get8 f ''rssi_offset_2g'';
     i \<leftarrow> get8 f ''is_valid'';
     Some \<lparr>e_mac_addr = m, tx_power_2g = p, nic_config = n, country_code = c, eeprom_version = v,
       rssi_offset_2g = r, is_valid = i\<rparr>
   }"

definition RxInfo_fields :: "RxInfo \<Rightarrow> struct_val" where
  "RxInfo_fields i =
     [''pkt_len'' \<mapsto> u16_to_le_bytes (rx_pkt_len i), ''hdr_len'' \<mapsto> u16_to_le_bytes (rx_hdr_len i),
      ''rssi'' \<mapsto> [rx_rssi i], ''channel'' \<mapsto> [rx_channel i], ''rate'' \<mapsto> [rx_rate i],
      ''is_beacon'' \<mapsto> [is_beacon i], ''is_data'' \<mapsto> [is_data i], ''is_crc_error'' \<mapsto> [is_crc_error i]]"

definition RxInfo_of :: "struct_val \<Rightarrow> RxInfo option" where
  "RxInfo_of f = do {
     l \<leftarrow> get16 f ''pkt_len''; h \<leftarrow> get16 f ''hdr_len''; r \<leftarrow> get8 f ''rssi''; c \<leftarrow> get8 f ''channel'';
     q \<leftarrow> get8 f ''rate''; b \<leftarrow> get8 f ''is_beacon''; d \<leftarrow> get8 f ''is_data''; e \<leftarrow> get8 f ''is_crc_error'';
     Some \<lparr>rx_pkt_len = l, rx_hdr_len = h, rx_rssi = r, rx_channel = c, rx_rate = q, is_beacon = b,
       is_data = d, is_crc_error = e\<rparr>
   }"

definition TxParams_fields :: "TxParams \<Rightarrow> struct_val" where
  "TxParams_fields p =
     [''rate_idx'' \<mapsto> [rate_idx p], ''pid'' \<mapsto> [pid p], ''queue'' \<mapsto> [queue p], ''hdr_len'' \<mapsto> [hdr_len p],
      ''frm_type'' \<mapsto> [frm_type p], ''sub_type'' \<mapsto> [sub_type p], ''no_ack'' \<mapsto> [no_ack p],
      ''is_bm'' \<mapsto> [is_bm p], ''rate_mode'' \<mapsto> [rate_mode p], ''rate_mcs'' \<mapsto> [rate_mcs p],
      ''preamble'' \<mapsto> [preamble p], ''bw'' \<mapsto> [bw p], ''pkt_len'' \<mapsto> u16_to_le_bytes (pkt_len p),
      ''protect_frm'' \<mapsto> [protect_frm p]]"

definition TxParams_of :: "struct_val \<Rightarrow> TxParams option" where
  "TxParams_of f = do {
     r \<leftarrow> get8 f ''rate_idx''; i \<leftarrow> get8 f ''pid''; q \<leftarrow> get8 f ''queue''; h \<leftarrow> get8 f ''hdr_len'';
     t \<leftarrow> get8 f ''frm_type''; s \<leftarrow> get8 f ''sub_type''; n \<leftarrow> get8 f ''no_ack''; b \<leftarrow> get8 f ''is_bm'';
     m \<leftarrow> get8 f ''rate_mode''; c \<leftarrow> get8 f ''rate_mcs''; e \<leftarrow> get8 f ''preamble''; w \<leftarrow> get8 f ''bw'';
     l \<leftarrow> get16 f ''pkt_len''; p \<leftarrow> get8 f ''protect_frm'';
     Some \<lparr>rate_idx = r, pid = i, queue = q, hdr_len = h, frm_type = t, sub_type = s,
       no_ack = n, is_bm = b, rate_mode = m, rate_mcs = c, preamble = e, bw = w, pkt_len = l,
       protect_frm = p\<rparr>
   }"

definition StaBssInfo_fields :: "StaBssInfo \<Rightarrow> struct_val" where
  "StaBssInfo_fields i =
     [''bssid'' \<mapsto> mac_bytes (bss_bssid i), ''ssid'' \<mapsto> bss_ssid i, ''ssid_len'' \<mapsto> [ssid_len i],
      ''channel'' \<mapsto> [bss_channel i], ''rssi'' \<mapsto> [bss_rssi i], ''capability'' \<mapsto> u16_to_le_bytes (capability i)]"

definition StaBssInfo_of :: "struct_val \<Rightarrow> StaBssInfo option" where
  "StaBssInfo_of f = do {
     m \<leftarrow> f ''bssid''; m \<leftarrow> mac6_of_slice m; s \<leftarrow> f ''ssid''; l \<leftarrow> get8 f ''ssid_len''; c \<leftarrow> get8 f ''channel'';
     r \<leftarrow> get8 f ''rssi''; q \<leftarrow> get16 f ''capability'';
     Some \<lparr>bss_bssid = m, bss_ssid = s, ssid_len = l, bss_channel = c, bss_rssi = r, capability = q\<rparr>
   }"

interpretation op_struct: c_struct reg_write_op RegWriteOp_fields RegWriteOp_of "\<lambda>_. True"
  by unfold_locales (simp_all add: RegWriteOp_fields_def RegWriteOp_of_def gets fits_def c_decls)

interpretation eeprom_struct: c_struct mt7603_eeprom_data EepromData_fields EepromData_of
    "\<lambda>d. length (tx_power_2g d) = 14 \<and> length (country_code d) = 2"
  by unfold_locales (simp_all add: EepromData_fields_def EepromData_of_def gets fits_def c_decls)

interpretation rx_struct: c_struct mt7603_rx_info RxInfo_fields RxInfo_of "\<lambda>_. True"
  by unfold_locales (simp_all add: RxInfo_fields_def RxInfo_of_def gets fits_def c_decls)

interpretation tx_struct: c_struct mt7603_tx_params TxParams_fields TxParams_of "\<lambda>_. True"
  by unfold_locales (simp_all add: TxParams_fields_def TxParams_of_def gets fits_def c_decls)

interpretation bss_struct: c_struct mt7603_sta_bss_info StaBssInfo_fields StaBssInfo_of
    "\<lambda>i. length (bss_ssid i) = 32"
  by unfold_locales (simp_all add: StaBssInfo_fields_def StaBssInfo_of_def gets fits_def c_decls)

section \<open>Properties\<close>

text \<open>The two declarations of each shared structure agree field by field, in name, type and
  order, so both compilers place every field at the same offset. The structures take 8, 28, 10, 16
  and 44 bytes. Against the rule of the schema that no structure holds padding between its fields,
  byte 23 of the EEPROM record and byte 41 of the BSS record are such padding; the other structures
  have none.\<close>

lemma ffi_layouts_agree:
  "[RegWriteOp_repr, EepromData_repr, RxInfo_repr, TxParams_repr, StaBssInfo_repr] =
   [reg_write_op, mt7603_eeprom_data, mt7603_rx_info, mt7603_tx_params, mt7603_sta_bss_info] \<and>
   map struct_size
     [reg_write_op, mt7603_eeprom_data, mt7603_rx_info, mt7603_tx_params, mt7603_sta_bss_info] =
     [8, 28, 10, 16, 44] \<and>
   map hidden_padding
     [reg_write_op, mt7603_eeprom_data, mt7603_rx_info, mt7603_tx_params, mt7603_sta_bss_info] =
     [[], [23], [], [], [41]]"
proof -
  have "map hidden_padding
     [reg_write_op, mt7603_eeprom_data, mt7603_rx_info, mt7603_tx_params, mt7603_sta_bss_info] =
     [[], [23], [], [], [41]]" by code_simp
  then show ?thesis using decls_agree struct_sizes by simp
qed

text \<open>C16: what one side writes into a named field the other side reads from the field of that name.
  In any memory that is large enough, whatever it holds: the EEPROM record and the BSS record of every
  image and frame the parsers accept, every receive record, and every array of register operations,
  written through the Rust declarations, are read back unchanged through the C declarations; the
  transmit parameters cross in the other direction. In particular the parsers fill the C arrays exactly.\<close>

theorem ffi_structs_cross:
  assumes "parse_eeprom img = Some (Ok d)" "parse_beacon frame = Some (Ok bss)"
    and "44 \<le> length mem" "8 * length ops \<le> length ops_mem"
  shows "(\<exists>m. write_struct EepromData_repr (EepromData_fields d) mem = Some m \<and>
       read_struct mt7603_eeprom_data EepromData_of m = Some d) \<and>
     (\<exists>m. write_struct StaBssInfo_repr (StaBssInfo_fields bss) mem = Some m \<and>
       read_struct mt7603_sta_bss_info StaBssInfo_of m = Some bss) \<and>
     (\<exists>m. write_struct RxInfo_repr (RxInfo_fields info) mem = Some m \<and>
       read_struct mt7603_rx_info RxInfo_of m = Some info) \<and>
     (\<exists>m. write_struct mt7603_tx_params (TxParams_fields params) mem = Some m \<and>
       read_struct TxParams_repr TxParams_of m = Some params) \<and>
     (\<exists>m. write_array RegWriteOp_repr (map RegWriteOp_fields ops) ops_mem = Some m \<and>
       read_array reg_write_op RegWriteOp_of (length ops) m = Some ops)"
proof -
  have "eeprom_wf d" using assms(1) parse_eeprom_total [of img] by auto
  then have d: "length (tx_power_2g d) = 14 \<and> length (country_code d) = 2" by (simp add: eeprom_wf_def)
  have b: "length (bss_ssid bss) = 32" using parse_beacon_ssid_bounded [OF assms(2)] by simp
  have o': "list_all (\<lambda>_. True) ops" by (simp add: list_all_iff)
  show ?thesis
    unfolding decls_agree
    using eeprom_struct.crossing [OF d, of mem] bss_struct.crossing [OF b, of mem]
      rx_struct.crossing [where r = info and mem = mem]
      tx_struct.crossing [where r = params and mem = mem]
      op_struct.array_crossing [OF o', of ops_mem] assms(3, 4)
    by (auto simp: struct_sizes mult.commute)
qed

theorem ffi_structs_cross_witness:
  "\<exists>d m. parse_eeprom (replicate 256 7) = Some (Ok d) \<and>
     write_struct EepromData_repr (EepromData_fields d) (replicate 44 0xCC) = Some m \<and>
     read_struct mt7603_eeprom_data EepromData_of m = Some d \<and> rssi_offset_2g d = 7"
proof -
  obtain d where d: "parse_eeprom (replicate 256 7) = Some (Ok d)" "rssi_offset_2g d = 7"
    by (simp add: parse_eeprom_long rssi_in_range_def EepromData_default_def)
  obtain bss where b: "parse_beacon (replicate 36 7) = Some (Ok bss)"
    by (simp add: parse_beacon_long)
  from ffi_structs_cross [OF d(1) b, of "replicate 44 0xCC" "[]" "[]"] d show ?thesis by auto
qed

end
