(* ===== verification/Crate_Tests.thy ===== *)
theory Crate_Tests
  imports Lib
begin

text \<open>
  The unit tests of the crate (the \<open>cfg(test)\<close> modules of src/src/rust/src), under their own
  names, run on the model. A test is a computation that either finishes (\<^term>\<open>Some ()\<close>) or
  panics (\<^term>\<open>None\<close>): at a failed assertion, at an index out of range, at an \<open>unwrap\<close> of an
  error. That every test finishes validates the model against the expected values the authors
  of the code wrote down.
\<close>

section \<open>Assertions\<close>

definition assert_that :: "bool \<Rightarrow> unit option" where
  "assert_that b = (if b then Some () else None)"

text \<open>\<open>assert_eq!(b[i], v)\<close> and \<open>assert_eq!(&b[lo..hi], vs)\<close>\<close>

definition assert_at :: "'a list \<Rightarrow> nat \<Rightarrow> 'a \<Rightarrow> unit option" where
  "assert_at b i v = do { x \<leftarrow> load b i; assert_that (x = v) }"

definition assert_slice :: "'a list \<Rightarrow> nat \<Rightarrow> nat \<Rightarrow> 'a list \<Rightarrow> unit option" where
  "assert_slice b lo hi vs = do { s \<leftarrow> slice b lo hi; assert_that (s = vs) }"

text \<open>\<open>Result::unwrap\<close>; it stands for the preceding \<open>assert!(res.is_ok())\<close> as well, with which
  it panics.\<close>

primrec unwrap :: "'a rresult \<Rightarrow> 'a option" where
  "unwrap (Ok x) = Some x"
| "unwrap (Err e) = None"

text \<open>A sequence of assignments \<open>b[i] = v\<close>\<close>

primrec store_all :: "'a list \<Rightarrow> (nat \<times> 'a) list \<Rightarrow> 'a list option" where
  "store_all b [] = Some b"
| "store_all b (w # ws) = do { b \<leftarrow> store b (fst w) (snd w); store_all b ws }"

text \<open>\<open>u32::from_le_bytes([b[i], b[i + 1], b[i + 2], b[i + 3]])\<close>\<close>

definition read_dword :: "u8 list \<Rightarrow> nat \<Rightarrow> u32 option" where
  "read_dword b i = do {
     b0 \<leftarrow> load b i;
     b1 \<leftarrow> load b (i + 1);
     b2 \<leftarrow> load b (i + 2);
     b3 \<leftarrow> load b (i + 3);
     Some (u32_from_le_bytes b0 b1 b2 b3)
   }"

text \<open>A byte string literal\<close>

definition byte_string :: "string \<Rightarrow> u8 list" where
  "byte_string s = map of_char s"

section \<open>util.rs\<close>

definition copy_bytes_copies_all :: "unit option" where
  "copy_bytes_copies_all = do {
     let src = byte_string ''hello world'';
     let dst = replicate 32 0;
     dst \<leftarrow> with_slice dst 0 (length src) (\<lambda>s. copy_bytes s src);
     assert_slice dst 0 (length src) src
   }"

definition copy_bytes_partial :: "unit option" where
  "copy_bytes_partial = do {
     let src = [1 :: u8, 2, 3, 4, 5];
     let dst = replicate 8 9;
     s \<leftarrow> slice src 0 3;
     dst \<leftarrow> with_slice dst 0 3 (\<lambda>d. copy_bytes d s);
     assert_slice dst 0 3 [1, 2, 3];
     assert_slice dst 3 (length dst) [9, 9, 9, 9, 9]
   }"

definition copy_bytes_empty :: "unit option" where
  "copy_bytes_empty = do {
     let dst = replicate 4 (7 :: u8);
     dst \<leftarrow> with_slice dst 0 0 (\<lambda>d. copy_bytes d []);
     assert_that (dst = [7, 7, 7, 7])
   }"

section \<open>eeprom.rs\<close>

definition test_parse_valid_eeprom :: "unit option" where
  "test_parse_valid_eeprom = do {
     buf \<leftarrow> copy_from_slice (replicate 512 0) 0x04 0x0A [0x00, 0x0C, 0x43, 0x76, 0x03, 0x01];
     res \<leftarrow> parse_eeprom buf;
     data \<leftarrow> unwrap res;
     assert_that (e_mac_addr data = Mac6 0x00 0x0C 0x43 0x76 0x03 0x01);
     assert_that (is_valid data = 1)
   }"

definition test_parse_invalid_buffer :: "unit option" where
  "test_parse_invalid_buffer = do {
     res \<leftarrow> parse_eeprom (replicate 128 0);
     assert_that (res = Err (- 22))
   }"

definition test_parse_fallback_mac :: "unit option" where
  "test_parse_fallback_mac = do {
     res \<leftarrow> parse_eeprom (replicate 512 0xFF);
     data \<leftarrow> unwrap res;
     assert_that (e_mac_addr data = Mac6 0x00 0x0C 0x43 0x76 0x03 0x01);
     assert_that (is_valid data = 1)
   }"

definition test_parse_rssi_offset :: "unit option" where
  "test_parse_rssi_offset = do {
     buf \<leftarrow> copy_from_slice (replicate 512 0) 0x04 0x0A [0x00, 0x0C, 0x43, 0x76, 0x03, 0x01];
     buf \<leftarrow> store_all buf [(0x46, 0x02), (0x47, 0x01)];
     res \<leftarrow> parse_eeprom buf;
     data \<leftarrow> unwrap res;
     assert_that (sint (rssi_offset_2g data) = 2);
     assert_that (is_valid data = 1)
   }"

definition test_parse_rssi_offset_clamp :: "unit option" where
  "test_parse_rssi_offset_clamp = do {
     buf \<leftarrow> copy_from_slice (replicate 512 0) 0x04 0x0A [0x00, 0x0C, 0x43, 0x76, 0x03, 0x01];
     buf \<leftarrow> store buf 0x46 0x30;
     res \<leftarrow> parse_eeprom buf;
     data \<leftarrow> unwrap res;
     assert_that (sint (rssi_offset_2g data) = 0);
     buf \<leftarrow> store buf 0x46 0xF6;
     res \<leftarrow> parse_eeprom buf;
     data \<leftarrow> unwrap res;
     assert_that (sint (rssi_offset_2g data) = - 10)
   }"

section \<open>regmap.rs\<close>

definition maps_top_cfg_region :: "unit option" where
  "maps_top_cfg_region = do {
     assert_that (physical_addr_map 0x1134 = 0x80021134);
     assert_that (physical_addr_map 0x0000 = 0x80020000);
     assert_that (physical_addr_map 0x1fff = 0x80021fff)
   }"

definition maps_mcu_cfg_region :: "unit option" where
  "maps_mcu_cfg_region = do {
     assert_that (physical_addr_map 0x2000 = 0x80000000);
     assert_that (physical_addr_map 0x2abc = 0x80000abc);
     assert_that (physical_addr_map 0x3fff = 0x80001fff)
   }"

definition maps_pdma_cfg_region :: "unit option" where
  "maps_pdma_cfg_region = do {
     assert_that (physical_addr_map 0x4594 = 0x50000594);
     assert_that (physical_addr_map 0x4000 = 0x50000000);
     assert_that (physical_addr_map 0x7fff = 0x50003fff)
   }"

definition maps_pse_cfg_region :: "unit option" where
  "maps_pse_cfg_region = do {
     assert_that (physical_addr_map 0x8000 = 0xa0000000);
     assert_that (physical_addr_map 0xffff = 0xa0007fff)
   }"

definition maps_wf_phy_region :: "unit option" where
  "maps_wf_phy_region = do {
     assert_that (physical_addr_map 0x10000 = 0x60200000);
     assert_that (physical_addr_map 0x1ffff = 0x6020ffff)
   }"

definition maps_mac_cr_ranges :: "unit option" where
  "maps_mac_cr_ranges = do {
     assert_that (physical_addr_map 0x21600 = 0x60130000);
     assert_that (physical_addr_map 0x24000 = 0x60300000);
     assert_that (physical_addr_map 0x2d000 = 0x60400000);
     assert_that (physical_addr_map 0x28000 = 0x60320000);
     assert_that (physical_addr_map 0x2bfff = 0x60323fff)
   }"

definition maps_wtbl_region :: "unit option" where
  "maps_wtbl_region = do {
     assert_that (physical_addr_map 0x40000 = 0xa5000000);
     assert_that (physical_addr_map 0x7ffff = 0xa503ffff)
   }"

definition maps_pse_client_region :: "unit option" where
  "maps_pse_client_region = do {
     assert_that (physical_addr_map 0xc0000 = 0x800c0000);
     assert_that (physical_addr_map 0xc00ff = 0x800c00ff)
   }"

definition passthrough_unknown_region :: "unit option" where
  "passthrough_unknown_region = assert_that (physical_addr_map 0xdeadbeef = 0xdeadbeef)"

section \<open>rx.rs\<close>

definition test_parse_valid_rx_frame :: "unit option" where
  "test_parse_valid_rx_frame = do {
     buf \<leftarrow> store_all (replicate 128 0)
       [(0, 128), (1, 0), (3, push_bit 5 0x02 OR push_bit 1 0x07), (5, 6), (64, 0x80)];
     res \<leftarrow> parse_rx_frame buf 0;
     info \<leftarrow> unwrap res;
     assert_that (rx_hdr_len info = 64);
     assert_that (rx_pkt_len info = 64);
     assert_that (rx_channel info = 6);
     assert_that (is_beacon info = 1);
     assert_that (is_crc_error info = 0)
   }"

definition test_parse_truncated_rx_frame :: "unit option" where
  "test_parse_truncated_rx_frame = do {
     res \<leftarrow> parse_rx_frame (replicate 8 0) 0;
     assert_that (res = Err (- 22))
   }"

definition test_parse_rx_rssi :: "unit option" where
  "test_parse_rx_rssi = do {
     buf \<leftarrow> store_all (replicate 128 0)
       [(0, 128), (3, push_bit 5 0x02 OR push_bit 1 0x07), (5, 6), (52, 0x9A), (64, 0x80)];
     res \<leftarrow> parse_rx_frame buf 0;
     info \<leftarrow> unwrap res;
     assert_that (sint (rx_rssi info) = - 102);
     res \<leftarrow> parse_rx_frame buf 2;
     info \<leftarrow> unwrap res;
     assert_that (sint (rx_rssi info) = - 100)
   }"

definition test_parse_rx_rssi_unknown :: "unit option" where
  "test_parse_rx_rssi_unknown = do {
     buf \<leftarrow> store_all (replicate 128 0)
       [(0, 128), (3, push_bit 5 0x02 OR push_bit 1 0x03), (5, 6), (40, 0x80)];
     res \<leftarrow> parse_rx_frame buf 0;
     info \<leftarrow> unwrap res;
     assert_that (sint (rx_rssi info) = 0);
     buf2 \<leftarrow> store_all (replicate 128 0)
       [(0, 128), (3, push_bit 5 0x02 OR push_bit 1 0x07), (5, 6), (52, 0x00), (64, 0x80)];
     res \<leftarrow> parse_rx_frame buf2 0;
     info \<leftarrow> unwrap res;
     assert_that (sint (rx_rssi info) = 0)
   }"

definition test_parse_rx_eapol_data_frame :: "unit option" where
  "test_parse_rx_eapol_data_frame = do {
     buf \<leftarrow> store_all (replicate 128 0)
       [(0, 128), (1, 0), (3, push_bit 5 0x02 OR push_bit 1 0x07), (5, 6), (64, 0x08), (65, 0x00)];
     res \<leftarrow> parse_rx_frame buf 0;
     info \<leftarrow> unwrap res;
     assert_that (rx_hdr_len info = 64);
     assert_that (rx_pkt_len info = 64);
     assert_that (rx_channel info = 6);
     assert_that (is_beacon info = 0);
     assert_that (is_data info = 1);
     assert_that (is_crc_error info = 0)
   }"

definition test_parse_rx_radiotap_rate :: "unit option" where
  "test_parse_rx_radiotap_rate = do {
     buf \<leftarrow> store_all (replicate 128 0) [(0, 128), (3, push_bit 5 0x02 OR push_bit 1 0x07)];
     let rxv1_dw0 = 15 OR push_bit 12 2 OR push_bit 15 1 OR push_bit 19 1;
     buf \<leftarrow> copy_from_slice buf 40 44 (u32_to_le_bytes rxv1_dw0);
     buf \<leftarrow> store buf 64 0x08;
     res \<leftarrow> parse_rx_frame buf 0;
     info \<leftarrow> unwrap res;
     assert_that (rx_rate info = 0x80 OR 0x40 OR 0x20 OR 15)
   }"

section \<open>tx.rs\<close>

definition probe_req_params :: "u16 \<Rightarrow> TxParams" where
  "probe_req_params len =
     \<lparr>rate_idx = 0, pid = 0, queue = 0x04, hdr_len = 24, frm_type = 0, sub_type = 4, no_ack = 1,
      is_bm = 1, rate_mode = 0, rate_mcs = 0, preamble = 1, bw = 0, pkt_len = len,
      protect_frm = 0\<rparr>"

text \<open>\<open>assert_eq!((dw >> s) & mask, v)\<close>\<close>

definition assert_field :: "u32 \<Rightarrow> nat \<Rightarrow> u32 \<Rightarrow> u32 \<Rightarrow> unit option" where
  "assert_field dw s m v = assert_that (drop_bit s dw AND m = v)"

definition test_build_txwi :: "unit option" where
  "test_build_txwi = do {
     let params = probe_req_params 211;
     (res, buf) \<leftarrow> build_txwi params (replicate 32 0);
     assert_that (res = Ok 32);
     dw0 \<leftarrow> read_dword buf 0;
     assert_field dw0 0 0xffff 243;
     assert_field dw0 27 0xf 0x04;
     assert_field dw0 31 0x1 0;
     dw1 \<leftarrow> read_dword buf 4;
     assert_field dw1 0 0xff 0;
     assert_field dw1 8 0x1f 12;
     assert_field dw1 13 0x3 2;
     assert_field dw1 15 0x1 1;
     assert_field dw1 19 0x1 1;
     dw2 \<leftarrow> read_dword buf 8;
     assert_field dw2 0 0xf 4;
     assert_field dw2 4 0x3 0;
     assert_field dw2 10 0x1 1;
     assert_field dw2 29 0x1 1;
     assert_field dw2 31 0x1 1;
     dw3 \<leftarrow> read_dword buf 12;
     assert_field dw3 11 0x1f 0x0f;
     dw5 \<leftarrow> read_dword buf 20;
     assert_field dw5 12 0x1 1;
     dw6 \<leftarrow> read_dword buf 24;
     assert_field dw6 8 0x7 0x4;
     assert_field dw6 11 0x1 1;
     assert_field dw6 18 0xfff 0;
     assert_slice buf 28 32 (replicate 4 0);
     assert_slice buf 16 20 (replicate 4 0)
   }"

definition test_build_txwi_ofdm_rate :: "unit option" where
  "test_build_txwi_ofdm_rate = do {
     let params = (probe_req_params 211)\<lparr>rate_mode := 1, rate_mcs := 4\<rparr>;
     (res, buf) \<leftarrow> build_txwi params (replicate 32 0);
     assert_that (res = Ok 32);
     dw6 \<leftarrow> read_dword buf 24;
     assert_field dw6 18 0xfff 73
   }"

definition test_build_txwi_enospc :: "unit option" where
  "test_build_txwi_enospc = do {
     (res, buf) \<leftarrow> build_txwi (probe_req_params 10) (replicate 16 0);
     assert_that (res = Err (- 28))
   }"

definition test_build_txwi_odd_hdr_len :: "unit option" where
  "test_build_txwi_odd_hdr_len = do {
     let params = (probe_req_params 10)\<lparr>hdr_len := 23\<rparr>;
     (res, buf) \<leftarrow> build_txwi params (replicate 32 0);
     assert_that (res = Err (- 22))
   }"

definition test_build_txwi_qos_data_pad :: "unit option" where
  "test_build_txwi_qos_data_pad = do {
     let params =
       \<lparr>rate_idx = 0, pid = 1, queue = 0x00, hdr_len = 26, frm_type = 2, sub_type = 8, no_ack = 0,
        is_bm = 0, rate_mode = 0, rate_mcs = 0, preamble = 1, bw = 0, pkt_len = 155,
        protect_frm = 1\<rparr>;
     (res, buf) \<leftarrow> build_txwi params (replicate 32 0);
     assert_that (res = Ok 32);
     dw0 \<leftarrow> read_dword buf 0;
     assert_field dw0 0 0xffff 189;
     dw1 \<leftarrow> read_dword buf 4;
     assert_field dw1 0 0xff 1;
     assert_field dw1 8 0x1f 13;
     assert_field dw1 16 0x7 2;
     assert_field dw1 23 0x1 1;
     dw2 \<leftarrow> read_dword buf 8;
     assert_field dw2 0 0xf 8;
     assert_field dw2 4 0x3 2;
     assert_field dw2 10 0x1 0;
     assert_field dw2 29 0x1 1;
     assert_field dw2 31 0x1 1
   }"

definition test_tx_rate_to_tmi_mapping :: "unit option" where
  "test_tx_rate_to_tmi_mapping = do {
     r \<leftarrow> tx_rate_to_tmi MODE_CCK 0 0 1 LONG_PREAMBLE;
     assert_that (r = 0);
     r \<leftarrow> tx_rate_to_tmi MODE_CCK 1 0 1 LONG_PREAMBLE;
     assert_that (r = 1);
     r \<leftarrow> tx_rate_to_tmi MODE_CCK 2 0 1 LONG_PREAMBLE;
     assert_that (r = 2);
     r \<leftarrow> tx_rate_to_tmi MODE_CCK 3 0 1 LONG_PREAMBLE;
     assert_that (r = 3);
     r \<leftarrow> tx_rate_to_tmi MODE_CCK 0 0 1 SHORT_PREAMBLE;
     assert_that (r = 5);
     r \<leftarrow> tx_rate_to_tmi MODE_OFDM 0 0 1 LONG_PREAMBLE;
     assert_that (r = push_bit 6 1 OR 11)
   }"

definition test_build_txwi_ht_2ss_ht40 :: "unit option" where
  "test_build_txwi_ht_2ss_ht40 = do {
     let params =
       \<lparr>rate_idx = 15, pid = 1, queue = 0x01, hdr_len = 26, frm_type = 2, sub_type = 8, no_ack = 0,
        is_bm = 0, rate_mode = 2, rate_mcs = 15, preamble = 2, bw = 1, pkt_len = 1400,
        protect_frm = 0\<rparr>;
     (res, buf) \<leftarrow> build_txwi params (replicate 32 0);
     assert_that (res = Ok 32);
     dw6 \<leftarrow> read_dword buf 24;
     assert_field dw6 8 0x7 5;
     assert_field dw6 18 0xfff 655;
     assert_field dw6 31 0x1 1
   }"

section \<open>ap.rs\<close>

definition test_build_beacon_frame :: "unit option" where
  "test_build_beacon_frame = do {
     let ssid = byte_string ''MT7603U-Hotspot'';
     let bssid = Mac6 0x00 0x0C 0x43 0x76 0x03 0x01;
     (res, out_buf) \<leftarrow> build_beacon ssid bssid 6 (replicate 128 0);
     len \<leftarrow> unwrap res;
     assert_that (len \<ge> 48);
     assert_at out_buf 0 0x80;
     assert_at out_buf 1 0x00;
     assert_slice out_buf 4 10 (replicate 6 0xFF);
     assert_slice out_buf 10 16 (mac_bytes bssid);
     assert_at out_buf 36 0;
     assert_at out_buf 37 15;
     assert_slice out_buf 38 53 (byte_string ''MT7603U-Hotspot'')
   }"

definition test_build_assoc_resp :: "unit option" where
  "test_build_assoc_resp = do {
     let sta_mac = Mac6 0xAA 0xBB 0xCC 0xDD 0xEE 0xFF;
     let bssid = Mac6 0x00 0x0C 0x43 0x76 0x03 0x01;
     (res, out_buf) \<leftarrow> build_assoc_resp sta_mac bssid 1 0 (replicate 128 0);
     len \<leftarrow> unwrap res;
     assert_that (len = 40);
     assert_at out_buf 0 0x10;
     assert_at out_buf 1 0x00;
     assert_slice out_buf 4 10 (mac_bytes sta_mac);
     assert_at out_buf 26 0;
     assert_at out_buf 27 0
   }"

definition test_parse_assoc_req :: "unit option" where
  "test_parse_assoc_req = do {
     frame \<leftarrow> store_all (replicate 32 0) [(0, 0x00), (1, 0x00)];
     frame \<leftarrow> copy_from_slice frame 10 16 [0x11, 0x22, 0x33, 0x44, 0x55, 0x66];
     frame \<leftarrow> store_all frame [(24, 0x01), (25, 0x00), (26, 10), (27, 0)];
     res \<leftarrow> parse_assoc_req frame;
     (sta_mac, cap, listen) \<leftarrow> unwrap res;
     assert_that (sta_mac = Mac6 0x11 0x22 0x33 0x44 0x55 0x66);
     assert_that (cap = 0x0001);
     assert_that (listen = 10)
   }"

definition test_build_ap_bss_sync_enable :: "unit option" where
  "test_build_ap_bss_sync_enable = do {
     (res, ops) \<leftarrow> build_ap_bss_sync_sequence 100 True (replicate 8 (op_write 0 0));
     count \<leftarrow> unwrap res;
     assert_that (count = 6);
     assert_at ops 0 (op_write 0x00024034 0x80000064);
     assert_at ops 1 (op_write 0x0002405C 0x00000099);
     assert_at ops 2 (op_write 0x00024030 0x00000050);
     assert_at ops 3 (op_write 0x00024010 0x0000000C);
     assert_at ops 4 (op_write 0x00021480 0x00000001);
     assert_at ops 5 (op_write 0x00021518 0x00000001)
   }"

definition test_build_ap_bss_sync_disable :: "unit option" where
  "test_build_ap_bss_sync_disable = do {
     (res, ops) \<leftarrow> build_ap_bss_sync_sequence 100 False (replicate 8 (op_write 0 0));
     count \<leftarrow> unwrap res;
     assert_that (count = 4);
     assert_at ops 0 (op_write 0x00024034 0);
     assert_at ops 1 (op_write 0x0002405C 0);
     assert_at ops 2 (op_write 0x00021480 0);
     assert_at ops 3 (op_write 0x0002151C 1)
   }"

section \<open>sta.rs\<close>

definition test_build_probe_request :: "unit option" where
  "test_build_probe_request = do {
     let ssid = byte_string ''WiFi-Test'';
     let src_mac = Mac6 0x00 0x0C 0x43 0x76 0x03 0x01;
     (res, out_buf) \<leftarrow> build_probe_request ssid src_mac (replicate 128 0);
     len \<leftarrow> unwrap res;
     assert_that (len \<ge> 36);
     assert_at out_buf 0 0x40;
     assert_at out_buf 1 0x00;
     assert_slice out_buf 4 10 (replicate 6 0xFF);
     assert_slice out_buf 10 16 (mac_bytes src_mac);
     assert_at out_buf 24 0;
     assert_at out_buf 25 9;
     assert_slice out_buf 26 35 (byte_string ''WiFi-Test'')
   }"

definition test_parse_beacon_frame :: "unit option" where
  "test_parse_beacon_frame = do {
     frame \<leftarrow> copy_from_slice (replicate 64 0) 16 22 [0x12, 0x34, 0x56, 0x78, 0x9A, 0xBC];
     frame \<leftarrow> store_all frame [(34, 0x01), (35, 0x00), (36, 0), (37, 7)];
     frame \<leftarrow> copy_from_slice frame 38 45 (byte_string ''Home-AP'');
     frame \<leftarrow> store_all frame [(45, 3), (46, 1), (47, 6)];
     res \<leftarrow> parse_beacon frame;
     info \<leftarrow> unwrap res;
     assert_that (bss_bssid info = Mac6 0x12 0x34 0x56 0x78 0x9A 0xBC);
     assert_slice (bss_ssid info) 0 7 (byte_string ''Home-AP'');
     assert_that (ssid_len info = 7);
     assert_that (bss_channel info = 6)
   }"

definition test_wtbl_entry234_crosslinks :: "unit option" where
  "test_wtbl_entry234_crosslinks = do {
     assert_that (wtbl_entry234 0 = (0, 0, 64, 0, 128, 0));
     assert_that (wtbl_dw3_dw4 0 = (0x30800000, 0x00000040));
     assert_that (wtbl_entry234 1 = (0, 1, 64, 2, 128, 1));
     assert_that (wtbl_dw3_dw4 1 = (0x30800800, 0x00021040));
     assert_that (wtbl_entry234 2 = (1, 0, 65, 0, 128, 2));
     assert_that (wtbl_dw3_dw4 2 = (0x30800001, 0x00040041));
     assert_that (wtbl_entry234 3 = (1, 1, 65, 2, 128, 3))
   }"

definition test_build_wtbl_sta_sequence :: "unit option" where
  "test_build_wtbl_sta_sequence = do {
     let bssid = Mac6 0xFC 0x34 0x97 0x19 0x0E 0x01;
     (res, ops) \<leftarrow> build_wtbl_sta_sequence bssid (replicate 16 (op_write 0 0));
     written \<leftarrow> unwrap res;
     assert_that (written = 12);
     assert_at ops 0 (op_write 0x00028000
       (push_bit 29 1 OR push_bit 28 1 OR push_bit 22 1 OR push_bit 16 0x0E OR 0xFFFF));
     assert_at ops 1 (op_write 0x00028004 0xFFFFFFFF);
     assert_at ops 2 (op_write 0x00028008 0x00000000);
     assert_at ops 3 (op_write 0x00028020
       (push_bit 29 1 OR push_bit 28 1 OR push_bit 8 0x01 OR 0x0E));
     assert_at ops 4 (op_write 0x00028024 0x199734FC);
     assert_at ops 5 (op_write 0x00028028 0x58300000);
     assert_at ops 6 (op_write 0x0002A300 0x80000000);
     assert_at ops 7 (op_write 0x0002800C 0x30800000);
     assert_at ops 8 (op_write 0x00028010 0x00000040);
     assert_at ops 9 (op_write 0x0002802C 0x30800800);
     assert_at ops 10 (op_write 0x00028030 0x00021040);
     assert_at ops 11 (op_write 0x0002A300 0x00000000)
   }"

section \<open>mac.rs\<close>

definition test_mac_init_sequence :: "unit option" where
  "test_mac_init_sequence = do {
     (res, ops) \<leftarrow> build_mac_init_sequence (replicate 128 (op_write 0 0));
     count \<leftarrow> unwrap res;
     assert_that (count > 32);
     op0 \<leftarrow> load ops 0;
     assert_that (addr op0 = USB_DMA_CFG);
     assert_that (list_ex (\<lambda>op. addr op = AGG_AWSCR) ops);
     assert_that (list_ex (\<lambda>op. addr op = RMAC_RMACDR) ops);
     assert_that (list_ex (\<lambda>op. addr op = FC_FRP \<and> val op = 0x00004037) ops);
     assert_that (list_ex (\<lambda>op. addr op = MT_SCH_REG_1 \<and> val op = 0x20000288) ops);
     assert_that (list_ex (\<lambda>op. addr op = MT_SCH_REG_2 \<and> val op = 0x0000000E) ops);
     assert_that (list_ex (\<lambda>op. addr op = MT_GROUP_THD_0 \<and> val op = 0x0000025A) ops);
     assert_that (list_ex (\<lambda>op. addr op = MT_BMAP_0 \<and> val op = 0x0080FF5F) ops);
     assert_that (list_ex (\<lambda>op. addr op = SCH_REG4 \<and> val op = 0x00000040) ops)
   }"

definition test_mac_init_buffer_overflow :: "unit option" where
  "test_mac_init_buffer_overflow = do {
     (res, ops) \<leftarrow> build_mac_init_sequence (replicate 2 (op_write 0 0));
     assert_that (res = Err (- 28))
   }"

definition test_channel_switch_sequence :: "unit option" where
  "test_channel_switch_sequence = do {
     (res, ops) \<leftarrow> build_channel_sequence 6 0 (replicate 16 (op_write 0 0));
     count \<leftarrow> unwrap res;
     assert_at ops 0 (op_write RMAC_CHFREQ 1)
   }"

definition test_own_mac_sequence :: "unit option" where
  "test_own_mac_sequence = do {
     let mac = Mac6 0x00 0x0C 0x43 0x76 0x03 0x01;
     (res, ops) \<leftarrow> build_own_mac_sequence mac (replicate 4 (op_write 0 0));
     count \<leftarrow> unwrap res;
     assert_that (count = 2);
     assert_at ops 0 (op_write RMAC_OMA0R0 0x76430C00);
     assert_at ops 1 (op_write RMAC_OMA0R1 0x00010103)
   }"

definition test_rx_filter_sequence :: "unit option" where
  "test_rx_filter_sequence = do {
     (res, ops) \<leftarrow> build_rx_filter_sequence False False (replicate 4 (op_write 0 0));
     assert_that (res = Ok 2);
     assert_at ops 0 (op_write RMAC_RFCR 0x001D93A2);
     assert_at ops 1 (op_write RMAC_RFCR1 0);
     (res, ops) \<leftarrow> build_rx_filter_sequence True False ops;
     assert_that (res = Ok 2);
     assert_at ops 0 (op_write RMAC_RFCR 0x00000006);
     (res, ops) \<leftarrow> build_rx_filter_sequence True True ops;
     assert_that (res = Ok 2);
     assert_at ops 0 (op_write RMAC_RFCR 0x00000004)
   }"

definition test_ba_session_sequence :: "unit option" where
  "test_ba_session_sequence = do {
     (res, ops) \<leftarrow> build_ba_session_sequence 1 0 64 True 0 (replicate 2 (op_write 0 0));
     assert_that (res = Ok 1);
     assert_at ops 0 (op_write 0x0004007C (push_bit 24 1 OR 7));
     op0 \<leftarrow> load ops 0;
     let prev = val op0;
     (res, ops) \<leftarrow> build_ba_session_sequence 1 0 64 False prev ops;
     assert_that (res = Ok 1);
     op0 \<leftarrow> load ops 0;
     assert_that (val op0 = 0)
   }"

section \<open>mcu.rs\<close>

text \<open>The framing code has a debug assertion and a checked addition, so these tests are run in a
  given profile (\<open>cargo test\<close> uses the first).\<close>

definition test_build_radio_on_off_cmd :: "profile \<Rightarrow> unit option" where
  "test_build_radio_on_off_cmd prof = do {
     (res, out) \<leftarrow> build_radio_on_off_cmd prof True 1 (replicate 64 0);
     len \<leftarrow> unwrap res;
     assert_that (len = 36);
     assert_at out 4 EXT_CID;
     assert_at out 6 CMD_SET;
     assert_at out 7 1;
     assert_at out 9 EXT_CMD_RADIO_ON_OFF_CTRL;
     assert_at out 11 EXT_CID_OPTION_NEED_ACK;
     assert_slice out 12 32 (replicate 20 0);
     assert_at out 32 1;
     assert_slice out 33 36 [0, 0, 0]
   }"

definition test_build_edca_set_cmd :: "profile \<Rightarrow> unit option" where
  "test_build_edca_set_cmd prof = do {
     (res, out) \<leftarrow> build_edca_set_cmd prof 5 (replicate 128 0);
     len \<leftarrow> unwrap res;
     assert_that (len = 32 + 36);
     assert_at out 4 EXT_CID;
     assert_at out 6 CMD_SET;
     assert_at out 7 5;
     assert_at out 9 EXT_CMD_EDCA_SET;
     assert_at out 11 EXT_CID_OPTION_NEED_ACK;
     assert_slice out 12 32 (replicate 20 0);
     assert_at out 32 4;
     assert_slice out 33 36 [0, 0, 0];
     let bk = 32 + 4 + 0 * 8;
     assert_at out bk 1;
     assert_at out (bk + 1) 0x0F;
     assert_at out (bk + 2) 7;
     assert_at out (bk + 3) 15;
     assert_slice out (bk + 4) (bk + 6) (u16_to_le_bytes 1023);
     assert_slice out (bk + 6) (bk + 8) (u16_to_le_bytes 0);
     let be = 32 + 4 + 1 * 8;
     assert_at out be 0;
     assert_at out (be + 2) 3;
     assert_at out (be + 3) 15;
     assert_slice out (be + 4) (be + 6) (u16_to_le_bytes 1023);
     let vi = 32 + 4 + 2 * 8;
     assert_at out vi 2;
     assert_at out (vi + 2) 2;
     assert_at out (vi + 3) 7;
     assert_slice out (vi + 4) (vi + 6) (u16_to_le_bytes 15);
     assert_slice out (vi + 6) (vi + 8) (u16_to_le_bytes 0x60);
     let vo = 32 + 4 + 3 * 8;
     assert_at out vo 3;
     assert_at out (vo + 2) 2;
     assert_at out (vo + 3) 3;
     assert_slice out (vo + 4) (vo + 6) (u16_to_le_bytes 7);
     assert_slice out (vo + 6) (vo + 8) (u16_to_le_bytes 0x2F)
   }"

definition test_build_fw_txd_frame :: "profile \<Rightarrow> unit option" where
  "test_build_fw_txd_frame prof = do {
     let payload = replicate 12 0xAA;
     (res, out) \<leftarrow> build_fw_txd_frame prof MT_TARGET_ADDRESS_LEN_REQ P1_Q0 CMD_NA EXT_CMD_NA 1 True
       FW_TXD_HDR_SIZE payload (replicate 64 0);
     len \<leftarrow> unwrap res;
     assert_that (len = 24);
     assert_at out 0 24;
     assert_at out 1 0;
     assert_at out 2 0x00;
     assert_at out 3 0x80;
     assert_at out 4 MT_TARGET_ADDRESS_LEN_REQ;
     assert_at out 5 PKT_ID_CMD;
     assert_at out 6 CMD_NA;
     assert_at out 7 1;
     assert_at out 9 EXT_CMD_NA;
     assert_at out 11 EXT_CID_OPTION_NO_NEED_ACK;
     assert_slice out 12 24 payload
   }"

definition test_build_fw_txd_frame_runtime_32b_header :: "profile \<Rightarrow> unit option" where
  "test_build_fw_txd_frame_runtime_32b_header prof = do {
     let payload = replicate 36 0xBB;
     (res, out) \<leftarrow> build_fw_txd_frame prof EXT_CID P1_Q0 CMD_SET EXT_CMD_CHANNEL_SWITCH 1 True
       FW_TXD_FULL_SIZE payload (replicate 128 0);
     len \<leftarrow> unwrap res;
     assert_that (len = 68);
     assert_at out 0 68;
     assert_at out 1 0;
     assert_slice out 12 32 (replicate 20 0);
     assert_slice out 32 68 payload
   }"

definition test_build_fw_txd_frame_ext_need_ack :: "profile \<Rightarrow> unit option" where
  "test_build_fw_txd_frame_ext_need_ack prof = do {
     (res, out) \<leftarrow> build_fw_txd_frame prof EXT_CID P1_Q0 CMD_SET 0x12 3 True
       FW_TXD_HDR_SIZE [] (replicate 32 0);
     len \<leftarrow> unwrap res;
     assert_at out 11 EXT_CID_OPTION_NEED_ACK;
     assert_at out 9 0x12
   }"

definition test_build_fw_txd_frame_overflow :: "profile \<Rightarrow> unit option" where
  "test_build_fw_txd_frame_overflow prof = do {
     (res, out) \<leftarrow> build_fw_txd_frame prof MT_TARGET_ADDRESS_LEN_REQ P1_Q0 CMD_NA EXT_CMD_NA 1 True
       FW_TXD_HDR_SIZE (replicate 64 0xAA) (replicate 32 0);
     assert_that (res = Err (- 28))
   }"

definition test_build_fw_txd_frame_overflow_32b :: "profile \<Rightarrow> unit option" where
  "test_build_fw_txd_frame_overflow_32b prof = do {
     (res, out) \<leftarrow> build_fw_txd_frame prof EXT_CID P1_Q0 CMD_SET EXT_CMD_RADIO_ON_OFF_CTRL 1 True
       FW_TXD_FULL_SIZE (replicate 4 0xAA) (replicate 34 0);
     assert_that (res = Err (- 28))
   }"

definition test_build_addr_len_req :: "profile \<Rightarrow> unit option" where
  "test_build_addr_len_req prof = do {
     (res, out) \<leftarrow> build_addr_len_req prof FW_CODE_START_ADDRESS1 4 1 (replicate 64 0);
     len \<leftarrow> unwrap res;
     assert_that (len = 24);
     assert_at out 4 MT_TARGET_ADDRESS_LEN_REQ;
     assert_at out 7 1;
     assert_slice out 12 16 (u32_to_le_bytes 0x100000);
     assert_slice out 16 20 (u32_to_le_bytes 4);
     assert_slice out 20 24 (u32_to_le_bytes TARGET_ADDR_LEN_NEED_RSP)
   }"

definition test_build_fw_start_req :: "profile \<Rightarrow> unit option" where
  "test_build_fw_start_req prof = do {
     (res, out) \<leftarrow> build_fw_start_req prof 1 FW_CODE_START_ADDRESS1 2 (replicate 64 0);
     len \<leftarrow> unwrap res;
     assert_that (len = 20);
     assert_at out 4 MT_FW_START_REQ;
     assert_at out 7 2;
     assert_slice out 12 16 (u32_to_le_bytes 1);
     assert_slice out 16 20 (u32_to_le_bytes 0x100000)
   }"

definition test_build_restart_dl_req :: "profile \<Rightarrow> unit option" where
  "test_build_restart_dl_req prof = do {
     (res, out) \<leftarrow> build_restart_dl_req prof 1 (replicate 64 0);
     len \<leftarrow> unwrap res;
     assert_that (len = 12);
     assert_at out 4 MT_RESTART_DL_REQ;
     assert_at out 5 PKT_ID_CMD;
     assert_at out 6 CMD_NA;
     assert_at out 7 1;
     assert_at out 9 EXT_CMD_NA;
     assert_at out 11 EXT_CID_OPTION_NO_NEED_ACK
   }"

definition test_build_fw_scatter_frame :: "profile \<Rightarrow> unit option" where
  "test_build_fw_scatter_frame prof = do {
     let chunk = [0x46, 0x00, 0x01, 0x00];
     (res, out) \<leftarrow> build_fw_scatter_frame prof chunk (replicate 64 0);
     len \<leftarrow> unwrap res;
     assert_that (len = 16);
     assert_at out 4 MT_FW_SCATTER;
     assert_at out 2 0x00;
     assert_at out 3 0xC0;
     assert_at out 7 0;
     assert_slice out 12 16 chunk
   }"

definition test_fw_scatter_payload_cap :: "profile \<Rightarrow> unit option" where
  "test_fw_scatter_payload_cap prof = do {
     let chunk = replicate (FW_SCATTER_MAX_PAYLOAD + 1) 0x00;
     (res, out) \<leftarrow> build_fw_scatter_frame prof chunk
       (replicate (FW_SCATTER_MAX_PAYLOAD + FW_TXD_HDR_SIZE + 8) 0);
     assert_that (res = Err (- 22))
   }"

definition test_fw_dl_len :: "profile \<Rightarrow> unit option" where
  "test_fw_dl_len prof = do {
     fw \<leftarrow> store (replicate 8 0) 4 0x20;
     dl \<leftarrow> fw_dl_len prof fw;
     n \<leftarrow> dl;
     assert_that (n = 36);
     dl \<leftarrow> fw_dl_len prof [];
     assert_that (dl = None);
     dl \<leftarrow> fw_dl_len prof (replicate 2 0);
     assert_that (dl = None)
   }"

text \<open>The firmware image that two tests include from the harness is an argument of them.\<close>

definition test_verify_real_e2_firmware :: "u8 list \<Rightarrow> unit option" where
  "test_verify_real_e2_firmware fw_bytes = do {
     assert_that (length fw_bytes = MT7603_E2_FW_SIZE);
     res \<leftarrow> verify_firmware fw_bytes;
     unwrap res
   }"

definition test_verify_corrupted_firmware :: "unit option" where
  "test_verify_corrupted_firmware = do {
     res \<leftarrow> verify_firmware (replicate 64 0x00);
     assert_that (res = Err (- 22))
   }"

definition test_dl_len_of_real_firmware :: "profile \<Rightarrow> u8 list \<Rightarrow> unit option" where
  "test_dl_len_of_real_firmware prof fw_bytes = do {
     dl \<leftarrow> fw_dl_len prof fw_bytes;
     n \<leftarrow> dl;
     assert_that (n > 0);
     assert_that (n < word_of_nat MT_UPLOAD_FW_UNIT * 30)
   }"

definition test_build_channel_switch_cmd :: "profile \<Rightarrow> unit option" where
  "test_build_channel_switch_cmd prof = do {
     (res, out) \<leftarrow> build_channel_switch_cmd prof 6 6 0 2 2 1 (replicate 128 0);
     len \<leftarrow> unwrap res;
     assert_that (len = 68);
     assert_at out 4 EXT_CID;
     assert_at out 6 CMD_SET;
     assert_at out 7 1;
     assert_at out 9 EXT_CMD_CHANNEL_SWITCH;
     assert_at out 11 EXT_CID_OPTION_NEED_ACK;
     assert_slice out 12 32 (replicate 20 0);
     assert_at out 32 6;
     assert_at out 33 6;
     assert_at out 34 0;
     assert_at out 35 2;
     assert_at out 36 2
   }"

definition test_build_ch_privilege_cmd :: "profile \<Rightarrow> unit option" where
  "test_build_ch_privilege_cmd prof = do {
     (res, out) \<leftarrow> build_ch_privilege_cmd prof 6 0 (replicate 64 0);
     len \<leftarrow> unwrap res;
     assert_that (len = 48);
     assert_at out 4 CMD_CH_PRIVILEGE;
     assert_at out 6 CMD_SET;
     assert_slice out 12 32 (replicate 20 0);
     assert_at out 35 6
   }"

definition test_build_efuse_buffer_mode_cmd :: "profile \<Rightarrow> unit option" where
  "test_build_efuse_buffer_mode_cmd prof = do {
     eeprom \<leftarrow> store_all (replicate 1024 0xff) [(0x034, 0x12), (0x035, 0x34), (0x056, 0xab)];
     (res, out) \<leftarrow> build_efuse_buffer_mode_cmd prof eeprom 3 (replicate 2048 0);
     len \<leftarrow> unwrap res;
     assert_that (len = 996);
     assert_at out 4 EXT_CID;
     assert_at out 6 CMD_SET;
     assert_at out 7 3;
     assert_at out 9 EXT_CMD_EFUSE_BUFFER_MODE;
     assert_at out 11 EXT_CID_OPTION_NEED_ACK;
     assert_slice out 12 32 (replicate 20 0);
     assert_at out 32 0;
     assert_at out 33 0;
     assert_at out 34 0;
     assert_at out 35 0;
     for_loop [0..<240] (\<lambda>i _. do {
       let base = 32 + 4 + i * 4;
       assert_slice out base (base + 4) [0, 0, 0, 0]
     }) ()
   }"

definition test_build_tx_power_ctrl_cmd :: "profile \<Rightarrow> unit option" where
  "test_build_tx_power_ctrl_cmd prof = do {
     eeprom \<leftarrow> store_all (replicate 1024 0xff)
       [(0x36, 0x78), (0x37, 0x01), (0x58, 0x10), (0x59, 0x20), (0x5e, 0x30), (0x5f, 0x40),
        (0x5a, 0x50), (0x5b, 0x60), (0x60, 0x70), (0x61, 0x80), (0x50, 0x55), (0xa0, 0x01),
        (0xa1, 0x02), (0xc6, 0xaa)];
     (res, out) \<leftarrow> build_tx_power_ctrl_cmd prof eeprom 6 4 (replicate 128 0);
     len \<leftarrow> unwrap res;
     assert_that (len = 32 + 44);
     assert_at out 4 EXT_CID;
     assert_at out 6 CMD_SET;
     assert_at out 7 4;
     assert_at out 9 EXT_CMD_SET_TX_POWER_CTRL;
     assert_slice out 12 32 (replicate 20 0);
     assert_at out 32 6;
     assert_at out 33 0x01;
     assert_at out 34 0x78;
     assert_at out 35 0x10;
     assert_at out 36 0x30;
     assert_at out 37 0x01;
     assert_at out 38 0x02;
     assert_at out 39 0xff;
     assert_at out 51 0x55;
     assert_at out 52 0x20;
     assert_at out 53 0x50;
     assert_at out 54 0x60;
     assert_at out 55 0x40;
     assert_at out 56 0x70;
     assert_at out 57 0x80;
     assert_at out 58 0xaa;
     assert_at out 59 0xff;
     assert_at out 75 0
   }"

section \<open>Every test passes\<close>

text \<open>Assertions on a buffer whose tail is zero.\<close>

lemma for_loop_pass:
  "(\<And>i. i \<in> set is \<Longrightarrow> body i s = Some s) \<Longrightarrow> for_loop is body s = Some s"
  by (induction "is") simp_all

lemma zeros_behind:
  assumes "length pre \<le> lo" "lo \<le> hi" "hi \<le> length pre + n"
  shows "assert_slice (pre @ replicate n 0) lo hi (replicate (hi - lo) 0) = Some ()"
  using assms by (simp add: assert_slice_def assert_that_def slice_eq)

lemma zero_behind:
  assumes "length pre \<le> i" "i < length pre + n"
  shows "assert_at (pre @ replicate n 0) i 0 = Some ()"
  using assms by (simp add: assert_at_def assert_that_def load_eq nth_append)

lemma assert_at_prefix: "i < length pre \<Longrightarrow> pre ! i = v \<Longrightarrow> assert_at (pre @ rest) i v = Some ()"
  by (simp add: assert_at_def assert_that_def load_eq nth_append)

lemma util_tests: "copy_bytes_copies_all = Some ()" "copy_bytes_partial = Some ()"
  "copy_bytes_empty = Some ()"
  by code_simp+

lemma regmap_tests: "maps_top_cfg_region = Some ()" "maps_mcu_cfg_region = Some ()"
  "maps_pdma_cfg_region = Some ()" "maps_pse_cfg_region = Some ()" "maps_wf_phy_region = Some ()"
  "maps_mac_cr_ranges = Some ()" "maps_wtbl_region = Some ()" "maps_pse_client_region = Some ()"
  "passthrough_unknown_region = Some ()"
  by code_simp+

lemma eeprom_tests:
  "test_parse_valid_eeprom = Some ()" "test_parse_invalid_buffer = Some ()"
  "test_parse_fallback_mac = Some ()" "test_parse_rssi_offset = Some ()"
  "test_parse_rssi_offset_clamp = Some ()"
  by code_simp+

lemma rx_tests:
  "test_parse_valid_rx_frame = Some ()" "test_parse_truncated_rx_frame = Some ()"
  "test_parse_rx_rssi = Some ()" "test_parse_rx_rssi_unknown = Some ()"
  "test_parse_rx_eapol_data_frame = Some ()" "test_parse_rx_radiotap_rate = Some ()"
  by code_simp+

lemma tx_tests:
  "test_build_txwi = Some ()" "test_build_txwi_ofdm_rate = Some ()"
  "test_build_txwi_enospc = Some ()" "test_build_txwi_odd_hdr_len = Some ()"
  "test_build_txwi_qos_data_pad = Some ()" "test_tx_rate_to_tmi_mapping = Some ()"
  "test_build_txwi_ht_2ss_ht40 = Some ()"
  by code_simp+

lemma ap_tests:
  "test_build_beacon_frame = Some ()" "test_build_assoc_resp = Some ()"
  "test_parse_assoc_req = Some ()" "test_build_ap_bss_sync_enable = Some ()"
  "test_build_ap_bss_sync_disable = Some ()"
  by code_simp+

lemma sta_tests:
  "test_build_probe_request = Some ()" "test_parse_beacon_frame = Some ()"
  "test_wtbl_entry234_crosslinks = Some ()" "test_build_wtbl_sta_sequence = Some ()"
  by code_simp+

lemma mac_tests:
  "test_mac_init_sequence = Some ()" "test_mac_init_buffer_overflow = Some ()"
  "test_channel_switch_sequence = Some ()" "test_own_mac_sequence = Some ()"
  "test_rx_filter_sequence = Some ()" "test_ba_session_sequence = Some ()"
  by code_simp+

lemma mcu_frame_tests:
  "test_build_fw_txd_frame prof = Some ()"
  "test_build_fw_txd_frame_runtime_32b_header prof = Some ()"
  "test_build_fw_txd_frame_ext_need_ack prof = Some ()"
  "test_build_fw_txd_frame_overflow prof = Some ()"
  "test_build_fw_txd_frame_overflow_32b prof = Some ()"
  by (cases prof; hypsubst; code_simp)+

lemma mcu_download_tests:
  "test_build_addr_len_req prof = Some ()" "test_build_fw_start_req prof = Some ()"
  "test_build_restart_dl_req prof = Some ()"
  by (cases prof; hypsubst; code_simp)+

lemma mcu_firmware_tests:
  "test_fw_dl_len prof = Some ()" "test_verify_corrupted_firmware = Some ()"
proof -
  have "store (replicate 8 0) 4 (0x20 :: u8) = Some [0, 0, 0, 0, 0x20, 0, 0, 0]" by code_simp
  then show "test_fw_dl_len prof = Some ()"
    by (simp add: test_fw_dl_len_def fw_dl_len_def assert_that_def slice_eq load_eq u32_from_le_bytes_def)
  show "test_verify_corrupted_firmware = Some ()"
    by (simp add: test_verify_corrupted_firmware_def verify_firmware_def assert_that_def)
qed

lemma mcu_scatter_test: "test_build_fw_scatter_frame prof = Some ()"
  by (simp add: test_build_fw_scatter_frame_def build_fw_scatter_frame_def build_fw_txd_frame_fits
      fw_txd_block_def fw_txd_needs_ack_def assert_that_def assert_at_def assert_slice_def
      u16_to_le_bytes_def slice_eq load_eq)

lemma mcu_command_tests:
  "test_build_radio_on_off_cmd prof = Some ()" "test_build_edca_set_cmd prof = Some ()"
  "test_build_channel_switch_cmd prof = Some ()" "test_build_ch_privilege_cmd prof = Some ()"
  by (cases prof; hypsubst; code_simp)+

lemma mcu_payload_cap_test: "test_fw_scatter_payload_cap prof = Some ()"
  by (simp add: test_fw_scatter_payload_cap_def build_fw_scatter_frame_def assert_that_def)


text \<open>Of the image in harness/fixtures these tests use its length, the signature in front and the
  length word at the end (0x15124).\<close>

lemma mcu_real_firmware_tests:
  assumes "length fw = MT7603_E2_FW_SIZE" "take 4 fw = [0x46, 0x00, 0x01, 0x00]"
    and "drop (MT7603_E2_FW_SIZE - 4) fw = [0x24, 0x51, 0x01, 0x00]"
  shows "test_verify_real_e2_firmware fw = Some ()" "test_dl_len_of_real_firmware prof fw = Some ()"
proof -
  have "fw ! i = [0x46, 0x00, 0x01, 0x00] ! i" if "i < 4" for i
    using that by (simp flip: assms(2))
  from this [of 0] this [of 1] this [of 2] this [of 3]
  show "test_verify_real_e2_firmware fw = Some ()"
    by (simp add: test_verify_real_e2_firmware_def verify_firmware_def assert_that_def load_eq assms(1))
  show "test_dl_len_of_real_firmware prof fw = Some ()"
    using assms by (simp add: test_dl_len_of_real_firmware_def fw_dl_len_def slice_eq load_eq
      assert_that_def u32_from_le_bytes_def)
qed

lemma mcu_tx_power_test: "test_build_tx_power_ctrl_cmd prof = Some ()"
  by (cases prof; hypsubst; code_simp)

lemma mcu_efuse_test: "test_build_efuse_buffer_mode_cmd prof = Some ()"
proof -
  define h :: "u8 list" where
    "h = [0xE4, 0x03, 0x00, 0x80, EXT_CID, PKT_ID_CMD, CMD_SET, 3, 0, EXT_CMD_EFUSE_BUFFER_MODE, 0, 1]"
  have frame: "build_efuse_buffer_mode_cmd prof eeprom 3 (replicate 2048 0) =
      Some (Ok 996, h @ replicate 2036 0)" for eeprom
    by (simp add: build_efuse_buffer_mode_cmd_eq build_fw_txd_frame_fits fw_txd_block_def h_def
        fw_txd_needs_ack_def u16_to_le_bytes_def flip: replicate_add)
  have h: "length h = 12" "h ! 4 = EXT_CID" "h ! 6 = CMD_SET" "h ! 7 = 3"
      "h ! 9 = EXT_CMD_EFUSE_BUFFER_MODE" "h ! 11 = EXT_CID_OPTION_NEED_ACK"
    by (simp_all add: h_def)
  have s: "assert_slice (h @ replicate 2036 0) (36 + i * 4) (40 + i * 4) [0, 0, 0, 0] = Some ()"
    if "i < 240" for i
    using that zeros_behind [of h "36 + i * 4" "40 + i * 4" 2036]
    by (simp add: h numeral_eq_Suc)
  have r: "assert_slice (h @ replicate 2036 0) 12 32 (replicate 20 0) = Some ()"
    using zeros_behind [of h 12 32 2036] by (simp add: h)
  show ?thesis
    by (simp add: test_build_efuse_buffer_mode_cmd_def frame h r store_eq assert_that_def
      assert_at_prefix zero_behind) (rule for_loop_pass, simp add: s)
qed
end
