(* ===== verification/Reg_Exec.thy ===== *)
theory Reg_Exec
  imports Regmap Mac Sta Ap
begin

text \<open>
  src/src/c/regops.c: how a register sequence built by the Rust code reaches the device. The
  kernel's \<open>usb_control_msg\<close> and \<open>kmalloc\<close> are the environment: each write either goes through,
  or fails with a negative code, before or after the device has taken the value. The outcome of
  a whole sequence is an inductive relation over the device's registers, and the injectivity of
  the address map turns it into a statement about the addresses the driver names.
\<close>

section \<open>Vendor requests\<close>

text \<open>\<open>wValue\<close> and \<open>wIndex\<close> of a request carry the two halves of the address.\<close>

definition request_address :: "u32 \<Rightarrow> u16 \<times> u16" where
  "request_address mapped = (ucast (drop_bit 16 mapped), ucast (mapped AND 0xFFFF))"

definition device_address :: "u16 \<times> u16 \<Rightarrow> u32" where
  "device_address r = (case r of (value, index) \<Rightarrow> push_bit 16 (ucast value) OR ucast index)"

lemma device_address_request [simp]: "device_address (request_address a) = a"
proof (rule bit_word_eqI)
  fix n assume "n < LENGTH(32)"
  then show "bit (device_address (request_address a)) n = bit a n"
    by (cases "n < 16")
      (auto simp: device_address_def request_address_def and_mask_simps bit_simps)
qed

section \<open>Executing a sequence\<close>

type_synonym registers = "u32 \<rightharpoonup> u32"

text \<open>
  One call of \<open>mt7603_usb_write_reg\<close>: registers before, address, value, registers after, code. The
  device is taken to be a memory that stores every write it accepts: no register here is read-only,
  clears itself or changes on its own. The model over arbitrary devices is \<open>mt7603_usb_write_reg\<close> of
  theory \<open>Regops\<close>.
\<close>

inductive usb_write_reg :: "registers \<Rightarrow> u32 \<Rightarrow> u32 \<Rightarrow> registers \<Rightarrow> int \<Rightarrow> bool" where
  no_memory: "usb_write_reg dev a v dev (- 12)"
| transfer_ok:
    "mapped = physical_addr_map a \<Longrightarrow>
     usb_write_reg dev a v (dev(device_address (request_address mapped) \<mapsto> v)) 0"
| transfer_lost: "e < 0 \<Longrightarrow> usb_write_reg dev a v dev e"
| transfer_late:
    "e < 0 \<Longrightarrow> mapped = physical_addr_map a \<Longrightarrow>
     usb_write_reg dev a v (dev(device_address (request_address mapped) \<mapsto> v)) e"

inductive execute_reg_ops :: "registers \<Rightarrow> RegWriteOp list \<Rightarrow> registers \<Rightarrow> int \<Rightarrow> bool" where
  exec_done: "execute_reg_ops dev [] dev 0"
| exec_stop:
    "usb_write_reg dev (addr op) (val op) dev' ret \<Longrightarrow> ret < 0 \<Longrightarrow>
     execute_reg_ops dev (op # ops) dev' ret"
| exec_next:
    "usb_write_reg dev (addr op) (val op) dev' ret \<Longrightarrow> \<not> ret < 0 \<Longrightarrow>
     execute_reg_ops dev' ops dev'' code \<Longrightarrow> execute_reg_ops dev (op # ops) dev'' code"

inductive_simps usb_write_reg_iff: "usb_write_reg dev a v dev' ret"
inductive_cases exec_NilE: "execute_reg_ops dev [] dev' code"
inductive_cases exec_ConsE: "execute_reg_ops dev (op # ops) dev' code"

text \<open>The registers after the first writes of a sequence have gone through.\<close>

definition device_effect :: "RegWriteOp list \<Rightarrow> registers \<Rightarrow> registers" where
  "device_effect ops dev = fold (\<lambda>op dev. dev(physical_addr_map (addr op) \<mapsto> val op)) ops dev"

lemma device_effect_simps [simp]:
  "device_effect [] dev = dev"
  "device_effect (op # ops) dev =
     device_effect ops (dev(physical_addr_map (addr op) \<mapsto> val op))"
  by (simp_all add: device_effect_def)

lemma execute_prefix:
  "execute_reg_ops dev ops dev' code \<Longrightarrow>
   \<exists>k \<le> length ops. dev' = device_effect (take k ops) dev \<and>
     (code = 0 \<and> k = length ops \<or> code < 0)"
proof (induction rule: execute_reg_ops.induct)
  case (exec_stop dev op dev' ret ops)
  then have "dev' = dev \<or> dev' = dev(physical_addr_map (addr op) \<mapsto> val op)"
    by (auto simp: usb_write_reg_iff)
  then show ?case
  proof
    assume "dev' = dev"
    with exec_stop show ?thesis by (intro exI [of _ 0]) simp
  next
    assume "dev' = dev(physical_addr_map (addr op) \<mapsto> val op)"
    with exec_stop show ?thesis by (intro exI [of _ 1]) simp
  qed
next
  case (exec_next dev op dev' ret ops dev'' code)
  then have "dev' = dev(physical_addr_map (addr op) \<mapsto> val op)"
    by (auto simp: usb_write_reg_iff)
  moreover obtain k where "k \<le> length ops" "dev'' = device_effect (take k ops) dev'"
    "code = 0 \<and> k = length ops \<or> code < 0"
    using exec_next.IH by auto
  ultimately show ?case by (intro exI [of _ "Suc k"]) auto
qed auto

text \<open>Below 0x50000000 the device registers mirror the addresses of the driver.\<close>

lemma device_effect_mirror:
  assumes "list_all (\<lambda>op. addr op < 0x50000000) ops" "a < 0x50000000"
  shows "device_effect ops dev (physical_addr_map a) =
    (case reg_effect ops a of None \<Rightarrow> dev (physical_addr_map a) | Some v \<Rightarrow> Some v)"
  using assms(1)
proof (induction ops arbitrary: dev)
  case (Cons op ops)
  have "physical_addr_map a = physical_addr_map (addr op) \<longleftrightarrow> a = addr op"
    using Cons(2) assms(2) physical_addr_map_eqD by auto
  with Cons show ?case by (auto simp: map_add_def split: option.split)
qed simp


lemma execute_success_effect:
  assumes "execute_reg_ops dev ops dev' 0"
  shows "dev' = device_effect ops dev"
  using execute_prefix [OF assms] by auto

lemma execute_all_ok: "execute_reg_ops dev ops (device_effect ops dev) 0"
proof (induction ops arbitrary: dev)
  case (Cons op ops)
  have "usb_write_reg dev (addr op) (val op) (dev(physical_addr_map (addr op) \<mapsto> val op)) 0"
    using transfer_ok [of _ "addr op" dev "val op"] by simp
  with Cons show ?case by (auto intro: exec_next)
qed (auto intro: exec_done)

lemma driver_addresses:
  "list_all (\<lambda>op. addr op < 0x50000000) static_seq"
  "list_all (\<lambda>op. addr op < 0x50000000) channel_ops"
  "list_all (\<lambda>op. addr op < 0x50000000) (own_mac_ops mac)"
  "list_all (\<lambda>op. addr op < 0x50000000) (rx_filter_ops promisc fcs_fail)"
  "list_all (\<lambda>op. addr op < 0x50000000) (wtbl_sta_ops mac)"
  "list_all (\<lambda>op. addr op < 0x50000000) (bss_sync_ops period enable)"
  by (simp_all add: static_seq_def channel_ops_def own_mac_ops_def rx_filter_ops_def
      wtbl_sta_ops_def bss_sync_ops_def split: mac6.split)

section \<open>Properties\<close>

text \<open>Whatever transfers fail, executing a sequence returns 0 or a negative code, writes the
  operations in their order without skipping one, and stops at the first failure: the registers
  are those after a prefix of the sequence, the whole sequence exactly when 0 is returned.\<close>

theorem execute_stops_at_first_failure:
  assumes "execute_reg_ops dev ops dev' code"
  shows "\<exists>k \<le> length ops. dev' = device_effect (take k ops) dev \<and>
    (code = 0 \<and> k = length ops \<or> code < 0)"
  using assms by (rule execute_prefix)

theorem execute_stops_at_first_failure_witness:
  "\<exists>k \<le> 2. [physical_addr_map 0x21600 \<mapsto> 1] =
     device_effect (take k [op_write 0x21600 1, op_write 0x21608 2]) Map.empty"
proof -
  have "usb_write_reg Map.empty 0x21600 1 [physical_addr_map 0x21600 \<mapsto> 1] 0"
    using transfer_ok [of _ "0x21600" Map.empty 1] by simp
  then have "execute_reg_ops Map.empty [op_write 0x21600 1, op_write 0x21608 2]
      [physical_addr_map 0x21600 \<mapsto> 1] (- 12)"
    using exec_next [of Map.empty "op_write 0x21600 1" "[physical_addr_map 0x21600 \<mapsto> 1]" 0]
      exec_stop [OF no_memory, of _ "op_write 0x21608 2" "[]"] by simp
  from execute_stops_at_first_failure [OF this] obtain k where "k \<le> Suc (Suc 0)"
    "[physical_addr_map 0x21600 \<mapsto> 1] =
       device_effect (take k [op_write 0x21600 1, op_write 0x21608 2]) Map.empty" by auto
  then show ?thesis by (intro exI [of _ k]) simp
qed

text \<open>C26: after a sequence over HIF addresses has been executed successfully, reading any HIF
  address below 0x50000000 back through the same address map gives the last value the sequence
  wrote there, or the old content if it wrote none.\<close>

theorem execute_readback:
  assumes "execute_reg_ops dev ops dev' 0" "list_all (\<lambda>op. addr op < 0x50000000) ops"
    "a < 0x50000000"
  shows "dev' (physical_addr_map a) =
    (case reg_effect ops a of None \<Rightarrow> dev (physical_addr_map a) | Some v \<Rightarrow> Some v)"
  unfolding execute_success_effect [OF assms(1)] by (rule device_effect_mirror [OF assms(2,3)])

theorem execute_readback_witness:
  "device_effect channel_ops Map.empty (physical_addr_map ARB_RQCR) = Some 15"
  using execute_readback [OF execute_all_ok driver_addresses(2), of ARB_RQCR Map.empty]
  by (simp add: channel_ops_def)

text \<open>MAC initialisation can be restarted: if a first run broke off at any point and a second
  run succeeds, every register of the sequence holds exactly its specified value.\<close>

theorem mac_init_restart:
  assumes "execute_reg_ops dev static_seq dev1 code" "execute_reg_ops dev1 static_seq dev2 0"
    "op \<in> set static_seq"
  shows "dev2 (physical_addr_map (addr op)) = Some (val op)"
proof -
  have "op_write (addr op) (val op) = op" by (cases op) simp
  with assms(3) have "op_write (addr op) (val op) \<in> set static_seq" by (simp only:)
  then have "reg_effect static_seq (addr op) = Some (val op)"
    by (simp only: reg_effect_consistent [OF static_seq_consistent])
  moreover have "addr op < 0x50000000"
    using driver_addresses(1) assms(3) by (simp add: list_all_iff)
  ultimately show ?thesis
    unfolding execute_success_effect [OF assms(2)]
    by (simp add: device_effect_mirror driver_addresses)
qed

theorem mac_init_restart_witness:
  "device_effect static_seq Map.empty (physical_addr_map TMAC_TCR) = Some 0x40001"
proof -
  have "execute_reg_ops Map.empty static_seq Map.empty (- 12)"
    unfolding static_seq_def by (rule exec_stop) (simp_all add: no_memory)
  moreover have "op_write TMAC_TCR 0x40001 \<in> set static_seq" by (simp add: static_seq_def)
  ultimately show ?thesis using mac_init_restart [OF _ execute_all_ok] by fastforce
qed

text \<open>Setting a channel undoes access-point mode: when the BSS-sync sequence and then the
  channel sequence are executed successfully, the arbiter control register is back at 0 (station
  mode), while the beacon timers stay enabled.\<close>

theorem channel_after_ap_sync:
  assumes "build_ap_bss_sync_sequence period True ops1 = Some (Ok n, ap_ops)"
    "build_channel_sequence ch bw' ops2 = Some (Ok m, ch_ops)"
    "execute_reg_ops dev (take n ap_ops) dev1 0" "execute_reg_ops dev1 (take m ch_ops) dev2 0"
  shows "dev1 (physical_addr_map Ap.ARB_SCR) = Some 1 \<and>
    dev2 (physical_addr_map Ap.ARB_SCR) = Some 0 \<and>
    dev2 (physical_addr_map LPON_MPTCR0) = Some 0x99"
proof -
  have "reg_effect (bss_sync_ops period True) Ap.ARB_SCR = Some 1"
    "reg_effect (bss_sync_ops period True) LPON_MPTCR0 = Some 0x99"
    "reg_effect channel_ops Ap.ARB_SCR = Some 0" "reg_effect channel_ops LPON_MPTCR0 = None"
    by (simp_all add: bss_sync_ops_def channel_ops_def)
  then show ?thesis
    unfolding execute_success_effect [OF assms(3)] execute_success_effect [OF assms(4)]
      bss_sync.written_prefix [OF assms(1)] channel.written_prefix [OF assms(2)]
    by (simp add: device_effect_mirror driver_addresses)
qed

theorem channel_after_ap_sync_witness:
  "device_effect channel_ops (device_effect (bss_sync_ops 100 True) Map.empty)
     (physical_addr_map Ap.ARB_SCR) = Some 0"
proof -
  have "build_ap_bss_sync_sequence 100 True (replicate 6 (op_write 0 0)) =
      Some (Ok 6, bss_sync_ops 100 True)"
    "build_channel_sequence 6 0 (replicate 4 (op_write 0 0)) = Some (Ok 4, channel_ops)"
    by (simp_all add: bss_sync.build_cases bss_sync_ops_def channel.build_cases channel_ops_def
        word_le_nat_alt)
  moreover have "take 6 (bss_sync_ops 100 True) = bss_sync_ops 100 True" "take 4 channel_ops = channel_ops"
    by (simp_all add: bss_sync_ops_def channel_ops_def)
  ultimately show ?thesis
    using channel_after_ap_sync [of 100 "replicate 6 (op_write 0 0)" 6 "bss_sync_ops 100 True" 6 0
        "replicate 4 (op_write 0 0)" 4 channel_ops, OF _ _ execute_all_ok execute_all_ok, of Map.empty]
    by simp
qed

end
