(* ===== verification/Runner.thy ===== *)
theory Runner
  imports Reg_Exec Mcu
begin

text \<open>
  src/src/rust/src/bin/user\_runner.rs: the user-space runner. The USB library (the \<open>rusb\<close> crate)
  is outside the repository: the devices it lists and its \<open>write_control\<close> and \<open>claim_interface\<close>
  calls, which change the state of the bus, are parameters of the model. Printing is left out;
  the report holds what the program prints.
\<close>

section \<open>Finding the device\<close>

abbreviation VID :: u16 where "VID \<equiv> 0x0e8d"
abbreviation PID_ALT :: u16 where "PID_ALT \<equiv> 0x760c"
abbreviation PID_STD :: u16 where "PID_STD \<equiv> 0x7603"

text \<open>A listed device: its descriptor, if it can be read, and whether it can be opened.\<close>

record usb_device =
  descriptor :: "(u16 \<times> u16) option"
  can_open :: bool

datatype runner_error =
  UsbError | FwVerifyError int | MacInitError int | ProbeReqError int | BeaconError int | AssocError int

fun find_device :: "usb_device list \<Rightarrow> runner_error + u16 option" where
  "find_device [] = Inr None"
| "find_device (d # ds) =
     (case descriptor d of
        None \<Rightarrow> Inl UsbError
      | Some (vendor_id, product_id) \<Rightarrow>
          if vendor_id = VID \<and> (product_id = PID_ALT \<or> product_id = PID_STD)
          then if can_open d then Inr (Some product_id) else Inl UsbError
          else find_device ds)"

section \<open>Register transfers\<close>

type_synonym 's write_control = "u8 \<Rightarrow> u8 \<Rightarrow> u16 \<Rightarrow> u16 \<Rightarrow> u8 list \<Rightarrow> 's \<Rightarrow> bool \<times> 's"

definition runner_request :: "RegWriteOp \<Rightarrow> u8 \<times> u8 \<times> u16 \<times> u16 \<times> u8 list" where
  "runner_request op =
     (let reg = addr op;
          val_bytes = u32_to_le_bytes (val op);
          value = ucast (drop_bit 16 reg);
          index = ucast (reg AND 0xFFFF)
      in (0x40, 0x63, value, index, val_bytes))"

text \<open>The loop over the operations; a failed transfer is reported and the loop goes on.\<close>

fun run_ops :: "'s write_control \<Rightarrow> RegWriteOp list \<Rightarrow> nat \<Rightarrow> 's \<Rightarrow> nat \<times> 's" where
  "run_ops write_control [] ops_executed s = (ops_executed, s)"
| "run_ops write_control (op # ops) ops_executed s =
     (case runner_request op of (rt, rq, value, index, val_bytes) \<Rightarrow>
        case write_control rt rq value index val_bytes s of
          (True, s) \<Rightarrow> run_ops write_control ops (ops_executed + 1) s
        | (False, s) \<Rightarrow> run_ops write_control ops ops_executed s)"

section \<open>The program\<close>

record run_report =
  rep_pid :: u16
  rep_fw_len :: nat
  rep_generated :: nat
  rep_executed :: nat
  rep_probe :: "u8 list"
  rep_beacon :: "u8 list"
  rep_assoc :: "u8 list"

definition firefly :: "u8 list" where
  "firefly = [0x66, 0x69, 0x72, 0x65, 0x66, 0x6c, 0x79]"

definition ap_ssid :: "u8 list" where
  "ap_ssid = [0x4d, 0x54, 0x37, 0x36, 0x30, 0x33, 0x55, 0x2d, 0x41, 0x50]"

abbreviation runner_mac :: mac6 where "runner_mac \<equiv> Mac6 0x00 0x0c 0x43 0x76 0x03 0x01"
abbreviation client_mac :: mac6 where "client_mac \<equiv> Mac6 0xAA 0xBB 0xCC 0xDD 0xEE 0xFF"

text \<open>
  The frames of steps 4 to 6. Each builder works on a fresh array of 128 bytes.
\<close>

definition runner_frames ::
  "(runner_error + u8 list \<times> u8 list \<times> u8 list) option" where
  "runner_frames = do {
     (r, probe_req_buf) \<leftarrow> build_probe_request firefly runner_mac (replicate 128 0);
     (case r of Err e \<Rightarrow> Some (Inl (ProbeReqError e)) | Ok req_len \<Rightarrow> do {
       (r, beacon_buf) \<leftarrow> build_beacon ap_ssid runner_mac 6 (replicate 128 0);
       (case r of Err e \<Rightarrow> Some (Inl (BeaconError e)) | Ok beacon_len \<Rightarrow> do {
         (r, assoc_resp_buf) \<leftarrow> build_assoc_resp client_mac runner_mac 1 0 (replicate 128 0);
         (case r of Err e \<Rightarrow> Some (Inl (AssocError e)) | Ok assoc_len \<Rightarrow>
           Some (Inr (take req_len probe_req_buf, take beacon_len beacon_buf,
                      take assoc_len assoc_resp_buf)))
       })
     })
   }"

text \<open>
  \<open>devices\<close> is \<^term>\<open>None\<close> when the USB context cannot be created or listed. The result is
  \<^term>\<open>Inr None\<close> when no device was found; the outer \<open>option\<close> is a panic.
\<close>

definition runner_main ::
  "usb_device list option \<Rightarrow> ('s \<Rightarrow> 's) \<Rightarrow> 's write_control \<Rightarrow> u8 list \<Rightarrow> 's
   \<Rightarrow> ((runner_error + run_report option) \<times> 's) option" where
  "runner_main devices claim_interface write_control fw_bytes s =
     (case devices of None \<Rightarrow> Some (Inl UsbError, s) | Some ds \<Rightarrow>
      case find_device ds of
        Inl e \<Rightarrow> Some (Inl e, s)
      | Inr None \<Rightarrow> Some (Inr None, s)
      | Inr (Some matched_pid) \<Rightarrow> do {
          r \<leftarrow> verify_firmware fw_bytes;
          (case r of Err e \<Rightarrow> Some (Inl (FwVerifyError e), s) | Ok _ \<Rightarrow> do {
            (r, reg_ops) \<leftarrow> build_mac_init_sequence (replicate 128 (op_write 0 0));
            (case r of Err e \<Rightarrow> Some (Inl (MacInitError e), s) | Ok count \<Rightarrow> do {
              let s = claim_interface s;
              ops \<leftarrow> slice reg_ops 0 count;
              let (ops_executed, s) = run_ops write_control ops 0 s;
              frames \<leftarrow> runner_frames;
              Some (case frames of
                  Inl e \<Rightarrow> (Inl e, s)
                | Inr (probe, bcn, assoc_resp) \<Rightarrow>
                    (Inr (Some \<lparr> rep_pid = matched_pid, rep_fw_len = length fw_bytes,
                       rep_generated = count, rep_executed = ops_executed,
                       rep_probe = probe, rep_beacon = bcn, rep_assoc = assoc_resp \<rparr>), s))
            })
          })
        })"


lemma run_ops_le: "fst (run_ops wc ops n s) \<le> n + length ops"
proof (induction ops arbitrary: n s)
  case (Cons op ops)
  have "fst (run_ops wc ops (n + 1) s') \<le> n + length (op # ops)"
    "fst (run_ops wc ops n s') \<le> n + length (op # ops)" for s'
    using Cons [of "n + 1" s'] Cons [of n s'] by simp_all
  then show ?case by (simp split: prod.split bool.split)
qed simp

lemma runner_frames_eq:
  "runner_frames = Some (Inr (probe_frame firefly runner_mac, beacon_frame ap_ssid runner_mac 6,
     assoc_resp_frame client_mac runner_mac 1 0))"
  by (simp add: runner_frames_def probe.build_cases beacon.build_cases assoc.build_cases
      length_probe_frame length_beacon_frame firefly_def ap_ssid_def)

lemma length_static_seq: "length static_seq = 67"
  by (simp add: static_seq_def)

text \<open>Given an accepted firmware image and a list whose first matching device can be opened,
  the runner completes without error or panic whatever its register transfers do: it generates
  all 67 initialisation writes, counts at most that many as executed, and produces the three
  reference frames, all of which fit their 128-byte buffers.\<close>

theorem runner_completes:
  assumes "find_device ds = Inr (Some vid)" "verify_firmware fw = Some (Ok ())"
  shows "\<exists>n s'. n \<le> 67 \<and> runner_main (Some ds) claim wc fw s =
    Some (Inr (Some \<lparr> rep_pid = vid, rep_fw_len = length fw, rep_generated = 67,
      rep_executed = n, rep_probe = probe_frame firefly runner_mac,
      rep_beacon = beacon_frame ap_ssid runner_mac 6,
      rep_assoc = assoc_resp_frame client_mac runner_mac 1 0 \<rparr>), s')"
proof -
  obtain n s' where r: "run_ops wc static_seq 0 (claim s) = (n, s')" by fastforce
  have "n \<le> 67"
    using run_ops_le [of wc static_seq 0 "claim s"] by (simp add: r length_static_seq)
  moreover have "slice (static_seq @ xs) 0 67 = Some static_seq" for xs
    by (simp add: slice_def length_static_seq)
  ultimately show ?thesis
    using assms r
    by (simp add: runner_main_def mac_init.build_cases length_static_seq runner_frames_eq)
qed

theorem runner_completes_witness:
  "\<exists>r s'. runner_main (Some [\<lparr>descriptor = Some (0x0e8d, 0x7603), can_open = True\<rparr>]) id
     (\<lambda>_ _ _ _ _ s. (False, s)) ([0x46, 0, 1, 0] @ replicate 1020 0) () = Some (Inr (Some r), s')"
proof -
  have "find_device [\<lparr>descriptor = Some (0x0e8d, 0x7603), can_open = True\<rparr>] = Inr (Some 0x7603)"
    by simp
  moreover have "verify_firmware ([0x46, 0, 1, 0] @ replicate 1020 0) = Some (Ok ())"
    by (simp add: verify_firmware_def load_def)
  ultimately obtain r s' where "runner_main
      (Some [\<lparr>descriptor = Some (0x0e8d, 0x7603), can_open = True\<rparr>]) id
      (\<lambda>_ _ _ _ _ s. (False, s)) ([0x46, 0, 1, 0] @ replicate 1020 0) () = Some (Inr (Some r), s')"
    using runner_completes [of "[\<lparr>descriptor = Some (0x0e8d, 0x7603), can_open = True\<rparr>]" "0x7603"
        "[0x46, 0, 1, 0] @ replicate 1020 0" id "\<lambda>_ _ _ _ _ s. (False, s)" "()"]
    by metis
  then show ?thesis by (intro exI)
qed

text \<open>The runner's requests carry each operation's address and value unchanged, but the
  address is the unmapped HIF address: for every one of the initialisation writes it differs
  from the address the kernel driver's write uses, and the request code is the one the kernel
  driver uses for reading.\<close>

theorem runner_requests_unmapped:
  "list_all (\<lambda>op. case runner_request op of (rt, rq, value, index, val_bytes) \<Rightarrow>
       device_address (value, index) = addr op \<and> val_bytes = u32_to_le_bytes (val op) \<and>
       rq = 0x63 \<and> device_address (value, index) \<noteq> physical_addr_map (addr op)) static_seq"
proof -
  have a: "device_address (ucast (drop_bit 16 x), ucast (x AND 0xFFFF)) = x" for x
    using device_address_request [of x] by (simp add: request_address_def)
  have "list_all (\<lambda>op. addr op \<noteq> physical_addr_map (addr op)) static_seq"
    by code_simp
  then show ?thesis by (simp add: runner_request_def Let_def a)
qed

end
