(* ===== verification/Kernel_Io.thy ===== *)
theory Kernel_Io
  imports Mt_Prelude "HOL-Library.State_Monad"
begin

text \<open>
  The C half of the driver talks to the Linux kernel: \<open>kmalloc\<close>, \<open>usb_control_msg\<close>,
  \<open>usb_bulk_msg\<close> and the URB calls. That code is not part of the repository, so it is a record
  of functions \<open>kernel\<close>, an argument of every definition that calls it. An answer may depend on
  everything that happened before; a theorem that holds for all kernels therefore holds for
  every behaviour of the bus, of the device and of the allocator.

  A C function is a computation of the state monad whose state is the history of calls, each
  recorded with its answer. The predicate \<open>spec\<close> states what a computation returns together
  with the events it appends, and composes along \<open>do\<close> blocks.
\<close>

section \<open>Calls and their history\<close>

datatype event =
    Alloc nat bool                   \<comment> \<open>\<open>kmalloc\<close>: size, success\<close>
  | Free                             \<comment> \<open>\<open>kfree\<close>\<close>
  | Control_In u32 int u32           \<comment> \<open>vendor read: address on the bus, code, word in the buffer\<close>
  | Control_Out u32 u32 int          \<comment> \<open>vendor write: address on the bus, word, code\<close>
  | Bulk_Out "u8 list" int           \<comment> \<open>transfer to the command endpoint: bytes, code\<close>
  | Urb_Alloc bool                   \<comment> \<open>\<open>usb_alloc_urb\<close>: success\<close>
  | Urb_Submit u8 int                \<comment> \<open>\<open>usb_submit_urb\<close> on an endpoint: endpoint, code\<close>
  | Urb_Kill u8                      \<comment> \<open>\<open>usb_kill_urb\<close> of the URB of an endpoint\<close>
  | Urb_Free                         \<comment> \<open>\<open>usb_free_urb\<close>\<close>
  | Await bool                       \<comment> \<open>\<open>wait_for_completion_timeout\<close>: completed in time\<close>
  | Sleep                            \<comment> \<open>\<open>msleep\<close>, \<open>usleep_range\<close>\<close>
  | Clear_Halt u8                    \<comment> \<open>\<open>usb_clear_halt\<close> of an endpoint\<close>
  | Anchor_Wait                      \<comment> \<open>\<open>usb_wait_anchor_empty_timeout\<close> on the transmit anchor\<close>
  | Anchor_Kill                      \<comment> \<open>\<open>usb_kill_anchored_urbs\<close>\<close>

type_synonym history = "event list"
type_synonym 'a io = "(history, 'a) state"

text \<open>
  \<open>completions\<close> lists what the host controller reports for the URB of an endpoint until the wait
  is over: status, bytes received, and the code of the resubmission should the handler ask for one.
  \<open>stale\<close> is what memory holds that nobody has written yet.
\<close>

record kernel =
  kmalloc_ok :: "history \<Rightarrow> nat \<Rightarrow> bool"
  usb_control_in :: "history \<Rightarrow> u32 \<Rightarrow> int \<times> u32"
  usb_control_out :: "history \<Rightarrow> u32 \<Rightarrow> u32 \<Rightarrow> int"
  usb_bulk_out :: "history \<Rightarrow> u8 list \<Rightarrow> int"
  usb_alloc_urb_ok :: "history \<Rightarrow> bool"
  usb_submit :: "history \<Rightarrow> u8 \<Rightarrow> int"
  completions :: "history \<Rightarrow> u8 \<Rightarrow> (int \<times> u8 list \<times> int) list"
  stale :: "nat \<Rightarrow> u8"

definition emit :: "(history \<Rightarrow> 'a) \<Rightarrow> ('a \<Rightarrow> event) \<Rightarrow> 'a io" where
  "emit answer ev = State (\<lambda>h. (answer h, h @ [ev (answer h)]))"

definition kmalloc :: "kernel \<Rightarrow> nat \<Rightarrow> bool io" where
  "kmalloc k n = emit (\<lambda>h. kmalloc_ok k h n) (Alloc n)"

definition kfree :: "unit io" where
  "kfree = emit (\<lambda>_. ()) (\<lambda>_. Free)"

definition control_in :: "kernel \<Rightarrow> u32 \<Rightarrow> (int \<times> u32) io" where
  "control_in k a = emit (\<lambda>h. usb_control_in k h a) (\<lambda>(ret, v). Control_In a ret v)"

definition control_out :: "kernel \<Rightarrow> u32 \<Rightarrow> u32 \<Rightarrow> int io" where
  "control_out k a v = emit (\<lambda>h. usb_control_out k h a v) (Control_Out a v)"

definition bulk_out :: "kernel \<Rightarrow> u8 list \<Rightarrow> int io" where
  "bulk_out k bytes = emit (\<lambda>h. usb_bulk_out k h bytes) (Bulk_Out bytes)"

definition alloc_urb :: "kernel \<Rightarrow> bool io" where
  "alloc_urb k = emit (usb_alloc_urb_ok k) Urb_Alloc"

definition submit_urb :: "kernel \<Rightarrow> u8 \<Rightarrow> int io" where
  "submit_urb k ep = emit (\<lambda>h. usb_submit k h ep) (Urb_Submit ep)"

definition kill_urb :: "u8 \<Rightarrow> unit io" where
  "kill_urb ep = emit (\<lambda>_. ()) (\<lambda>_. Urb_Kill ep)"

definition free_urb :: "unit io" where
  "free_urb = emit (\<lambda>_. ()) (\<lambda>_. Urb_Free)"

definition sleep :: "unit io" where
  "sleep = emit (\<lambda>_. ()) (\<lambda>_. Sleep)"

definition clear_halt :: "u8 \<Rightarrow> unit io" where
  "clear_halt ep = emit (\<lambda>_. ()) (\<lambda>_. Clear_Halt ep)"

definition anchor_wait :: "unit io" where
  "anchor_wait = emit (\<lambda>_. ()) (\<lambda>_. Anchor_Wait)"

definition anchor_kill :: "unit io" where
  "anchor_kill = emit (\<lambda>_. ()) (\<lambda>_. Anchor_Kill)"

section \<open>What a computation returns and appends\<close>

definition spec :: "'a io \<Rightarrow> ('a \<Rightarrow> history \<Rightarrow> bool) \<Rightarrow> bool" where
  "spec m Q \<longleftrightarrow> (\<forall>h. \<exists>es. snd (run_state m h) = h @ es \<and> Q (fst (run_state m h)) es)"

lemma specI:
  assumes "\<And>h. \<exists>x es. run_state m h = (x, h @ es) \<and> Q x es"
  shows "spec m Q"
  unfolding spec_def using assms by (metis fst_conv snd_conv)

lemma specD:
  assumes "spec m Q" "run_state m h = (x, h')"
  obtains es where "h' = h @ es" "Q x es"
  using assms unfolding spec_def by (metis fst_conv snd_conv)

lemma spec_run:
  assumes "spec m Q"
  obtains x es where "run_state m h = (x, h @ es)" "Q x es"
  using assms unfolding spec_def by (metis prod.collapse)

lemma spec_return: "Q x [] \<Longrightarrow> spec (State_Monad.return x) Q"
  by (rule specI) simp

lemma spec_bind:
  assumes m: "spec m P" and f: "\<And>x es. P x es \<Longrightarrow> spec (f x) (\<lambda>y es'. Q y (es @ es'))"
  shows "spec (State_Monad.bind m f) Q"
proof (rule specI)
  fix h
  obtain x es where x: "run_state m h = (x, h @ es)" "P x es" using spec_run [OF m] by metis
  obtain y es' where "run_state (f x) (h @ es) = (y, (h @ es) @ es')" "Q y (es @ es')"
    using spec_run [OF f [OF x(2)]] by metis
  with x show "\<exists>y es. run_state (State_Monad.bind m f) h = (y, h @ es) \<and> Q y es" by auto
qed

lemma spec_weaken: "spec m P \<Longrightarrow> (\<And>x es. P x es \<Longrightarrow> Q x es) \<Longrightarrow> spec m Q"
  unfolding spec_def by blast

lemma spec_emit: "spec (emit answer ev) (\<lambda>x es. es = [ev x])"
  by (rule specI) (simp add: emit_def)

lemma spec_conj: "spec m P \<Longrightarrow> spec m Q \<Longrightarrow> spec m (\<lambda>x es. P x es \<and> Q x es)"
  unfolding spec_def by (metis same_append_eq)

named_theorems call_spec \<open>the event each kernel call appends\<close>

lemma kmalloc_spec [call_spec]: "spec (kmalloc k n) (\<lambda>ok es. es = [Alloc n ok])"
  unfolding kmalloc_def by (rule spec_emit)

lemma kfree_spec [call_spec]: "spec kfree (\<lambda>_ es. es = [Free])"
  unfolding kfree_def by (rule spec_emit)

lemma control_in_spec [call_spec]: "spec (control_in k a) (\<lambda>r es. es = [Control_In a (fst r) (snd r)])"
  unfolding control_in_def by (rule spec_weaken [OF spec_emit]) (simp add: case_prod_beta)

lemma control_out_spec [call_spec]: "spec (control_out k a v) (\<lambda>r es. es = [Control_Out a v r])"
  unfolding control_out_def by (rule spec_emit)

lemma bulk_out_spec [call_spec]: "spec (bulk_out k b) (\<lambda>r es. es = [Bulk_Out b r])"
  unfolding bulk_out_def by (rule spec_emit)

lemma alloc_urb_spec [call_spec]: "spec (alloc_urb k) (\<lambda>r es. es = [Urb_Alloc r])"
  unfolding alloc_urb_def by (rule spec_emit)

lemma submit_urb_spec [call_spec]: "spec (submit_urb k ep) (\<lambda>r es. es = [Urb_Submit ep r])"
  unfolding submit_urb_def by (rule spec_emit)

lemma kill_urb_spec [call_spec]: "spec (kill_urb ep) (\<lambda>_ es. es = [Urb_Kill ep])"
  unfolding kill_urb_def by (rule spec_emit)

lemma free_urb_spec [call_spec]: "spec free_urb (\<lambda>_ es. es = [Urb_Free])"
  unfolding free_urb_def by (rule spec_emit)

lemma sleep_spec [call_spec]: "spec sleep (\<lambda>_ es. es = [Sleep])"
  unfolding sleep_def by (rule spec_emit)

lemma clear_halt_spec [call_spec]: "spec (clear_halt ep) (\<lambda>_ es. es = [Clear_Halt ep])"
  unfolding clear_halt_def by (rule spec_emit)

lemma anchor_wait_spec [call_spec]: "spec anchor_wait (\<lambda>_ es. es = [Anchor_Wait])"
  unfolding anchor_wait_def by (rule spec_emit)

lemma anchor_kill_spec [call_spec]: "spec anchor_kill (\<lambda>_ es. es = [Anchor_Kill])"
  unfolding anchor_kill_def by (rule spec_emit)

text \<open>Running a call on a concrete history, for evaluation.\<close>

lemma run_calls [simp]:
  "run_state (emit answer ev) h = (answer h, h @ [ev (answer h)])"
  by (simp add: emit_def)

lemmas call_defs = kmalloc_def kfree_def control_in_def control_out_def bulk_out_def alloc_urb_def
  submit_urb_def kill_urb_def free_urb_def sleep_def clear_halt_def anchor_wait_def anchor_kill_def

section \<open>Properties of histories that compose\<close>

text \<open>
  A property of event lists that holds of the empty list and of concatenations holds of a whole
  C function as soon as it holds of every call in it.
\<close>

locale trace_property =
  fixes P :: "history \<Rightarrow> bool"
  assumes none: "P []"
    and join: "P xs \<Longrightarrow> P ys \<Longrightarrow> P (xs @ ys)"
begin

definition keeps :: "'a io \<Rightarrow> bool" where
  "keeps m \<longleftrightarrow> spec m (\<lambda>_. P)"

lemma keepsI: "spec m (\<lambda>_. P) \<Longrightarrow> keeps m"
  by (simp add: keeps_def)

lemma keeps_spec: "spec m Q \<Longrightarrow> (\<And>x es. Q x es \<Longrightarrow> P es) \<Longrightarrow> keeps m"
  unfolding keeps_def by (rule spec_weaken)

lemma keeps_return: "keeps (State_Monad.return x)"
  unfolding keeps_def by (rule spec_return) (rule none)

lemma keeps_bind: "keeps m \<Longrightarrow> (\<And>x. keeps (f x)) \<Longrightarrow> keeps (State_Monad.bind m f)"
  unfolding keeps_def by (rule spec_bind) (blast intro: spec_weaken join)+

lemma keeps_if: "(b \<Longrightarrow> keeps m) \<Longrightarrow> (\<not> b \<Longrightarrow> keeps m') \<Longrightarrow> keeps (if b then m else m')"
  by simp

lemma keeps_prod: "(\<And>x y. keeps (f x y)) \<Longrightarrow> keeps (case p of (x, y) \<Rightarrow> f x y)"
  by (cases p) simp

lemma keeps_option:
  "(\<And>x. keeps (f x)) \<Longrightarrow> keeps m \<Longrightarrow> keeps (case z of None \<Rightarrow> m | Some x \<Rightarrow> f x)"
  by (cases z) simp_all

lemmas keeps_rules = keeps_return keeps_bind keeps_if keeps_prod keeps_option

lemma keeps_run: "keeps m \<Longrightarrow> run_state m h = (x, h @ es) \<Longrightarrow> P es"
  unfolding keeps_def by (erule specD) auto

end

text \<open>Buffers and URBs a history has allocated and not released.\<close>

primrec live_buffers :: "history \<Rightarrow> int" where
  "live_buffers [] = 0"
| "live_buffers (e # es) =
     (case e of Alloc n ok \<Rightarrow> if ok then 1 else 0 | Free \<Rightarrow> - 1 | _ \<Rightarrow> 0) + live_buffers es"

primrec live_urbs :: "history \<Rightarrow> int" where
  "live_urbs [] = 0"
| "live_urbs (e # es) =
     (case e of Urb_Alloc ok \<Rightarrow> if ok then 1 else 0 | Urb_Free \<Rightarrow> - 1 | _ \<Rightarrow> 0) + live_urbs es"

lemma live_append [simp]:
  "live_buffers (xs @ ys) = live_buffers xs + live_buffers ys"
  "live_urbs (xs @ ys) = live_urbs xs + live_urbs ys"
  by (induction xs) auto

definition balanced :: "history \<Rightarrow> bool" where
  "balanced es \<longleftrightarrow> live_buffers es = 0 \<and> live_urbs es = 0"

text \<open>Bulk transfers of a history, in order.\<close>

primrec sent_frames :: "history \<Rightarrow> (u8 list \<times> int) list" where
  "sent_frames [] = []"
| "sent_frames (e # es) =
     (case e of Bulk_Out b r \<Rightarrow> [(b, r)] | _ \<Rightarrow> []) @ sent_frames es"

lemma sent_frames_append [simp]: "sent_frames (xs @ ys) = sent_frames xs @ sent_frames ys"
  by (induction xs) auto

text \<open>Addresses a history has written, and the registers behind the successful writes.\<close>

primrec written_addrs :: "history \<Rightarrow> u32 set" where
  "written_addrs [] = {}"
| "written_addrs (e # es) = (case e of Control_Out a v r \<Rightarrow> {a} | _ \<Rightarrow> {}) \<union> written_addrs es"

lemma written_addrs_append [simp]: "written_addrs (xs @ ys) = written_addrs xs \<union> written_addrs ys"
  by (induction xs) auto

primrec registers_after :: "history \<Rightarrow> (u32 \<rightharpoonup> u32) \<Rightarrow> (u32 \<rightharpoonup> u32)" where
  "registers_after [] dev = dev"
| "registers_after (e # es) dev =
     registers_after es (case e of Control_Out a v r \<Rightarrow> if r < 0 then dev else dev(a \<mapsto> v) | _ \<Rightarrow> dev)"

lemma registers_after_append [simp]:
  "registers_after (xs @ ys) dev = registers_after ys (registers_after xs dev)"
  by (induction xs arbitrary: dev) auto

interpretation memory: trace_property balanced
  by unfold_locales (auto simp: balanced_def)

interpretation quiet: trace_property "\<lambda>es. sent_frames es = []"
  by unfold_locales auto

interpretation footprint: trace_property "\<lambda>es. written_addrs es \<subseteq> A" for A
  by unfold_locales auto

end
