(* ===== verification/Regops.thy ===== *)
theory Regops
  imports Kernel_Io Reg_Exec
begin

text \<open>
  src/src/c/regops.c: the register accesses, as computations over the kernel.
  The lemmas give each access its exact history, the link from the executable write loop to the
  step relation of \<open>Reg_Exec\<close>, and the behaviour of the eFuse reader on every branch.
\<close>

abbreviation ENOMEM :: int where "ENOMEM \<equiv> - 12"
abbreviation EIO :: int where "EIO \<equiv> - 5"
abbreviation ETIMEDOUT :: int where "ETIMEDOUT \<equiv> - 110"
abbreviation ENODATA :: int where "ENODATA \<equiv> - 61"

section \<open>Single registers\<close>

text \<open>\<open>*val\<close> is only assigned on success; the caller's variable is the last argument.\<close>

definition mt7603_usb_read_reg :: "kernel \<Rightarrow> u32 \<Rightarrow> u32 \<Rightarrow> (int \<times> u32) io" where
  "mt7603_usb_read_reg k a old = do {
     buf \<leftarrow> kmalloc k 4;
     if \<not> buf then State_Monad.return (ENOMEM, old)
     else do {
       let mapped = physical_addr_map a;
       (ret, word) \<leftarrow> control_in k (device_address (request_address mapped));
       kfree;
       State_Monad.return (if ret \<ge> 0 then (0, word) else (ret, old))
     }
   }"

definition mt7603_usb_write_reg :: "kernel \<Rightarrow> u32 \<Rightarrow> u32 \<Rightarrow> int io" where
  "mt7603_usb_write_reg k a v = do {
     buf \<leftarrow> kmalloc k 4;
     if \<not> buf then State_Monad.return ENOMEM
     else do {
       let mapped = physical_addr_map a;
       ret \<leftarrow> control_out k (device_address (request_address mapped)) v;
       kfree;
       State_Monad.return (if ret < 0 then ret else 0)
     }
   }"

definition mt7603_usb_cfg_read :: "kernel \<Rightarrow> u32 \<Rightarrow> u32 \<Rightarrow> (int \<times> u32) io" where
  "mt7603_usb_cfg_read k a old = do {
     buf \<leftarrow> kmalloc k 4;
     if \<not> buf then State_Monad.return (ENOMEM, old)
     else do {
       (ret, word) \<leftarrow> control_in k (device_address (request_address a));
       kfree;
       State_Monad.return (if ret \<ge> 0 then (0, word) else (ret, old))
     }
   }"

definition mt7603_usb_cfg_write :: "kernel \<Rightarrow> u32 \<Rightarrow> u32 \<Rightarrow> int io" where
  "mt7603_usb_cfg_write k a v = do {
     buf \<leftarrow> kmalloc k 4;
     if \<not> buf then State_Monad.return ENOMEM
     else do {
       ret \<leftarrow> control_out k (device_address (request_address a)) v;
       kfree;
       State_Monad.return (if ret < 0 then ret else 0)
     }
   }"

primrec mt7603_execute_reg_ops :: "kernel \<Rightarrow> RegWriteOp list \<Rightarrow> int io" where
  "mt7603_execute_reg_ops k [] = State_Monad.return 0"
| "mt7603_execute_reg_ops k (op # ops) = do {
     ret \<leftarrow> mt7603_usb_write_reg k (addr op) (val op);
     if ret < 0 then State_Monad.return ret else mt7603_execute_reg_ops k ops
   }"

text \<open>The history of one access: nothing but a failed allocation, or one transfer.\<close>

definition read_events :: "u32 \<Rightarrow> u32 \<Rightarrow> int \<times> u32 \<Rightarrow> history \<Rightarrow> bool" where
  "read_events mapped old r es \<longleftrightarrow>
     (es = [Alloc 4 False] \<and> r = (ENOMEM, old)) \<or>
     (\<exists>code w. es = [Alloc 4 True, Control_In mapped code w, Free] \<and>
        r = (if code \<ge> 0 then (0, w) else (code, old)))"

definition write_events :: "u32 \<Rightarrow> u32 \<Rightarrow> int \<Rightarrow> history \<Rightarrow> bool" where
  "write_events mapped v r es \<longleftrightarrow>
     (es = [Alloc 4 False] \<and> r = ENOMEM) \<or>
     (\<exists>code. es = [Alloc 4 True, Control_Out mapped v code, Free] \<and> r = (if code < 0 then code else 0))"

named_theorems reg_spec \<open>what each register access returns and appends\<close>

lemma cfg_read_spec [reg_spec]: "spec (mt7603_usb_cfg_read k a old) (read_events a old)"
  by (rule specI) (auto simp: mt7603_usb_cfg_read_def call_defs read_events_def split: prod.split)

lemma cfg_write_spec [reg_spec]: "spec (mt7603_usb_cfg_write k a v) (write_events a v)"
  by (rule specI) (auto simp: mt7603_usb_cfg_write_def call_defs write_events_def)

lemma read_reg_spec [reg_spec]:
  "spec (mt7603_usb_read_reg k a old) (read_events (physical_addr_map a) old)"
  by (rule specI) (auto simp: mt7603_usb_read_reg_def Let_def call_defs read_events_def split: prod.split)

lemma write_reg_spec [reg_spec]:
  "spec (mt7603_usb_write_reg k a v) (write_events (physical_addr_map a) v)"
  by (rule specI) (auto simp: mt7603_usb_write_reg_def Let_def call_defs write_events_def)

lemma events_facts:
  "read_events m old r es \<Longrightarrow> balanced es \<and> sent_frames es = [] \<and> written_addrs es = {} \<and>
     fst r \<le> 0 \<and> registers_after es dev = dev"
  "write_events m v c es \<Longrightarrow> balanced es \<and> sent_frames es = [] \<and> written_addrs es \<subseteq> {m} \<and> c \<le> 0 \<and>
     registers_after es dev = (if c < 0 then dev else dev(m \<mapsto> v))"
  by (auto simp: read_events_def write_events_def balanced_def split: if_splits)

text \<open>The accesses release what they allocate and send no frame.\<close>

lemma keeps_access:
  "memory.keeps (mt7603_usb_read_reg k a old)" "memory.keeps (mt7603_usb_write_reg k a v)"
  "memory.keeps (mt7603_usb_cfg_read k a old)" "memory.keeps (mt7603_usb_cfg_write k a v)"
  "quiet.keeps (mt7603_usb_read_reg k a old)" "quiet.keeps (mt7603_usb_write_reg k a v)"
  "quiet.keeps (mt7603_usb_cfg_read k a old)" "quiet.keeps (mt7603_usb_cfg_write k a v)"
  by (rule memory.keeps_spec [OF read_reg_spec] memory.keeps_spec [OF write_reg_spec]
      memory.keeps_spec [OF cfg_read_spec] memory.keeps_spec [OF cfg_write_spec]
      quiet.keeps_spec [OF read_reg_spec] quiet.keeps_spec [OF write_reg_spec]
      quiet.keeps_spec [OF cfg_read_spec] quiet.keeps_spec [OF cfg_write_spec];
      simp add: events_facts)+

section \<open>The write loop refines the step relation\<close>

text \<open>
  The registers a history leaves behind are those of the relation in which a failed transfer has
  no effect on the device.
\<close>

lemma write_reg_simulates:
  assumes "write_events (physical_addr_map a) v r es"
  shows "usb_write_reg dev a v (registers_after es dev) r"
  using assms by (auto simp: write_events_def usb_write_reg_iff split: if_split_asm if_split)

lemma execute_simulates:
  "spec (mt7603_execute_reg_ops k ops) (\<lambda>r es. \<forall>dev. execute_reg_ops dev ops (registers_after es dev) r)"
proof (induction ops)
  case Nil
  show ?case by (simp add: spec_return exec_done)
next
  case (Cons op ops)
  show ?case
    unfolding mt7603_execute_reg_ops.simps
  proof (rule spec_bind [OF write_reg_spec])
    fix r es assume "write_events (physical_addr_map (addr op)) (val op) r es"
    then have w: "usb_write_reg dev (addr op) (val op) (registers_after es dev) r" for dev
      by (rule write_reg_simulates)
    show "spec (if r < 0 then State_Monad.return r else mt7603_execute_reg_ops k ops)
        (\<lambda>y es'. \<forall>dev. execute_reg_ops dev (op # ops) (registers_after (es @ es') dev) y)"
    proof (cases "r < 0")
      case True
      with w show ?thesis by (auto intro!: spec_return exec_stop)
    next
      case False
      with w have "\<forall>dev. execute_reg_ops dev ops (registers_after es' dev) y \<Longrightarrow>
          \<forall>dev. execute_reg_ops dev (op # ops) (registers_after (es @ es') dev) y" for y es'
        by (auto intro: exec_next)
      with False show ?thesis by (auto intro: spec_weaken [OF Cons])
    qed
  qed
qed

lemma execute_memory: "memory.keeps (mt7603_execute_reg_ops k ops)"
  by (induction ops) (auto intro!: memory.keeps_rules keeps_access)

lemma execute_quiet: "quiet.keeps (mt7603_execute_reg_ops k ops)"
  by (induction ops) (auto intro!: quiet.keeps_rules keeps_access)

section \<open>Reasoning about sequences of accesses\<close>

text \<open>Words successfully read, with their addresses, and the number of transfers tried.\<close>

primrec words_read :: "history \<Rightarrow> (u32 \<times> u32) list" where
  "words_read [] = []"
| "words_read (e # es) =
     (case e of Control_In a code w \<Rightarrow> if code \<ge> 0 then [(a, w)] else [] | _ \<Rightarrow> []) @ words_read es"

primrec transfers :: "history \<Rightarrow> nat" where
  "transfers [] = 0"
| "transfers (e # es) =
     (case e of Control_In a code w \<Rightarrow> 1 | Control_Out a v code \<Rightarrow> 1 | _ \<Rightarrow> 0) + transfers es"

lemma words_append [simp]:
  "words_read (xs @ ys) = words_read xs @ words_read ys"
  "transfers (xs @ ys) = transfers xs + transfers ys"
  by (induction xs) auto

lemma read_events_words:
  "read_events m old (ret, v) es \<Longrightarrow>
     ret \<le> 0 \<and> words_read es = (if ret = 0 then [(m, v)] else []) \<and> (ret \<noteq> 0 \<longrightarrow> v = old) \<and> transfers es \<le> 1"
  by (auto simp: read_events_def split: if_splits)

lemma write_events_words:
  "write_events m v ret es \<Longrightarrow> ret \<le> 0 \<and> words_read es = [] \<and> transfers es \<le> 1"
  by (auto simp: write_events_def)

text \<open>A read followed by a continuation, the shape of almost every step of the C code.\<close>

lemma spec_read:
  assumes "\<And>ret v es. read_events (physical_addr_map a) old (ret, v) es \<Longrightarrow>
     spec (f ret v) (\<lambda>y es'. Q y (es @ es'))"
  shows "spec (State_Monad.bind (mt7603_usb_read_reg k a old) (\<lambda>(ret, v). f ret v)) Q"
  by (rule spec_bind [OF read_reg_spec]) (use assms in auto)

lemma spec_write:
  assumes "\<And>ret es. write_events (physical_addr_map a) v ret es \<Longrightarrow>
     spec (f ret) (\<lambda>y es'. Q y (es @ es'))"
  shows "spec (State_Monad.bind (mt7603_usb_write_reg k a v) f) Q"
  using assms by (rule spec_bind [OF write_reg_spec])

lemma spec_sleep:
  assumes "spec (f ()) (\<lambda>y es. Q y (Sleep # es))"
  shows "spec (State_Monad.bind sleep f) Q"
  by (rule spec_bind [OF sleep_spec]) (use assms in auto)

lemma spec_if:
  "(b \<Longrightarrow> spec m Q) \<Longrightarrow> (\<not> b \<Longrightarrow> spec m' Q) \<Longrightarrow> spec (if b then m else m') Q"
  by simp

lemmas io_intros = spec_if spec_return spec_read spec_write spec_sleep
lemmas event_facts = read_events_words write_events_words events_facts

end
