(* ===== verification/Efuse.thy ===== *)
theory Efuse
  imports Regops
begin

text \<open>
  The eFuse reader of src/src/c/regops.c: one block (start the read, poll, fetch four words) and
  the loop over a whole image. The lemmas bound its work for every kernel, determine the bytes of a
  successful block read, and show that a device with the documented behaviour delivers its image.
\<close>

section \<open>The eFuse reader\<close>

abbreviation MT_EFUSE_BASE_CTRL :: u32 where "MT_EFUSE_BASE_CTRL \<equiv> 0x81070000"
abbreviation MT_EFUSE_CTRL :: u32 where "MT_EFUSE_CTRL \<equiv> 0x81070008"
abbreviation MT_EFUSE_CTRL_AIN :: u32 where "MT_EFUSE_CTRL_AIN \<equiv> push_bit 16 0x3FF"
abbreviation MT_EFUSE_CTRL_MODE :: u32 where "MT_EFUSE_CTRL_MODE \<equiv> push_bit 6 0x3"
abbreviation MT_EFUSE_CTRL_KICK :: u32 where "MT_EFUSE_CTRL_KICK \<equiv> push_bit 30 1"
abbreviation MT_EFUSE_CTRL_AOUT :: u32 where "MT_EFUSE_CTRL_AOUT \<equiv> 0x3F"
abbreviation MT_EFUSE_CTRL_VALID :: u32 where "MT_EFUSE_CTRL_VALID \<equiv> push_bit 29 1"
abbreviation MT_EFUSE_BASE_CTRL_EMPTY :: u32 where "MT_EFUSE_BASE_CTRL_EMPTY \<equiv> push_bit 30 1"

definition MT_EFUSE_RDATA :: "nat \<Rightarrow> u32" where
  "MT_EFUSE_RDATA n = 0x81070030 + 4 * word_of_nat n"

text \<open>The command word of a block: new address, mode 0, start bit, everything else as read.\<close>

definition efuse_kick_word :: "u32 \<Rightarrow> u16 \<Rightarrow> u32" where
  "efuse_kick_word v a =
     (v AND NOT (MT_EFUSE_CTRL_AIN OR MT_EFUSE_CTRL_MODE)) OR
     (push_bit 16 (ucast (a AND NOT 0xF)) OR MT_EFUSE_CTRL_KICK)"

text \<open>The polling loop, by the number of iterations left.\<close>

primrec efuse_poll :: "kernel \<Rightarrow> nat \<Rightarrow> u32 \<Rightarrow> (int \<times> u32) io" where
  "efuse_poll k 0 v = State_Monad.return (0, v)"
| "efuse_poll k (Suc n) v = do {
     sleep;
     (ret, v) \<leftarrow> mt7603_usb_read_reg k MT_EFUSE_CTRL v;
     if ret \<noteq> 0 then State_Monad.return (ret, v)
     else if v AND MT_EFUSE_CTRL_KICK = 0 then State_Monad.return (0, v)
     else efuse_poll k n v
   }"

text \<open>\<open>data[4*i .. 4*i+3]\<close> from one word.\<close>

definition put_word :: "nat \<Rightarrow> u32 \<Rightarrow> u8 list \<Rightarrow> u8 list" where
  "put_word i v d =
     d[4 * i := ucast (v AND 0xFF), 4 * i + 1 := ucast (drop_bit 8 v AND 0xFF),
       4 * i + 2 := ucast (drop_bit 16 v AND 0xFF), 4 * i + 3 := ucast (drop_bit 24 v AND 0xFF)]"

primrec efuse_rdata :: "kernel \<Rightarrow> nat list \<Rightarrow> u8 list \<Rightarrow> (int \<times> u8 list) io" where
  "efuse_rdata k [] d = State_Monad.return (0, d)"
| "efuse_rdata k (i # is) d = do {
     (ret, v) \<leftarrow> mt7603_usb_read_reg k (MT_EFUSE_RDATA i) 0;
     if ret \<noteq> 0 then State_Monad.return (ret, d)
     else efuse_rdata k is (put_word i v d)
   }"

definition mt7603_efuse_read_block :: "kernel \<Rightarrow> u16 \<Rightarrow> u8 list \<Rightarrow> (int \<times> u8 list) io" where
  "mt7603_efuse_read_block k a d = do {
     (ret, v) \<leftarrow> mt7603_usb_read_reg k MT_EFUSE_CTRL 0;
     if ret \<noteq> 0 then State_Monad.return (ret, d) else do {
     let v = efuse_kick_word v a;
     ret \<leftarrow> mt7603_usb_write_reg k MT_EFUSE_CTRL v;
     if ret \<noteq> 0 then State_Monad.return (ret, d) else do {
     (ret, v) \<leftarrow> efuse_poll k 100 v;
     if ret \<noteq> 0 then State_Monad.return (ret, d)
     else if v AND MT_EFUSE_CTRL_KICK \<noteq> 0 then State_Monad.return (ETIMEDOUT, d)
     else do {
     sleep;
     (ret, v) \<leftarrow> mt7603_usb_read_reg k MT_EFUSE_CTRL v;
     if ret \<noteq> 0 then State_Monad.return (ret, d)
     else if v AND MT_EFUSE_CTRL_AOUT = MT_EFUSE_CTRL_AOUT \<or> v AND MT_EFUSE_CTRL_VALID = 0
     then State_Monad.return (0, replicate 16 0xFF @ drop 16 d)
     else efuse_rdata k [0..<4] d
     }}}
   }"

text \<open>
  The loop over blocks; \<open>mt7603_efuse_read_block\<close> gets the pointer \<open>buf + i\<close>, the part of the
  buffer from there on.
\<close>

function efuse_blocks :: "kernel \<Rightarrow> nat \<Rightarrow> u8 list \<Rightarrow> nat \<Rightarrow> (int \<times> u8 list) io" where
  "efuse_blocks k i buf len =
     (if i + 16 \<le> len then do {
        (ret, d) \<leftarrow> mt7603_efuse_read_block k (word_of_nat i) (drop i buf);
        if ret \<noteq> 0 then State_Monad.return (ret, take i buf @ d)
        else efuse_blocks k (i + 16) (take i buf @ d) len
      }
      else State_Monad.return (0, buf))"
  by pat_completeness auto
termination
  by (relation "measure (\<lambda>(k, i, buf, len). len - i)") auto

declare efuse_blocks.simps [simp del]

definition mt7603_efuse_read_all :: "kernel \<Rightarrow> u8 list \<Rightarrow> nat \<Rightarrow> (int \<times> u8 list) io" where
  "mt7603_efuse_read_all k buf len = do {
     (ret, v) \<leftarrow> mt7603_usb_read_reg k MT_EFUSE_BASE_CTRL 0;
     if ret \<noteq> 0 then State_Monad.return (ret, buf)
     else if v AND MT_EFUSE_BASE_CTRL_EMPTY \<noteq> 0 then State_Monad.return (ENODATA, buf)
     else efuse_blocks k 0 buf len
   }"

section \<open>Behaviour of the eFuse reader\<close>

lemma efuse_addresses [simp]:
  "physical_addr_map MT_EFUSE_BASE_CTRL = MT_EFUSE_BASE_CTRL"
  "physical_addr_map MT_EFUSE_CTRL = MT_EFUSE_CTRL"
  by (simp_all add: physical_addr_map_def)

lemma efuse_rdata_address [simp]:
  assumes "i < 4"
  shows "physical_addr_map (MT_EFUSE_RDATA i) = MT_EFUSE_RDATA i"
proof -
  from assms have "i \<in> {0, 1, 2, 3}" by auto
  then show ?thesis by (auto simp: physical_addr_map_def MT_EFUSE_RDATA_def)
qed

lemma ucast_byte: "ucast ((v :: u32) AND 0xFF) = (ucast v :: u8)"
  by (rule bit_word_eqI) (auto simp: and_mask_simps bit_simps)

lemma put_word_block:
  assumes "16 \<le> length d"
  shows "put_word 3 w3 (put_word 2 w2 (put_word 1 w1 (put_word 0 w0 d))) =
    u32_to_le_bytes w0 @ u32_to_le_bytes w1 @ u32_to_le_bytes w2 @ u32_to_le_bytes w3 @ drop 16 d"
proof -
  from assms have "16 \<le> length (take 16 d)" by simp
  then obtain a0 a1 a2 a3 a4 a5 a6 a7 a8 a9 a10 a11 a12 a13 a14 a15 where
    "take 16 d = [a0, a1, a2, a3, a4, a5, a6, a7, a8, a9, a10, a11, a12, a13, a14, a15]"
    by (auto simp: numeral_eq_Suc Suc_le_length_iff take_Suc_conv_app_nth)
  then obtain r where "d = a0 # a1 # a2 # a3 # a4 # a5 # a6 # a7 # a8 # a9 # a10 # a11 # a12 # a13 # a14 # a15 # r"
    by (metis append_take_drop_id append_Cons append_Nil)
  then show ?thesis by (simp add: put_word_def u32_to_le_bytes_def ucast_byte)
qed

lemma length_put_word [simp]: "length (put_word i w d) = length d"
  by (simp add: put_word_def)

lemma drop_put_word: "i < 4 \<Longrightarrow> drop 16 (put_word i w d) = drop 16 d"
  by (simp add: put_word_def drop_update_cancel)

text \<open>What a successful block read has established from the words it saw.\<close>

definition efuse_block_result :: "(u32 \<times> u32) list \<Rightarrow> u8 list \<Rightarrow> bool" where
  "efuse_block_result ws b \<longleftrightarrow>
     (\<exists>polls c data. ws = polls @ (MT_EFUSE_CTRL, c) # data \<and> fst ` set polls \<subseteq> {MT_EFUSE_CTRL} \<and>
        (if c AND MT_EFUSE_CTRL_AOUT = MT_EFUSE_CTRL_AOUT \<or> c AND MT_EFUSE_CTRL_VALID = 0
         then data = [] \<and> b = replicate 16 0xFF
         else map fst data = map MT_EFUSE_RDATA [0..<4] \<and>
              b = concat (map (\<lambda>(a, w). u32_to_le_bytes w) data)))"

lemma efuse_poll_spec:
  "spec (efuse_poll k n v) (\<lambda>r es. fst r \<le> 0 \<and> transfers es \<le> n \<and> fst ` set (words_read es) \<subseteq> {MT_EFUSE_CTRL})"
proof (induction n arbitrary: v)
  case 0
  then show ?case by (simp add: spec_return)
next
  case (Suc n)
  show ?case
    unfolding efuse_poll.simps
  proof (rule spec_sleep, rule spec_read)
    fix ret w es
    assume "read_events (physical_addr_map MT_EFUSE_CTRL) v (ret, w) es"
    then have r: "ret \<le> 0" "fst ` set (words_read es) \<subseteq> {MT_EFUSE_CTRL}" "transfers es \<le> 1"
      by (auto dest: read_events_words)
    then show "spec (if ret \<noteq> 0 then State_Monad.return (ret, w)
        else if w AND MT_EFUSE_CTRL_KICK = 0 then State_Monad.return (0, w) else efuse_poll k n w)
        (\<lambda>r es'. fst r \<le> 0 \<and> transfers (Sleep # es @ es') \<le> Suc n \<and>
          fst ` set (words_read (Sleep # es @ es')) \<subseteq> {MT_EFUSE_CTRL})"
      by (auto intro!: spec_return spec_weaken [OF Suc [of w]] simp: image_Un)
  qed
qed

lemma efuse_rdata_spec:
  "set is \<subseteq> {..<4} \<Longrightarrow> spec (efuse_rdata k is d) (\<lambda>r es. fst r \<le> 0 \<and> transfers es \<le> length is \<and>
     length (snd r) = length d \<and> drop 16 (snd r) = drop 16 d \<and>
     (fst r = 0 \<longrightarrow> map fst (words_read es) = map MT_EFUSE_RDATA is \<and>
        snd r = fold (\<lambda>(i, w). put_word i w) (zip is (map snd (words_read es))) d))"
proof (induction "is" arbitrary: d)
  case Nil
  then show ?case by (simp add: spec_return)
next
  case (Cons i "is")
  show ?case
    unfolding efuse_rdata.simps
  proof (rule spec_read)
    fix ret w es
    assume "read_events (physical_addr_map (MT_EFUSE_RDATA i)) 0 (ret, w) es"
    then have r: "ret \<le> 0" "words_read es = (if ret = 0 then [(MT_EFUSE_RDATA i, w)] else [])" "transfers es \<le> 1"
      using Cons(2) by (auto dest: read_events_words)
    from Cons(2) have "set is \<subseteq> {..<4}" "i < 4" by auto
    with r Cons(1) [of "put_word i w d"] show "spec (if ret \<noteq> 0 then State_Monad.return (ret, d)
        else efuse_rdata k is (put_word i w d))
      (\<lambda>r es'. fst r \<le> 0 \<and> transfers (es @ es') \<le> length (i # is) \<and>
         length (snd r) = length d \<and> drop 16 (snd r) = drop 16 d \<and>
         (fst r = 0 \<longrightarrow> map fst (words_read (es @ es')) = map MT_EFUSE_RDATA (i # is) \<and>
          snd r = fold (\<lambda>(i, w). put_word i w) (zip (i # is) (map snd (words_read (es @ es')))) d))"
      by (auto intro!: spec_return elim!: spec_weaken simp: drop_put_word)
  qed
qed

lemma efuse_rdata_block:
  assumes "16 \<le> length d"
  shows "spec (efuse_rdata k [0..<4] d) (\<lambda>r es. fst r \<le> 0 \<and> transfers es \<le> 4 \<and>
     length (snd r) = length d \<and> drop 16 (snd r) = drop 16 d \<and>
     (fst r = 0 \<longrightarrow> map fst (words_read es) = map MT_EFUSE_RDATA [0..<4] \<and>
        take 16 (snd r) = concat (map (\<lambda>(a, w). u32_to_le_bytes w) (words_read es))))"
proof (rule spec_weaken [OF efuse_rdata_spec])
  fix r es
  assume r: "fst r \<le> 0 \<and> transfers es \<le> length [0..<4] \<and> length (snd r) = length d \<and>
      drop 16 (snd r) = drop 16 d \<and> (fst r = 0 \<longrightarrow>
      map fst (words_read es) = map MT_EFUSE_RDATA [0..<4] \<and>
      snd r = fold (\<lambda>(i, w). put_word i w) (zip [0..<4] (map snd (words_read es))) d)"
  have "take 16 (snd r) = concat (map (\<lambda>(a, w). u32_to_le_bytes w) (words_read es))"
    if "map fst (words_read es) = map MT_EFUSE_RDATA [0..<4]"
      "snd r = fold (\<lambda>(i, w). put_word i w) (zip [0..<4] (map snd (words_read es))) d"
  proof -
    from that(1) have "length (words_read es) = 4" by (metis length_map length_upt diff_zero)
    then obtain p0 p1 p2 p3 where "words_read es = [p0, p1, p2, p3]"
      by (auto simp: numeral_eq_Suc length_Suc_conv)
    with that(2) put_word_block [OF assms] show ?thesis
      by (simp add: upt_conv_Cons case_prod_beta numeral_2_eq_2 numeral_3_eq_3)
  qed
  with r show "fst r \<le> 0 \<and> transfers es \<le> 4 \<and> length (snd r) = length d \<and>
      drop 16 (snd r) = drop 16 d \<and> (fst r = 0 \<longrightarrow>
      map fst (words_read es) = map MT_EFUSE_RDATA [0..<4] \<and>
      take 16 (snd r) = concat (map (\<lambda>(a, w). u32_to_le_bytes w) (words_read es)))"
    by simp
qed auto

lemma efuse_block_resultI:
  assumes "fst ` set polls \<subseteq> {MT_EFUSE_CTRL}"
    "if c AND MT_EFUSE_CTRL_AOUT = MT_EFUSE_CTRL_AOUT \<or> c AND MT_EFUSE_CTRL_VALID = 0
     then data = [] \<and> b = replicate 16 0xFF
     else map fst data = map MT_EFUSE_RDATA [0..<4] \<and>
          b = concat (map (\<lambda>(a, w). u32_to_le_bytes w) data)"
  shows "efuse_block_result ((MT_EFUSE_CTRL, v) # polls @ (MT_EFUSE_CTRL, c) # data) b"
  unfolding efuse_block_result_def
  by (rule exI [of _ "(MT_EFUSE_CTRL, v) # polls"], rule exI [of _ c], rule exI [of _ data])
    (use assms in auto)

lemma efuse_block_spec:
  assumes "16 \<le> length d"
  shows "spec (mt7603_efuse_read_block k a d) (\<lambda>r es. fst r \<le> 0 \<and> transfers es \<le> 107 \<and>
     length (snd r) = length d \<and> drop 16 (snd r) = drop 16 d \<and>
     (fst r = 0 \<longrightarrow> efuse_block_result (words_read es) (take 16 (snd r))))"
  unfolding mt7603_efuse_read_block_def Let_def
  apply (intro io_intros)
    apply (auto dest!: read_events_words)[1]
   apply (auto dest!: read_events_words write_events_words)[1]
  apply (rule spec_bind [OF efuse_poll_spec])
  apply (split prod.split, intro allI impI, intro io_intros)
      apply (auto dest!: read_events_words write_events_words)[3]
   apply (use assms in \<open>auto dest!: read_events_words write_events_words
      intro!: efuse_block_resultI [of _ _ "[]", simplified]\<close>)[1]
  apply (rule spec_weaken [OF efuse_rdata_block [OF assms]])
  apply (auto dest!: read_events_words write_events_words intro!: efuse_block_resultI)
  done

text \<open>The whole image: bounded work, and bytes beyond the last full block are not touched.\<close>

lemma efuse_blocks_spec:
  "len \<le> length buf \<Longrightarrow> spec (efuse_blocks k i buf len)
     (\<lambda>r es. fst r \<le> 0 \<and> length (snd r) = length buf \<and> transfers es \<le> 107 * ((len - i) div 16) \<and>
        take i (snd r) = take i buf \<and> drop len (snd r) = drop len buf)"
proof (induction k i buf len rule: efuse_blocks.induct)
  case (1 k i buf len)
  show ?case
  proof (cases "i + 16 \<le> len")
    case False
    then show ?thesis by (simp add: efuse_blocks.simps [of k i buf len] spec_return)
  next
    case True
    have d: "16 \<le> length (drop i buf)" using True 1(2) by simp
    have n: "(len - i) div 16 = Suc ((len - (i + 16)) div 16)" using True by (subst le_div_geq) auto
    show ?thesis
      unfolding efuse_blocks.simps [of k i buf len] if_P [OF True]
    proof (rule spec_bind [OF efuse_block_spec [OF d]])
      fix r :: "int \<times> u8 list" and es
      assume r: "fst r \<le> 0 \<and> transfers es \<le> 107 \<and> length (snd r) = length (drop i buf) \<and>
        drop 16 (snd r) = drop 16 (drop i buf) \<and>
        (fst r = 0 \<longrightarrow> efuse_block_result (words_read es) (take 16 (snd r)))"
      define b where "b = take i buf @ snd r"
      have "drop (len - i) (snd r) = drop (len - (i + 16)) (drop 16 (snd r))"
        using True by simp
      then have b: "length b = length buf" "take i b = take i buf" "drop len b = drop len buf"
        using r True 1(2) by (auto simp: b_def)
      have t: "take (i + 16) xs = take (i + 16) b \<Longrightarrow> take i xs = take i buf" for xs
        using b(2) by (metis min.absorb1 le_add1 take_take)
      show "spec (case r of (ret, d) \<Rightarrow> if ret \<noteq> 0 then State_Monad.return (ret, take i buf @ d)
          else efuse_blocks k (i + 16) (take i buf @ d) len)
        (\<lambda>y es'. fst y \<le> 0 \<and> length (snd y) = length buf \<and>
           transfers (es @ es') \<le> 107 * ((len - i) div 16) \<and>
           take i (snd y) = take i buf \<and> drop len (snd y) = drop len buf)"
        using r b t n 1(1) [OF True, of 0 "snd r"] 1(2)
        by (auto simp: case_prod_beta b_def [symmetric] intro!: spec_return elim!: spec_weaken)
    qed
  qed
qed

lemma efuse_read_all_spec:
  assumes "len \<le> length buf"
  shows "spec (mt7603_efuse_read_all k buf len)
     (\<lambda>r es. fst r \<le> 0 \<and> length (snd r) = length buf \<and> transfers es \<le> 1 + 107 * (len div 16) \<and>
        drop len (snd r) = drop len buf)"
  unfolding mt7603_efuse_read_all_def
  apply (intro io_intros)
    apply (auto dest!: read_events_words)[2]
  apply (rule spec_weaken [OF efuse_blocks_spec [OF assms]])
  apply (auto dest!: read_events_words)
  done

section \<open>Reading from a working device\<close>

text \<open>
  The documented behaviour of the eFuse block as a hypothesis on the kernel: transfers succeed, the
  start bit reads back as set until \<open>latency\<close> polls have passed since the last command and clear
  afterwards, with a valid result, and the data registers hold the four words of the block whose
  address the command named.
\<close>

definition efuse_ain :: "u32 \<Rightarrow> nat" where
  "efuse_ain w = unat (take_bit 10 (drop_bit 16 w))"

definition efuse_step :: "event \<Rightarrow> u32 option \<times> nat \<Rightarrow> u32 option \<times> nat" where
  "efuse_step e s = (case e of
       Control_Out a w code \<Rightarrow> if a = MT_EFUSE_CTRL \<and> code \<ge> 0 then (Some w, 0) else s
     | Control_In a code w \<Rightarrow> if a = MT_EFUSE_CTRL then (fst s, Suc (snd s)) else s
     | _ \<Rightarrow> s)"

definition efuse_state :: "history \<Rightarrow> u32 option \<times> nat" where
  "efuse_state h = fold efuse_step h (None, 0)"

definition efuse_device :: "kernel \<Rightarrow> u8 list \<Rightarrow> nat \<Rightarrow> bool" where
  "efuse_device k img latency \<longleftrightarrow>
     (\<forall>h n. kmalloc_ok k h n) \<and> (\<forall>h a. fst (usb_control_in k h a) \<ge> 0) \<and>
     (\<forall>h a v. usb_control_out k h a v \<ge> 0) \<and>
     (\<forall>h. snd (usb_control_in k h MT_EFUSE_BASE_CTRL) AND MT_EFUSE_BASE_CTRL_EMPTY = 0) \<and>
     (\<forall>h w n. efuse_state h = (Some w, n) \<longrightarrow>
        (snd (usb_control_in k h MT_EFUSE_CTRL) AND MT_EFUSE_CTRL_KICK = 0 \<longleftrightarrow> latency \<le> n) \<and>
        (latency \<le> n \<longrightarrow> snd (usb_control_in k h MT_EFUSE_CTRL) AND MT_EFUSE_CTRL_VALID \<noteq> 0 \<and>
           snd (usb_control_in k h MT_EFUSE_CTRL) AND MT_EFUSE_CTRL_AOUT \<noteq> MT_EFUSE_CTRL_AOUT)) \<and>
     (\<forall>h w n i. efuse_state h = (Some w, n) \<longrightarrow> i < 4 \<longrightarrow>
        snd (usb_control_in k h (MT_EFUSE_RDATA i)) = dword img (efuse_ain w div 4 + i))"

lemma efuse_state_append [simp]: "efuse_state (h @ es) = fold efuse_step es (efuse_state h)"
  by (simp add: efuse_state_def)

lemma efuse_masks:
  "bit MT_EFUSE_CTRL_AIN n \<longleftrightarrow> 16 \<le> n \<and> n < 26" "bit MT_EFUSE_CTRL_MODE n \<longleftrightarrow> n = 6 \<or> n = 7"
  "bit MT_EFUSE_CTRL_KICK n \<longleftrightarrow> n = 30" "bit (0xF :: u16) n \<longleftrightarrow> n < 4"
proof -
  have m: "(0x3FF :: u32) = mask 10" "(3 :: u32) = mask 2" "(0xF :: u16) = mask 4"
    by (simp_all add: mask_numeral)
  show "bit MT_EFUSE_CTRL_AIN n \<longleftrightarrow> 16 \<le> n \<and> n < 26" "bit MT_EFUSE_CTRL_MODE n \<longleftrightarrow> n = 6 \<or> n = 7"
    "bit MT_EFUSE_CTRL_KICK n \<longleftrightarrow> n = 30" "bit (0xF :: u16) n \<longleftrightarrow> n < 4"
    unfolding m by (auto simp only: bit_push_bit_iff bit_mask_iff bit_1_iff possible_bit_word
        len_num1 len_num0 len_bit0 len_bit1)
qed

lemma efuse_kick_bits:
  assumes "unat a < 1024"
  shows "bit (efuse_kick_word v a) n \<longleftrightarrow>
    (if n = 30 then True else if 16 \<le> n \<and> n < 26 then 20 \<le> n \<and> bit a (n - 16)
     else n \<noteq> 6 \<and> n \<noteq> 7 \<and> bit v n)"
proof -
  have a: "bit a m \<Longrightarrow> m < 10" for m
    using bit_small [of "ucast a" 10 m] bit_imp_le_length [of a m] assms by (simp add: bit_simps)
  have "bit (push_bit 16 (ucast (a AND NOT 0xF)) :: u32) n \<longleftrightarrow> 20 \<le> n \<and> bit a (n - 16)"
    using a [of "n - 16"]
    unfolding bit_push_bit_iff bit_ucast_iff bit_and_iff bit_not_iff efuse_masks by auto
  moreover have "bit v n \<Longrightarrow> n < 32" using bit_imp_le_length [of v n] by simp
  ultimately show ?thesis
    using a [of "n - 16"] unfolding efuse_kick_word_def bit_or_iff bit_and_iff bit_not_iff efuse_masks
    by auto
qed

lemma efuse_ain_kick:
  assumes "i < 1024" "16 dvd i"
  shows "efuse_ain (efuse_kick_word v (word_of_nat i)) = i"
proof -
  from assms(2) obtain j where j: "i = push_bit 4 j"
    by (auto simp: push_bit_eq_mult mult.commute)
  have i10: "bit i n \<Longrightarrow> n < 10" for n
    using bit_take_bit_iff [of 10 i n] assms(1) by (simp add: take_bit_nat_eq_self)
  have u: "unat (word_of_nat i :: u16) = i" using assms(1) by (simp add: unat_of_nat)
  have "take_bit 10 (drop_bit 16 (efuse_kick_word v (word_of_nat i))) = (word_of_nat i :: u32)"
  proof (rule bit_word_eqI)
    fix n assume "n < LENGTH(32)"
    then show "bit (take_bit 10 (drop_bit 16 (efuse_kick_word v (word_of_nat i)))) n =
        bit (word_of_nat i :: u32) n"
      using i10 [of n] efuse_kick_bits [of "word_of_nat i" v "16 + n"] assms(1) u
      by (cases "n < 4") (auto simp: bit_take_bit_iff bit_drop_bit_eq bit_of_nat_iff bit_push_bit_iff j)
  qed
  then show ?thesis using assms(1) by (simp add: efuse_ain_def unat_of_nat)
qed

text \<open>One access to a working device, with the state of the eFuse block before and after.\<close>

lemma device_read:
  assumes "efuse_device k img latency"
  obtains es where
    "run_state (mt7603_usb_read_reg k a old) h =
       ((0, snd (usb_control_in k (h @ [Alloc 4 True]) (physical_addr_map a))), h @ es)"
    "efuse_state (h @ es) = (if physical_addr_map a = MT_EFUSE_CTRL
       then (fst (efuse_state h), Suc (snd (efuse_state h))) else efuse_state h)"
proof -
  obtain code w where w: "usb_control_in k (h @ [Alloc 4 True]) (physical_addr_map a) = (code, w)"
    by fastforce
  with assms have "0 \<le> code" "kmalloc_ok k h 4" unfolding efuse_device_def by (metis fst_conv)+
  with w show ?thesis
    by (intro that [of "[Alloc 4 True, Control_In (physical_addr_map a) code w, Free]"])
      (auto simp: mt7603_usb_read_reg_def Let_def call_defs efuse_step_def)
qed

lemma device_write:
  assumes "efuse_device k img latency"
  obtains es where "run_state (mt7603_usb_write_reg k MT_EFUSE_CTRL v) h = (0, h @ es)"
    "efuse_state (h @ es) = (Some v, 0)"
proof -
  have "0 \<le> usb_control_out k (h @ [Alloc 4 True]) MT_EFUSE_CTRL v" "kmalloc_ok k h 4"
    using assms unfolding efuse_device_def by blast+
  then show ?thesis
    by (intro that [of "[Alloc 4 True,
          Control_Out MT_EFUSE_CTRL v (usb_control_out k (h @ [Alloc 4 True]) MT_EFUSE_CTRL v), Free]"])
      (auto simp: mt7603_usb_write_reg_def Let_def call_defs efuse_step_def)
qed

lemma efuse_state_quiet [simp]:
  "efuse_step (Alloc n ok) s = s" "efuse_step Free s = s" "efuse_step Sleep s = s"
  by (simp_all add: efuse_step_def)

lemma device_ctrl:
  assumes "efuse_device k img latency" "efuse_state h = (Some w, n)"
  shows "snd (usb_control_in k h MT_EFUSE_CTRL) AND MT_EFUSE_CTRL_KICK = 0 \<longleftrightarrow> latency \<le> n"
    "latency \<le> n \<Longrightarrow> \<not> (snd (usb_control_in k h MT_EFUSE_CTRL) AND MT_EFUSE_CTRL_AOUT = MT_EFUSE_CTRL_AOUT \<or>
       snd (usb_control_in k h MT_EFUSE_CTRL) AND MT_EFUSE_CTRL_VALID = 0)"
  using assms unfolding efuse_device_def by blast+

lemma device_rdata:
  assumes "efuse_device k img latency" "efuse_state h = (Some w, n)" "i < 4"
  shows "snd (usb_control_in k h (MT_EFUSE_RDATA i)) = dword img (efuse_ain w div 4 + i)"
  using assms unfolding efuse_device_def by blast

lemma device_poll:
  assumes k: "efuse_device k img latency"
  shows "efuse_state h = (Some w, n) \<Longrightarrow> n \<le> latency \<Longrightarrow> latency < n + m \<Longrightarrow>
    \<exists>c es. run_state (efuse_poll k m v) h = ((0, c), h @ es) \<and> c AND MT_EFUSE_CTRL_KICK = 0 \<and>
      efuse_state (h @ es) = (Some w, Suc latency)"
proof (induction m arbitrary: h n v)
  case (Suc m)
  obtain es where r: "run_state (mt7603_usb_read_reg k MT_EFUSE_CTRL v) (h @ [Sleep]) =
      ((0, snd (usb_control_in k ((h @ [Sleep]) @ [Alloc 4 True]) MT_EFUSE_CTRL)), (h @ [Sleep]) @ es)"
    "efuse_state ((h @ [Sleep]) @ es) = (Some w, Suc n)"
    using device_read [OF k, of MT_EFUSE_CTRL v "h @ [Sleep]"] Suc(2) by auto
  have c: "snd (usb_control_in k ((h @ [Sleep]) @ [Alloc 4 True]) MT_EFUSE_CTRL) AND MT_EFUSE_CTRL_KICK = 0
      \<longleftrightarrow> latency \<le> n"
    using device_ctrl(1) [OF k, of "(h @ [Sleep]) @ [Alloc 4 True]" w n] Suc(2) by simp
  show ?case
  proof (cases "latency \<le> n")
    case True
    with Suc(3) r c show ?thesis
      by (intro exI [of _ "snd (usb_control_in k ((h @ [Sleep]) @ [Alloc 4 True]) MT_EFUSE_CTRL)"]
          exI [of _ "[Sleep] @ es"]) (simp add: sleep_def)
  next
    case False
    with Suc(4) obtain c' es' where
      "run_state (efuse_poll k m (snd (usb_control_in k ((h @ [Sleep]) @ [Alloc 4 True]) MT_EFUSE_CTRL)))
         ((h @ [Sleep]) @ es) = ((0, c'), ((h @ [Sleep]) @ es) @ es')"
      "c' AND MT_EFUSE_CTRL_KICK = 0" "efuse_state (((h @ [Sleep]) @ es) @ es') = (Some w, Suc latency)"
      using Suc(1) [OF r(2)] by fastforce
    with False r(1) c show ?thesis
      by (intro exI [of _ c'] exI [of _ "([Sleep] @ es) @ es'"]) (simp add: sleep_def)
  qed
qed simp

lemma device_words:
  assumes k: "efuse_device k img latency"
  shows "efuse_state h = (Some w, n) \<Longrightarrow> set is \<subseteq> {..<4} \<Longrightarrow>
    \<exists>es. run_state (efuse_rdata k is d) h =
      ((0, fold (\<lambda>i. put_word i (dword img (efuse_ain w div 4 + i))) is d), h @ es)"
proof (induction "is" arbitrary: h d)
  case (Cons i "is")
  then have i: "i < 4" by simp
  have "MT_EFUSE_RDATA i \<noteq> MT_EFUSE_CTRL"
  proof -
    from i have "i \<in> {0, 1, 2, 3}" by auto
    then show ?thesis by (auto simp: MT_EFUSE_RDATA_def)
  qed
  then obtain es where r: "run_state (mt7603_usb_read_reg k (MT_EFUSE_RDATA i) 0) h =
      ((0, snd (usb_control_in k (h @ [Alloc 4 True]) (MT_EFUSE_RDATA i))), h @ es)"
    "efuse_state (h @ es) = (Some w, n)"
    using device_read [OF k, of "MT_EFUSE_RDATA i" 0 h] Cons(2) i by auto
  have "snd (usb_control_in k (h @ [Alloc 4 True]) (MT_EFUSE_RDATA i)) = dword img (efuse_ain w div 4 + i)"
    using device_rdata [OF k, of "h @ [Alloc 4 True]" w n i] Cons(2) i by simp
  moreover obtain es' where "run_state (efuse_rdata k is (put_word i (dword img (efuse_ain w div 4 + i)) d))
      (h @ es) = ((0, fold (\<lambda>i. put_word i (dword img (efuse_ain w div 4 + i))) is
        (put_word i (dword img (efuse_ain w div 4 + i)) d)), (h @ es) @ es')"
    using Cons(1) [OF r(2)] Cons(3) by auto
  ultimately show ?case using r(1) by (intro exI [of _ "es @ es'"]) simp
qed (auto intro: exI [of _ "[]"])

lemma dword_bytes:
  "4 * j + 4 \<le> length img \<Longrightarrow> u32_to_le_bytes (dword img j) = take 4 (drop (4 * j) img)"
  by (rule nth_equalityI) (auto simp: dword_def u32_le_bytes_inverse less_Suc_eq numeral_eq_Suc)

lemma block_bytes:
  assumes "i + 16 \<le> length img" "4 dvd i"
  shows "u32_to_le_bytes (dword img (i div 4)) @ u32_to_le_bytes (dword img (i div 4 + 1)) @
    u32_to_le_bytes (dword img (i div 4 + 2)) @ u32_to_le_bytes (dword img (i div 4 + 3)) =
    take 16 (drop i img)"
proof -
  from assms(2) obtain j where j: "i = 4 * j" by auto
  have "take (4 + 4 + 4 + 4) (drop i img) = take 4 (drop i img) @ take 4 (drop (i + 4) img) @
      take 4 (drop (i + 8) img) @ take 4 (drop (i + 12) img)"
    unfolding take_add by (simp add: add.commute)
  then show ?thesis using assms(1) j by (simp add: dword_bytes add.commute)
qed

lemma device_block:
  assumes k: "efuse_device k img latency" and l: "latency < 100"
    and i: "i + 16 \<le> length img" "16 dvd i" "i < 1024" and d: "16 \<le> length d"
  shows "\<exists>es. run_state (mt7603_efuse_read_block k (word_of_nat i) d) h =
    ((0, take 16 (drop i img) @ drop 16 d), h @ es)"
proof -
  obtain v es1 where r1: "run_state (mt7603_usb_read_reg k MT_EFUSE_CTRL 0) h = ((0, v), h @ es1)"
    using device_read [OF k] by metis
  define w where "w = efuse_kick_word v (word_of_nat i)"
  obtain es2 where r2: "run_state (mt7603_usb_write_reg k MT_EFUSE_CTRL w) (h @ es1) = (0, (h @ es1) @ es2)"
    "efuse_state ((h @ es1) @ es2) = (Some w, 0)"
    using device_write [OF k] by metis
  obtain c es3 where r3: "run_state (efuse_poll k 100 w) ((h @ es1) @ es2) = ((0, c), ((h @ es1) @ es2) @ es3)"
    "c AND MT_EFUSE_CTRL_KICK = 0" "efuse_state (((h @ es1) @ es2) @ es3) = (Some w, Suc latency)"
    using device_poll [OF k r2(2), of 100 w] l by auto
  define g where "g = (((h @ es1) @ es2) @ es3) @ [Sleep]"
  obtain es4 where r4: "run_state (mt7603_usb_read_reg k MT_EFUSE_CTRL c) g =
      ((0, snd (usb_control_in k (g @ [Alloc 4 True]) MT_EFUSE_CTRL)), g @ es4)"
    "efuse_state (g @ es4) = (Some w, Suc (Suc latency))"
    using device_read [OF k, of MT_EFUSE_CTRL c g] r3(3) by (auto simp: g_def)
  have ok: "\<not> (snd (usb_control_in k (g @ [Alloc 4 True]) MT_EFUSE_CTRL) AND MT_EFUSE_CTRL_AOUT = MT_EFUSE_CTRL_AOUT \<or>
      snd (usb_control_in k (g @ [Alloc 4 True]) MT_EFUSE_CTRL) AND MT_EFUSE_CTRL_VALID = 0)"
    by (rule device_ctrl(2) [OF k]) (use r3(3) in \<open>auto simp: g_def\<close>)
  obtain es5 where r5: "run_state (efuse_rdata k [0..<4] d) (g @ es4) =
      ((0, fold (\<lambda>i'. put_word i' (dword img (efuse_ain w div 4 + i'))) [0..<4] d), (g @ es4) @ es5)"
    using device_words [OF k r4(2), of "[0..<4]" d] by fastforce
  have "fold (\<lambda>i'. put_word i' (dword img (efuse_ain w div 4 + i'))) [0..<4] d = take 16 (drop i img) @ drop 16 d"
    using put_word_block [OF d] efuse_ain_kick [of i v] i dvd_trans [of 4 16 i]
    by (simp add: upt_conv_Cons w_def numeral_2_eq_2 numeral_3_eq_3 flip: block_bytes [of i img])
  with r1 r2 r3 r4(1) r5 ok show ?thesis
    unfolding mt7603_efuse_read_block_def
    by (intro exI [of _ "es1 @ es2 @ es3 @ [Sleep] @ es4 @ es5"])
      (simp add: w_def [symmetric] sleep_def g_def)
qed

lemma device_blocks:
  assumes k: "efuse_device k img latency" and l: "latency < 100" and len: "16 dvd length img" "length img \<le> 1024"
  shows "16 dvd i \<Longrightarrow> i \<le> length img \<Longrightarrow> length buf = length img \<Longrightarrow> take i buf = take i img \<Longrightarrow>
    \<exists>es. run_state (efuse_blocks k i buf (length img)) h = ((0, img), h @ es)"
proof (induction "length img - i" arbitrary: i buf h rule: less_induct)
  case less
  show ?case
  proof (cases "i + 16 \<le> length img")
    case True
    obtain es where r: "run_state (mt7603_efuse_read_block k (word_of_nat i) (drop i buf)) h =
        ((0, take 16 (drop i img) @ drop 16 (drop i buf)), h @ es)"
      using device_block [OF k l True less(2), of "drop i buf" h] less(4) len(2) True by fastforce
    define b where "b = take i buf @ take 16 (drop i img) @ drop 16 (drop i buf)"
    have "take (i + 16) b = take (i + 16) img" "length b = length img"
      using less(4,5) True by (auto simp: b_def take_add)
    then obtain es' where "run_state (efuse_blocks k (i + 16) b (length img)) (h @ es) = ((0, img), (h @ es) @ es')"
      using less(1) [of "i + 16" b "h @ es"] less(2) True by fastforce
    with r True show ?thesis
      by (intro exI [of _ "es @ es'"]) (simp add: efuse_blocks.simps [of k i] b_def)
  next
    case False
    then have "i = length img" using less(2,3) len(1) by (metis dvd_imp_le dvd_diff_nat add.commute le_diff_conv2 le_neq_implies_less zero_less_diff)
    with less(4,5) False show ?thesis by (simp add: efuse_blocks.simps [of k "length img"])
  qed
qed

section \<open>Properties\<close>

text \<open>Reading one eFuse block ends after at most 107 control transfers with 0 or a negative
  code; it never touches a byte outside the 16-byte window, and when it returns 0 the window holds
  either sixteen bytes 0xFF (the last control word says the block is blank or invalid, and the data
  registers were not read) or the little-endian bytes of the four data words, read in order.\<close>

theorem efuse_block_outcome:
  assumes "16 \<le> length d" "run_state (mt7603_efuse_read_block k a d) h = ((ret, d'), h')"
  shows "\<exists>es. h' = h @ es \<and> ret \<le> 0 \<and> transfers es \<le> 107 \<and> length d' = length d \<and>
    drop 16 d' = drop 16 d \<and> (ret = 0 \<longrightarrow> efuse_block_result (words_read es) (take 16 d'))"
  using specD [OF efuse_block_spec [OF assms(1)] assms(2)] by (metis fst_conv snd_conv)

definition dead_kernel :: kernel where
  "dead_kernel = \<lparr> kmalloc_ok = \<lambda>_ _. False, usb_control_in = \<lambda>_ _. (-1, 0), usb_control_out = \<lambda>_ _ _. -1,
     usb_bulk_out = \<lambda>_ _. -1, usb_alloc_urb_ok = \<lambda>_. False, usb_submit = \<lambda>_ _. -1, completions = \<lambda>_ _. [], stale = \<lambda>_. 0 \<rparr>"

theorem efuse_block_outcome_witness:
  "\<exists>es. [Alloc 4 False] = [] @ es \<and> ENOMEM \<le> (0 :: int) \<and> transfers es \<le> 107 \<and>
     length (replicate 16 (7 :: u8)) = length (replicate 16 (7 :: u8)) \<and>
     drop 16 (replicate 16 (7 :: u8)) = drop 16 (replicate 16 7) \<and>
     (ENOMEM = (0 :: int) \<longrightarrow> efuse_block_result (words_read es) (take 16 (replicate 16 7)))"
  by (rule efuse_block_outcome [of _ dead_kernel 0])
    (simp_all add: mt7603_efuse_read_block_def mt7603_usb_read_reg_def call_defs dead_kernel_def)

text \<open>C29: on a working device that needs fewer than a hundred polls for a block, reading the eFuse
  returns 0 and the buffer then holds exactly the image.\<close>

theorem efuse_image_is_read:
  assumes "efuse_device k img latency" "latency < 100" "16 dvd length img" "length img \<le> 1024"
    "length buf = length img"
  shows "\<exists>es. run_state (mt7603_efuse_read_all k buf (length buf)) h = ((0, img), h @ es)"
proof -
  obtain es where r: "run_state (mt7603_usb_read_reg k MT_EFUSE_BASE_CTRL 0) h =
      ((0, snd (usb_control_in k (h @ [Alloc 4 True]) MT_EFUSE_BASE_CTRL)), h @ es)"
    using device_read [OF assms(1), of MT_EFUSE_BASE_CTRL 0 h] by auto
  have "snd (usb_control_in k (h @ [Alloc 4 True]) MT_EFUSE_BASE_CTRL) AND MT_EFUSE_BASE_CTRL_EMPTY = 0"
    using assms(1) unfolding efuse_device_def by blast
  moreover obtain es' where "run_state (efuse_blocks k 0 buf (length img)) (h @ es) = ((0, img), (h @ es) @ es')"
    using device_blocks [OF assms(1-4), of 0 buf "h @ es"] assms(5) by auto
  ultimately show ?thesis
    using r assms(5) by (intro exI [of _ "es @ es'"]) (simp add: mt7603_efuse_read_all_def)
qed

text \<open>A device that keeps the start bit set for \<open>latency\<close> polls, for evaluation.\<close>

definition efuse_sim :: "u8 list \<Rightarrow> nat \<Rightarrow> kernel" where
  "efuse_sim img latency =
     \<lparr> kmalloc_ok = \<lambda>_ _. True,
       usb_control_in = \<lambda>h a. (4, case efuse_state h of
           (None, _) \<Rightarrow> 0
         | (Some w, n) \<Rightarrow>
             if a = MT_EFUSE_BASE_CTRL then 0
             else if a = MT_EFUSE_CTRL then (if latency \<le> n then MT_EFUSE_CTRL_VALID else MT_EFUSE_CTRL_KICK)
             else dword img (efuse_ain w div 4 + unat (drop_bit 2 (a - 0x81070030)))),
       usb_control_out = \<lambda>_ _ _. 4, usb_bulk_out = \<lambda>_ _. 0, usb_alloc_urb_ok = \<lambda>_. True,
       usb_submit = \<lambda>_ _. 0, completions = \<lambda>_ _. [], stale = \<lambda>_. 0 \<rparr>"

lemma efuse_sim_device: "efuse_device (efuse_sim img latency) img latency"
proof -
  have "i < 4 \<Longrightarrow> i \<in> {0, 1, 2, 3}" for i :: nat by auto
  then have "i < 4 \<Longrightarrow> unat (drop_bit 2 (MT_EFUSE_RDATA i - 0x81070030)) = i \<and>
      MT_EFUSE_RDATA i \<noteq> MT_EFUSE_BASE_CTRL \<and> MT_EFUSE_RDATA i \<noteq> MT_EFUSE_CTRL" for i
    by (fastforce simp: MT_EFUSE_RDATA_def)
  then show ?thesis
    unfolding efuse_device_def by (auto simp: efuse_sim_def split: prod.split option.split)
qed

theorem efuse_image_is_read_witness:
  "\<exists>es. run_state (mt7603_efuse_read_all (efuse_sim (map word_of_nat [0..<32]) 3) (replicate 32 0) 32) [] =
     ((0, map word_of_nat [0..<32]), [] @ es)"
  using efuse_image_is_read [OF efuse_sim_device, of 3 "map word_of_nat [0..<32]" "replicate 32 0" "[]"] by simp

text \<open>The command word that starts a block read carries the block address in its address field
  with the low four bits cleared, mode 0 and the start bit, and leaves all other bits as read.\<close>

theorem efuse_command_word:
  assumes "unat a < 1024"
  shows "bit (efuse_kick_word v a) n \<longleftrightarrow>
    (if n = 30 then True else if 16 \<le> n \<and> n < 26 then 20 \<le> n \<and> bit a (n - 16)
     else n \<noteq> 6 \<and> n \<noteq> 7 \<and> bit v n)"
  using assms by (rule efuse_kick_bits)

theorem efuse_command_word_witness: "bit (efuse_kick_word 0 0x3F0) 25"
  using efuse_command_word [of "0x3F0" 0 25] by (simp add: bit_iff_odd)

text \<open>Reading the whole eFuse always ends: after at most one transfer plus 107 per block it
  returns 0 or a negative code, and bytes at and beyond the requested length are never touched.\<close>

theorem efuse_read_all_bounded:
  assumes "len \<le> length buf" "run_state (mt7603_efuse_read_all k buf len) h = ((ret, buf'), h')"
  shows "\<exists>es. h' = h @ es \<and> ret \<le> 0 \<and> length buf' = length buf \<and>
    transfers es \<le> 1 + 107 * (len div 16) \<and> drop len buf' = drop len buf"
  using specD [OF efuse_read_all_spec [OF assms(1)] assms(2)] by (metis fst_conv snd_conv)

theorem efuse_read_all_bounded_witness:
  "\<exists>es. [Alloc 4 False] = [] @ es \<and> ENOMEM \<le> (0 :: int) \<and> length [1 :: u8] = length [1 :: u8] \<and>
     transfers es \<le> 1 + 107 * (1 div 16) \<and> drop 1 [1 :: u8] = drop 1 [1]"
  by (rule efuse_read_all_bounded [of _ _ dead_kernel])
    (simp_all add: mt7603_efuse_read_all_def mt7603_usb_read_reg_def call_defs dead_kernel_def)

end
