(* ===== verification/Upload.thy ===== *)
theory Upload
  imports Regops Lib
begin

text \<open>
  src/src/c/usb.c: the command transport and the firmware upload, as computations over the
  kernel. \<open>goto free_cmd\<close> and \<open>goto restore\<close> are returns of the inner steps; the clean-up that
  follows the labels stands in \<open>mt7603_download_firmware\<close>. A panic of the Rust code never returns
  to C; the computation then ends with \<^term>\<open>None\<close>.
\<close>

abbreviation MT7603_DATA_BULK_IN :: u8 where "MT7603_DATA_BULK_IN \<equiv> 0x84"
abbreviation MT7603_CMD_RSP_BULK_IN :: u8 where "MT7603_CMD_RSP_BULK_IN \<equiv> 0x85"
abbreviation MT7603_SCH_REG4 :: u32 where "MT7603_SCH_REG4 \<equiv> 0x4594"
abbreviation MT7603_TOP_MISC2 :: u32 where "MT7603_TOP_MISC2 \<equiv> 0x1134"
abbreviation MT7603_UDMA_WLCFG_0 :: u32 where "MT7603_UDMA_WLCFG_0 \<equiv> 0x50029018"
abbreviation MT7603_FW_SCATTER_MAX_PAYLOAD :: nat where "MT7603_FW_SCATTER_MAX_PAYLOAD \<equiv> 4064"
abbreviation MT7603_ROM_READY_POLL_MAX :: nat where "MT7603_ROM_READY_POLL_MAX \<equiv> 500"

section \<open>Commands and their responses\<close>

definition mt7603_usb_send_cmd :: "kernel \<Rightarrow> u8 list \<Rightarrow> int io" where
  "mt7603_usb_send_cmd k frame = do {
     buf \<leftarrow> kmalloc k (length frame + USB_END_PADDING);
     if \<not> buf then State_Monad.return ENOMEM
     else do {
       ret \<leftarrow> bulk_out k (frame @ replicate USB_END_PADDING 0);
       kfree;
       State_Monad.return (if ret < 0 then ret else 0)
     }
   }"

text \<open>
  The completion handler: a frame that is not an event is discarded and the URB submitted again;
  when that fails, or for any other outcome, the session is over.
\<close>

definition rsp_discards :: "int \<Rightarrow> u8 list \<Rightarrow> bool" where
  "rsp_discards status buf \<longleftrightarrow>
     status = 0 \<and> length buf \<ge> 4 \<and> (buf ! 2 \<noteq> 0x00 \<or> buf ! 3 AND 0xF0 \<noteq> 0xE0)"

primrec mt7603_rsp_complete :: "(int \<times> u8 list \<times> int) list \<Rightarrow> (int \<times> u8 list) option" where
  "mt7603_rsp_complete [] = None"
| "mt7603_rsp_complete (c # cs) =
     (case c of (status, buf, resubmit) \<Rightarrow>
        if rsp_discards status buf \<and> resubmit = 0 then mt7603_rsp_complete cs
        else Some (status, buf))"

text \<open>After a return of 0 the session owns a buffer and an URB that is in flight.\<close>

definition mt7603_rsp_submit :: "kernel \<Rightarrow> u8 \<Rightarrow> int io" where
  "mt7603_rsp_submit k ep = do {
     buf \<leftarrow> kmalloc k (if ep = MT7603_DATA_BULK_IN then 24576 else 512);
     if \<not> buf then State_Monad.return ENOMEM
     else do {
       urb \<leftarrow> alloc_urb k;
       if \<not> urb then do { kfree; State_Monad.return ENOMEM }
       else do {
         ret \<leftarrow> submit_urb k ep;
         if ret < 0 then do { free_urb; kfree; State_Monad.return ret }
         else State_Monad.return 0
       }
     }
   }"

definition mt7603_rsp_wait :: "kernel \<Rightarrow> u8 \<Rightarrow> int io" where
  "mt7603_rsp_wait k ep = do {
     answer \<leftarrow> emit (\<lambda>h. mt7603_rsp_complete (completions k h ep)) (\<lambda>r. Await (r \<noteq> None));
     (case answer of
        None \<Rightarrow> do { kill_urb ep; free_urb; kfree; State_Monad.return ETIMEDOUT }
      | Some (status, buf) \<Rightarrow> do { free_urb; kfree; State_Monad.return status })
   }"

text \<open>Releasing a session whose URB may still be in flight.\<close>

definition rsp_release :: "u8 \<Rightarrow> unit io" where
  "rsp_release ep = do { kill_urb ep; free_urb; kfree }"

definition mt7603_restart_dl_rsp :: "kernel \<Rightarrow> u8 list \<Rightarrow> int io" where
  "mt7603_restart_dl_rsp k cmd = do {
     ret \<leftarrow> mt7603_rsp_submit k MT7603_DATA_BULK_IN;
     if ret < 0 then State_Monad.return ret else do {
     ret \<leftarrow> mt7603_rsp_submit k MT7603_CMD_RSP_BULK_IN;
     if ret < 0 then do { rsp_release MT7603_DATA_BULK_IN; State_Monad.return ret } else do {
     ret \<leftarrow> mt7603_usb_send_cmd k cmd;
     ret \<leftarrow> (if ret < 0 then State_Monad.return ret
            else do {
              emit (\<lambda>h. mt7603_rsp_complete (completions k h MT7603_DATA_BULK_IN) \<noteq> None \<or>
                        mt7603_rsp_complete (completions k h MT7603_CMD_RSP_BULK_IN) \<noteq> None) Await;
              State_Monad.return 0
            });
     rsp_release MT7603_DATA_BULK_IN;
     rsp_release MT7603_CMD_RSP_BULK_IN;
     State_Monad.return ret
     }}
   }"

section \<open>Registers of the upload\<close>

primrec poll_loop :: "kernel \<Rightarrow> nat \<Rightarrow> u32 \<Rightarrow> u32 \<Rightarrow> int io" where
  "poll_loop k 0 msk expect = State_Monad.return ETIMEDOUT"
| "poll_loop k (Suc n) msk expect = do {
     (ret, v) \<leftarrow> mt7603_usb_read_reg k MT7603_TOP_MISC2 0;
     if ret < 0 then State_Monad.return EIO
     else if v AND msk = expect then State_Monad.return 0
     else do { sleep; poll_loop k n msk expect }
   }"

definition mt7603_poll_top_misc2 :: "kernel \<Rightarrow> u32 \<Rightarrow> u32 \<Rightarrow> int io" where
  "mt7603_poll_top_misc2 k msk expect = poll_loop k MT7603_ROM_READY_POLL_MAX msk expect"

definition udma_word :: "u32 \<Rightarrow> bool \<Rightarrow> u32" where
  "udma_word v rx_agg =
     (let v = v AND NOT (0x0000FFFF OR push_bit 21 1);
          v = v OR (0x80 OR push_bit 8 0x15);
          v = (if rx_agg then v OR push_bit 21 1 else v);
          v = v OR push_bit 18 1
      in v OR (push_bit 22 1 OR push_bit 23 1))"

definition mt7603_usb_enable_udma :: "kernel \<Rightarrow> bool \<Rightarrow> int io" where
  "mt7603_usb_enable_udma k rx_agg = do {
     (ret, v) \<leftarrow> mt7603_usb_cfg_read k MT7603_UDMA_WLCFG_0 0;
     if ret < 0 then State_Monad.return ret else do {
     ret \<leftarrow> mt7603_usb_cfg_write k MT7603_UDMA_WLCFG_0 (udma_word v rx_agg);
     if ret < 0 then State_Monad.return ret else do {
     mt7603_usb_cfg_read k MT7603_UDMA_WLCFG_0 0;
     State_Monad.return 0
     }}
   }"

definition mt7603_next_cmd_seq :: "u8 \<Rightarrow> u8" where
  "mt7603_next_cmd_seq seq = (if seq \<ge> 0xF then 1 else seq + 1)"

definition bypass_word :: "u32 \<Rightarrow> u32" where
  "bypass_word v =
     (let v = v AND NOT (push_bit 5 1);
          v = v OR push_bit 5 1;
          v = v AND NOT 0x0F
      in v OR 8)"

definition normal_word :: "u32 \<Rightarrow> u32" where
  "normal_word v = v AND NOT (push_bit 5 1) AND NOT 0x0F"

section \<open>The upload\<close>

text \<open>A command that waits for its response, as steps 4 and 6 send it.\<close>

definition send_need_rsp :: "kernel \<Rightarrow> u8 list \<Rightarrow> int io" where
  "send_need_rsp k frame = do {
     ret \<leftarrow> mt7603_rsp_submit k MT7603_DATA_BULK_IN;
     if ret < 0 then State_Monad.return ret else do {
     ret \<leftarrow> mt7603_usb_send_cmd k frame;
     if ret < 0 then State_Monad.return ret else do {
     mt7603_rsp_wait k MT7603_DATA_BULK_IN;
     State_Monad.return 0
     }}
   }"

text \<open>Step 5: the loop over the image, with the command buffer it reuses.\<close>

function upload_loop ::
  "kernel \<Rightarrow> profile \<Rightarrow> u8 list \<Rightarrow> u8 list \<Rightarrow> nat \<Rightarrow> nat \<Rightarrow> (int option \<times> u8 list) io" where
  "upload_loop k prof fw cmd offset dl_len =
     (if offset < dl_len then
        let chunk_len = min (dl_len - offset) MT7603_FW_SCATTER_MAX_PAYLOAD
        in (case mt7603_rust_build_fw_scatter_frame prof (Some (drop offset fw)) chunk_len (Some cmd)
              (MT7603_FW_SCATTER_MAX_PAYLOAD + 32) (Some 0) of
              Some (ret, Some cmd, Some out_len) \<Rightarrow>
                if ret < 0 then State_Monad.return (Some ret, cmd)
                else do {
                  ret \<leftarrow> mt7603_usb_send_cmd k (take out_len cmd);
                  if ret < 0 then State_Monad.return (Some ret, cmd)
                  else upload_loop k prof fw cmd (offset + chunk_len) dl_len
                }
            | _ \<Rightarrow> State_Monad.return (None, cmd))
      else State_Monad.return (Some 0, cmd))"
  by pat_completeness auto
termination
  by (relation "measure (\<lambda>(k, prof, fw, cmd, offset, dl_len). dl_len - offset)") auto

declare upload_loop.simps [simp del]

text \<open>Steps 6 and 7: start the image and wait until it runs.\<close>

definition download_start :: "kernel \<Rightarrow> profile \<Rightarrow> u8 list \<Rightarrow> u8 \<Rightarrow> int option io" where
  "download_start k prof cmd seq =
     (case mt7603_rust_build_fw_start_req prof 1 FW_CODE_START_ADDRESS1 (mt7603_next_cmd_seq seq)
        (Some cmd) (MT7603_FW_SCATTER_MAX_PAYLOAD + 32) (Some 0) of
        Some (ret, Some cmd, Some cmd_len) \<Rightarrow>
          if ret < 0 then State_Monad.return (Some ret)
          else do {
            ret \<leftarrow> send_need_rsp k (take cmd_len cmd);
            if ret < 0 then State_Monad.return (Some ret)
            else do {
              ret \<leftarrow> mt7603_poll_top_misc2 k 0x02 0x02;
              State_Monad.return (Some ret)
            }
          }
      | _ \<Rightarrow> State_Monad.return None)"

text \<open>Steps 4 and 5: announce address and length, then the image.\<close>

definition download_image :: "kernel \<Rightarrow> profile \<Rightarrow> u8 list \<Rightarrow> u8 list \<Rightarrow> u8 \<Rightarrow> int option io" where
  "download_image k prof fw cmd seq =
     (case mt7603_rust_fw_dl_len prof (Some fw) (length fw) (Some 0) of
        Some (ret, Some dl_len) \<Rightarrow>
          if ret < 0 then State_Monad.return (Some ret)
          else
            (case mt7603_rust_build_addr_len_req prof FW_CODE_START_ADDRESS1 dl_len
               (mt7603_next_cmd_seq seq) (Some cmd) (MT7603_FW_SCATTER_MAX_PAYLOAD + 32) (Some 0) of
               Some (ret, Some cmd, Some cmd_len) \<Rightarrow>
                 if ret < 0 then State_Monad.return (Some ret)
                 else do {
                   ret \<leftarrow> send_need_rsp k (take cmd_len cmd);
                   if ret < 0 then State_Monad.return (Some ret)
                   else if unat dl_len > length fw then State_Monad.return (Some EINVAL)
                   else do {
                     (ret, cmd) \<leftarrow> upload_loop k prof fw cmd 0 (unat dl_len);
                     (case ret of
                        None \<Rightarrow> State_Monad.return None
                      | Some ret \<Rightarrow>
                          if ret < 0 then State_Monad.return (Some ret)
                          else download_start k prof cmd (mt7603_next_cmd_seq seq))
                   }
                 }
             | _ \<Rightarrow> State_Monad.return None)
      | _ \<Rightarrow> State_Monad.return None)"

text \<open>A command buffer nobody has written yet.\<close>

definition stale_buffer :: "kernel \<Rightarrow> u8 list" where
  "stale_buffer k = map (stale k) [0..<MT7603_FW_SCATTER_MAX_PAYLOAD + 32]"

lemma length_stale_buffer [simp]: "length (stale_buffer k) = 4096"
  by (simp add: stale_buffer_def)

text \<open>Steps 3 to 7, everything between the allocation of the command buffer and \<open>free_cmd\<close>.\<close>

definition download_steps :: "kernel \<Rightarrow> profile \<Rightarrow> u8 list \<Rightarrow> u8 \<Rightarrow> int option io" where
  "download_steps k prof fw seq = do {
     ret \<leftarrow> mt7603_poll_top_misc2 k 0x01 0x01;
     if ret < 0 then do {
       mt7603_usb_read_reg k MT7603_TOP_MISC2 0;
       State_Monad.return (Some ret)
     }
     else download_image k prof fw (stale_buffer k) seq
   }"

text \<open>Step 8, behind the label \<open>restore\<close>.\<close>

definition download_restore :: "kernel \<Rightarrow> unit io" where
  "download_restore k = do {
     (ret, v) \<leftarrow> mt7603_usb_read_reg k MT7603_SCH_REG4 0;
     if ret = 0 then do {
       let v = normal_word v;
       mt7603_usb_write_reg k MT7603_SCH_REG4 v;
       let v = v OR push_bit 8 1;
       mt7603_usb_write_reg k MT7603_SCH_REG4 v;
       let v = v AND NOT (push_bit 8 1);
       mt7603_usb_write_reg k MT7603_SCH_REG4 v;
       State_Monad.return ()
     }
     else State_Monad.return ()
   }"

text \<open>Step 1: send running firmware back to the boot ROM; the sequence number it leaves.\<close>

definition download_restart :: "kernel \<Rightarrow> profile \<Rightarrow> u32 \<Rightarrow> u8 option io" where
  "download_restart k prof v =
     (if v AND 0x02 = 0x02 then
        (case mt7603_rust_build_restart_dl_req prof (mt7603_next_cmd_seq 0)
           (Some (stale_buffer k)) (MT7603_FW_SCATTER_MAX_PAYLOAD + 32) (Some 0) of
           Some (ret, Some cmd, Some len) \<Rightarrow>
             if ret = 0 then do {
               mt7603_restart_dl_rsp k (take len cmd);
               State_Monad.return (Some (mt7603_next_cmd_seq 0))
             }
             else State_Monad.return (Some (mt7603_next_cmd_seq 0))
         | _ \<Rightarrow> State_Monad.return None)
      else State_Monad.return (Some 0))"

text \<open>Step 2 and everything behind it, in bypass mode.\<close>

definition download_bypass :: "kernel \<Rightarrow> profile \<Rightarrow> u8 list \<Rightarrow> u8 \<Rightarrow> u32 \<Rightarrow> int option io" where
  "download_bypass k prof fw seq v = do {
     (ret, v) \<leftarrow> mt7603_usb_read_reg k MT7603_SCH_REG4 v;
     if ret < 0 then State_Monad.return (Some ret) else do {
     ret \<leftarrow> mt7603_usb_write_reg k MT7603_SCH_REG4 (bypass_word v);
     if ret < 0 then State_Monad.return (Some ret) else do {
     (_, _) \<leftarrow> mt7603_usb_read_reg k MT7603_SCH_REG4 0;
     cmd \<leftarrow> kmalloc k (MT7603_FW_SCATTER_MAX_PAYLOAD + 32);
     if \<not> cmd then do { download_restore k; State_Monad.return (Some ENOMEM) }
     else do {
       r \<leftarrow> download_steps k prof fw seq;
       (case r of
          None \<Rightarrow> State_Monad.return None
        | Some ret \<Rightarrow> do { kfree; download_restore k; State_Monad.return (Some ret) })
     }}}
   }"

definition mt7603_download_firmware :: "kernel \<Rightarrow> profile \<Rightarrow> u8 list \<Rightarrow> int option io" where
  "mt7603_download_firmware k prof fw = do {
     ret \<leftarrow> mt7603_usb_enable_udma k True;
     if ret < 0 then State_Monad.return (Some ret) else do {
     (ret, v) \<leftarrow> mt7603_usb_read_reg k MT7603_TOP_MISC2 0;
     if ret < 0 then State_Monad.return (Some ret) else do {
     seq \<leftarrow> download_restart k prof v;
     (case seq of
        None \<Rightarrow> State_Monad.return None
      | Some seq \<Rightarrow> download_bypass k prof fw seq v)
     }}
   }"

section \<open>Reference: the frames of an upload\<close>

definition padded :: "u8 list \<Rightarrow> u8 list" where
  "padded frame = frame @ replicate USB_END_PADDING 0"

definition restart_frame :: "u8 \<Rightarrow> u8 list" where
  "restart_frame seq = fw_txd_block MT_RESTART_DL_REQ P1_Q0 CMD_NA EXT_CMD_NA seq True FW_TXD_HDR_SIZE []"

definition addr_len_frame :: "u32 \<Rightarrow> u8 \<Rightarrow> u8 list" where
  "addr_len_frame dl_len seq =
     fw_txd_block MT_TARGET_ADDRESS_LEN_REQ P1_Q0 CMD_NA EXT_CMD_NA seq True FW_TXD_HDR_SIZE
       (u32_to_le_bytes FW_CODE_START_ADDRESS1 @ u32_to_le_bytes dl_len @ u32_to_le_bytes TARGET_ADDR_LEN_NEED_RSP)"

definition scatter_frame :: "u8 list \<Rightarrow> u8 list" where
  "scatter_frame chunk =
     fw_txd_block MT_FW_SCATTER FW_SCATTER_PQ_ID CMD_NA EXT_CMD_NA 0 False FW_TXD_HDR_SIZE chunk"

definition start_frame :: "u8 \<Rightarrow> u8 list" where
  "start_frame seq =
     fw_txd_block MT_FW_START_REQ P1_Q0 CMD_NA EXT_CMD_NA seq True FW_TXD_HDR_SIZE
       (u32_to_le_bytes 1 @ u32_to_le_bytes FW_CODE_START_ADDRESS1)"

function chunks :: "nat \<Rightarrow> 'a list \<Rightarrow> 'a list list" where
  "chunks n xs = (if n = 0 \<or> xs = [] then [] else take n xs # chunks n (drop n xs))"
  by pat_completeness auto
termination
  by (relation "measure (\<lambda>(n, xs). length xs)") auto

declare chunks.simps [simp del]

lemma concat_chunks: "0 < n \<Longrightarrow> concat (chunks n xs) = xs"
  by (induction n xs rule: chunks.induct) (subst chunks.simps, auto)

lemma chunks_bound: "c \<in> set (chunks n xs) \<Longrightarrow> 0 < length c \<and> length c \<le> n"
proof (induction n xs rule: chunks.induct)
  case (1 n xs)
  then show ?case by (subst (asm) (2) chunks.simps) (auto split: if_splits)
qed

definition download_plan :: "u8 list \<Rightarrow> u32 \<Rightarrow> u8 \<Rightarrow> u8 list list" where
  "download_plan fw dl_len seq =
     padded (addr_len_frame dl_len (mt7603_next_cmd_seq seq)) #
     map (\<lambda>c. padded (scatter_frame c)) (chunks MT7603_FW_SCATTER_MAX_PAYLOAD (take (unat dl_len) fw)) @
     [padded (start_frame (mt7603_next_cmd_seq (mt7603_next_cmd_seq seq)))]"

text \<open>
  What was sent follows a plan: the planned frames in their order, at most the last one failing,
  and none failing or missing when the run is complete.
\<close>

fun follows :: "'f list \<Rightarrow> ('f \<times> int) list \<Rightarrow> bool \<Rightarrow> bool" where
  "follows plan [] complete \<longleftrightarrow> (complete \<longrightarrow> plan = [])"
| "follows [] (s # ss) complete \<longleftrightarrow> False"
| "follows (p # ps) ((f, code) # ss) complete \<longleftrightarrow>
     f = p \<and> (if code < 0 then ss = [] \<and> \<not> complete else follows ps ss complete)"

lemma follows_append:
  "follows ps ss True \<Longrightarrow> follows qs ts c \<Longrightarrow> follows (ps @ qs) (ss @ ts) c"
  by (induction ps ss True rule: follows.induct) (auto split: if_splits)

lemma follows_longer: "follows ps ss c \<Longrightarrow> follows (ps @ qs) ss False"
  by (induction ps ss c rule: follows.induct) (auto split: if_splits)

lemma follows_sent: "follows ps ss True \<Longrightarrow> map fst ss = ps"
  by (induction ps ss True rule: follows.induct) (auto split: if_splits)

section \<open>The Rust calls of the upload\<close>

lemma restart_call:
  assumes "length buf = MT7603_FW_SCATTER_MAX_PAYLOAD + 32"
  shows "mt7603_rust_build_restart_dl_req prof seq (Some buf) (MT7603_FW_SCATTER_MAX_PAYLOAD + 32) (Some c) =
    Some (0, Some (restart_frame seq @ drop 12 buf), Some 12)"
  using assms restart_dl.ffi_write_outcome [of "MT7603_FW_SCATTER_MAX_PAYLOAD + 32" buf]
  by (simp add: mt7603_rust_build_restart_dl_req_def ffi_outcome_def length_fw_txd_block restart_frame_def)

lemma addr_len_call:
  assumes "length buf = MT7603_FW_SCATTER_MAX_PAYLOAD + 32"
  shows "mt7603_rust_build_addr_len_req prof FW_CODE_START_ADDRESS1 dl seq (Some buf)
      (MT7603_FW_SCATTER_MAX_PAYLOAD + 32) (Some c) =
    Some (0, Some (addr_len_frame dl seq @ drop 24 buf), Some 24)"
  using assms addr_len.ffi_write_outcome [of "MT7603_FW_SCATTER_MAX_PAYLOAD + 32" buf]
  by (simp add: mt7603_rust_build_addr_len_req_def ffi_outcome_def length_fw_txd_block addr_len_frame_def)

lemma start_call:
  assumes "length buf = MT7603_FW_SCATTER_MAX_PAYLOAD + 32"
  shows "mt7603_rust_build_fw_start_req prof 1 FW_CODE_START_ADDRESS1 seq (Some buf)
      (MT7603_FW_SCATTER_MAX_PAYLOAD + 32) (Some c) =
    Some (0, Some (start_frame seq @ drop 20 buf), Some 20)"
  using assms fw_start.ffi_write_outcome [of "MT7603_FW_SCATTER_MAX_PAYLOAD + 32" buf]
  by (simp add: mt7603_rust_build_fw_start_req_def ffi_outcome_def length_fw_txd_block start_frame_def)

lemma scatter_call:
  assumes "length buf = MT7603_FW_SCATTER_MAX_PAYLOAD + 32" "n \<le> MT7603_FW_SCATTER_MAX_PAYLOAD" "n \<le> length src"
  shows "mt7603_rust_build_fw_scatter_frame prof (Some src) n (Some buf)
      (MT7603_FW_SCATTER_MAX_PAYLOAD + 32) (Some c) =
    Some (0, Some (scatter_frame (take n src) @ drop (n + 12) buf), Some (n + 12))"
  using assms scatter.ffi_write_outcome [of "MT7603_FW_SCATTER_MAX_PAYLOAD + 32" buf]
  by (simp add: mt7603_rust_build_fw_scatter_frame_def from_raw_parts_def ffi_outcome_def
      length_fw_txd_block scatter_frame_def)

lemma frame_lengths [simp]:
  "length (restart_frame seq) = 12" "length (addr_len_frame dl seq) = 24"
  "length (start_frame seq) = 20" "length (scatter_frame c) = length c + 12"
  by (simp_all add: restart_frame_def addr_len_frame_def start_frame_def scatter_frame_def length_fw_txd_block)

section \<open>What the steps send and release\<close>

lemma no_writes: "written_addrs es = {} \<Longrightarrow> registers_after es dev = dev"
  by (induction es arbitrary: dev) (auto split: event.splits)

text \<open>
  The parts of the upload that talk to the command endpoint: they write no register, and
  \<open>leak\<close> sessions stay behind.
\<close>

definition sends :: "u8 list list \<Rightarrow> bool \<Rightarrow> int \<Rightarrow> history \<Rightarrow> bool" where
  "sends plan complete leak es \<longleftrightarrow> follows plan (sent_frames es) complete \<and> written_addrs es = {} \<and>
     live_buffers es = leak \<and> live_urbs es = leak"

lemma send_cmd_spec:
  "spec (mt7603_usb_send_cmd k frame) (\<lambda>r es. r \<le> 0 \<and> sends [padded frame] (r = 0) 0 es)"
  by (rule specI) (auto simp: mt7603_usb_send_cmd_def call_defs sends_def padded_def)

lemma rsp_submit_spec:
  "spec (mt7603_rsp_submit k ep) (\<lambda>r es. r \<le> 0 \<and> sends [] True (if r = 0 then 1 else 0) es)"
  by (rule specI) (auto simp: mt7603_rsp_submit_def call_defs sends_def)

lemma rsp_wait_spec: "spec (mt7603_rsp_wait k ep) (\<lambda>r es. sends [] True (- 1) es)"
  by (rule specI) (auto simp: mt7603_rsp_wait_def call_defs sends_def split: option.split)

lemma rsp_release_spec: "spec (rsp_release ep) (\<lambda>r es. sends [] True (- 1) es)"
  by (rule specI) (simp add: rsp_release_def call_defs sends_def)

lemma sends_append:
  "sends ps True l xs \<Longrightarrow> sends qs c m ys \<Longrightarrow> sends (ps @ qs) c (l + m) (xs @ ys)"
  by (auto simp: sends_def follows_append)

lemma sends_stop: "sends ps c l xs \<Longrightarrow> sends (ps @ qs) False l xs"
  by (auto simp: sends_def follows_longer)

lemmas command_defs = mt7603_usb_send_cmd_def mt7603_rsp_submit_def mt7603_rsp_wait_def rsp_release_def
  send_need_rsp_def mt7603_restart_dl_rsp_def call_defs

lemma send_need_rsp_spec:
  "spec (send_need_rsp k frame) (\<lambda>r es. r \<le> 0 \<and>
     (sends [padded frame] (r = 0) 0 es \<or> r < 0 \<and> sends [padded frame] False 1 es))"
  by (rule specI) (auto simp: command_defs sends_def padded_def split: option.split)

text \<open>An allocation or a submission failed.\<close>

definition starved :: "history \<Rightarrow> bool" where
  "starved es \<longleftrightarrow> list_ex (\<lambda>e. case e of Alloc n ok \<Rightarrow> \<not> ok | Urb_Alloc ok \<Rightarrow> \<not> ok | Urb_Submit ep c \<Rightarrow> c < 0 | _ \<Rightarrow> False) es"

lemma starved_append [simp]: "starved (xs @ ys) \<longleftrightarrow> starved xs \<or> starved ys"
  by (simp add: starved_def)

text \<open>The restart request: sent once unless memory or an URB is missing, and both sessions are released
  on every path.\<close>

lemma restart_dl_rsp_spec:
  "spec (mt7603_restart_dl_rsp k cmd) (\<lambda>r es. balanced es \<and> written_addrs es = {} \<and> words_read es = [] \<and>
     (sent_frames es = [] \<and> starved es \<or> (\<exists>c. sent_frames es = [(padded cmd, c)])))"
  by (rule specI) (auto simp: command_defs balanced_def padded_def starved_def)

abbreviation scatter_plan :: "u8 list \<Rightarrow> u8 list list" where
  "scatter_plan img \<equiv> map (\<lambda>c. padded (scatter_frame c)) (chunks MT7603_FW_SCATTER_MAX_PAYLOAD img)"

lemma upload_loop_spec:
  "length cmd = MT7603_FW_SCATTER_MAX_PAYLOAD + 32 \<Longrightarrow> dl \<le> length fw \<Longrightarrow> offset \<le> dl \<Longrightarrow>
   spec (upload_loop k prof fw cmd offset dl) (\<lambda>r es. (\<exists>c \<le> 0. fst r = Some c) \<and>
     length (snd r) = MT7603_FW_SCATTER_MAX_PAYLOAD + 32 \<and>
     sends (scatter_plan (take (dl - offset) (drop offset fw))) (fst r = Some 0) 0 es)"
proof (induction k prof fw cmd offset dl rule: upload_loop.induct)
  case (1 k prof fw cmd offset dl)
  show ?case
  proof (cases "offset < dl")
    case False
    with 1(2) show ?thesis
      by (simp add: upload_loop.simps [of k] spec_return sends_def chunks.simps [of _ "[]"])
  next
    case True
    define n where "n = min (dl - offset) MT7603_FW_SCATTER_MAX_PAYLOAD"
    define cmd' where "cmd' = scatter_frame (take n (drop offset fw)) @ drop (n + 12) cmd"
    have n: "n \<le> MT7603_FW_SCATTER_MAX_PAYLOAD" "n \<le> length (drop offset fw)" "0 < n" "offset + n \<le> dl"
      using True 1(3,4) by (auto simp: n_def)
    have call: "mt7603_rust_build_fw_scatter_frame prof (Some (drop offset fw)) n (Some cmd)
        (MT7603_FW_SCATTER_MAX_PAYLOAD + 32) (Some 0) = Some (0, Some cmd', Some (n + 12))"
      unfolding cmd'_def by (rule scatter_call [OF 1(2) n(1,2)])
    have len: "length cmd' = MT7603_FW_SCATTER_MAX_PAYLOAD + 32"
      using 1(2) n by (simp add: cmd'_def)
    have frame: "take (n + 12) cmd' = scatter_frame (take n (drop offset fw))"
      using n by (simp add: cmd'_def)
    define rest where "rest = take (dl - offset) (drop offset fw)"
    have "rest \<noteq> []" "take 4064 rest = take n (drop offset fw)"
      "drop 4064 rest = take (dl - (offset + n)) (drop (offset + n) fw)"
      using True 1(3) by (auto simp: rest_def n_def min_def drop_take add.commute)
    then have plan: "scatter_plan rest = padded (scatter_frame (take n (drop offset fw))) #
        scatter_plan (take (dl - (offset + n)) (drop (offset + n) fw))"
      by (subst chunks.simps) simp
    have IH: "spec (upload_loop k prof fw cmd' (offset + n) dl) (\<lambda>r es. (\<exists>c \<le> 0. fst r = Some c) \<and>
       length (snd r) = MT7603_FW_SCATTER_MAX_PAYLOAD + 32 \<and>
       sends (scatter_plan (take (dl - (offset + n)) (drop (offset + n) fw))) (fst r = Some 0) 0 es)"
      by (rule 1(1) [OF True n_def call refl refl refl refl]) (use len n 1(3) in auto)
    show ?thesis
      unfolding upload_loop.simps [of k prof fw cmd offset dl] Let_def n_def [symmetric] call
      using True
      apply (simp add: frame rest_def [symmetric] plan)
      apply (rule spec_bind [OF send_cmd_spec])
      apply (rule spec_if)
       apply (rule spec_return)
      using len
       apply (auto intro: sends_stop [of "[padded (scatter_frame (take n (drop offset fw)))]", simplified])[1]
      apply (rule spec_weaken [OF IH])
      apply (auto dest: sends_append [of "[padded (scatter_frame (take n (drop offset fw)))]" 0])
      done
  qed
qed

lemma read_sends: "read_events m old r es \<Longrightarrow> sends [] True 0 es"
  using events_facts(1) [of m old r es] by (auto simp: sends_def balanced_def)

lemma sends_quiet: "sends [] True 0 xs \<Longrightarrow> sends ps c l ys \<Longrightarrow> sends ps c l (xs @ ys)"
  using sends_append [of "[]" 0 xs ps c l ys] by simp

lemma poll_spec: "spec (poll_loop k n msk expect) (\<lambda>r es. r \<le> 0 \<and> sends [] True 0 es \<and> transfers es \<le> n)"
proof (induction n)
  case 0
  then show ?case by (simp add: spec_return sends_def)
next
  case (Suc n)
  have "sends [] True 0 (Sleep # es)" if "sends [] True 0 es" for es
    using that by (simp add: sends_def)
  then have q: "sends [] True 0 (xs @ Sleep # es)" if "read_events m old r xs" "sends [] True 0 es" for m old r xs es
    using that by (blast intro: sends_quiet read_sends)
  show ?case
    unfolding poll_loop.simps
  proof (rule spec_read, intro spec_if)
    fix ret v es assume r: "read_events (physical_addr_map MT7603_TOP_MISC2) 0 (ret, v) es"
    then show "spec (State_Monad.return EIO) (\<lambda>y es'. y \<le> 0 \<and> sends [] True 0 (es @ es') \<and> transfers (es @ es') \<le> Suc n)"
      "spec (State_Monad.return (0 :: int)) (\<lambda>y es'. y \<le> 0 \<and> sends [] True 0 (es @ es') \<and> transfers (es @ es') \<le> Suc n)"
      using read_sends [OF r] read_events_words [OF r] by (simp_all add: spec_return)
    show "spec (State_Monad.bind sleep (\<lambda>_. poll_loop k n msk expect))
        (\<lambda>y es'. y \<le> 0 \<and> sends [] True 0 (es @ es') \<and> transfers (es @ es') \<le> Suc n)"
      using read_events_words [OF r] by (intro spec_sleep spec_weaken [OF Suc]) (auto intro: q [OF r])
  qed
qed

lemma poll_top_misc2_spec:
  "spec (mt7603_poll_top_misc2 k msk expect) (\<lambda>r es. r \<le> 0 \<and> sends [] True 0 es)"
  unfolding mt7603_poll_top_misc2_def by (rule spec_weaken [OF poll_spec]) simp

lemma sends_finish: "sends ps True l xs \<Longrightarrow> sends [] True 0 ys \<Longrightarrow> sends ps c l (xs @ ys)"
  using sends_append [of ps l xs "[]" True 0 ys] sends_stop [of ps True l "xs @ ys" "[]"]
  by (cases c) simp_all

text \<open>
  A phase of the upload with its plan: it panics or returns 0 or an error; only an error can leave
  a session behind.
\<close>

definition phase :: "u8 list list \<Rightarrow> int option \<Rightarrow> history \<Rightarrow> bool" where
  "phase plan r es \<longleftrightarrow> (\<forall>c. r = Some c \<longrightarrow> c \<le> 0) \<and>
     (sends plan (r = Some 0) 0 es \<or> r \<noteq> Some 0 \<and> sends plan False 1 es)"

lemma phase_after: "sends ps True 0 xs \<Longrightarrow> phase qs r ys \<Longrightarrow> phase (ps @ qs) r (xs @ ys)"
  using sends_append [of ps 0 xs qs _ _ ys] by (fastforce simp: phase_def)

lemma phase_fails:
  "c < 0 \<Longrightarrow> sends ps b 0 es \<or> sends ps b 1 es \<Longrightarrow> phase (ps @ qs) (Some c) es"
  using sends_stop [of ps b _ es qs] by (auto simp: phase_def)

lemma download_start_spec:
  assumes "length cmd = MT7603_FW_SCATTER_MAX_PAYLOAD + 32"
  shows "spec (download_start k prof cmd seq) (phase [padded (start_frame (mt7603_next_cmd_seq seq))])"
  unfolding download_start_def start_call [OF assms]
  apply simp
  apply (rule spec_bind [OF send_need_rsp_spec], rule spec_if)
   apply (rule spec_return, fastforce intro: phase_fails [where qs = "[]", simplified])
  apply (rule spec_bind [OF poll_top_misc2_spec], rule spec_return)
  apply (auto simp: phase_def intro: sends_finish)
  done

lemma download_image_spec:
  assumes "length cmd = MT7603_FW_SCATTER_MAX_PAYLOAD + 32"
  shows "spec (download_image k prof fw cmd seq) (\<lambda>r es.
    (\<exists>dl. fw_dl_len prof fw = Some (Some dl) \<and> phase (download_plan fw dl seq) r es \<and>
       (r = Some 0 \<longrightarrow> unat dl \<le> length fw)) \<or>
    (fw_dl_len prof fw = Some None \<and> r = Some EINVAL \<or> fw_dl_len prof fw = None \<and> r = None) \<and> es = [])"
proof -
  have call: "mt7603_rust_fw_dl_len prof (Some fw) (length fw) (Some 0) =
      (case fw_dl_len prof fw of None \<Rightarrow> None | Some None \<Rightarrow> Some (EINVAL, Some 0) | Some (Some n) \<Rightarrow> Some (0, Some n))"
    by (simp add: mt7603_rust_fw_dl_len_def from_raw_parts_def split: option.split)
  show ?thesis
  proof (cases "fw_dl_len prof fw")
    case None
    then show ?thesis by (simp add: download_image_def call spec_return)
  next
    case (Some o')
    show ?thesis
    proof (cases o')
      case None
      with Some show ?thesis by (simp add: download_image_def call spec_return)
    next
      case dl: (Some dl)
      define p1 where "p1 = [padded (addr_len_frame dl (mt7603_next_cmd_seq seq))]"
      define p3 where "p3 = [padded (start_frame (mt7603_next_cmd_seq (mt7603_next_cmd_seq seq)))]"
      have plan: "download_plan fw dl seq = p1 @ scatter_plan (take (unat dl) fw) @ p3"
        by (simp add: download_plan_def p1_def p3_def)
      have after_upload: "spec (case r of (ret, cmd) \<Rightarrow> case ret of None \<Rightarrow> State_Monad.return None
          | Some ret \<Rightarrow> if ret < 0 then State_Monad.return (Some ret)
              else download_start k prof cmd (mt7603_next_cmd_seq seq))
          (\<lambda>y es'. phase (scatter_plan (take (unat dl) fw) @ p3) y (es @ es'))"
        if "(\<exists>c \<le> 0. fst r = Some c) \<and> length (snd r) = MT7603_FW_SCATTER_MAX_PAYLOAD + 32 \<and>
          sends (scatter_plan (take (unat dl - 0) (drop 0 fw))) (fst r = Some 0) 0 es" for r es
        using that download_start_spec [of "snd r" k prof "mt7603_next_cmd_seq seq"]
        by (cases r) (fastforce simp: p3_def intro!: spec_return intro: phase_fails phase_after elim!: spec_weaken)
      show ?thesis
        unfolding download_image_def call Some dl
        apply (simp add: addr_len_call [OF assms, simplified] plan split del: if_split)
        apply (rule spec_bind [OF send_need_rsp_spec], intro spec_if)
          apply (rule spec_return, fastforce simp: p1_def intro: phase_fails)
         apply (rule spec_return, simp add: p1_def, fastforce intro: phase_fails [of _ "[_]", simplified])
        apply (rule spec_bind [OF upload_loop_spec])
        using assms
           apply auto[3]
        apply (rule spec_weaken [OF after_upload], assumption)
        apply (auto simp: p1_def dest: phase_after [of "[_]", simplified])
        done
    qed
  qed
qed

definition upload_post :: "profile \<Rightarrow> u8 list \<Rightarrow> u8 \<Rightarrow> int option \<Rightarrow> history \<Rightarrow> bool" where
  "upload_post prof fw seq r es \<longleftrightarrow> (\<forall>c. r = Some c \<longrightarrow> c \<le> 0) \<and>
     (r \<noteq> Some 0 \<and> sends [] True 0 es \<or>
      (\<exists>dl. fw_dl_len prof fw = Some (Some dl) \<and> phase (download_plan fw dl seq) r es \<and>
         (r = Some 0 \<longrightarrow> unat dl \<le> length fw)))"

lemma download_steps_spec: "spec (download_steps k prof fw seq) (upload_post prof fw seq)"
proof -
  have image: "upload_post prof fw seq r (es @ es')"
    if "sends [] True 0 es" "(\<exists>dl. fw_dl_len prof fw = Some (Some dl) \<and> phase (download_plan fw dl seq) r es' \<and>
       (r = Some 0 \<longrightarrow> unat dl \<le> length fw)) \<or>
      (fw_dl_len prof fw = Some None \<and> r = Some EINVAL \<or> fw_dl_len prof fw = None \<and> r = None) \<and> es' = []"
    for r es es'
    using that phase_after [of "[]" es _ r es'] by (auto simp: upload_post_def phase_def)
  have "upload_post prof fw seq (Some c) (es @ es')"
    if "sends [] True 0 es" "c < 0" "read_events m old x es'" for c es es' m old x
    using that read_sends [of m old x es'] sends_quiet [of es "[]" True 0 es'] by (auto simp: upload_post_def)
  then show ?thesis
    unfolding download_steps_def
    apply (intro spec_bind [OF poll_top_misc2_spec] spec_if)
     apply (rule spec_bind [OF read_reg_spec], rule spec_return, simp)
    apply (rule spec_weaken [OF download_image_spec])
     apply simp
    using image apply blast
    done
qed

text \<open>Accesses before and after the phases: no frame is sent, everything is released.\<close>

definition calm :: "history \<Rightarrow> bool" where
  "calm es \<longleftrightarrow> sent_frames es = [] \<and> balanced es"

lemma calm_append [simp]: "calm xs \<Longrightarrow> calm ys \<Longrightarrow> calm (xs @ ys)"
  by (simp add: calm_def balanced_def)

lemma calm_access: "read_events m old r es \<Longrightarrow> calm es" "write_events m v c es \<Longrightarrow> calm es"
  using events_facts(1) [of m old r es] events_facts(2) [of m v c es] by (auto simp: calm_def)

lemma enable_udma_spec: "spec (mt7603_usb_enable_udma k agg) (\<lambda>r es. r \<le> 0 \<and> calm es)"
  unfolding mt7603_usb_enable_udma_def
  apply (rule spec_bind [OF cfg_read_spec], split prod.split, intro allI impI spec_if)
   apply (rule spec_return, auto dest: calm_access read_events_words)[1]
  apply (rule spec_bind [OF cfg_write_spec], rule spec_if)
   apply (rule spec_return, auto intro!: calm_append intro: calm_access)[1]
  apply (rule spec_bind [OF cfg_read_spec], rule spec_return)
  apply (auto intro!: calm_append intro: calm_access)
  done

lemma download_restore_spec: "spec (download_restore k) (\<lambda>_. calm)"
  unfolding download_restore_def Let_def
  by (intro spec_read spec_if spec_write spec_return) (auto dest!: calm_access)

lemma next_seq_simps [simp]:
  "mt7603_next_cmd_seq 0 = 1" "mt7603_next_cmd_seq 1 = 2" "mt7603_next_cmd_seq 2 = 3"
  by (simp_all add: mt7603_next_cmd_seq_def word_le_nat_alt)

lemma udma_words: "spec (mt7603_usb_enable_udma k agg) (\<lambda>r es. fst ` set (words_read es) \<subseteq> {MT7603_UDMA_WLCFG_0})"
  unfolding mt7603_usb_enable_udma_def
  apply (rule spec_bind [OF cfg_read_spec], split prod.split, intro allI impI spec_if)
   apply (rule spec_return, auto dest: read_events_words split: if_splits)[1]
  apply (rule spec_bind [OF cfg_write_spec], rule spec_if)
   apply (rule spec_return, auto simp: write_events_def dest!: read_events_words split: if_splits)[1]
  apply (rule spec_bind [OF cfg_read_spec], rule spec_return)
  apply (auto simp: write_events_def read_events_def)
  done

lemma download_restart_spec:
  "spec (download_restart k prof v) (\<lambda>r es. balanced es \<and> written_addrs es = {} \<and>
     r = Some (if v AND 2 = 2 then 1 else 0) \<and>
     (if v AND 2 = 2 then sent_frames es = [] \<and> starved es \<or> (\<exists>c. sent_frames es = [(padded (restart_frame 1), c)])
      else sent_frames es = []))"
  unfolding download_restart_def
  apply (rule spec_if)
   apply (simp add: restart_call [simplified])
   apply (rule spec_bind [OF restart_dl_rsp_spec], rule spec_return, simp)
  apply (simp add: spec_return balanced_def)
  done

text \<open>
  The whole upload, by the first word read from \<open>TOP_MISC2\<close>: without one nothing is sent. If its bit 1
  says that firmware runs, a restart request comes first, numbered 1, unless memory or an URB is missing for
  it; else there is none. Then the plan of the image as far as it got, with sequence numbers that continue
  from the restart request.
\<close>

definition top_misc2_word :: "history \<Rightarrow> u32 option" where
  "top_misc2_word es = map_option snd (find (\<lambda>(a, w). a = physical_addr_map MT7603_TOP_MISC2) (words_read es))"

definition download_post :: "profile \<Rightarrow> u8 list \<Rightarrow> int option \<Rightarrow> history \<Rightarrow> bool" where
  "download_post prof fw r es \<longleftrightarrow>
     (case top_misc2_word es of
        None \<Rightarrow> r \<noteq> Some 0 \<and> sent_frames es = []
      | Some v \<Rightarrow>
          (\<exists>rs ds. sent_frames es = rs @ ds \<and>
             (if v AND 2 = 2 then rs = [] \<and> starved es \<or> (\<exists>c. rs = [(padded (restart_frame 1), c)]) else rs = []) \<and>
             (r \<noteq> Some 0 \<and> ds = [] \<or>
              (\<exists>dl. fw_dl_len prof fw = Some (Some dl) \<and>
                 follows (download_plan fw dl (if v AND 2 = 2 then 1 else 0)) ds (r = Some 0) \<and>
                 (r = Some 0 \<longrightarrow> unat dl \<le> length fw)))))"

lemma top_misc2_mapped: "physical_addr_map MT7603_TOP_MISC2 \<noteq> MT7603_UDMA_WLCFG_0"
  by code_simp

lemma top_misc2_skip:
  assumes "fst ` set (words_read xs) \<subseteq> {MT7603_UDMA_WLCFG_0}"
  shows "top_misc2_word (xs @ zs) = top_misc2_word zs"
proof -
  have "find (\<lambda>(a, w). a = physical_addr_map MT7603_TOP_MISC2) (ws @ us) =
      find (\<lambda>(a, w). a = physical_addr_map MT7603_TOP_MISC2) us" if "fst ` set ws \<subseteq> {MT7603_UDMA_WLCFG_0}" for ws us
    using that top_misc2_mapped by (induction ws) auto
  from this [OF assms] show ?thesis by (simp add: top_misc2_word_def)
qed

lemma top_misc2_first:
  "read_events (physical_addr_map MT7603_TOP_MISC2) 0 (ret, v) ys \<Longrightarrow>
   top_misc2_word (ys @ zs) = (if ret < 0 then top_misc2_word zs else Some v)"
  by (drule read_events_words) (auto simp: top_misc2_word_def)

lemma top_misc2_none: "top_misc2_word [] = None"
  by (simp add: top_misc2_word_def)

definition released :: "int option \<Rightarrow> history \<Rightarrow> bool" where
  "released r es \<longleftrightarrow> (\<forall>c. r = Some c \<longrightarrow> c \<le> 0 \<and> live_buffers es = live_urbs es \<and>
     (live_urbs es = 0 \<or> c < 0 \<and> live_urbs es = 1))"

lemma upload_post_parts:
  assumes "upload_post prof fw seq r es"
  shows "released r es"
    and "r \<noteq> Some 0 \<and> sent_frames es = [] \<or>
      (\<exists>dl. fw_dl_len prof fw = Some (Some dl) \<and> follows (download_plan fw dl seq) (sent_frames es) (r = Some 0) \<and>
         (r = Some 0 \<longrightarrow> unat dl \<le> length fw))"
proof -
  have "follows [] ss True \<Longrightarrow> ss = []" for ss :: "(u8 list \<times> int) list" by (cases ss) auto
  with assms show "r \<noteq> Some 0 \<and> sent_frames es = [] \<or>
      (\<exists>dl. fw_dl_len prof fw = Some (Some dl) \<and> follows (download_plan fw dl seq) (sent_frames es) (r = Some 0) \<and>
         (r = Some 0 \<longrightarrow> unat dl \<le> length fw))"
    by (auto simp: upload_post_def phase_def sends_def)
  show "released r es"
    using assms by (auto simp: upload_post_def phase_def sends_def released_def)
qed

lemma early_exit:
  "c < 0 \<Longrightarrow> calm es \<Longrightarrow> top_misc2_word es = None \<Longrightarrow> download_post prof fw (Some c) es \<and> released (Some c) es"
  by (auto simp: download_post_def released_def balanced_def calm_def)

lemma download_bypass_spec:
  "spec (download_bypass k prof fw seq v) (\<lambda>r es. released r es \<and> (r \<noteq> Some 0 \<and> sent_frames es = [] \<or>
     (\<exists>dl. fw_dl_len prof fw = Some (Some dl) \<and> follows (download_plan fw dl seq) (sent_frames es) (r = Some 0) \<and>
        (r = Some 0 \<longrightarrow> unat dl \<le> length fw))))"
proof -
  have fail: "calm es \<Longrightarrow> c < 0 \<Longrightarrow> released (Some c) es \<and> sent_frames es = []" for es c
    by (auto simp: calm_def released_def balanced_def)
  have finish: "released (Some c) (xs @ Alloc n True # es @ Free # ws) \<and>
      sent_frames (xs @ Alloc n True # es @ Free # ws) = sent_frames es"
    if "calm xs" "calm ws" "released (Some c) es" for c xs es ws n
    using that by (auto simp: calm_def released_def balanced_def)
  show ?thesis
    unfolding download_bypass_def
    apply (rule spec_read, rule spec_if)
     apply (rule spec_return, drule calm_access, simp add: fail)
    apply (rule spec_write, rule spec_if)
     apply (rule spec_return, drule calm_access, drule calm_access, simp add: fail)
    apply (rule spec_read, rule spec_bind [OF kmalloc_spec], rule spec_if)
     apply (rule spec_bind [OF download_restore_spec], rule spec_return)
    subgoal for ret v e1 c e2 x y e3 z e4 u ws
      using fail [of "e1 @ e2 @ e3 @ e4 @ ws" ENOMEM]
      by (auto dest!: calm_access simp: calm_def balanced_def)
    apply (rule spec_bind [OF download_steps_spec])
    subgoal for ret v e1 c e2 x y e3 z e4 r us
      apply (cases r)
       apply (simp, rule spec_return)
       apply (drule upload_post_parts(2), auto dest!: calm_access simp: calm_def released_def)[1]
      apply simp
      apply (rule spec_bind [OF kfree_spec], rule spec_bind [OF download_restore_spec], rule spec_return)
      using finish [of "e1 @ e2 @ e3" _ "the r" us] upload_post_parts [of prof fw seq r us]
      apply (auto dest!: calm_access)
      done
    done
qed

lemma download_spec:
  "spec (mt7603_download_firmware k prof fw) (\<lambda>r es. download_post prof fw r es \<and> released r es)"
proof -
  have run: "download_post prof fw r (xs @ xs' @ ys @ es) \<and> released r (xs @ xs' @ ys @ es)"
    if "calm xs" "calm xs'" "balanced ys" "\<And>zs. top_misc2_word (xs @ xs' @ zs) = Some v"
      "if v AND 2 = 2 then sent_frames ys = [] \<and> starved ys \<or> (\<exists>c. sent_frames ys = [(padded (restart_frame 1), c)])
       else sent_frames ys = []"
      "released r es \<and> (r \<noteq> Some 0 \<and> sent_frames es = [] \<or>
        (\<exists>dl. fw_dl_len prof fw = Some (Some dl) \<and>
          follows (download_plan fw dl (if v AND 2 = 2 then 1 else 0)) (sent_frames es) (r = Some 0) \<and>
          (r = Some 0 \<longrightarrow> unat dl \<le> length fw)))" for r xs xs' ys es v
  proof
    show "download_post prof fw r (xs @ xs' @ ys @ es)"
      unfolding download_post_def that(4) option.case
      by (rule exI [of _ "sent_frames ys"], rule exI [of _ "sent_frames es"])
        (use that in \<open>auto simp: calm_def split: if_splits\<close>)
    show "released r (xs @ xs' @ ys @ es)"
      using that(1-3,6) by (auto simp: released_def calm_def balanced_def)
  qed
  show ?thesis
    unfolding mt7603_download_firmware_def
    apply (rule spec_bind [OF spec_conj [OF enable_udma_spec udma_words]], rule spec_if)
    subgoal for x xs
      using top_misc2_skip [of xs "[]"] by (intro spec_return early_exit) (simp_all add: top_misc2_none)
    apply (rule spec_read, rule spec_if)
    subgoal for x xs ret v xs'
      using top_misc2_first [of ret v xs' "[]"] top_misc2_skip [of xs xs']
      by (intro spec_return early_exit) (auto dest: calm_access simp: top_misc2_none)
    apply (rule spec_bind [OF download_restart_spec])
    subgoal for x xs ret v xs' seq ys
      apply (elim conjE, hypsubst, simp only: option.case, rule spec_weaken [OF download_bypass_spec])
      using run [of xs xs' ys v] top_misc2_first [of ret v xs'] top_misc2_skip [of xs] calm_access(1) [of _ _ "(ret, v)" xs']
      by simp
    done
qed

section \<open>Back to normal mode\<close>

text \<open>Control transfers that go through; bulk transfers, URBs and large allocations may still fail.\<close>

definition control_reliable :: "kernel \<Rightarrow> bool" where
  "control_reliable k \<longleftrightarrow> (\<forall>h. kmalloc_ok k h 4) \<and> (\<forall>h a. 0 \<le> fst (usb_control_in k h a)) \<and>
     (\<forall>h a v. 0 \<le> usb_control_out k h a v)"

lemma reliable_read:
  assumes "control_reliable k"
  shows "spec (mt7603_usb_read_reg k a old) (\<lambda>r es. fst r = 0)"
    "spec (mt7603_usb_cfg_read k a old) (\<lambda>r es. fst r = 0)"
proof -
  have "kmalloc_ok k h 4" "0 \<le> fst (usb_control_in k h a)" for h a
    using assms by (auto simp: control_reliable_def)
  then show "spec (mt7603_usb_read_reg k a old) (\<lambda>r es. fst r = 0)"
      "spec (mt7603_usb_cfg_read k a old) (\<lambda>r es. fst r = 0)"
    by (auto intro!: specI simp: mt7603_usb_read_reg_def mt7603_usb_cfg_read_def Let_def call_defs
        case_prod_beta)
qed

lemma reliable_write:
  assumes "control_reliable k"
  shows "spec (mt7603_usb_write_reg k a v) (\<lambda>r es. r = 0 \<and>
      (\<forall>dev. registers_after es dev = dev(physical_addr_map a \<mapsto> v)))"
    "spec (mt7603_usb_cfg_write k a v) (\<lambda>r es. r = 0)"
proof -
  have "kmalloc_ok k h 4" "\<not> usb_control_out k h a v < 0" for h a
    using assms by (auto simp: control_reliable_def not_less)
  then show "spec (mt7603_usb_write_reg k a v) (\<lambda>r es. r = 0 \<and>
      (\<forall>dev. registers_after es dev = dev(physical_addr_map a \<mapsto> v)))"
    "spec (mt7603_usb_cfg_write k a v) (\<lambda>r es. r = 0)"
    by (auto intro!: specI simp: mt7603_usb_write_reg_def mt7603_usb_cfg_write_def Let_def call_defs)
qed

definition scheduler_normal :: "history \<Rightarrow> bool" where
  "scheduler_normal es \<longleftrightarrow> (\<forall>dev. \<exists>v. registers_after es dev (physical_addr_map MT7603_SCH_REG4) = Some v \<and>
     v AND 0x12F = 0)"

lemma normal_word_clear: "((normal_word v OR push_bit 8 1) AND NOT (push_bit 8 1)) AND 0x12F = 0"
proof -
  have "normal_word v AND 0x2F = 0"
    unfolding normal_word_def by (simp add: and.assoc)
  moreover have "((w OR 0x100) AND NOT 0x100) AND 0x12F = w AND 0x2F" for w :: u32
    by (simp add: and.assoc bit.conj_disj_distrib2)
  ultimately show ?thesis by simp
qed

lemma restore_normal:
  assumes "control_reliable k"
  shows "spec (download_restore k) (\<lambda>_. scheduler_normal)"
  unfolding download_restore_def Let_def
  apply (rule spec_bind [OF reliable_read(1) [OF assms]])
  apply (simp add: case_prod_beta)
  apply (rule spec_bind [OF reliable_write(1) [OF assms]])+
  apply (rule spec_return)
  apply (simp add: scheduler_normal_def normal_word_clear [simplified])
  done

lemma download_bypass_normal:
  assumes "control_reliable k"
  shows "spec (download_bypass k prof fw seq v) (\<lambda>r es. r \<noteq> None \<longrightarrow> scheduler_normal es)"
  unfolding download_bypass_def
  apply (rule spec_bind [OF reliable_read(1) [OF assms]], simp add: case_prod_beta)
  apply (rule spec_bind [OF reliable_write(1) [OF assms]], simp)
  apply (rule spec_bind [OF reliable_read(1) [OF assms]], simp add: case_prod_beta)
  apply (rule spec_bind [OF kmalloc_spec], rule spec_if)
   apply (rule spec_bind [OF restore_normal [OF assms]], rule spec_return)
   apply (simp add: scheduler_normal_def)
  apply (rule spec_bind [OF download_steps_spec])
  subgoal for x e1 e2 y e3 z e4 r e5
    by (cases r) (auto intro!: spec_return spec_bind [OF kfree_spec] spec_bind [OF restore_normal [OF assms]]
        simp: scheduler_normal_def)
  done

lemma download_normal:
  assumes "control_reliable k"
  shows "spec (mt7603_download_firmware k prof fw) (\<lambda>r es. r \<noteq> None \<longrightarrow> scheduler_normal es)"
proof -
  have udma: "spec (mt7603_usb_enable_udma k True) (\<lambda>r es. r = 0)"
    unfolding mt7603_usb_enable_udma_def
    apply (rule spec_bind [OF reliable_read(2) [OF assms]], simp add: case_prod_beta)
    apply (rule spec_bind [OF reliable_write(2) [OF assms]], simp)
    apply (rule spec_bind [OF reliable_read(2) [OF assms]], rule spec_return, simp)
    done
  show ?thesis
    unfolding mt7603_download_firmware_def
    apply (rule spec_bind [OF udma], simp)
    apply (rule spec_bind [OF reliable_read(1) [OF assms]], simp add: case_prod_beta)
    apply (rule spec_bind [OF download_restart_spec])
    subgoal for x e1 y e2 seq e3
      by (cases seq) (auto intro!: spec_return spec_weaken [OF download_bypass_normal [OF assms]]
          simp: scheduler_normal_def)
    done
qed

section \<open>The image the boot ROM receives\<close>

definition received_image :: "u8 list list \<Rightarrow> u8 list" where
  "received_image frames = concat (map (\<lambda>f.
     let t = decode_fw_txd FW_TXD_HDR_SIZE (take (length f - USB_END_PADDING) f)
     in if txd_cid t = MT_FW_SCATTER then txd_payload t else []) frames)"

lemma received_append [simp]:
  "received_image [] = []" "received_image (xs @ ys) = received_image xs @ received_image ys"
  by (simp_all add: received_image_def)

lemma length_padded [simp]: "length (padded f) = length f + 4"
  by (simp add: padded_def)

lemma unpadded: "take (length f) (padded f) = f"
  by (simp add: padded_def)

lemma received_frames [simp]:
  "received_image (padded (restart_frame seq) # fs) = received_image fs"
  "received_image (padded (addr_len_frame dl seq) # fs) = received_image fs"
  "received_image (padded (start_frame seq) # fs) = received_image fs"
  by (simp_all add: received_image_def unpadded restart_frame_def addr_len_frame_def start_frame_def
      decode_fw_txd_block)

lemma received_scatter:
  "list_all (\<lambda>c. length c \<le> MT7603_FW_SCATTER_MAX_PAYLOAD) cs \<Longrightarrow>
   received_image (map (\<lambda>c. padded (scatter_frame c)) cs) = concat cs"
  by (induction cs) (simp_all add: received_image_def unpadded scatter_frame_def decode_fw_txd_block)

lemma received_plan: "received_image (download_plan fw dl seq) = take (unat dl) fw"
proof -
  have "list_all (\<lambda>c. length c \<le> MT7603_FW_SCATTER_MAX_PAYLOAD) (chunks MT7603_FW_SCATTER_MAX_PAYLOAD xs)"
    for xs :: "u8 list"
    using chunks_bound by (fastforce simp: list_all_iff)
  from received_scatter [OF this] show ?thesis
    by (simp add: download_plan_def concat_chunks)
qed

lemma plan_frame_length:
  assumes "f \<in> set (download_plan fw dl seq)"
  shows "length f \<le> 4080"
proof -
  have "length c \<le> 4064" if "c \<in> set (chunks MT7603_FW_SCATTER_MAX_PAYLOAD (take (unat dl) fw))" for c
    using chunks_bound that by fastforce
  with assms show ?thesis by (auto simp: download_plan_def padded_def)
qed

lemma download_post_success:
  assumes "download_post prof fw (Some 0) es"
  obtains seq :: u8 and rs ds dl where "sent_frames es = rs @ ds" "rs = [] \<or> (\<exists>c. rs = [(padded (restart_frame 1), c)])"
    "fw_dl_len prof fw = Some (Some dl)" "follows (download_plan fw dl seq) ds True" "unat dl \<le> length fw"
proof -
  obtain v where v: "top_misc2_word es = Some v"
    using assms unfolding download_post_def by (cases "top_misc2_word es") simp_all
  let ?seq = "if v AND 2 = 2 then 1 else 0 :: u8"
  obtain rs ds where d: "sent_frames es = rs @ ds"
    "if v AND 2 = 2 then rs = [] \<and> starved es \<or> (\<exists>c. rs = [(padded (restart_frame 1), c)]) else rs = []"
    "\<exists>dl. fw_dl_len prof fw = Some (Some dl) \<and> follows (download_plan fw dl ?seq) ds (Some 0 = Some (0 :: int)) \<and>
       (Some 0 = Some (0 :: int) \<longrightarrow> unat dl \<le> length fw)"
    using assms unfolding download_post_def v option.case by (elim exE conjE) (simp only: simp_thms)
  from d(2) have "rs = [] \<or> (\<exists>c. rs = [(padded (restart_frame 1), c)])" by (auto split: if_splits)
  moreover from d(3) obtain dl where "fw_dl_len prof fw = Some (Some dl)"
    "follows (download_plan fw dl ?seq) ds True" "unat dl \<le> length fw" by auto
  ultimately show thesis by (rule that [OF d(1)])
qed

section \<open>A bus that answers, for evaluation\<close>

text \<open>
  Every register reads as 3 (boot ROM ready, firmware running), allocations and control
  transfers succeed, the response arrives, and bulk transfers return \<open>c\<close>.
\<close>

definition answering :: "int \<Rightarrow> kernel" where
  "answering c =
     \<lparr> kmalloc_ok = \<lambda>_ _. True, usb_control_in = \<lambda>_ _. (4, 3), usb_control_out = \<lambda>_ _ _. 4,
       usb_bulk_out = \<lambda>_ _. c, usb_alloc_urb_ok = \<lambda>_. True, usb_submit = \<lambda>_ _. 0,
       completions = \<lambda>_ _. [(0, [], 0)], stale = \<lambda>_. 0xAA \<rparr>"

lemma answering_reliable: "control_reliable (answering c)"
  by (simp add: control_reliable_def answering_def)

lemma answering_runs:
  "\<exists>es. run_state (mt7603_usb_read_reg (answering c) a old) h = ((0, 3), h @ es)"
  "\<exists>es. run_state (mt7603_usb_cfg_read (answering c) a old) h = ((0, 3), h @ es)"
  "\<exists>es. run_state (mt7603_usb_write_reg (answering c) a v) h = (0, h @ es)"
  "\<exists>es. run_state (mt7603_usb_cfg_write (answering c) a v) h = (0, h @ es)"
  by (simp_all add: mt7603_usb_read_reg_def mt7603_usb_cfg_read_def mt7603_usb_write_reg_def
      mt7603_usb_cfg_write_def Let_def call_defs answering_def)

text \<open>Results alone, the history being the concern of the general lemmas.\<close>

definition result :: "'a io \<Rightarrow> 'a \<Rightarrow> bool" where
  "result m x \<longleftrightarrow> spec m (\<lambda>y es. y = x)"

lemma result_bind: "result m x \<Longrightarrow> result (f x) y \<Longrightarrow> result (State_Monad.bind m f) y"
  unfolding result_def by (rule spec_bind, assumption) simp

lemma result_return: "result (State_Monad.return x) x"
  by (simp add: result_def spec_return)

lemma result_skip: "spec m P \<Longrightarrow> (\<And>x. result (f x) y) \<Longrightarrow> result (State_Monad.bind m f) y"
  unfolding result_def by (rule spec_bind)

lemma resultI: "(\<And>h. \<exists>es. run_state m h = (x, h @ es)) \<Longrightarrow> result m x"
  unfolding result_def by (rule specI) auto

lemma result_run: "result m x \<Longrightarrow> \<exists>es. run_state m h = (x, h @ es)"
  unfolding result_def by (erule spec_run [of _ _ h]) auto

lemmas answering_results = answering_runs [THEN resultI]

lemma answering_poll: "3 AND msk = expect \<Longrightarrow> result (mt7603_poll_top_misc2 (answering c) msk expect) 0"
  unfolding mt7603_poll_top_misc2_def poll_loop.simps(2) [of _ 499, unfolded eval_nat_numeral(3) [symmetric], simplified]
  by (auto intro!: result_bind [OF answering_results(1)] result_return)

lemma answering_send: "result (mt7603_usb_send_cmd (answering c) f) (min c 0)"
  by (rule resultI) (auto simp: mt7603_usb_send_cmd_def call_defs answering_def)

lemma answering_need_rsp: "result (send_need_rsp (answering c) f) (min c 0)"
  by (rule resultI) (auto simp: command_defs answering_def rsp_discards_def split: option.split)

lemma answering_udma: "result (mt7603_usb_enable_udma (answering c) agg) 0"
  unfolding mt7603_usb_enable_udma_def
  by (rule result_bind answering_results | simp add: result_return)+

text \<open>An image that passes verification and whose last word announces six bytes.\<close>

definition sample_fw :: "u8 list" where
  "sample_fw = [0x46, 0, 1, 0] @ replicate 1020 0 @ u32_to_le_bytes 2"

lemma sample_fw_len: "fw_dl_len Release sample_fw = Some (Some 6)" "length sample_fw = 1028"
  by (simp_all add: fw_dl_len_def sample_fw_def slice_def load_def u32_to_le_bytes_def u32_from_le_bytes_def)

lemma answering_loop:
  assumes "length cmd = 4096"
  shows "\<exists>cmd'. result (upload_loop (answering 0) prof sample_fw cmd 0 6) (Some 0, cmd') \<and> length cmd' = 4096"
proof -
  let ?cmd = "scatter_frame (take 6 sample_fw) @ drop 18 cmd"
  have call: "mt7603_rust_build_fw_scatter_frame prof (Some sample_fw) 6 (Some cmd) 4096 (Some 0) =
      Some (0, Some ?cmd, Some 18)"
    using scatter_call [of cmd 6 sample_fw prof 0] assms sample_fw_len(2) by simp
  have "result (upload_loop (answering 0) prof sample_fw cmd 0 6) (Some 0, ?cmd)"
    by (subst upload_loop.simps)
      (simp add: call, rule result_bind [OF answering_send], simp add: upload_loop.simps [of _ _ _ _ 6] result_return)
  moreover have "length ?cmd = 4096" using assms sample_fw_len(2) by simp
  ultimately show ?thesis by blast
qed

lemma answering_image:
  assumes "length cmd = 4096"
  shows "result (download_image (answering 0) Release sample_fw cmd seq) (Some 0)"
proof -
  have call: "mt7603_rust_fw_dl_len Release (Some sample_fw) 1028 (Some 0) = Some (0, Some 6)"
    by (simp add: mt7603_rust_fw_dl_len_def from_raw_parts_def sample_fw_len)
  define cmd1 where "cmd1 = addr_len_frame 6 (mt7603_next_cmd_seq seq) @ drop 24 cmd"
  have c1: "length cmd1 = 4096" using assms by (simp add: cmd1_def)
  obtain cmd2 where c2: "result (upload_loop (answering 0) Release sample_fw cmd1 0 6) (Some 0, cmd2)"
    "length cmd2 = 4096" using answering_loop [OF c1] by blast
  have start: "result (download_start (answering 0) Release cmd2 (mt7603_next_cmd_seq seq)) (Some 0)"
    unfolding download_start_def using start_call [of cmd2 Release _ 0] c2(2)
    by (simp, intro result_bind [OF answering_need_rsp])
      (simp, rule result_bind [OF answering_poll], simp_all add: result_return)
  show ?thesis
    unfolding download_image_def using addr_len_call [of cmd Release 6 _ 0] assms
    by (simp add: sample_fw_len call cmd1_def [symmetric])
      (rule result_bind [OF answering_need_rsp], simp, rule result_bind [OF c2(1)], simp add: start)
qed

lemma answering_download: "result (mt7603_download_firmware (answering 0) Release sample_fw) (Some 0)"
proof -
  have restore: "result (download_restore (answering 0)) ()"
    unfolding download_restore_def Let_def
    by (rule result_bind answering_results | simp add: result_return)+
  have steps: "result (download_steps (answering 0) Release sample_fw seq) (Some 0)" for seq
    unfolding download_steps_def
    by (rule result_bind [OF answering_poll]) (simp_all add: answering_image)
  have "result (download_bypass (answering 0) Release sample_fw seq v) (Some 0)" for seq v
    unfolding download_bypass_def
    apply (rule result_bind [OF answering_results(1)], simp)
    apply (rule result_bind [OF answering_results(3)], simp)
    apply (rule result_bind [OF answering_results(1)], simp)
    apply (rule result_bind [of _ True], rule resultI, simp add: call_defs answering_def)
    apply (simp, rule result_bind [OF steps], simp)
    apply (rule result_skip [OF kfree_spec], rule result_bind [OF restore], rule result_return)
    done
  moreover have "result (download_restart (answering 0) Release 3) (Some 1)"
    unfolding download_restart_def using restart_call [of "stale_buffer (answering 0)" Release _ 0]
    by (simp, intro result_skip [OF restart_dl_rsp_spec] result_return)
  ultimately show ?thesis
    unfolding mt7603_download_firmware_def
    by (intro result_bind [OF answering_udma], simp, intro result_bind [OF answering_results(1)], simp)
      (erule result_bind, simp)
qed

text \<open>The reads of a poll: some whose word does not match, each followed by a pause, and the last one.\<close>

definition top_misc2_read :: "int \<times> u32 \<Rightarrow> history" where
  "top_misc2_read r = [Alloc 4 True, Control_In (physical_addr_map MT7603_TOP_MISC2) (fst r) (snd r), Free]"

definition poll_post :: "nat \<Rightarrow> u32 \<Rightarrow> u32 \<Rightarrow> int \<Rightarrow> history \<Rightarrow> bool" where
  "poll_post n msk expect c es \<longleftrightarrow>
     (\<exists>misses final. es = concat (map (\<lambda>r. top_misc2_read r @ [Sleep]) misses) @ final \<and>
        list_all (\<lambda>(code, w). 0 \<le> code \<and> w AND msk \<noteq> expect) misses \<and>
        (c = 0 \<and> length misses < n \<and> (\<exists>code w. final = top_misc2_read (code, w) \<and> 0 \<le> code \<and> w AND msk = expect) \<or>
         c = EIO \<and> length misses < n \<and>
           (final = [Alloc 4 False] \<or> (\<exists>code w. final = top_misc2_read (code, w) \<and> code < 0)) \<or>
         c = ETIMEDOUT \<and> length misses = n \<and> final = []))"

lemma poll_post_Suc:
  assumes "poll_post n msk expect c es" "0 \<le> code" "w AND msk \<noteq> expect"
  shows "poll_post (Suc n) msk expect c (top_misc2_read (code, w) @ Sleep # es)"
proof -
  obtain misses final where m: "es = concat (map (\<lambda>r. top_misc2_read r @ [Sleep]) misses) @ final"
    "list_all (\<lambda>(code, w). 0 \<le> code \<and> w AND msk \<noteq> expect) misses"
    "c = 0 \<and> length misses < n \<and> (\<exists>code w. final = top_misc2_read (code, w) \<and> 0 \<le> code \<and> w AND msk = expect) \<or>
     c = EIO \<and> length misses < n \<and> (final = [Alloc 4 False] \<or> (\<exists>code w. final = top_misc2_read (code, w) \<and> code < 0)) \<or>
     c = ETIMEDOUT \<and> length misses = n \<and> final = []"
    using assms(1) unfolding poll_post_def by blast
  show ?thesis
    unfolding poll_post_def
    by (rule exI [of _ "(code, w) # misses"], rule exI [of _ final]) (use m assms(2,3) in auto)
qed

lemma poll_reads_spec: "spec (poll_loop k n msk expect) (poll_post n msk expect)"
proof (induction n)
  case 0
  then show ?case by (auto simp: poll_post_def intro!: spec_return)
next
  case (Suc n)
  have fail: "poll_post (Suc n) msk expect EIO es"
    if "read_events (physical_addr_map MT7603_TOP_MISC2) 0 (ret, v) es" "ret < 0" for ret v es
    unfolding poll_post_def
    by (rule exI [of _ "[]"], rule exI [of _ es]) (use that in \<open>auto simp: read_events_def top_misc2_read_def split: if_splits\<close>)
  have hit: "poll_post (Suc n) msk (v AND msk) 0 es"
    if "read_events (physical_addr_map MT7603_TOP_MISC2) 0 (ret, v) es" "\<not> ret < 0" for ret v es
    unfolding poll_post_def
    by (rule exI [of _ "[]"], rule exI [of _ es]) (use that in \<open>auto simp: read_events_def top_misc2_read_def split: if_splits\<close>)
  have miss: "poll_post (Suc n) msk expect c (es @ Sleep # es')"
    if "read_events (physical_addr_map MT7603_TOP_MISC2) 0 (ret, v) es" "\<not> ret < 0" "v AND msk \<noteq> expect"
      "poll_post n msk expect c es'" for ret v es es' c
  proof -
    have "\<exists>code. es = top_misc2_read (code, v) \<and> 0 \<le> code"
      using that(1,2) by (auto simp: read_events_def top_misc2_read_def split: if_splits)
    then show ?thesis using poll_post_Suc [OF that(4) _ that(3)] by auto
  qed
  show ?case
    unfolding poll_loop.simps
    by (intro spec_read spec_if spec_return spec_sleep spec_weaken [OF Suc]) (auto intro: fail hit miss)
qed

section \<open>Properties\<close>

text \<open>C5: whatever the bus, the device and the allocator do, the upload is decided by the first word
  it reads from \<open>TOP_MISC2\<close>. When it cannot be read nothing is sent. When its bit 1 says that firmware is
  running, one restart request numbered 1 comes first, unless an allocation or an URB submission fails; when the
  bit is clear there is no restart request. Then come the planned frames of the image in their order
  (address and length, the chunks, the start command, with the sequence numbers that follow), stopping at
  the first frame that fails; it returns 0 only when the whole plan was sent without a failure and the
  image contains all of the announced length.\<close>

theorem upload_follows_plan:
  assumes "run_state (mt7603_download_firmware k prof fw) h = (r, h')"
  shows "\<exists>es. h' = h @ es \<and>
    (case top_misc2_word es of
       None \<Rightarrow> r \<noteq> Some 0 \<and> sent_frames es = []
     | Some v \<Rightarrow>
         (\<exists>rs ds. sent_frames es = rs @ ds \<and>
            (if v AND 2 = 2 then rs = [] \<and> starved es \<or> (\<exists>c. rs = [(padded (restart_frame 1), c)]) else rs = []) \<and>
            (r \<noteq> Some 0 \<and> ds = [] \<or>
             (\<exists>dl. fw_dl_len prof fw = Some (Some dl) \<and>
                follows (download_plan fw dl (if v AND 2 = 2 then 1 else 0)) ds (r = Some 0) \<and>
                (r = Some 0 \<longrightarrow> unat dl \<le> length fw)))))"
  unfolding download_post_def [symmetric] using specD [OF download_spec assms] by metis

theorem upload_follows_plan_witness:
  "\<exists>es seq rs ds dl. run_state (mt7603_download_firmware (answering 0) Release sample_fw) [] = (Some 0, es) \<and>
     sent_frames es = rs @ ds \<and> follows (download_plan sample_fw dl seq) ds True"
proof -
  obtain es where r: "run_state (mt7603_download_firmware (answering 0) Release sample_fw) [] = (Some 0, es)"
    using result_run [OF answering_download, of "[]"] by auto
  then have "download_post Release sample_fw (Some 0) es"
    using upload_follows_plan [OF r, folded download_post_def] by simp
  then show ?thesis by (rule download_post_success) (use r in blast)
qed

text \<open>C13: when the upload returns 0, the boot ROM has received exactly the first \<open>dl_len\<close> bytes of
  the image: decoding the transferred frames in order and joining the payloads of the scatter
  commands gives them back, and no transfer was longer than one upload unit of 4096 bytes.\<close>

theorem uploaded_image:
  assumes "run_state (mt7603_download_firmware k prof fw) h = (Some 0, h @ es)"
  shows "\<exists>dl. fw_dl_len prof fw = Some (Some dl) \<and> unat dl \<le> length fw \<and>
    received_image (map fst (sent_frames es)) = take (unat dl) fw \<and>
    list_all (\<lambda>(f, code). length f \<le> MT_UPLOAD_FW_UNIT) (sent_frames es)"
proof -
  have "download_post prof fw (Some 0) es" using specD [OF download_spec assms] by (metis same_append_eq)
  then obtain seq rs ds dl where d: "sent_frames es = rs @ ds" "rs = [] \<or> (\<exists>c. rs = [(padded (restart_frame 1), c)])"
    "fw_dl_len prof fw = Some (Some dl)" "follows (download_plan fw dl seq) ds True" "unat dl \<le> length fw"
    by (rule download_post_success)
  have ds: "map fst ds = download_plan fw dl seq" using d(4) by (rule follows_sent)
  have "length f \<le> MT_UPLOAD_FW_UNIT" if "(f, c) \<in> set ds" for f c
    using plan_frame_length [of f fw dl seq] that unfolding ds [symmetric] by force
  then have "list_all (\<lambda>(f, code). length f \<le> MT_UPLOAD_FW_UNIT) ds" by (auto simp: list_all_iff)
  then show ?thesis
    using d(1,2,3,5) ds by (auto simp: received_plan)
qed

theorem uploaded_image_witness:
  "\<exists>es. run_state (mt7603_download_firmware (answering 0) Release sample_fw) [] = (Some 0, es) \<and>
     received_image (map fst (sent_frames es)) = [0x46, 0, 1, 0, 0, 0]"
proof -
  obtain es where r: "run_state (mt7603_download_firmware (answering 0) Release sample_fw) [] = (Some 0, [] @ es)"
    using result_run [OF answering_download, of "[]"] by auto
  from uploaded_image [OF this] have "received_image (map fst (sent_frames es)) = take 6 sample_fw"
    by (auto simp: sample_fw_len)
  with r show ?thesis by (auto simp: sample_fw_def numeral_eq_Suc)
qed

text \<open>C28: every buffer and URB the upload allocates is released when it returns 0. When it returns an
  error, at most one response session (its buffer and its URB) is left behind.\<close>

theorem upload_releases:
  assumes "run_state (mt7603_download_firmware k prof fw) h = (Some c, h @ es)"
  shows "c \<le> 0 \<and> live_buffers es = live_urbs es \<and> (live_urbs es = 0 \<or> c < 0 \<and> live_urbs es = 1)"
  using specD [OF download_spec assms] by (auto simp: released_def)

theorem upload_releases_witness:
  "\<exists>es. run_state (mt7603_download_firmware (answering 0) Release sample_fw) [] = (Some 0, es) \<and> live_urbs es = 0"
proof -
  obtain es where "run_state (mt7603_download_firmware (answering 0) Release sample_fw) [] = (Some 0, [] @ es)"
    using result_run [OF answering_download, of "[]"] by auto
  with upload_releases [OF this] show ?thesis by auto
qed

text \<open>C27: as long as control transfers go through, the scheduler is back in normal mode (bypass,
  forced queue and reset bits clear) when the upload returns, on every success and error path, whatever
  bulk transfers, URBs, allocations and the image do.\<close>

theorem upload_restores_scheduler:
  assumes "control_reliable k" "run_state (mt7603_download_firmware k prof fw) h = (Some c, h @ es)"
  shows "\<exists>v. registers_after es dev (physical_addr_map MT7603_SCH_REG4) = Some v \<and> v AND 0x12F = 0"
  using specD [OF download_normal [OF assms(1)] assms(2)] by (auto simp: scheduler_normal_def)

theorem upload_restores_scheduler_witness:
  "\<exists>es v. run_state (mt7603_download_firmware (answering 0) Release sample_fw) [] = (Some 0, es) \<and>
     registers_after es Map.empty (physical_addr_map MT7603_SCH_REG4) = Some v \<and> v AND 0x12F = 0"
proof -
  obtain es where "run_state (mt7603_download_firmware (answering 0) Release sample_fw) [] = (Some 0, [] @ es)"
    using result_run [OF answering_download, of "[]"] by auto
  with upload_restores_scheduler [OF answering_reliable this, of Map.empty] show ?thesis by auto
qed

text \<open>C36: a command that waits for a response leaves its response session behind (the buffer and an
  URB the controller may still complete into) whenever the URB has been submitted and the command
  then fails: on every kernel, the negative answer comes with exactly one live buffer and one live
  URB.\<close>

theorem send_need_rsp_leaks:
  assumes "run_state (send_need_rsp k frame) h = (c, h @ es)" "c < 0" "Urb_Submit MT7603_DATA_BULK_IN r \<in> set es" "0 \<le> r"
  shows "live_buffers es = 1 \<and> live_urbs es = 1"
  using assms by (auto simp: command_defs split: if_splits option.splits)

theorem send_need_rsp_leaks_witness:
  "\<exists>es. run_state (send_need_rsp (answering (- 1)) [1, 2]) [] = (- 1, [] @ es) \<and> live_urbs es = 1"
proof -
  let ?es = "[Alloc 24576 True, Urb_Alloc True, Urb_Submit 0x84 0, Alloc 6 True, Bulk_Out [1, 2, 0, 0, 0, 0] (- 1), Free]"
  have "run_state (send_need_rsp (answering (- 1)) [1, 2]) [] = (- 1, [] @ ?es)"
    by (simp add: command_defs answering_def numeral_eq_Suc)
  with send_need_rsp_leaks [OF this, of 0] show ?thesis by auto
qed

text \<open>C40: polling reads \<open>TOP_MISC2\<close>, pausing after each word that does not match, at most 500 times,
  and the answer says exactly how it ended: 0 when the last word matched, -EIO when the last read failed (its
  transfer, or the allocation for it), a time-out after 500 words none of which matched.\<close>

theorem poll_outcome:
  assumes "run_state (mt7603_poll_top_misc2 k msk expect) h = (c, h')"
  shows "\<exists>misses final. h' = h @ concat (map (\<lambda>r. top_misc2_read r @ [Sleep]) misses) @ final \<and>
    list_all (\<lambda>(code, w). 0 \<le> code \<and> w AND msk \<noteq> expect) misses \<and>
    (c = 0 \<and> length misses < 500 \<and> (\<exists>code w. final = top_misc2_read (code, w) \<and> 0 \<le> code \<and> w AND msk = expect) \<or>
     c = EIO \<and> length misses < 500 \<and>
       (final = [Alloc 4 False] \<or> (\<exists>code w. final = top_misc2_read (code, w) \<and> code < 0)) \<or>
     c = ETIMEDOUT \<and> length misses = 500 \<and> final = [])"
proof -
  have "spec (mt7603_poll_top_misc2 k msk expect) (poll_post 500 msk expect)"
    unfolding mt7603_poll_top_misc2_def by (rule poll_reads_spec)
  from specD [OF this assms] obtain es where es: "h' = h @ es" "poll_post 500 msk expect c es" by blast
  show ?thesis
    unfolding es(1) same_append_eq using es(2) unfolding poll_post_def .
qed

theorem poll_outcome_witness:
  "\<exists>code w es. run_state (mt7603_poll_top_misc2 (answering 0) 2 2) [] = (0, es @ top_misc2_read (code, w)) \<and> w AND 2 = 2"
proof -
  obtain es where r: "run_state (mt7603_poll_top_misc2 (answering 0) 2 2) [] = (0, es)"
    using result_run [OF answering_poll, of 2 2 0 "[]"] by auto
  from poll_outcome [OF r] r show ?thesis by auto
qed

text \<open>The command counter runs through 1 to 15 and never returns to 0, the number the frame
  builder takes to mean that no acknowledgement is wanted; fifteen steps lead back.\<close>

theorem cmd_seq_cycle:
  "1 \<le> mt7603_next_cmd_seq s \<and> mt7603_next_cmd_seq s \<le> 15 \<and>
   map (\<lambda>i. (mt7603_next_cmd_seq ^^ i) 0) [1..<17] = [1, 2, 3, 4, 5, 6, 7, 8, 9, 10, 11, 12, 13, 14, 15, 1]"
proof -
  have "unat s + 1 < 256" if "\<not> 15 \<le> unat s" using that by simp
  then have "1 \<le> mt7603_next_cmd_seq s \<and> mt7603_next_cmd_seq s \<le> 15"
    by (auto simp: mt7603_next_cmd_seq_def word_le_nat_alt unat_word_ariths)
  then show ?thesis
    by (simp add: upt_conv_Cons numeral_eq_Suc) (simp add: mt7603_next_cmd_seq_def word_le_nat_alt)
qed

text \<open>The completion handler of a response session ends it with the first completion that is not a
  discarded data frame, or with a discarded frame whose resubmission failed; everything before it
  was discarded and resubmitted.\<close>

theorem rsp_complete_answer:
  "mt7603_rsp_complete cs = Some (status, buf) \<longleftrightarrow>
   (\<exists>pre r post. cs = pre @ (status, buf, r) # post \<and> (\<not> rsp_discards status buf \<or> r \<noteq> 0) \<and>
      list_all (\<lambda>(st, b, r). rsp_discards st b \<and> r = 0) pre)"
proof (induction cs)
  case (Cons c cs)
  obtain st b r where c: "c = (st, b, r)" by (cases c)
  show ?case
  proof (cases "rsp_discards st b \<and> r = 0")
    case True
    let ?ends = "\<lambda>cs. \<exists>pre r post. cs = pre @ (status, buf, r) # post \<and> (\<not> rsp_discards status buf \<or> r \<noteq> 0) \<and>
        list_all (\<lambda>(st, b, r). rsp_discards st b \<and> r = 0) pre"
    have "?ends (c # cs)" if "?ends cs"
      using that True unfolding c by (metis (mono_tags, lifting) append_Cons case_prod_conv list.pred_inject(2))
    moreover have "?ends cs" if "?ends (c # cs)"
      using that True unfolding c by (fastforce simp: Cons_eq_append_conv)
    ultimately have "?ends (c # cs) \<longleftrightarrow> ?ends cs" by blast
    with True Cons c show ?thesis by simp
  next
    case False
    then show ?thesis by (auto simp: c Cons_eq_append_conv intro: exI [of _ "[]"])
  qed
qed simp

text \<open>The raw access to the USB DMA control register reaches the same address as a mapped one
  would: the address map leaves 0x50029018 alone, so the special path changes nothing.\<close>

theorem udma_raw_access:
  "physical_addr_map MT7603_UDMA_WLCFG_0 = MT7603_UDMA_WLCFG_0 \<and>
   mt7603_usb_cfg_read k MT7603_UDMA_WLCFG_0 old = mt7603_usb_read_reg k MT7603_UDMA_WLCFG_0 old \<and>
   mt7603_usb_cfg_write k MT7603_UDMA_WLCFG_0 v = mt7603_usb_write_reg k MT7603_UDMA_WLCFG_0 v"
proof -
  have "physical_addr_map MT7603_UDMA_WLCFG_0 = MT7603_UDMA_WLCFG_0" by (simp add: physical_addr_map_def)
  note id = this
  show ?thesis
    unfolding mt7603_usb_cfg_read_def mt7603_usb_read_reg_def mt7603_usb_cfg_write_def
      mt7603_usb_write_reg_def Let_def id by (intro conjI refl)
qed

text \<open>The upload does not notice firmware that never went back to the boot ROM: on a device whose
  status register reads 3 throughout (boot ROM ready, firmware running), the request to restart is
  sent, the wait for the boot ROM and the wait for the new firmware both end at their first
  read, and the upload returns 0.\<close>

theorem restart_unnoticed:
  "\<exists>es. run_state (mt7603_download_firmware (answering 0) Release sample_fw) h = (Some 0, h @ es)"
  by (rule result_run [OF answering_download])

end
