(* ===== verification/Rx_Path.thy ===== *)
theory Rx_Path
  imports Lib
begin

text \<open>
  src/src/c/mac80211.c: the completion handler of the data bulk-in URBs. A transfer is an aggregate
  of sub-frames; the handler walks over it, reads transmit-status reports, has the Rust parser
  decode every other sub-frame and hands accepted frames to mac80211 with a status record.

  \<open>rx_info\<close> is a local variable that the parser fills only on success, so its old content is an
  argument. So is the answer of \<open>dev_alloc_skb\<close>.
\<close>

section \<open>Status records\<close>

datatype rx_encoding = RX_ENC_LEGACY | RX_ENC_HT

record rx_status =
  st_freq :: nat
  st_signal :: "int option"      \<comment> \<open>\<open>None\<close>: \<open>RX_FLAG_NO_SIGNAL_VAL\<close>\<close>
  st_encoding :: rx_encoding
  st_rate_idx :: u8
  st_bw40 :: bool
  st_short_gi :: bool
  st_decrypted :: bool

definition rx_freq :: "u8 \<Rightarrow> nat" where
  "rx_freq current_channel = 2407 + (if current_channel \<noteq> 0 then unat current_channel else 1) * 5"

text \<open>\<open>memset(status, 0, ..)\<close> makes a legacy rate of index 0 at 20 MHz the default.\<close>

definition rx_status_of :: "u8 \<Rightarrow> RxInfo \<Rightarrow> u8 list \<Rightarrow> u16 \<Rightarrow> rx_status" where
  "rx_status_of current_channel info frame fc =
     (let rate = rx_rate info;
          ht = rate AND 0x80 \<noteq> 0;
          sec_mode = drop_bit 4 (frame ! 9) AND 0x0F;
          rx_sec_err = drop_bit 2 (frame ! 10) AND 0x0F
      in \<lparr> st_freq = rx_freq current_channel,
           st_signal = (if rx_rssi info \<noteq> 0 then Some (sint (rx_rssi info)) else None),
           st_encoding = (if ht then RX_ENC_HT else RX_ENC_LEGACY),
           st_rate_idx = (if ht \<or> rate AND 0x1F < 12 then rate AND 0x1F else 0),
           st_bw40 = (ht \<and> rate AND 0x40 \<noteq> 0),
           st_short_gi = (ht \<and> rate AND 0x20 \<noteq> 0),
           st_decrypted = (fc AND 0x4000 \<noteq> 0 \<and> sec_mode \<noteq> 0 \<and> rx_sec_err = 0) \<rparr>)"

section \<open>Sub-frames\<close>

datatype rx_item =
    Txs_Report "(u8 \<times> u8) list"      \<comment> \<open>\<open>pid\<close> and \<open>ME\<close> of each entry\<close>
  | Txs_Malformed
  | Rx_Frame "u8 list" rx_status       \<comment> \<open>\<open>ieee80211_rx\<close>\<close>
  | Rx_Skipped

definition le32_at :: "u8 list \<Rightarrow> nat \<Rightarrow> u32" where
  "le32_at b i = u32_from_le_bytes (b ! i) (b ! (i + 1)) (b ! (i + 2)) (b ! (i + 3))"

definition txs_entry :: "u8 list \<Rightarrow> nat \<Rightarrow> u8 \<times> u8" where
  "txs_entry frame i =
     (let e = drop (4 + i * 20) frame; txs_dw0 = le32_at e 0; txs_dw4 = le32_at e 16
      in (ucast (drop_bit 14 txs_dw4 AND 0xFF), ucast (drop_bit 16 txs_dw0 AND 0x1)))"

definition rx_byte_count :: "u8 list \<Rightarrow> nat" where
  "rx_byte_count frame = unat (u16_from_le_bytes (frame ! 0) (frame ! 1))"

definition rx_txs :: "u8 list \<Rightarrow> rx_item" where
  "rx_txs frame =
     (let txs_cnt = unat (frame ! 2 AND 0x1F); rx_byte_cnt = rx_byte_count frame
      in if txs_cnt > 0 \<and> rx_byte_cnt = txs_cnt * 20 + 4 \<and> rx_byte_cnt \<le> length frame
         then Txs_Report (map (txs_entry frame) [0..<txs_cnt])
         else Txs_Malformed)"

text \<open>\<open>frame\<close> is everything from the sub-frame to the end of the transfer.\<close>

definition rx_one ::
  "u8 \<Rightarrow> i8 \<Rightarrow> (nat \<Rightarrow> bool) \<Rightarrow> RxInfo \<Rightarrow> u8 list \<Rightarrow> rx_item option" where
  "rx_one current_channel rssi_offset alloc_skb rx_info frame =
     (let pkt_type = drop_bit 5 (frame ! 3) AND 0x07
      in if pkt_type = 0x00 then Some (rx_txs frame)
         else do {
           (ret, out) \<leftarrow> mt7603_rust_parse_rx_frame (Some frame) (length frame) rssi_offset (Some rx_info);
           info \<leftarrow> out;
           if ret = 0 \<and> unat (rx_pkt_len info) > 4 \<and> is_crc_error info = 0 then
             let offset = unat (rx_hdr_len info); payload_len = unat (rx_pkt_len info)
             in if offset + payload_len \<le> length frame \<and> alloc_skb (payload_len + 2) then
                  let hdr = drop offset frame; fc = u16_from_le_bytes (hdr ! 0) (hdr ! 1)
                  in Some (Rx_Frame (take payload_len hdr) (rx_status_of current_channel info frame fc))
                else Some Rx_Skipped
           else Some Rx_Skipped
         })"

definition subframe_len :: "nat \<Rightarrow> nat" where
  "subframe_len rx_byte_cnt = rx_byte_cnt + (4 - rx_byte_cnt mod 4) mod 4 + 4"

function rx_loop ::
  "u8 \<Rightarrow> i8 \<Rightarrow> (nat \<Rightarrow> bool) \<Rightarrow> RxInfo \<Rightarrow> u8 list \<Rightarrow> nat \<Rightarrow> rx_item list option" where
  "rx_loop ch off alloc_skb rx_info buf cur_pos =
     (if cur_pos + 16 \<le> length buf then
        let frame = drop cur_pos buf; rx_byte_cnt = rx_byte_count frame
        in if rx_byte_cnt = 0 \<or> rx_byte_cnt > length frame then Some []
           else do {
             item \<leftarrow> rx_one ch off alloc_skb rx_info frame;
             if subframe_len rx_byte_cnt < 16 then Some [item]
             else do {
               items \<leftarrow> rx_loop ch off alloc_skb rx_info buf (cur_pos + subframe_len rx_byte_cnt);
               Some (item # items)
             }
           }
      else Some [])"
  by pat_completeness auto
termination
  by (relation "measure (\<lambda>(ch, off, al, g, buf, pos). length buf - pos)") auto

declare rx_loop.simps [simp del]

text \<open>The handler: the items of a transfer, and whether the URB is submitted again.\<close>

definition mt7603_rx_complete ::
  "u8 \<Rightarrow> i8 \<Rightarrow> bool \<Rightarrow> (nat \<Rightarrow> bool) \<Rightarrow> RxInfo \<Rightarrow> int \<Rightarrow> u8 list \<Rightarrow> (rx_item list \<times> bool) option" where
  "mt7603_rx_complete ch off running alloc_skb rx_info status buf = do {
     items \<leftarrow> (if status = 0 \<and> length buf \<ge> 16 then rx_loop ch off alloc_skb rx_info buf 0 else Some []);
     Some (items, running \<and> status \<noteq> - 2 \<and> status \<noteq> - 108 \<and> status \<noteq> - 104)
   }"

section \<open>One sub-frame\<close>

text \<open>What a sub-frame yields, read off the descriptor.\<close>

definition rx_accepts :: "u8 list \<Rightarrow> bool" where
  "rx_accepts frame \<longleftrightarrow> is_frame_type frame \<and> rx_header frame + 4 < rx_byte_count frame \<and>
     drop_bit 1 (frame ! 10) AND 1 = 0"

definition rx_payload :: "u8 list \<Rightarrow> u8 list" where
  "rx_payload frame = take (rx_byte_count frame - rx_header frame) (drop (rx_header frame) frame)"

definition rx_one_spec :: "u8 \<Rightarrow> i8 \<Rightarrow> (nat \<Rightarrow> bool) \<Rightarrow> u8 list \<Rightarrow> rx_item" where
  "rx_one_spec ch off alloc_skb frame =
     (if rx_pkt_type frame = 0 then rx_txs frame
      else if rx_accepts frame \<and> alloc_skb (length (rx_payload frame) + 2)
      then Rx_Frame (rx_payload frame) (rx_status_of ch (rx_info_spec frame off) frame
             (u16_from_le_bytes (rx_payload frame ! 0) (rx_payload frame ! 1)))
      else Rx_Skipped)"

lemma rx_byte_count_bound: "rx_byte_count frame < 65536"
  unfolding rx_byte_count_def using unat_less_simps(2) by simp

lemma rx_total_count:
  "0 < rx_byte_count frame \<Longrightarrow> rx_byte_count frame \<le> length frame \<Longrightarrow> rx_total frame = rx_byte_count frame"
  by (simp add: rx_total_def rx_byte_count_def)

lemma rx_spec_fields:
  "is_crc_error (rx_info_spec frame off) = drop_bit 1 (frame ! 10) AND 1"
  by (simp add: rx_info_spec_def rx_class_def rx_vector_def Let_def)

lemma rx_header_bound: "16 \<le> rx_header frame \<and> rx_header frame \<le> 82"
  unfolding rx_header_def by (rule rmac_header_len_bounds)

lemma rx_one_eq:
  assumes "16 \<le> length frame" "0 < rx_byte_count frame" "rx_byte_count frame \<le> length frame"
  shows "rx_one ch off alloc_skb g frame = Some (rx_one_spec ch off alloc_skb frame)"
proof (cases "rx_pkt_type frame = 0")
  case True
  then show ?thesis by (simp add: rx_one_def rx_one_spec_def rx_pkt_type_def)
next
  case False
  have hd: "unat (rx_hdr_len (rx_info_spec frame off)) = rx_header frame"
    using rx_header_bound [of frame] by (simp add: rx_info_spec_lengths unat_of_nat)
  have pl: "unat (rx_pkt_len (rx_info_spec frame off)) = rx_byte_count frame - rx_header frame"
    using rx_byte_count_bound [of frame] rx_total_count [OF assms(2,3)]
    by (simp add: rx_info_spec_lengths unat_of_nat)
  have p: "mt7603_rust_parse_rx_frame (Some frame) (length frame) off (Some g) =
      Some (if \<not> is_frame_type frame then (0, Some RxInfo_default)
        else if length frame < rx_header frame then (EINVAL, Some g)
        else (0, Some (rx_info_spec frame off)))"
    using assms(1)
    by (simp add: mt7603_rust_parse_rx_frame_def from_raw_parts_def ffi_read_def parse_rx_frame_cases)
  have len: "rx_header frame + 4 < rx_byte_count frame \<Longrightarrow>
      length (rx_payload frame) = rx_byte_count frame - rx_header frame"
    using assms(3) by (simp add: rx_payload_def)
  show ?thesis
    using False assms hd pl len
    by (auto simp: rx_one_def p rx_one_spec_def rx_pkt_type_def [symmetric] rx_accepts_def
        rx_payload_def RxInfo_default_def rx_spec_fields Let_def)
qed

section \<open>Isolation of sub-frames\<close>

text \<open>A sub-frame whose descriptor counts its own bytes.\<close>

definition well_counted :: "u8 list \<Rightarrow> bool" where
  "well_counted sub \<longleftrightarrow> 16 \<le> length sub \<and> rx_byte_count sub = length sub"

lemma descriptor_append:
  assumes "16 \<le> length sub"
  shows "rx_byte_count (sub @ rest) = rx_byte_count sub" "rx_pkt_type (sub @ rest) = rx_pkt_type sub"
    "rx_header (sub @ rest) = rx_header sub" "is_frame_type (sub @ rest) = is_frame_type sub"
    "rx_grp_vld (sub @ rest) = rx_grp_vld sub"
  using assms
  by (cases "sub = []"; simp add: rx_byte_count_def rx_pkt_type_def rx_header_def rx_grp_vld_def
      is_frame_type_def nth_append)+

lemma rx_vector_append:
  assumes "rx_header sub \<le> length sub" "16 \<le> length sub"
  shows "rx_vector (sub @ rest) off info = rx_vector sub off info"
proof (cases "rx_grp_vld sub AND 4 = 0")
  case False
  from grp3_fits [OF this] assms(1) have "grp3_offset (rx_grp_vld sub) + 24 \<le> length sub"
    unfolding rx_header_def by (meson le_trans)
  then show ?thesis using assms(2) by (simp add: rx_vector_def descriptor_append nth_append Let_def)
qed (simp add: rx_vector_def descriptor_append assms(2) Let_def)

lemma rx_vector_class:
  "rx_rate (rx_info_spec f off) = rx_rate (rx_vector f off RxInfo_default)"
  "rx_rssi (rx_info_spec f off) = rx_rssi (rx_vector f off RxInfo_default)"
  by (simp_all add: rx_info_spec_def rx_class_def rx_vector_def RxInfo_default_def Let_def)

lemma rx_status_append:
  assumes "rx_header sub \<le> length sub" "16 \<le> length sub"
  shows "rx_status_of ch (rx_info_spec (sub @ rest) off) (sub @ rest) fc = rx_status_of ch (rx_info_spec sub off) sub fc"
  using assms(2) by (simp add: rx_status_of_def rx_vector_class rx_vector_append [OF assms] nth_append Let_def)

lemma txs_entry_append:
  assumes "4 + i * 20 + 20 \<le> length sub"
  shows "txs_entry (sub @ rest) i = txs_entry sub i"
proof -
  have "(drop (4 + i * 20) (sub @ rest)) ! j = drop (4 + i * 20) sub ! j" if "j < 20" for j
    using that assms by (auto simp: nth_append)
  then show ?thesis by (simp add: txs_entry_def le32_at_def Let_def)
qed

lemma rx_one_spec_append:
  assumes "well_counted sub"
  shows "rx_one_spec ch off alloc_skb (sub @ rest) = rx_one_spec ch off alloc_skb sub"
proof -
  from assms have l: "16 \<le> length sub" "rx_byte_count sub = length sub" by (auto simp: well_counted_def)
  note d = descriptor_append [OF l(1)]
  have "rx_txs (sub @ rest) = rx_txs sub"
    using l by (auto simp: rx_txs_def d nth_append Let_def intro!: txs_entry_append)
  moreover have "rx_accepts (sub @ rest) = rx_accepts sub"
    using l by (simp add: rx_accepts_def d nth_append)
  moreover have "rx_payload (sub @ rest) = rx_payload sub"
    using l by (simp add: rx_payload_def d)
  moreover have "rx_header sub \<le> length sub" if "rx_accepts sub"
    using that l by (simp add: rx_accepts_def)
  ultimately show ?thesis
    unfolding rx_one_spec_def d(2) using rx_status_append [OF _ l(1)] by (auto split: if_split)
qed

section \<open>The walk over an aggregate\<close>

text \<open>A payload is cut from a buffer behind a position when it is a contiguous part of it there.\<close>

definition cut_from :: "u8 list \<Rightarrow> nat \<Rightarrow> u8 list \<Rightarrow> bool" where
  "cut_from buf pos p \<longleftrightarrow>
     4 < length p \<and> (\<exists>i. pos \<le> i \<and> i + length p \<le> length buf \<and> p = take (length p) (drop i buf))"

lemma cut_from_mono: "cut_from buf (pos + k) p \<Longrightarrow> cut_from buf pos p"
  unfolding cut_from_def by (meson add_leE)

definition rx_items_ok :: "u8 list \<Rightarrow> nat \<Rightarrow> rx_item list \<Rightarrow> bool" where
  "rx_items_ok buf pos items \<longleftrightarrow> 16 * length items \<le> length buf - pos \<and>
     (\<forall>p st. Rx_Frame p st \<in> set items \<longrightarrow> cut_from buf pos p)"

lemma rx_items_ok_Nil [simp]: "rx_items_ok buf pos []"
  by (simp add: rx_items_ok_def)

lemma rx_items_ok_Cons:
  assumes "rx_items_ok buf (pos + k) items" "16 \<le> k" "pos + 16 \<le> length buf"
    "\<And>p st. item = Rx_Frame p st \<Longrightarrow> cut_from buf pos p"
  shows "rx_items_ok buf pos (item # items)"
  using assms by (auto simp: rx_items_ok_def intro: cut_from_mono)

lemma rx_one_spec_cut:
  assumes "rx_one_spec ch off alloc_skb (drop pos buf) = Rx_Frame p st"
    "rx_byte_count (drop pos buf) \<le> length (drop pos buf)" "pos + 16 \<le> length buf"
  shows "cut_from buf pos p"
proof -
  have p: "p = rx_payload (drop pos buf)" "rx_header (drop pos buf) + 4 < rx_byte_count (drop pos buf)"
    using assms(1) by (auto simp: rx_one_spec_def rx_txs_def rx_accepts_def Let_def split: if_splits)
  then show ?thesis
    using assms(2,3) unfolding cut_from_def
    by (intro conjI exI [of _ "pos + rx_header (drop pos buf)"]) (auto simp: rx_payload_def add.commute)
qed

lemma rx_loop_total:
  "\<exists>items. rx_loop ch off alloc_skb g buf pos = Some items \<and> rx_items_ok buf pos items"
proof (induction ch off alloc_skb g buf pos rule: rx_loop.induct)
  case (1 ch off alloc_skb g buf pos)
  define frame where "frame = drop pos buf"
  define n where "n = rx_byte_count frame"
  note unfold = rx_loop.simps [of ch off alloc_skb g buf pos] frame_def [symmetric] n_def [symmetric]
  show ?case
  proof (cases "pos + 16 \<le> length buf \<and> 0 < n \<and> n \<le> length frame")
    case False
    then have "rx_loop ch off alloc_skb g buf pos = Some []"
      by (auto simp: rx_loop.simps [of ch off alloc_skb g buf pos] frame_def n_def Let_def)
    then show ?thesis by simp
  next
    case True
    let ?item = "rx_one_spec ch off alloc_skb frame"
    have one: "rx_one ch off alloc_skb g frame = Some ?item"
      using True by (intro rx_one_eq) (auto simp: frame_def n_def)
    have cut: "cut_from buf pos p" if "?item = Rx_Frame p st" for p st
      using that True by (intro rx_one_spec_cut [of ch off alloc_skb pos buf]) (auto simp: frame_def n_def)
    show ?thesis
    proof (cases "subframe_len n < 16")
      case small: True
      then have "rx_loop ch off alloc_skb g buf pos = Some [?item]"
        using True one by (simp add: unfold)
      moreover have "rx_items_ok buf pos [?item]"
        using True cut by (intro rx_items_ok_Cons [of _ _ 16]) auto
      ultimately show ?thesis by blast
    next
      case False
      have c: "\<not> (rx_byte_count frame = 0 \<or> length frame < rx_byte_count frame)"
        "\<not> subframe_len (rx_byte_count frame) < 16" using True False by (auto simp: n_def)
      obtain items where i: "rx_loop ch off alloc_skb g buf (pos + subframe_len n) = Some items"
        "rx_items_ok buf (pos + subframe_len n) items"
        using 1 [OF conjunct1 [OF True] frame_def refl c(1) one c(2)] by (elim exE conjE) (simp add: n_def)
      then have "rx_loop ch off alloc_skb g buf pos = Some (?item # items)"
        using True one False by (simp add: unfold)
      moreover have "rx_items_ok buf pos (?item # items)"
        using i(2) True False cut by (intro rx_items_ok_Cons [OF i(2)]) auto
      ultimately show ?thesis by blast
    qed
  qed
qed

lemma rx_loop_aggregate:
  "list_all (\<lambda>(sub, tail). well_counted sub \<and> length (sub @ tail) = subframe_len (length sub)) xs \<Longrightarrow>
   length trail < 16 \<Longrightarrow>
   rx_loop ch off alloc_skb g (pre @ concat (map (\<lambda>(sub, tail). sub @ tail) xs) @ trail) (length pre) =
     Some (map (\<lambda>(sub, tail). rx_one_spec ch off alloc_skb sub) xs)"
proof (induction xs arbitrary: pre)
  case Nil
  then show ?case by (simp add: rx_loop.simps [of ch off alloc_skb g "pre @ trail"])
next
  case (Cons x xs)
  obtain sub tail where x: "x = (sub, tail)" by (cases x)
  define more where "more = concat (map (\<lambda>(sub, tail). sub @ tail) xs) @ trail"
  define buf where "buf = pre @ sub @ tail @ more"
  have w: "well_counted sub" "length (sub @ tail) = subframe_len (length sub)" using Cons(2) x by auto
  then have l: "16 \<le> length sub" "rx_byte_count sub = length sub" "sub \<noteq> []" by (auto simp: well_counted_def)
  have f: "drop (length pre) buf = sub @ tail @ more" by (simp add: buf_def)
  have cnt: "rx_byte_count (sub @ tail @ more) = length sub"
    using l descriptor_append(1) [of sub "tail @ more"] by simp
  have one: "rx_one ch off alloc_skb g (sub @ tail @ more) = Some (rx_one_spec ch off alloc_skb sub)"
    using l cnt rx_one_eq [of "sub @ tail @ more"] rx_one_spec_append [OF w(1), of ch off alloc_skb "tail @ more"]
    by simp
  have ih: "rx_loop ch off alloc_skb g buf (length pre + subframe_len (length sub)) =
      Some (map (\<lambda>(sub, tail). rx_one_spec ch off alloc_skb sub) xs)"
    using Cons(1) [of "pre @ sub @ tail"] Cons(2,3) w(2) by (simp add: buf_def more_def)
  have "\<not> subframe_len (length sub) < 16" using w(2) l(1) by simp
  then have "rx_loop ch off alloc_skb g buf (length pre) =
      Some (rx_one_spec ch off alloc_skb sub # map (\<lambda>(sub, tail). rx_one_spec ch off alloc_skb sub) xs)"
    using l by (subst rx_loop.simps) (simp add: f cnt one ih, simp add: buf_def)
  then show ?case by (simp add: x buf_def more_def)
qed

section \<open>Properties\<close>

text \<open>C3: whatever bytes a transfer holds and whatever the status, the handler finishes without a
  panic, makes at most one step per 16 received bytes, and every frame it hands to mac80211 is a
  contiguous part of the received bytes, longer than four bytes; only a successful transfer
  yields anything, and a URB that was killed or a stopped device is not submitted again.\<close>

theorem rx_complete_safe:
  "\<exists>items. mt7603_rx_complete ch off running alloc_skb g status buf =
      Some (items, running \<and> status \<noteq> - 2 \<and> status \<noteq> - 108 \<and> status \<noteq> - 104) \<and>
    16 * length items \<le> length buf \<and> (status \<noteq> 0 \<longrightarrow> items = []) \<and>
    (\<forall>p st. Rx_Frame p st \<in> set items \<longrightarrow>
       4 < length p \<and> (\<exists>i. i + length p \<le> length buf \<and> p = take (length p) (drop i buf)))"
proof -
  obtain items where "rx_loop ch off alloc_skb g buf 0 = Some items" "16 * length items \<le> length buf"
    "\<forall>p st. Rx_Frame p st \<in> set items \<longrightarrow>
       4 < length p \<and> (\<exists>i. i + length p \<le> length buf \<and> p = take (length p) (drop i buf))"
    using rx_loop_total [of ch off alloc_skb g buf 0] unfolding rx_items_ok_def cut_from_def by auto
  then show ?thesis
    by (cases "status = 0 \<and> 16 \<le> length buf") (auto simp: mt7603_rx_complete_def)
qed

theorem rx_complete_safe_witness:
  "\<exists>items. mt7603_rx_complete 1 0 True (\<lambda>_. True) RxInfo_default (- 108) [1, 2, 3] = Some (items, False) \<and> items = []"
  using rx_complete_safe [of 1 0 True "\<lambda>_. True" RxInfo_default "- 108" "[1, 2, 3]"] by auto

text \<open>C21: the walk takes an aggregate apart exactly: for a transfer made of sub-frames that count their
  own bytes, each followed by its alignment padding and four checksum bytes, and at most fifteen
  stray bytes, the handler yields one item per sub-frame, in order, and each item depends on the
  bytes of its own sub-frame alone.\<close>

theorem rx_aggregate:
  assumes "list_all (\<lambda>(sub, tail). well_counted sub \<and> length (sub @ tail) = subframe_len (length sub)) xs"
    "length trail < 16" "xs \<noteq> []"
  shows "mt7603_rx_complete ch off running alloc_skb g 0 (concat (map (\<lambda>(sub, tail). sub @ tail) xs) @ trail) =
    Some (map (\<lambda>(sub, tail). rx_one_spec ch off alloc_skb sub) xs, running)"
proof -
  have "16 \<le> length (concat (map (\<lambda>(sub, tail). sub @ tail) xs) @ trail)"
    using assms(1,3) by (cases xs) (auto simp: well_counted_def)
  then show ?thesis
    using rx_loop_aggregate [OF assms(1,2), of ch off alloc_skb g "[]"] by (simp add: mt7603_rx_complete_def)
qed

text \<open>A beacon of twenty-one bytes behind a minimal descriptor, and its tail.\<close>

definition sample_sub :: "u8 list" where
  "sample_sub = [21, 0, 0, 0x40, 0, 6, 0, 0, 0, 0, 0, 0, 0, 0, 0, 0, 0x80, 0, 1, 2, 3]"

lemma sample_sub_facts:
  "well_counted sample_sub" "length (sample_sub @ replicate 7 0) = subframe_len (length sample_sub)"
  "rx_one_spec 6 0 (\<lambda>_. True) sample_sub = Rx_Frame [0x80, 0, 1, 2, 3]
     \<lparr> st_freq = 2437, st_signal = None, st_encoding = RX_ENC_LEGACY, st_rate_idx = 0, st_bw40 = False,
       st_short_gi = False, st_decrypted = False \<rparr>"
  by (simp_all add: well_counted_def sample_sub_def rx_byte_count_def u16_from_le_bytes_def subframe_len_def
      rx_one_spec_def rx_pkt_type_def rx_accepts_def is_frame_type_def rx_header_def rx_grp_vld_def
      rmac_header_len_def rx_payload_def rx_status_of_def rx_freq_def rx_info_spec_def rx_class_def
      rx_vector_def rx_total_def RxInfo_default_def Let_def)

theorem rx_aggregate_witness:
  "\<exists>st. mt7603_rx_complete 6 0 True (\<lambda>_. True) RxInfo_default 0
     ((sample_sub @ replicate 7 0) @ (sample_sub @ replicate 7 9) @ [1, 2, 3]) =
     Some ([Rx_Frame [0x80, 0, 1, 2, 3] st, Rx_Frame [0x80, 0, 1, 2, 3] st], True)"
  using rx_aggregate [of "[(sample_sub, replicate 7 0), (sample_sub, replicate 7 9)]" "[1, 2, 3]" 6 0 True
      "\<lambda>_. True" RxInfo_default] sample_sub_facts by simp

text \<open>C25: which sub-frames reach mac80211: exactly the received frames (descriptor type 2 or 3) without
  a checksum error whose descriptor counts more than four bytes behind its header, provided a buffer
  can be allocated; the payload is what lies between the header and the counted end. So sub-frames of the
  types TXRXV and EVENT, which the comment in the handler counts among those delivered, never are.\<close>

theorem rx_delivery:
  assumes "16 \<le> length frame" "0 < rx_byte_count frame" "rx_byte_count frame \<le> length frame"
  shows "(\<exists>st. rx_one ch off alloc_skb g frame = Some (Rx_Frame p st)) \<longleftrightarrow>
    is_frame_type frame \<and> drop_bit 1 (frame ! 10) AND 1 = 0 \<and> rx_header frame + 4 < rx_byte_count frame \<and>
    p = take (rx_byte_count frame - rx_header frame) (drop (rx_header frame) frame) \<and> alloc_skb (length p + 2)"
proof -
  have "rx_pkt_type frame \<noteq> 0" if "is_frame_type frame" using that by (auto simp: is_frame_type_def)
  then show ?thesis
    unfolding rx_one_eq [OF assms] rx_one_spec_def rx_accepts_def rx_payload_def [symmetric]
    by (auto simp: rx_txs_def Let_def)
qed

theorem rx_delivery_witness:
  "(\<exists>st. rx_one 6 0 (\<lambda>_. True) RxInfo_default sample_sub = Some (Rx_Frame [0x80, 0, 1, 2, 3] st)) \<longleftrightarrow>
     is_frame_type sample_sub \<and> drop_bit 1 (sample_sub ! 10) AND 1 = 0 \<and>
     rx_header sample_sub + 4 < rx_byte_count sample_sub \<and>
     [0x80, 0, 1, 2, 3] = take (rx_byte_count sample_sub - rx_header sample_sub)
       (drop (rx_header sample_sub) sample_sub) \<and> True"
  by (rule rx_delivery) (simp_all add: sample_sub_def rx_byte_count_def u16_from_le_bytes_def)

end
