(* ===== verification/Tx_Path.thy ===== *)
theory Tx_Path
  imports Lib
begin

text \<open>
  src/src/c/mac80211.c: the device structure, and the transmit path over it. A socket buffer is
  its bytes together with the room in front of and behind them; a frame is submitted with a
  transmit descriptor in front, padding between header and body and padding behind, and the
  completion handler takes all of it off again.

  The kernel's part of a transmission is a record of answers: which reallocations succeed, and
  with how much room, whether an URB can be allocated and what its submission returns. The three
  classifiers of \<open>linux/ieee80211.h\<close> are arguments too.
\<close>

section \<open>The device structure\<close>

datatype iftype = IFTYPE_STATION | IFTYPE_AP | IFTYPE_MONITOR | IFTYPE_OTHER

text \<open>
  Virtual interfaces are compared by address in the C code; \<open>vif_ptr\<close> stands for it.
  \<open>vif_bss_channel\<close> is the channel number of \<open>bss_conf.bss->channel\<close>, where there is one.
\<close>

record vif =
  vif_ptr :: nat
  vif_type :: iftype
  vif_addr :: mac6
  vif_bss_channel :: "u8 option"

text \<open>
  A transmit URB in flight: its endpoint, and of its socket buffer the transfer buffer, the word
  \<open>rate_driver_data[1]\<close> and the flag \<open>IEEE80211_TX_CTL_NO_ACK\<close>.
\<close>

record tx_urb =
  urb_ep :: u8
  urb_buf :: "u8 list"
  urb_meta :: u32
  urb_no_ack :: bool

text \<open>
  \<open>rx_urbs\<close> says of each receive slot whether it holds a buffer and an URB. \<open>beacon_work\<close> is the
  delay in milliseconds of the beacon work while it is queued. \<open>tx_anchor\<close> lists the transmit URBs
  in flight. \<open>monitor_count\<close> is a C \<open>int\<close>: its word wraps, and comparisons read it as a signed number.
\<close>

record mt7603u_dev =
  ap_vif :: "vif option"
  beacon_work :: "nat option"
  beacon_int :: u16
  beacon_enabled :: bool
  mac_addr :: mac6
  current_channel :: u8
  current_bw :: u8
  monitor_count :: "32 word"
  filter_flags :: "64 word"
  cmd_seq :: u8
  running :: bool
  eeprom_valid :: bool
  rssi_offset :: i8
  eeprom :: "u8 list"
  rx_urbs :: "(bool \<times> bool) list"
  cmd_urb :: bool
  cmd_buf :: bool
  tx_anchor :: "tx_urb list"

abbreviation MT7603_DATA_BULK_OUT :: u8 where "MT7603_DATA_BULK_OUT \<equiv> 0x05"
abbreviation MT7603_MGMT_BULK_OUT :: u8 where "MT7603_MGMT_BULK_OUT \<equiv> 0x08"

section \<open>Socket buffers and the kernel's answers\<close>

record skb =
  skb_data :: "u8 list"
  headroom :: nat
  tailroom :: nat

text \<open>A successful reallocation reports the head room and tail room of the new buffer.\<close>

record tx_answers =
  pad_expand :: "(nat \<times> nat) option"     \<comment> \<open>\<open>skb_copy_expand\<close> for the header padding\<close>
  head_realloc :: "(nat \<times> nat) option"   \<comment> \<open>\<open>skb_realloc_headroom\<close>\<close>
  tail_expand :: "(nat \<times> nat) option"    \<comment> \<open>\<open>skb_copy_expand\<close> for the trailing padding\<close>
  urb_ok :: bool
  submit_ret :: int

record ieee80211 =
  hdrlen :: "u16 \<Rightarrow> nat"
  fc_is_mgmt :: "u16 \<Rightarrow> bool"
  fc_is_beacon :: "u16 \<Rightarrow> bool"

text \<open>The parts of \<open>struct ieee80211_tx_info\<close> the handlers read. A negative index means no rate.\<close>

record tx_info =
  hw_key :: bool
  ctl_injected :: bool
  ctl_no_ack :: bool
  rate0_idx :: int
  rate0_mcs :: bool
  rate0_40mhz :: bool
  rate0_short_gi :: bool
  rate0_short_preamble :: bool

datatype tx_outcome =
    Tx_Dropped
  | Tx_Submitted u8 "u8 list" u32   \<comment> \<open>endpoint, transfer buffer, \<open>rate_driver_data[1]\<close>\<close>

section \<open>The transmit handler\<close>

definition is_injected :: "mt7603u_dev \<Rightarrow> tx_info \<Rightarrow> bool" where
  "is_injected dev info \<longleftrightarrow> ctl_injected info \<or> (sint (monitor_count dev) > 0 \<and> ap_vif dev = None)"

definition tx_header_params :: "mt7603u_dev \<Rightarrow> ieee80211 \<Rightarrow> tx_info \<Rightarrow> u8 list \<Rightarrow> u16 \<Rightarrow> TxParams" where
  "tx_header_params dev std info data fc =
     (let bm = data ! 4 AND 0x01;
          inj = is_injected dev info
      in \<lparr> rate_idx = 0,
           pid = (if inj then 0 else if bm \<noteq> 0 then 0 else 1),
           queue = (if inj then 0x04 else if fc_is_mgmt std fc then 0x04 else 0x01),
           hdr_len = of_nat (hdrlen std fc),
           frm_type = ucast (drop_bit 2 fc AND 0x3),
           sub_type = ucast (drop_bit 4 fc AND 0xf),
           no_ack = (if inj then if bm \<noteq> 0 \<or> ctl_no_ack info then 1 else 0 else bm),
           is_bm = bm,
           rate_mode = 0, rate_mcs = 0, preamble = 0, bw = 0,
           pkt_len = of_nat (length data),
           protect_frm = (if hw_key info then 1 else 0) \<rparr>)"

definition tx_rate_params :: "mt7603u_dev \<Rightarrow> tx_info \<Rightarrow> bool \<Rightarrow> TxParams \<Rightarrow> TxParams" where
  "tx_rate_params dev info is_mgmt p =
     (if \<not> is_mgmt \<and> rate0_idx info \<ge> 0 then
        if rate0_mcs info then
          p\<lparr> rate_mode := 2, rate_mcs := of_int (rate0_idx info) AND 0x0f,
             bw := (if rate0_40mhz info then 1 else current_bw dev),
             preamble := (if rate0_short_gi info then 2 else 0) \<rparr>
        else if rate0_idx info < 4 then
          p\<lparr> rate_mode := 0, rate_mcs := of_int (rate0_idx info),
             preamble := (if rate0_short_preamble info then 0 else 1), bw := 0 \<rparr>
        else
          p\<lparr> rate_mode := 1, rate_mcs := of_int (rate0_idx info - 4) AND 0x07, preamble := 1, bw := 0 \<rparr>
      else if current_channel dev > 14 then
        p\<lparr> rate_mode := 1, rate_mcs := 0, preamble := 1, bw := current_bw dev \<rparr>
      else
        p\<lparr> rate_mode := 0, rate_mcs := 0, preamble := 1, bw := current_bw dev \<rparr>)"

definition tx_params_of :: "mt7603u_dev \<Rightarrow> ieee80211 \<Rightarrow> tx_info \<Rightarrow> u8 list \<Rightarrow> u16 \<Rightarrow> TxParams" where
  "tx_params_of dev std info data fc =
     tx_rate_params dev info (fc_is_mgmt std fc) (tx_header_params dev std info data fc)"

text \<open>Status feedback is requested for data frames.\<close>

definition txwi_feedback :: "TxParams \<Rightarrow> u8 list \<Rightarrow> u8 list" where
  "txwi_feedback p txwi =
     (if frm_type p = 2 then (txwi[20 := 0x42])[21 := txwi ! 21 OR push_bit 2 1] else txwi)"

definition hdr_pad :: "u8 \<Rightarrow> nat" where
  "hdr_pad h = unat ((4 - (h AND 0x03)) AND 0x03)"

text \<open>
  \<open>skb_put\<close> and the two moves around the header. The number of bytes moved is an unsigned
  difference; for a frame shorter than its header it wraps and the move leaves the buffer,
  which is the value \<^term>\<open>None\<close>.
\<close>

definition insert_pad :: "nat \<Rightarrow> nat \<Rightarrow> u8 list \<Rightarrow> u8 list option" where
  "insert_pad h pad data =
     (if pad = 0 then Some data
      else if length data < h then None
      else Some (take h data @ replicate pad 0 @ drop h data))"

text \<open>Room behind the data, reallocating when there is too little.\<close>

definition with_tailroom :: "nat \<Rightarrow> (nat \<times> nat) option \<Rightarrow> skb \<Rightarrow> skb option" where
  "with_tailroom n answer s =
     (if tailroom s < n then
        map_option (\<lambda>(hr, tr). s\<lparr> headroom := hr, tailroom := tr \<rparr>) answer
      else Some s)"

definition with_headroom :: "nat \<Rightarrow> (nat \<times> nat) option \<Rightarrow> skb \<Rightarrow> skb option" where
  "with_headroom n answer s =
     (if headroom s < n then
        map_option (\<lambda>(hr, tr). s\<lparr> headroom := hr, tailroom := tr \<rparr>) answer
      else Some s)"

definition align4 :: "nat \<Rightarrow> nat" where
  "align4 n = (n + 3) div 4 * 4"

definition tx_trailer :: "nat \<Rightarrow> nat" where
  "tx_trailer n = align4 n + 4 - n"

definition tx_meta :: "TxParams \<Rightarrow> nat \<Rightarrow> u32" where
  "tx_meta p pad = ucast (pkt_len p) OR push_bit 16 (ucast (hdr_len p)) OR push_bit 24 (of_nat pad)"

text \<open>
  From the byte count to the trailing padding: the endpoint, the transfer buffer and the word
  \<open>rate_driver_data[1]\<close>, unless there is no memory for the padding.
\<close>

definition tx_transfer :: "tx_answers \<Rightarrow> bool \<Rightarrow> u32 \<Rightarrow> skb \<Rightarrow> (u8 \<times> u8 list \<times> u32) option" where
  "tx_transfer ans is_mgmt meta s =
     (let n = length (skb_data s);
          data = (if is_mgmt then skb_data s
                  else u16_to_le_bytes (of_nat (align4 n)) @ drop 2 (skb_data s));
          ep = (if is_mgmt then MT7603_MGMT_BULK_OUT else MT7603_DATA_BULK_OUT);
          pad_len = tx_trailer n
      in map_option (\<lambda>s. (ep, skb_data s @ replicate pad_len 0, meta))
           (with_tailroom pad_len (tail_expand ans) (s\<lparr> skb_data := data \<rparr>)))"

text \<open>
  The handler up to the allocation of its URB: \<^term>\<open>None\<close> is a panic or a move that leaves the
  buffer, \<^term>\<open>Some None\<close> a dropped frame.
\<close>

definition tx_frame ::
  "mt7603u_dev \<Rightarrow> ieee80211 \<Rightarrow> tx_answers \<Rightarrow> u8 list \<Rightarrow> tx_info \<Rightarrow> skb \<Rightarrow> (u8 \<times> u8 list \<times> u32) option option" where
  "tx_frame dev std ans txwi info s =
     (if \<not> running dev then Some None
      else
        let fc = u16_from_le_bytes (skb_data s ! 0) (skb_data s ! 1);
            params = tx_params_of dev std info (skb_data s) fc;
            pad = hdr_pad (hdr_len params)
        in do {
          (ret, txwi) \<leftarrow> mt7603_rust_build_txwi (Some params) (Some txwi) 32;
          txwi \<leftarrow> txwi;
          if ret \<noteq> 0 then Some None
          else (case (if pad > 0 then with_tailroom pad (pad_expand ans) s else Some s) of
             None \<Rightarrow> Some None
           | Some s \<Rightarrow> do {
               data \<leftarrow> insert_pad (unat (hdr_len params)) pad (skb_data s);
               let s = s\<lparr> skb_data := data, tailroom := tailroom s - pad \<rparr>;
               Some (case with_headroom 32 (head_realloc ans) s of
                  None \<Rightarrow> None
                | Some s \<Rightarrow>
                    tx_transfer ans (fc_is_mgmt std fc) (tx_meta params pad)
                      (s\<lparr> skb_data := txwi_feedback params txwi @ data, headroom := headroom s - 32 \<rparr>))
             })
        })"

text \<open>The whole handler, the URB calls answered by \<open>urb_ok\<close> and \<open>submit_ret\<close>.\<close>

definition mt7603_mac80211_tx ::
  "mt7603u_dev \<Rightarrow> ieee80211 \<Rightarrow> tx_answers \<Rightarrow> u8 list \<Rightarrow> tx_info \<Rightarrow> skb \<Rightarrow> tx_outcome option" where
  "mt7603_mac80211_tx dev std ans txwi info s =
     map_option (\<lambda>frame. case frame of
         None \<Rightarrow> Tx_Dropped
       | Some (ep, buf, meta) \<Rightarrow>
           if \<not> urb_ok ans \<or> submit_ret ans < 0 then Tx_Dropped else Tx_Submitted ep buf meta)
       (tx_frame dev std ans txwi info s)"

section \<open>The completion handler\<close>

text \<open>
  What becomes of the buffer: its bytes, and whether mac80211 gets a status report, with the
  acknowledgement flag.
\<close>

definition strip_frame :: "u32 \<Rightarrow> u8 list \<Rightarrow> u8 list" where
  "strip_frame meta buf =
     (let orig_len = unat (meta AND 0xffff);
          hl = unat (drop_bit 16 meta AND 0xff);
          pad = unat (drop_bit 24 meta AND 0xff);
          d = (if length buf \<ge> 32 then drop 32 buf else buf);
          d = (if pad > 0 \<and> length d \<ge> hl + pad
               then take hl d @ drop (hl + pad) d @ drop (length d - pad) d else d)
      in if orig_len > 0 \<and> length d > orig_len then take orig_len d else d)"

definition mt7603_tx_complete ::
  "mt7603u_dev \<Rightarrow> ieee80211 \<Rightarrow> bool \<Rightarrow> int \<Rightarrow> u32 \<Rightarrow> u8 list \<Rightarrow> u8 list \<times> bool option" where
  "mt7603_tx_complete dev std no_ack_flag status meta buf =
     (let d = strip_frame meta buf;
          fc = (if length d \<ge> 2 then u16_from_le_bytes (d ! 0) (d ! 1) else 0)
      in (d, if running dev \<and> \<not> fc_is_beacon std fc
             then Some (status = 0 \<and> \<not> no_ack_flag) else None))"

section \<open>The beacon work\<close>

definition put_le64 :: "64 word \<Rightarrow> u8 list" where
  "put_le64 w = map (\<lambda>i. ucast (drop_bit (8 * i) w)) [0..<8]"

definition beacon_stamp :: "64 word \<Rightarrow> u8 list \<Rightarrow> u8 list" where
  "beacon_stamp now data =
     (if length data \<ge> 32 then take 24 data @ put_le64 now @ drop 32 data else data)"

text \<open>\<open>schedule_delayed_work\<close> does nothing while the work is queued.\<close>

definition schedule_beacon :: "nat \<Rightarrow> mt7603u_dev \<Rightarrow> mt7603u_dev" where
  "schedule_beacon delay dev =
     (if beacon_work dev = None then dev\<lparr> beacon_work := Some delay \<rparr> else dev)"

definition beacon_delay :: "u16 \<Rightarrow> nat" where
  "beacon_delay bi = (let bint = (if bi \<noteq> 0 then unat bi else 100) in bint * 1024 div 1000)"

section \<open>The descriptor call\<close>

lemma tx_params_fields:
  "hdr_len (tx_params_of dev std info data fc) = of_nat (hdrlen std fc)"
  "pkt_len (tx_params_of dev std info data fc) = of_nat (length data)"
  "frm_type (tx_params_of dev std info data fc) = ucast (drop_bit 2 fc AND 3)"
  "queue (tx_params_of dev std info data fc) =
     (if is_injected dev info \<or> fc_is_mgmt std fc then 4 else 1)"
  "protect_frm (tx_params_of dev std info data fc) = (if hw_key info then 1 else 0)"
  by (simp_all add: tx_params_of_def tx_rate_params_def tx_header_params_def Let_def)

text \<open>The rate the handler chooses is always in its table.\<close>

lemma tx_rate_total: "\<exists>r. tx_rate_of (tx_params_of dev std info data fc) = Some r"
proof -
  let ?p = "tx_params_of dev std info data fc"
  have ofdm: "unat (x AND 7 :: u8) < 8" for x
    by (simp add: and_mask_simps take_bit_eq_mod unat_mod)
  have cck: "unat (of_int i :: u8) < 4" if "0 \<le> i" "i < 4" for i
    using that by (simp add: unat_eq_nat_uint uint_word_of_int)
  have "tx_rate_of ?p \<noteq> None"
    unfolding tx_rate_of_def Let_def tx_rate_to_tmi_None
    using ofdm [of "of_int (rate0_idx info - 4)"] cck [of "rate0_idx info"]
    by (auto simp: tx_params_of_def tx_rate_params_def)
  then show ?thesis by auto
qed

definition txd_of :: "TxParams \<Rightarrow> u8 list" where
  "txd_of p = txwi_feedback p (txd_block p (the (tx_rate_of p)))"

lemma length_txd_of [simp]: "length (txd_of p) = 32"
  by (simp add: txd_of_def txwi_feedback_def)

lemma txwi_call:
  assumes "length txwi = 32" "p = tx_params_of dev std info data fc"
  shows "mt7603_rust_build_txwi (Some p) (Some txwi) 32 =
    (if 65503 < unat (pkt_len p) then Some (EINVAL, Some txwi)
     else if odd (unat (hdr_len p)) then Some (EINVAL, Some (replicate 32 0))
     else Some (0, Some (txd_block p (the (tx_rate_of p)))))"
  using assms tx_rate_total [of dev std info data fc]
  by (auto simp: mt7603_rust_build_txwi_def from_raw_parts_def build_txwi_cases)

section \<open>What is transmitted\<close>

definition padded_frame :: "nat \<Rightarrow> u8 list \<Rightarrow> u8 list" where
  "padded_frame h data = take h data @ replicate ((4 - h mod 4) mod 4) 0 @ drop h data"

lemma length_padded_frame [simp]:
  "h \<le> length data \<Longrightarrow> length (padded_frame h data) = length data + (4 - h mod 4) mod 4"
  by (simp add: padded_frame_def)

lemma hdr_pad_eq: "hdr_pad h = (4 - unat h mod 4) mod 4"
proof -
  have l: "unat (h AND 3) = unat h mod 4" by (simp add: and_mask_simps take_bit_eq_mod unat_mod)
  then have "unat (4 - (h AND 3)) = 4 - unat h mod 4"
    by (subst unat_sub) (simp_all add: word_le_nat_alt)
  then show ?thesis by (simp add: hdr_pad_def and_mask_simps(2) take_bit_eq_mod unat_mod)
qed

lemma insert_pad_eq:
  "h \<le> length data \<Longrightarrow> insert_pad h ((4 - h mod 4) mod 4) data = Some (padded_frame h data)"
  by (simp add: insert_pad_def padded_frame_def)

lemma align4_bounds: "n \<le> align4 n" "align4 n < n + 4" "4 dvd align4 n"
  by (simp_all add: align4_def)

text \<open>The transfer buffer for a frame: descriptor, padded frame, trailing zeros.\<close>

definition tx_wire :: "bool \<Rightarrow> TxParams \<Rightarrow> u8 list \<Rightarrow> u8 list" where
  "tx_wire is_mgmt p data =
     (let body = txd_of p @ padded_frame (unat (hdr_len p)) data;
          n = length body;
          front = (if is_mgmt then take 2 body else u16_to_le_bytes (of_nat (align4 n)))
      in front @ drop 2 body @ replicate (align4 n + 4 - n) 0)"

lemma with_room_data:
  "with_tailroom n a s = Some s' \<Longrightarrow> skb_data s' = skb_data s"
  "with_headroom n a s = Some s' \<Longrightarrow> skb_data s' = skb_data s"
  by (auto simp: with_tailroom_def with_headroom_def split: if_splits)

lemma tx_transfer_cases:
  "tx_transfer ans m meta s = None \<or>
   tx_transfer ans m meta s = Some (if m then 0x08 else 0x05,
     (if m then skb_data s else u16_to_le_bytes (of_nat (align4 (length (skb_data s)))) @ drop 2 (skb_data s)) @
       replicate (tx_trailer (length (skb_data s))) 0, meta)"
  by (cases "with_tailroom (tx_trailer (length (skb_data s))) (tail_expand ans) (s\<lparr> skb_data :=
        if m then skb_data s else u16_to_le_bytes (of_nat (align4 (length (skb_data s)))) @ drop 2 (skb_data s) \<rparr>)")
    (auto simp: tx_transfer_def Let_def dest: with_room_data(1))

lemma tx_frames:
  fixes s :: skb and dev :: mt7603u_dev and std :: ieee80211 and info :: tx_info
  defines "fc \<equiv> u16_from_le_bytes (skb_data s ! 0) (skb_data s ! 1)"
  defines "p \<equiv> tx_params_of dev std info (skb_data s) fc"
  assumes txwi: "length txwi = 32" and len: "unat (hdr_len p) \<le> length (skb_data s)"
  shows "\<exists>frame. tx_frame dev std ans txwi info s = Some frame \<and>
    (frame = None \<or>
     running dev \<and> unat (pkt_len p) \<le> 65503 \<and> even (unat (hdr_len p)) \<and>
     frame = Some (if fc_is_mgmt std fc then 0x08 else 0x05, tx_wire (fc_is_mgmt std fc) p (skb_data s),
       tx_meta p (hdr_pad (hdr_len p))))"
proof -
  note call = txwi_call [OF txwi p_def [THEN meta_eq_to_obj_eq]]
  have pad: "insert_pad (unat (hdr_len p)) (hdr_pad (hdr_len p)) (skb_data s) =
      Some (padded_frame (unat (hdr_len p)) (skb_data s))"
    using len by (simp add: hdr_pad_eq insert_pad_eq)
  note def = tx_frame_def [of dev std ans txwi info s, unfolded Let_def, folded fc_def, folded p_def]
  have two: "take 2 (txd_of p @ xs) @ drop 2 (txd_of p @ xs) = txd_of p @ xs" for xs
    by (rule append_take_drop_id)
  show ?thesis
  proof (cases "running dev \<and> unat (pkt_len p) \<le> 65503 \<and> even (unat (hdr_len p))")
    case False
    then show ?thesis
      by (auto simp: def call)
  next
    case True
    let ?room = "if hdr_pad (hdr_len p) > 0 then with_tailroom (hdr_pad (hdr_len p)) (pad_expand ans) s else Some s"
    show ?thesis
    proof (cases ?room)
      case None
      with True show ?thesis
        by (auto simp: def call split: if_splits)
    next
      case (Some s1)
      then have d1: "skb_data s1 = skb_data s" by (auto dest: with_room_data split: if_splits)
      let ?s2 = "s1\<lparr> skb_data := padded_frame (unat (hdr_len p)) (skb_data s),
                     tailroom := tailroom s1 - hdr_pad (hdr_len p) \<rparr>"
      have tx: "tx_frame dev std ans txwi info s =
          Some (case with_headroom 32 (head_realloc ans) ?s2 of None \<Rightarrow> None
            | Some s3 \<Rightarrow> tx_transfer ans (fc_is_mgmt std fc) (tx_meta p (hdr_pad (hdr_len p)))
                (s3\<lparr> skb_data := txd_of p @ padded_frame (unat (hdr_len p)) (skb_data s),
                     headroom := headroom s3 - 32 \<rparr>))"
        using True
        by (simp add: def call Some d1 pad txd_of_def split: option.split)
      show ?thesis
      proof (cases "with_headroom 32 (head_realloc ans) ?s2")
        case None
        then show ?thesis unfolding tx by simp
      next
        case (Some s3)
        show ?thesis
          unfolding tx Some using True tx_transfer_cases [of ans "fc_is_mgmt std fc" "tx_meta p (hdr_pad (hdr_len p))"
              "s3\<lparr> skb_data := txd_of p @ padded_frame (unat (hdr_len p)) (skb_data s), headroom := headroom s3 - 32 \<rparr>"]
          by (auto simp: tx_wire_def tx_trailer_def Let_def two)
      qed
    qed
  qed
qed

lemma tx_outcomes:
  fixes s :: skb and dev :: mt7603u_dev and std :: ieee80211 and info :: tx_info
  defines "fc \<equiv> u16_from_le_bytes (skb_data s ! 0) (skb_data s ! 1)"
  defines "p \<equiv> tx_params_of dev std info (skb_data s) fc"
  assumes txwi: "length txwi = 32" and len: "unat (hdr_len p) \<le> length (skb_data s)"
  shows "\<exists>out. mt7603_mac80211_tx dev std ans txwi info s = Some out \<and>
    (out = Tx_Dropped \<or>
     running dev \<and> unat (pkt_len p) \<le> 65503 \<and> even (unat (hdr_len p)) \<and> urb_ok ans \<and> 0 \<le> submit_ret ans \<and>
     out = Tx_Submitted (if fc_is_mgmt std fc then 0x08 else 0x05) (tx_wire (fc_is_mgmt std fc) p (skb_data s))
       (tx_meta p (hdr_pad (hdr_len p))))"
  using tx_frames [OF txwi, where dev = dev and std = std and info = info and s = s and ans = ans] len
  unfolding fc_def [symmetric] p_def [symmetric] by (auto simp: mt7603_mac80211_tx_def)

text \<open>What a transfer looks like, whatever the frame: a whole number of words to one of two endpoints.\<close>

lemma txwi_length:
  "mt7603_rust_build_txwi (Some p) (Some txwi) 32 = Some (ret, Some out) \<Longrightarrow> length txwi = 32 \<Longrightarrow> length out = 32"
  by (auto simp: mt7603_rust_build_txwi_def from_raw_parts_def bind_eq_Some_conv build_txwi_cases split: if_splits option.splits)

lemma tx_transfer_shape:
  assumes "tx_transfer ans m meta (s\<lparr> skb_data := txwi_feedback p txwi @ data, headroom := hr \<rparr>) = Some (ep, buf, meta')"
    "length txwi = 32"
  shows "(ep = 0x05 \<or> ep = 0x08) \<and> 4 dvd length buf \<and> 36 \<le> length buf"
proof -
  let ?n = "length data + 32"
  have l: "length (txwi_feedback p txwi) = 32" using assms(2) by (simp add: txwi_feedback_def)
  have "length buf = ?n + (align4 ?n + 4 - ?n)" "ep = 0x05 \<or> ep = 0x08"
    using tx_transfer_cases [of ans m meta "s\<lparr> skb_data := txwi_feedback p txwi @ data, headroom := hr \<rparr>"] assms(1) l
    by (auto simp: tx_trailer_def add.commute split: if_splits)
  then have "length buf = align4 ?n + 4" using align4_bounds(1) [of ?n] by linarith
  moreover have "4 dvd align4 ?n + 4" by (rule dvd_add [OF align4_bounds(3) dvd_refl])
  moreover have "36 \<le> align4 ?n + 4" using align4_bounds(1) [of ?n] by linarith
  ultimately show ?thesis using \<open>ep = 0x05 \<or> ep = 0x08\<close> by metis
qed

lemma tx_frame_shape:
  assumes "tx_frame dev std ans txwi info s = Some (Some (ep, buf, meta))" "length txwi = 32"
  shows "running dev \<and> (ep = 0x05 \<or> ep = 0x08) \<and> 4 dvd length buf \<and> 36 \<le> length buf"
proof (cases "running dev")
  case True
  then show ?thesis
    using assms unfolding tx_frame_def Let_def
    by (auto simp: bind_eq_Some_conv dest!: tx_transfer_shape dest: txwi_length split: if_splits option.splits)
qed (use assms in \<open>simp add: tx_frame_def\<close>)

section \<open>Taking a transmission apart again\<close>

lemma tx_meta_fields:
  assumes "pad < 4"
  shows "unat (tx_meta p pad AND 0xffff) = unat (pkt_len p)"
    "unat (drop_bit 16 (tx_meta p pad) AND 0xff) = unat (hdr_len p)"
    "unat (drop_bit 24 (tx_meta p pad) AND 0xff) = pad"
proof -
  define w :: u32 where "w = of_nat pad"
  have w: "unat w = pad" using assms by (simp add: w_def unat_of_nat)
  have small: "n < 8" if "bit w n" for n
    using bit_small [of w 8 n] that assms w by simp
  have "tx_meta p pad AND 0xffff = ucast (pkt_len p)"
    "drop_bit 16 (tx_meta p pad) AND 0xff = ucast (hdr_len p)"
    "drop_bit 24 (tx_meta p pad) AND 0xff = w"
    unfolding tx_meta_def w_def [symmetric] and_mask_simps
    by (auto intro!: bit_word_eqI simp: bit_simps dest: small)
  then show "unat (tx_meta p pad AND 0xffff) = unat (pkt_len p)"
    "unat (drop_bit 16 (tx_meta p pad) AND 0xff) = unat (hdr_len p)"
    "unat (drop_bit 24 (tx_meta p pad) AND 0xff) = pad"
    using w by simp_all
qed

lemma drop_tx_wire:
  "\<exists>z. drop 32 (tx_wire m p data) = padded_frame (unat (hdr_len p)) data @ replicate z 0 \<and>
     32 \<le> length (tx_wire m p data) \<and> 4 \<le> z"
proof -
  let ?b = "txd_of p @ padded_frame (unat (hdr_len p)) data"
  let ?z = "align4 (length ?b) + 4 - length ?b"
  have f: "length (if m then take 2 ?b else u16_to_le_bytes (of_nat (align4 (length ?b)))) = 2" by simp
  have "tx_wire m p data =
      (if m then take 2 ?b else u16_to_le_bytes (of_nat (align4 (length ?b)))) @ drop 2 ?b @ replicate ?z 0"
    by (simp add: tx_wire_def Let_def)
  moreover have "drop 30 (drop 2 ?b @ replicate ?z 0) = padded_frame (unat (hdr_len p)) data @ replicate ?z 0"
    by simp
  moreover have "4 \<le> ?z" using align4_bounds(1) [of "length ?b"] by linarith
  ultimately show ?thesis using f by (intro exI [of _ ?z]) simp
qed

lemma strip_tx_wire:
  assumes "unat (hdr_len p) \<le> length data" "unat (pkt_len p) = length data" "data \<noteq> []"
  shows "strip_frame (tx_meta p (hdr_pad (hdr_len p))) (tx_wire m p data) = data"
proof -
  let ?h = "unat (hdr_len p)" and ?pad = "hdr_pad (hdr_len p)"
  have pad: "?pad < 4" "?pad = (4 - ?h mod 4) mod 4" by (simp_all add: hdr_pad_eq)
  obtain z where z: "drop 32 (tx_wire m p data) = padded_frame ?h data @ replicate z 0"
    "32 \<le> length (tx_wire m p data)" "4 \<le> z" using drop_tx_wire by blast
  let ?d = "padded_frame ?h data @ replicate z 0"
  have d: "take ?h ?d = take ?h data" "drop (?h + ?pad) ?d = drop ?h data @ replicate z 0"
    using assms(1) pad(2) by (simp_all add: padded_frame_def)
  have len: "length ?d = length data + ?pad + z" using assms(1) pad(2) by simp
  have zero: "?d = data @ replicate z 0" if "?pad = 0"
    using that pad(2) by (simp add: padded_frame_def)
  show ?thesis
    unfolding strip_frame_def Let_def tx_meta_fields [OF pad(1)]
    using assms z len d zero by (auto simp: min_def)
qed

section \<open>Properties\<close>


text \<open>The classifiers as the kernel headers define them, for witnesses.\<close>

definition linux_hdrlen :: "u16 \<Rightarrow> nat" where
  "linux_hdrlen fc =
     (if fc AND 0x000c = 0x0008 then
        24 + (if fc AND 0x0300 = 0x0300 then 6 else 0) +
        (if fc AND 0x0080 \<noteq> 0 then 2 + (if fc AND 0x8000 \<noteq> 0 then 4 else 0) else 0)
      else if fc AND 0x000c = 0x0004 then
        (if fc AND 0x00e0 = 0x00c0 then 10 else 16)
      else 24 + (if fc AND 0x000c = 0 \<and> fc AND 0x8000 \<noteq> 0 then 4 else 0))"

definition linux_std :: ieee80211 where
  "linux_std = \<lparr> hdrlen = linux_hdrlen, fc_is_mgmt = (\<lambda>fc. fc AND 0x000c = 0),
     fc_is_beacon = (\<lambda>fc. fc AND 0x00fc = 0x0080) \<rparr>"

definition sample_dev :: mt7603u_dev where
  "sample_dev = \<lparr> ap_vif = None, beacon_work = None, beacon_int = 0, beacon_enabled = False,
     mac_addr = Mac6 0 0x0c 0x43 0x76 3 1, current_channel = 6, current_bw = 0, monitor_count = 0,
     filter_flags = 0, cmd_seq = 3, running = True, eeprom_valid = False, rssi_offset = 0,
     eeprom = replicate 1024 0xff, rx_urbs = replicate 4 (True, True), cmd_urb = True, cmd_buf = True, tx_anchor = [] \<rparr>"

definition sample_info :: tx_info where
  "sample_info = \<lparr> hw_key = False, ctl_injected = False, ctl_no_ack = False, rate0_idx = - 1,
     rate0_mcs = False, rate0_40mhz = False, rate0_short_gi = False, rate0_short_preamble = False \<rparr>"

definition sample_answers :: tx_answers where
  "sample_answers = \<lparr> pad_expand = None, head_realloc = None, tail_expand = None, urb_ok = True, submit_ret = 0 \<rparr>"

text \<open>A QoS data frame: a header of 26 bytes and a body of three.\<close>

definition sample_skb :: skb where
  "sample_skb = \<lparr> skb_data = 0x88 # 1 # replicate 24 1 @ [7, 8, 9], headroom = 40, tailroom = 20 \<rparr>"

lemma sample_fc:
  "u16_from_le_bytes (skb_data sample_skb ! 0) (skb_data sample_skb ! 1) = 0x188"
  "hdrlen linux_std 0x188 = 26" "\<not> fc_is_mgmt linux_std 0x188" "length (skb_data sample_skb) = 29"
  by (simp_all add: sample_skb_def u16_from_le_bytes_def linux_std_def linux_hdrlen_def)

lemma sample_params:
  "hdr_len (tx_params_of dev linux_std info (skb_data sample_skb) 0x188) = 26"
  "pkt_len (tx_params_of dev linux_std info (skb_data sample_skb) 0x188) = 29"
  by (simp_all only: tx_params_fields sample_fc) simp_all

lemma sample_frame:
  assumes "running dev"
  shows "tx_frame dev linux_std sample_answers (replicate 32 0) info sample_skb =
     Some (Some (0x05,
       tx_wire False (tx_params_of dev linux_std info (skb_data sample_skb) 0x188) (skb_data sample_skb),
       tx_meta (tx_params_of dev linux_std info (skb_data sample_skb) 0x188) 2))"
proof -
  let ?p = "tx_params_of dev linux_std info (skb_data sample_skb) 0x188"
  note def = tx_frame_def [of dev linux_std sample_answers "replicate 32 0" info sample_skb,
      unfolded Let_def sample_fc(1)]
  note call = txwi_call [of "replicate 32 0" ?p, OF _ refl]
  have pad: "hdr_pad 26 = 2" by (simp add: hdr_pad_eq)
  have ins: "insert_pad 26 2 (skb_data sample_skb) = Some (padded_frame 26 (skb_data sample_skb))"
    using insert_pad_eq [of 26 "skb_data sample_skb"] sample_fc(4) by simp
  have tail: "align4 (length (padded_frame 26 (skb_data sample_skb)) + 32) = 64"
    using sample_fc(4) by (simp add: align4_def)
  have room: "headroom sample_skb = 40" "tailroom sample_skb = 20" by (simp_all add: sample_skb_def)
  show ?thesis
    using assms by (simp add: def call sample_params pad ins with_tailroom_def with_headroom_def room
        tx_transfer_def tx_wire_def Let_def sample_fc tx_trailer_def align4_def txd_of_def [symmetric])
qed

lemma sample_submitted:
  "mt7603_mac80211_tx sample_dev linux_std sample_answers (replicate 32 0) info sample_skb =
     Some (Tx_Submitted 0x05
       (tx_wire False (tx_params_of sample_dev linux_std info (skb_data sample_skb) 0x188) (skb_data sample_skb))
       (tx_meta (tx_params_of sample_dev linux_std info (skb_data sample_skb) 0x188) 2))"
proof -
  have "running sample_dev" by (simp add: sample_dev_def)
  then show ?thesis by (simp add: mt7603_mac80211_tx_def sample_frame) (simp add: sample_answers_def)
qed


text \<open>C4: completion undoes transmission: stripping a submitted buffer by the record kept in the
  socket buffer gives back exactly the frame mac80211 handed over, for every frame of at most
  65535 bytes that holds its header; so the status report is about the original frame.\<close>

theorem tx_roundtrip:
  assumes "mt7603_mac80211_tx dev std ans txwi info s = Some (Tx_Submitted ep buf meta)"
    "length txwi = 32" "skb_data s \<noteq> []" "length (skb_data s) < 65536"
    "hdrlen std (u16_from_le_bytes (skb_data s ! 0) (skb_data s ! 1)) \<le> length (skb_data s)"
    "hdrlen std (u16_from_le_bytes (skb_data s ! 0) (skb_data s ! 1)) < 256"
  shows "fst (mt7603_tx_complete dev' std no_ack_flag status meta buf) = skb_data s"
proof -
  let ?fc = "u16_from_le_bytes (skb_data s ! 0) (skb_data s ! 1)"
  let ?p = "tx_params_of dev std info (skb_data s) ?fc"
  have h: "unat (hdr_len ?p) = hdrlen std ?fc" "unat (pkt_len ?p) = length (skb_data s)"
    using assms(4,6) by (simp_all add: tx_params_fields unat_of_nat)
  have "meta = tx_meta ?p (hdr_pad (hdr_len ?p))" "\<exists>m. buf = tx_wire m ?p (skb_data s)"
    using tx_outcomes [OF assms(2), of dev std info s ans] assms(1,5) h(1) by auto
  then show ?thesis
    using strip_tx_wire [of ?p "skb_data s"] assms(3,5) h by (auto simp: mt7603_tx_complete_def Let_def)
qed

theorem tx_roundtrip_witness:
  "\<exists>ep buf meta.
     mt7603_mac80211_tx sample_dev linux_std sample_answers (replicate 32 0) sample_info sample_skb =
       Some (Tx_Submitted ep buf meta) \<and>
     mt7603_tx_complete sample_dev linux_std False 0 meta buf = (skb_data sample_skb, Some True)"
proof -
  have d: "fst (mt7603_tx_complete sample_dev linux_std False 0
      (tx_meta (tx_params_of sample_dev linux_std sample_info (skb_data sample_skb) 0x188) 2)
      (tx_wire False (tx_params_of sample_dev linux_std sample_info (skb_data sample_skb) 0x188)
        (skb_data sample_skb))) = skb_data sample_skb"
    using sample_fc
    by (intro tx_roundtrip [OF sample_submitted]) (auto simp: sample_skb_def)
  then have "strip_frame (tx_meta (tx_params_of sample_dev linux_std sample_info (skb_data sample_skb) 0x188) 2)
      (tx_wire False (tx_params_of sample_dev linux_std sample_info (skb_data sample_skb) 0x188)
        (skb_data sample_skb)) = skb_data sample_skb"
    by (simp add: mt7603_tx_complete_def Let_def)
  then have "mt7603_tx_complete sample_dev linux_std False 0
      (tx_meta (tx_params_of sample_dev linux_std sample_info (skb_data sample_skb) 0x188) 2)
      (tx_wire False (tx_params_of sample_dev linux_std sample_info (skb_data sample_skb) 0x188)
        (skb_data sample_skb)) = (skb_data sample_skb, Some True)"
    using sample_fc(1,4)
    by (simp add: mt7603_tx_complete_def Let_def) (simp add: linux_std_def sample_dev_def)
  with sample_submitted [of sample_info] show ?thesis by blast
qed

section \<open>The descriptor on the wire\<close>

lemma txd_of_bytes:
  "i < 32 \<Longrightarrow> i \<noteq> 20 \<Longrightarrow> i \<noteq> 21 \<Longrightarrow> txd_of p ! i = txd_block p (the (tx_rate_of p)) ! i"
  by (simp add: txd_of_def txwi_feedback_def)

lemma dword_txd_of: "i < 8 \<Longrightarrow> i \<noteq> 5 \<Longrightarrow> dword (txd_of p @ rest) i = dword (txd_block p (the (tx_rate_of p))) i"
  by (auto simp: dword_def nth_append txd_of_bytes)

lemma dword_feedback:
  "dword (txd_of p @ rest) 5 = (if frm_type p = 2 then 0x1442 else 0x1000)"
proof -
  have dw5: "dword (txd_block p r) 5 = 0x1000" for r
    using dword_block(6) [of p r "[]"] by (simp add: txd_dw5_def)
  have b: "txd_block p r ! 20 = 0" "txd_block p r ! 21 = 0x10" "txd_block p r ! 22 = 0" "txd_block p r ! 23 = 0" for r
    by (simp_all add: txd_block_def nth_append u32_to_le_bytes_def txd_dw5_def)
  show ?thesis
    using dw5 by (simp add: dword_def nth_append txd_of_def txwi_feedback_def b u32_from_le_bytes_def)
qed

text \<open>Replacing the first two bytes changes the low half of word 0 only.\<close>

lemma u32_halves:
  "take_bit 16 (u32_from_le_bytes a b c d) = ucast (u16_from_le_bytes a b)"
  "drop_bit 16 (u32_from_le_bytes a b c d) = ucast (u16_from_le_bytes c d)"
proof -
  have "bit (take_bit 16 (u32_from_le_bytes a b c d)) n = bit (ucast (u16_from_le_bytes a b) :: u32) n"
    "bit (drop_bit 16 (u32_from_le_bytes a b c d)) n = bit (ucast (u16_from_le_bytes c d) :: u32) n"
    if n: "n < 32" for n
  proof -
    consider "n < 8" | "8 \<le> n" "n < 16" | "16 \<le> n" by linarith
    then have "bit (take_bit 16 (u32_from_le_bytes a b c d)) n = bit (ucast (u16_from_le_bytes a b) :: u32) n \<and>
      bit (drop_bit 16 (u32_from_le_bytes a b c d)) n = bit (ucast (u16_from_le_bytes c d) :: u32) n"
      using n by cases (auto simp: u32_from_le_bytes_def u16_from_le_bytes_def bit_simps)
    then show "bit (take_bit 16 (u32_from_le_bytes a b c d)) n = bit (ucast (u16_from_le_bytes a b) :: u32) n"
      "bit (drop_bit 16 (u32_from_le_bytes a b c d)) n = bit (ucast (u16_from_le_bytes c d) :: u32) n" by auto
  qed
  then show "take_bit 16 (u32_from_le_bytes a b c d) = ucast (u16_from_le_bytes a b)"
    "drop_bit 16 (u32_from_le_bytes a b c d) = ucast (u16_from_le_bytes c d)"
    by (auto intro!: bit_word_eqI)
qed

lemma dword_front:
  assumes "length xs \<ge> 4"
  shows "take_bit 16 (dword (u16_to_le_bytes w @ drop 2 xs) 0) = ucast w"
    "drop_bit 16 (dword (u16_to_le_bytes w @ drop 2 xs) 0) = drop_bit 16 (dword xs 0)"
  using assms by (simp_all add: dword_def nth_append u16_to_le_bytes_def u32_halves u16_le_roundtrip numeral_2_eq_2 numeral_3_eq_3)

lemma tx_wire_word0:
  "tx_wire m p data = (if m then txd_of p else u16_to_le_bytes
       (of_nat (align4 (32 + length (padded_frame (unat (hdr_len p)) data)))) @ drop 2 (txd_of p)) @
     drop 32 (tx_wire m p data)"
proof -
  have "take 2 (txd_of p) @ drop 2 (txd_of p) = txd_of p" by simp
  then show ?thesis by (cases m) (simp_all add: tx_wire_def Let_def)
qed

lemma tx_wire_word5: "dword (tx_wire m p data) 5 = dword (txd_of p) 5"
  by (subst tx_wire_word0) (auto simp: dword_def nth_append)

lemma length_tx_wire:
  "unat (hdr_len p) \<le> length data \<Longrightarrow>
   length (tx_wire m p data) = align4 (length data + (4 - unat (hdr_len p) mod 4) mod 4 + 32) + 4"
proof -
  assume "unat (hdr_len p) \<le> length data"
  then have n: "length (txd_of p @ padded_frame (unat (hdr_len p)) data) =
      length data + (4 - unat (hdr_len p) mod 4) mod 4 + 32" (is "?l = ?n") by simp
  have "length (tx_wire m p data) = ?l + (align4 ?l + 4 - ?l)"
    by (simp add: tx_wire_def Let_def del: length_append) (simp add: min_def)
  then show ?thesis using align4_bounds(1) [of ?n] unfolding n by simp
qed

lemma dword_txd_0: "dword (txd_of p) 0 = txd_dw0 p"
  using dword_txd_of [of 0 p "[]"] dword_block(1) [of p "the (tx_rate_of p)" "[]"] by simp

lemma tx_wire_dword0:
  "dword (tx_wire True p data) 0 = txd_dw0 p"
  "dword (tx_wire False p data) 0 =
     dword (u16_to_le_bytes (of_nat (align4 (32 + length (padded_frame (unat (hdr_len p)) data)))) @
       drop 2 (txd_of p)) 0"
  unfolding dword_txd_0 [symmetric] by (subst tx_wire_word0; auto simp: dword_def nth_append)+

lemma tx_wire_queue: "take_bit 4 (drop_bit 27 (dword (tx_wire m p data) 0)) = take_bit 4 (ucast (queue p))"
proof -
  have parts: "drop_bit 27 x = drop_bit 11 (drop_bit 16 x)" for x :: u32 by (simp add: drop_bit_drop_bit)
  have "drop_bit 16 (dword (tx_wire m p data) 0) = drop_bit 16 (txd_dw0 p)"
    by (cases m) (simp_all add: tx_wire_dword0 dword_front(2) dword_txd_0)
  then show ?thesis using dw0_fields(3) [of p] by (simp add: parts del: drop_bit_drop_bit)
qed

text \<open>The byte counts on the wire. With \<open>n\<close> the bytes of descriptor, padded header and body, a
  submitted transfer is \<open>n\<close> rounded up to a multiple of four plus four bytes of zeros; the
  descriptor of a management frame announces \<open>n\<close>, that of any other frame the rounded length.
  The queue field survives the rewriting of the count, and status feedback under the identifier
  0x42 is requested for data frames and for no others.\<close>

theorem tx_wire_counts:
  assumes "n = length data + (4 - unat (hdr_len p) mod 4) mod 4 + 32" "n \<le> 65532"
    "unat (hdr_len p) \<le> length data" "unat (pkt_len p) = length data"
  shows "length (tx_wire m p data) = align4 n + 4 \<and>
    unat (take_bit 16 (dword (tx_wire m p data) 0)) = (if m then n else align4 n) \<and>
    take_bit 4 (drop_bit 27 (dword (tx_wire m p data) 0)) = take_bit 4 (ucast (queue p)) \<and>
    dword (tx_wire m p data) 5 = (if frm_type p = 2 then 0x1442 else 0x1000)"
proof -
  have count: "tx_count p = n" using assms(1,4) by (simp add: tx_count_def)
  let ?w = "of_nat (align4 (32 + length (padded_frame (unat (hdr_len p)) data))) :: u16"
  have "32 + length (padded_frame (unat (hdr_len p)) data) = n" using assms(1,3) by simp
  moreover have "align4 n < 65536" using align4_bounds(2) [of n] assms(2) by linarith
  ultimately have w: "unat ?w = align4 n" by (simp add: unat_of_nat)
  have "unat (take_bit 16 (word_of_nat n :: u32)) = n"
    using assms(2) by (simp add: take_bit_eq_mod unat_mod unat_of_nat)
  moreover have "unat (take_bit 16 (dword (tx_wire False p data) 0)) = align4 n"
    unfolding tx_wire_dword0(2) using dword_front(1) [of "txd_of p" ?w] w by simp
  ultimately have "unat (take_bit 16 (dword (tx_wire m p data) 0)) = (if m then n else align4 n)"
    by (simp add: tx_wire_dword0(1) dw0_fields(1) count)
  then show ?thesis
    using assms(1,3) by (simp add: tx_wire_queue length_tx_wire tx_wire_word5 dword_feedback [of p "[]", simplified])
qed

theorem tx_wire_counts_witness:
  "\<exists>buf meta. mt7603_mac80211_tx sample_dev linux_std sample_answers (replicate 32 0) sample_info sample_skb =
       Some (Tx_Submitted 0x05 buf meta) \<and>
     length buf = 68 \<and> unat (take_bit 16 (dword buf 0)) = 64"
proof -
  let ?p = "tx_params_of sample_dev linux_std sample_info (skb_data sample_skb) 0x188"
  have "length (tx_wire False ?p (skb_data sample_skb)) = align4 63 + 4 \<and>
      unat (take_bit 16 (dword (tx_wire False ?p (skb_data sample_skb)) 0)) = align4 63"
    using tx_wire_counts [of 63 "skb_data sample_skb" ?p False] unfolding sample_params sample_fc(4) by simp
  then show ?thesis using sample_submitted [of sample_info] unfolding align4_def by simp
qed

text \<open>An injected frame that is not a management frame is queued for the management queue in its
  descriptor and yet submitted to the data endpoint.\<close>

theorem injected_endpoint:
  assumes "mt7603_mac80211_tx dev std ans txwi info s = Some (Tx_Submitted ep buf meta)"
    "length txwi = 32" "fc = u16_from_le_bytes (skb_data s ! 0) (skb_data s ! 1)"
    "hdrlen std fc \<le> length (skb_data s)" "hdrlen std fc < 256" "length (skb_data s) \<le> 65496"
    "ctl_injected info" "\<not> fc_is_mgmt std fc"
  shows "ep = 0x05 \<and> take_bit 4 (drop_bit 27 (dword buf 0)) = 4"
proof -
  let ?p = "tx_params_of dev std info (skb_data s) fc"
  have h: "unat (hdr_len ?p) = hdrlen std fc" "unat (pkt_len ?p) = length (skb_data s)"
    using assms(5,6) by (simp_all add: tx_params_fields unat_of_nat)
  have out: "ep = 0x05" "buf = tx_wire False ?p (skb_data s)"
    using tx_outcomes [OF assms(2), of dev std info s ans] assms(1,4,8) h(1) unfolding assms(3) by auto
  have "take_bit 4 (drop_bit 27 (dword buf 0)) = take_bit 4 (ucast (queue ?p))"
    unfolding out(2) by (rule tx_wire_queue)
  with out(1) assms(7) show ?thesis by (simp add: tx_params_fields is_injected_def)
qed

theorem injected_endpoint_witness:
  "\<exists>buf meta. mt7603_mac80211_tx sample_dev linux_std sample_answers (replicate 32 0)
       (sample_info\<lparr> ctl_injected := True \<rparr>) sample_skb = Some (Tx_Submitted 0x05 buf meta) \<and>
     take_bit 4 (drop_bit 27 (dword buf 0)) = 4"
  using sample_submitted [of "sample_info\<lparr> ctl_injected := True \<rparr>"]
    injected_endpoint [OF sample_submitted [of "sample_info\<lparr> ctl_injected := True \<rparr>"], of "0x188"] sample_fc
  by auto

end
