(* ===== verification/Mac80211.thy ===== *)
theory Mac80211
  imports Upload Efuse Tx_Path
begin

text \<open>
  src/src/c/mac80211.c: the configuration callbacks, as computations over the kernel that take the
  device structure and return the changed one. The C functions modelled here return 0 unless a code
  is part of the result. A panic of the Rust code is \<^term>\<open>None\<close>. The conditional
  compilation is resolved for Linux 6.9 and later.

  What a builder does not write is never sent, so each builder call starts from buffers of
  unspecified content.
\<close>

section \<open>Calls into the crate\<close>

definition cmd_scratch :: "kernel \<Rightarrow> nat \<Rightarrow> u8 list" where
  "cmd_scratch k n = map (stale k) [0..<n]"

definition ops_scratch :: "kernel \<Rightarrow> nat \<Rightarrow> RegWriteOp list" where
  "ops_scratch k n = map (\<lambda>i. op_write (ucast (stale k (2 * i))) (ucast (stale k (2 * i + 1)))) [0..<n]"

lemma length_scratch [simp]: "length (cmd_scratch k n) = n" "length (ops_scratch k n) = n"
  by (simp_all add: cmd_scratch_def ops_scratch_def)

lemma mac_at_bytes [simp]: "mac_at (mac_bytes m) = Some m"
  using mac6_of_slice_bytes [of m] by (simp add: mac_at_def from_raw_parts_def del: mac6_of_slice_bytes)

lemma mac_at_bcast [simp]: "mac_at (replicate 6 0xff) = Some (Mac6 0xff 0xff 0xff 0xff 0xff 0xff)"
  by (simp add: mac_at_def from_raw_parts_def mac6_of_slice_def numeral_eq_Suc)

definition and_then :: "'a option io \<Rightarrow> ('a \<Rightarrow> 'b option io) \<Rightarrow> 'b option io" where
  "and_then m f = do { r \<leftarrow> m; (case r of None \<Rightarrow> State_Monad.return None | Some x \<Rightarrow> f x) }"

text \<open>\<open>if (ret == 0 && written > 0) mt7603_usb_send_cmd(..)\<close>, the result of the call given.\<close>

definition send_built :: "kernel \<Rightarrow> (int \<times> u8 list option \<times> nat option) option \<Rightarrow> unit option io" where
  "send_built k r =
     (case r of
        Some (ret, Some buf, Some written) \<Rightarrow>
          if ret = 0 \<and> written > 0 then do {
            mt7603_usb_send_cmd k (take written buf);
            State_Monad.return (Some ())
          }
          else State_Monad.return (Some ())
      | _ \<Rightarrow> State_Monad.return None)"

text \<open>The same for a register sequence; the result says whether it was executed.\<close>

definition exec_built :: "kernel \<Rightarrow> (int \<times> RegWriteOp list option \<times> nat option) option \<Rightarrow> bool option io" where
  "exec_built k r =
     (case r of
        Some (ret, Some ops, Some written) \<Rightarrow>
          if ret = 0 \<and> written > 0 then do {
            mt7603_execute_reg_ops k (take written ops);
            State_Monad.return (Some True)
          }
          else State_Monad.return (Some False)
      | _ \<Rightarrow> State_Monad.return None)"

definition next_seq :: "mt7603u_dev \<Rightarrow> mt7603u_dev" where
  "next_seq dev = dev\<lparr> cmd_seq := cmd_seq dev mod 15 + 1 \<rparr>"

primrec addr_lo :: "mac6 \<Rightarrow> u32" where
  "addr_lo (Mac6 a b c d e f) =
     ucast a OR push_bit 8 (ucast b) OR push_bit 16 (ucast c) OR push_bit 24 (ucast d)"

primrec addr_top :: "mac6 \<Rightarrow> u32" where
  "addr_top (Mac6 a b c d e f) = ucast e OR push_bit 8 (ucast f)"

definition addr_hi :: "mac6 \<Rightarrow> u32" where
  "addr_hi m = addr_top m OR push_bit 16 1"

definition is_zero_ether_addr :: "mac6 \<Rightarrow> bool" where
  "is_zero_ether_addr m \<longleftrightarrow> m = Mac6 0 0 0 0 0 0"

abbreviation RMAC_CB0R0 :: u32 where "RMAC_CB0R0 \<equiv> 0x21804"
abbreviation RMAC_CB0R1 :: u32 where "RMAC_CB0R1 \<equiv> 0x21808"

section \<open>Receive rings\<close>

primrec start_rx_slots :: "kernel \<Rightarrow> (bool \<times> bool) list \<Rightarrow> (int \<times> (bool \<times> bool) list) io" where
  "start_rx_slots k [] = State_Monad.return (0, [])"
| "start_rx_slots k (slot # slots) = do {
     buf \<leftarrow> (if fst slot then State_Monad.return True else kmalloc k 24576);
     if \<not> buf then State_Monad.return (ENOMEM, (False, snd slot) # slots)
     else do {
       urb \<leftarrow> (if snd slot then State_Monad.return True else alloc_urb k);
       if \<not> urb then State_Monad.return (ENOMEM, (True, False) # slots)
       else do {
         submit_urb k MT7603_DATA_BULK_IN;
         (ret, slots) \<leftarrow> start_rx_slots k slots;
         State_Monad.return (ret, (True, True) # slots)
       }
     }
   }"

text \<open>The response ring of the running firmware: buffer and URB afterwards.\<close>

definition start_cmd_ring :: "kernel \<Rightarrow> bool \<Rightarrow> bool \<Rightarrow> (bool \<times> bool) io" where
  "start_cmd_ring k buf urb = do {
     buf \<leftarrow> (if \<not> buf then kmalloc k 512 else State_Monad.return True);
     if buf \<and> \<not> urb then do {
       urb \<leftarrow> alloc_urb k;
       if urb then do {
         submit_urb k MT7603_CMD_RSP_BULK_IN;
         State_Monad.return (buf, True)
       }
       else State_Monad.return (buf, False)
     }
     else State_Monad.return (buf, urb)
   }"

definition mt7603_start_rx :: "kernel \<Rightarrow> mt7603u_dev \<Rightarrow> (int \<times> mt7603u_dev) io" where
  "mt7603_start_rx k dev = do {
     clear_halt MT7603_DATA_BULK_IN;
     clear_halt MT7603_CMD_RSP_BULK_IN;
     (ret, slots) \<leftarrow> start_rx_slots k (rx_urbs dev);
     let dev = dev\<lparr> rx_urbs := slots \<rparr>;
     if ret < 0 then State_Monad.return (ret, dev)
     else do {
       (buf, urb) \<leftarrow> start_cmd_ring k (cmd_buf dev) (cmd_urb dev);
       State_Monad.return (0, dev\<lparr> cmd_buf := buf, cmd_urb := urb \<rparr>)
     }
   }"

text \<open>Kill and free one URB, then its buffer, as far as they exist.\<close>

definition release_ring :: "u8 \<Rightarrow> bool \<Rightarrow> bool \<Rightarrow> unit io" where
  "release_ring ep buf urb = do {
     (if urb then do { kill_urb ep; free_urb } else State_Monad.return ());
     (if buf then kfree else State_Monad.return ())
   }"

primrec release_slots :: "(bool \<times> bool) list \<Rightarrow> unit io" where
  "release_slots [] = State_Monad.return ()"
| "release_slots (slot # slots) = do {
     release_ring MT7603_DATA_BULK_IN (fst slot) (snd slot);
     release_slots slots
   }"

definition mt7603_stop_rx :: "mt7603u_dev \<Rightarrow> mt7603u_dev io" where
  "mt7603_stop_rx dev = do {
     release_ring MT7603_CMD_RSP_BULK_IN (cmd_buf dev) (cmd_urb dev);
     release_slots (rx_urbs dev);
     State_Monad.return (dev\<lparr> cmd_buf := False, cmd_urb := False,
       rx_urbs := map (\<lambda>_. (False, False)) (rx_urbs dev) \<rparr>)
   }"

section \<open>Channels\<close>

definition clamp_channel :: "u8 \<Rightarrow> u8" where
  "clamp_channel channel = (if channel < 1 \<or> channel > 14 then 1 else channel)"

definition mt7603_set_channel_ext ::
  "kernel \<Rightarrow> profile \<Rightarrow> mt7603u_dev \<Rightarrow> u8 \<Rightarrow> u8 \<Rightarrow> u8 \<Rightarrow> mt7603u_dev option io" where
  "mt7603_set_channel_ext k prof dev channel bw' central_ch = do {
     let channel = clamp_channel channel;
     let central_ch = (if central_ch < 1 \<or> central_ch > 14 then channel else central_ch);
     let bw' = (if bw' > 1 then 0 else bw');
     anchor_wait;
     let dev = next_seq dev;
     and_then (send_built k (mt7603_rust_build_chan_switch_cmd prof channel central_ch bw' 2 2 (cmd_seq dev)
         (Some (cmd_scratch k 128)) 128 (Some 0))) (\<lambda>_. do {
     mt7603_usb_write_reg k 0x21890 1;
     let dev = next_seq dev;
     and_then (send_built k (mt7603_rust_build_tx_power_ctrl_cmd prof (Some (eeprom dev)) 1024 channel (cmd_seq dev)
         (Some (cmd_scratch k 128)) 128 (Some 0))) (\<lambda>_.
     State_Monad.return (Some (dev\<lparr> current_channel := channel, current_bw := bw' \<rparr>))) })
   }"

definition mt7603_set_channel :: "kernel \<Rightarrow> profile \<Rightarrow> mt7603u_dev \<Rightarrow> u8 \<Rightarrow> mt7603u_dev option io" where
  "mt7603_set_channel k prof dev channel = mt7603_set_channel_ext k prof dev channel 0 channel"

record chandef =
  chan :: "u8 option"          \<comment> \<open>\<open>chan->hw_value\<close>\<close>
  width_40 :: bool
  center_freq1 :: nat

definition mt7603_set_chandef :: "kernel \<Rightarrow> profile \<Rightarrow> mt7603u_dev \<Rightarrow> chandef \<Rightarrow> mt7603u_dev option io" where
  "mt7603_set_chandef k prof dev cd =
     (let ch = (case chan cd of Some c \<Rightarrow> c | None \<Rightarrow> 1);
          bw' = (if width_40 cd then 1 else 0);
          central_ch = (if bw' \<noteq> 0 \<and> center_freq1 cd \<ge> 2412 then of_nat ((center_freq1 cd - 2407) div 5) else ch)
      in mt7603_set_channel_ext k prof dev ch bw' central_ch)"

text \<open>Tuning when the channel differs from the current one.\<close>

definition tune :: "kernel \<Rightarrow> profile \<Rightarrow> mt7603u_dev \<Rightarrow> u8 \<Rightarrow> mt7603u_dev option io" where
  "tune k prof dev ch =
     (if ch \<noteq> current_channel dev then mt7603_set_channel k prof dev ch else State_Monad.return (Some dev))"

definition mt7603_mac80211_config ::
  "kernel \<Rightarrow> profile \<Rightarrow> mt7603u_dev \<Rightarrow> chandef \<Rightarrow> bool \<Rightarrow> mt7603u_dev option io" where
  "mt7603_mac80211_config k prof dev cd change_channel =
     (case chan cd of
        Some ch \<Rightarrow>
          if change_channel \<or> ch \<noteq> current_channel dev then mt7603_set_chandef k prof dev cd
          else State_Monad.return (Some dev)
      | None \<Rightarrow> State_Monad.return (Some dev))"

section \<open>Transmission\<close>

text \<open>
  The transmit handler with its URB: a frame that is ready gets an URB, which stays on the anchor
  when its submission is accepted and is freed again when not.
\<close>

definition transmit ::
  "kernel \<Rightarrow> ieee80211 \<Rightarrow> tx_answers \<Rightarrow> u8 list \<Rightarrow> tx_info \<Rightarrow> skb \<Rightarrow> mt7603u_dev \<Rightarrow> mt7603u_dev option io" where
  "transmit k std ans txwi info s dev =
     (case tx_frame dev std ans txwi info s of
        None \<Rightarrow> State_Monad.return None
      | Some None \<Rightarrow> State_Monad.return (Some dev)
      | Some (Some (ep, buf, meta)) \<Rightarrow> do {
          urb \<leftarrow> alloc_urb k;
          if \<not> urb then State_Monad.return (Some dev)
          else do {
            ret \<leftarrow> submit_urb k ep;
            if ret < 0 then do { free_urb; State_Monad.return (Some dev) }
            else State_Monad.return (Some (dev\<lparr> tx_anchor := tx_anchor dev @
              [\<lparr> urb_ep = ep, urb_buf = buf, urb_meta = meta, urb_no_ack = ctl_no_ack info \<rparr>] \<rparr>))
          }
        })"

text \<open>
  The completion handler as the host controller calls it, with the URB's context and the device the
  context names; a missing device makes it free the buffer without a report. What it does to the
  buffer is \<open>mt7603_tx_complete\<close>. It frees its URB on every path.
\<close>

definition tx_urb_complete ::
  "mt7603u_dev option \<Rightarrow> ieee80211 \<Rightarrow> int \<Rightarrow> tx_urb option \<Rightarrow> (u8 list \<times> bool option) option io" where
  "tx_urb_complete dev std status context =
     (case context of
        None \<Rightarrow> do { free_urb; State_Monad.return None }
      | Some u \<Rightarrow> do {
          let r = (case dev of
              None \<Rightarrow> (strip_frame (urb_meta u) (urb_buf u), None)
            | Some dev \<Rightarrow> mt7603_tx_complete dev std (urb_no_ack u) status (urb_meta u) (urb_buf u));
          free_urb;
          State_Monad.return (Some r)
        })"

text \<open>
  What the kernel documents for \<open>usb_kill_anchored_urbs\<close>: every URB on the anchor is cancelled and
  taken off it, the last one first, and its completion handler runs with \<open>-ENOENT\<close>.
\<close>

primrec kill_urbs :: "ieee80211 \<Rightarrow> mt7603u_dev \<Rightarrow> tx_urb list \<Rightarrow> unit io" where
  "kill_urbs std dev [] = State_Monad.return ()"
| "kill_urbs std dev (u # us) = do {
     tx_urb_complete (Some dev) std (- 2) (Some u);
     kill_urbs std dev us
   }"

definition usb_kill_anchored_urbs :: "ieee80211 \<Rightarrow> mt7603u_dev \<Rightarrow> mt7603u_dev io" where
  "usb_kill_anchored_urbs std dev = do {
     anchor_kill;
     kill_urbs std dev (rev (tx_anchor dev));
     State_Monad.return (dev\<lparr> tx_anchor := [] \<rparr>)
   }"

text \<open>
  The queued beacon work runs: it is no longer queued, and queues itself again. \<open>beacon\<close> is the
  answer of \<open>ieee80211_beacon_get\<close>.
\<close>

definition mt7603_beacon_work ::
  "kernel \<Rightarrow> ieee80211 \<Rightarrow> tx_answers \<Rightarrow> u8 list \<Rightarrow> 64 word \<Rightarrow> (tx_info \<times> skb) option \<Rightarrow> mt7603u_dev
   \<Rightarrow> mt7603u_dev option io" where
  "mt7603_beacon_work k std ans txwi now beacon dev =
     (let dev = dev\<lparr> beacon_work := None \<rparr>
      in if \<not> running dev \<or> \<not> beacon_enabled dev \<or> ap_vif dev = None then State_Monad.return (Some dev)
         else and_then (case beacon of
             None \<Rightarrow> State_Monad.return (Some dev)
           | Some (info, s) \<Rightarrow>
               transmit k std ans txwi info (s\<lparr> skb_data := beacon_stamp now (skb_data s) \<rparr>) dev) (\<lambda>dev.
           State_Monad.return (Some (schedule_beacon (beacon_delay (beacon_int dev)) dev))))"

text \<open>The handler with its URB calls agrees with the one whose calls are answered beforehand.\<close>

lemma transmit_outcome:
  "spec (transmit k std ans txwi info s dev) (\<lambda>r es. \<exists>ok ret.
     case mt7603_mac80211_tx dev std (ans\<lparr> urb_ok := ok, submit_ret := ret \<rparr>) txwi info s of
       None \<Rightarrow> r = None \<and> es = []
     | Some Tx_Dropped \<Rightarrow> r = Some dev \<and> balanced es
     | Some (Tx_Submitted ep buf meta) \<Rightarrow> es = [Urb_Alloc True, Urb_Submit ep ret] \<and>
         r = Some (dev\<lparr> tx_anchor := tx_anchor dev @
           [\<lparr> urb_ep = ep, urb_buf = buf, urb_meta = meta, urb_no_ack = ctl_no_ack info \<rparr>] \<rparr>))"
proof -
  have same: "tx_frame dev std (ans\<lparr> urb_ok := ok, submit_ret := ret \<rparr>) txwi info s = tx_frame dev std ans txwi info s"
    for ok ret by (simp add: tx_frame_def tx_transfer_def Let_def cong: if_cong option.case_cong)
  show ?thesis
  proof (cases "tx_frame dev std ans txwi info s")
    case None
    then show ?thesis by (simp add: transmit_def mt7603_mac80211_tx_def same spec_return)
  next
    case (Some frame)
    show ?thesis
    proof (cases frame)
      case None
      with Some show ?thesis by (simp add: transmit_def mt7603_mac80211_tx_def same spec_return balanced_def)
    next
      case frame: (Some f)
      obtain ep buf meta where f: "f = (ep, buf, meta)" by (cases f)
      show ?thesis
        unfolding transmit_def mt7603_mac80211_tx_def same Some frame f
        by (rule specI) (auto simp: call_defs balanced_def intro: exI [of _ False])
    qed
  qed
qed

section \<open>Start and stop\<close>

text \<open>The calibration upload of a device whose eFuse could be read.\<close>

definition start_calibration :: "kernel \<Rightarrow> profile \<Rightarrow> mt7603u_dev \<Rightarrow> mt7603u_dev option io" where
  "start_calibration k prof dev =
     (if eeprom_valid dev then
        and_then (send_built k (mt7603_rust_build_efuse_buffer_mode_cmd prof (Some (eeprom dev)) 1024 (cmd_seq dev)
          (Some (replicate 1088 0)) 1088 (Some 0)))
        (\<lambda>_. State_Monad.return (Some (next_seq dev)))
      else State_Monad.return (Some dev))"

definition start_configure :: "kernel \<Rightarrow> profile \<Rightarrow> mt7603u_dev \<Rightarrow> mt7603u_dev option io" where
  "start_configure k prof dev =
     and_then (start_calibration k prof dev) (\<lambda>dev.
     and_then (exec_built k (mt7603_rust_get_mac_init_sequence (Some (ops_scratch k 128)) 128 (Some 0))) (\<lambda>_.
     and_then (exec_built k (mt7603_rust_build_own_mac_sequence (Some (mac_bytes (mac_addr dev)))
         (Some (ops_scratch k 128)) 128 (Some 0))) (\<lambda>_.
     and_then (exec_built k (mt7603_rust_build_wtbl_sta_sequence (Some (replicate 6 0xff))
         (Some (ops_scratch k 128)) 128 (Some 0))) (\<lambda>_.
     and_then (send_built k (mt7603_rust_build_radio_on_off_cmd prof True (cmd_seq dev)
         (Some (replicate 1088 0)) 1088 (Some 0))) (\<lambda>_.
     and_then (send_built k (mt7603_rust_build_edca_set_cmd prof (cmd_seq (next_seq dev))
         (Some (replicate 1088 0)) 1088 (Some 0))) (\<lambda>_. do {
     mt7603_usb_write_reg k 0x21c84 (push_bit 8 1 OR push_bit 16 1);
     State_Monad.return (Some (next_seq dev)) }))))))"

definition mt7603_mac80211_start :: "kernel \<Rightarrow> profile \<Rightarrow> mt7603u_dev \<Rightarrow> (int \<times> mt7603u_dev) option io" where
  "mt7603_mac80211_start k prof dev = do {
     let dev = (next_seq dev)\<lparr> running := True \<rparr>;
     mt7603_usb_enable_udma k True;
     (ret, dev) \<leftarrow> mt7603_start_rx k dev;
     cmd_buf \<leftarrow> kmalloc k (1024 + 64);
     if \<not> cmd_buf then State_Monad.return (Some (ENOMEM, dev))
     else and_then (start_configure k prof dev) (\<lambda>dev. do {
       kfree;
       and_then (mt7603_set_channel k prof dev 1) (\<lambda>dev. State_Monad.return (Some (0, dev)))
     })
   }"

text \<open>
  Stopping: the flags and the beacon work first, then the receive rings, then the transmit URBs.
  Handlers of URBs in flight may run in between, and see that the device is not running.
\<close>

definition stop_flags :: "mt7603u_dev \<Rightarrow> mt7603u_dev" where
  "stop_flags dev = dev\<lparr> running := False, beacon_enabled := False, beacon_work := None \<rparr>"

definition mt7603_mac80211_stop :: "ieee80211 \<Rightarrow> mt7603u_dev \<Rightarrow> mt7603u_dev io" where
  "mt7603_mac80211_stop std dev = do {
     let dev = stop_flags dev;
     dev \<leftarrow> mt7603_stop_rx dev;
     usb_kill_anchored_urbs std dev
   }"

definition mt7603_unregister_mac80211 :: "ieee80211 \<Rightarrow> mt7603u_dev option \<Rightarrow> mt7603u_dev option io" where
  "mt7603_unregister_mac80211 std hw =
     (case hw of
        None \<Rightarrow> State_Monad.return None
      | Some dev \<Rightarrow> do {
          let dev = stop_flags dev;
          dev \<leftarrow> mt7603_stop_rx dev;
          dev \<leftarrow> usb_kill_anchored_urbs std dev;
          State_Monad.return (Some dev)
        })"

section \<open>Interfaces and filters\<close>

definition FIF_ALLMULTI :: nat where "FIF_ALLMULTI = 1"
definition FIF_FCSFAIL :: nat where "FIF_FCSFAIL = 2"
definition FIF_PLCPFAIL :: nat where "FIF_PLCPFAIL = 3"
definition FIF_BCN_PRBRESP_PROMISC :: nat where "FIF_BCN_PRBRESP_PROMISC = 4"
definition FIF_CONTROL :: nat where "FIF_CONTROL = 5"
definition FIF_OTHER_BSS :: nat where "FIF_OTHER_BSS = 6"
definition FIF_PSPOLL :: nat where "FIF_PSPOLL = 7"

text \<open>The BSSID registers of the receiver.\<close>

definition write_bssid :: "kernel \<Rightarrow> mac6 \<Rightarrow> unit io" where
  "write_bssid k m = do {
     mt7603_usb_write_reg k RMAC_CB0R0 (addr_lo m);
     mt7603_usb_write_reg k RMAC_CB0R1 (addr_hi m);
     State_Monad.return ()
   }"

definition mt7603_mac80211_add_interface ::
  "kernel \<Rightarrow> mt7603u_dev \<Rightarrow> vif \<Rightarrow> mt7603u_dev option io" where
  "mt7603_mac80211_add_interface k dev vif =
     (let monitor = (vif_type vif = IFTYPE_MONITOR);
          dev = (if monitor then dev\<lparr> monitor_count := monitor_count dev + 1 \<rparr> else dev)
      in and_then (if monitor \<and> running dev
           then exec_built k (mt7603_rust_build_rx_filter_sequence True (bit (filter_flags dev) FIF_FCSFAIL)
             (Some (ops_scratch k 32)) 4 (Some 0))
           else State_Monad.return (Some False)) (\<lambda>_.
         if \<not> is_zero_ether_addr (vif_addr vif) then
           and_then (exec_built k (mt7603_rust_build_own_mac_sequence (Some (mac_bytes (vif_addr vif)))
             (Some (ops_scratch k 32)) 32 (Some 0))) (\<lambda>_.
           if vif_type vif = IFTYPE_AP then do {
             write_bssid k (vif_addr vif);
             State_Monad.return (Some (dev\<lparr> ap_vif := Some vif \<rparr>))
           }
           else State_Monad.return (Some dev))
         else State_Monad.return (Some dev)))"

definition mt7603_mac80211_remove_interface ::
  "kernel \<Rightarrow> mt7603u_dev \<Rightarrow> vif \<Rightarrow> mt7603u_dev option io" where
  "mt7603_mac80211_remove_interface k dev vif =
     (let monitor = (vif_type vif = IFTYPE_MONITOR);
          dev = (if monitor \<and> sint (monitor_count dev) > 0 then dev\<lparr> monitor_count := monitor_count dev - 1 \<rparr> else dev)
      in and_then (if monitor \<and> monitor_count dev = 0 \<and> running dev
           then exec_built k (mt7603_rust_build_rx_filter_sequence False False (Some (ops_scratch k 4)) 4 (Some 0))
           else State_Monad.return (Some False)) (\<lambda>_.
         State_Monad.return (Some
           (if map_option vif_ptr (ap_vif dev) = Some (vif_ptr vif)
            then dev\<lparr> beacon_enabled := False, beacon_work := None, ap_vif := None \<rparr> else dev))))"

text \<open>The device, and the flags reported back.\<close>

definition mt7603_mac80211_configure_filter ::
  "kernel \<Rightarrow> mt7603u_dev \<Rightarrow> u32 \<Rightarrow> 64 word \<Rightarrow> (mt7603u_dev \<times> u32) option io" where
  "mt7603_mac80211_configure_filter k dev total_flags flags =
     (let dev = dev\<lparr> filter_flags := flags \<rparr>;
          supported = push_bit FIF_ALLMULTI 1 OR push_bit FIF_BCN_PRBRESP_PROMISC 1 OR push_bit FIF_CONTROL 1 OR
            push_bit FIF_OTHER_BSS 1 OR push_bit FIF_FCSFAIL 1 OR push_bit FIF_PLCPFAIL 1 OR push_bit FIF_PSPOLL 1;
          promisc = (sint (monitor_count dev) > 0 \<or> bit flags FIF_BCN_PRBRESP_PROMISC);
          fcs_fail = bit flags FIF_FCSFAIL
      in and_then (if running dev
           then exec_built k (mt7603_rust_build_rx_filter_sequence promisc fcs_fail (Some (ops_scratch k 4)) 4 (Some 0))
           else State_Monad.return (Some False)) (\<lambda>_.
         State_Monad.return (Some (dev, total_flags AND supported))))"

section \<open>BSS changes\<close>

record bss_conf =
  bssid :: "mac6 option"
  oper_chan :: "u8 option"       \<comment> \<open>\<open>chanreq.oper.chan->hw_value\<close>\<close>
  bss_chan :: "u8 option"        \<comment> \<open>\<open>bss->channel->hw_value\<close>\<close>
  enable_beacon :: bool
  conf_beacon_int :: u16

record bss_changed =
  changed_beacon :: bool
  changed_beacon_enabled :: bool
  changed_beacon_int :: bool
  changed_bssid :: bool
  changed_assoc :: bool

definition is_ap :: "vif option \<Rightarrow> bool" where
  "is_ap v \<longleftrightarrow> (case v of Some vif \<Rightarrow> vif_type vif = IFTYPE_AP | None \<Rightarrow> False)"

text \<open>Clear the MBSSID mask, keeping every other bit of the register.\<close>

definition single_bssid :: "kernel \<Rightarrow> unit io" where
  "single_bssid k = do {
     (ret, rmacdr) \<leftarrow> mt7603_usb_read_reg k RMAC_RMACDR 0;
     if ret = 0 then do {
       mt7603_usb_write_reg k RMAC_RMACDR (rmacdr AND NOT (push_bit 24 0x3));
       State_Monad.return ()
     }
     else State_Monad.return ()
   }"

text \<open>\<open>dev->ap_vif = vif\<close> and the registers of an AP interface.\<close>

definition bss_program_ap :: "kernel \<Rightarrow> mt7603u_dev \<Rightarrow> vif option \<Rightarrow> mt7603u_dev option io" where
  "bss_program_ap k dev vif =
     (case vif of
        Some v \<Rightarrow>
          if vif_type v = IFTYPE_AP \<and> \<not> is_zero_ether_addr (vif_addr v) then
            and_then (exec_built k (mt7603_rust_build_own_mac_sequence (Some (mac_bytes (vif_addr v)))
              (Some (ops_scratch k 32)) 32 (Some 0))) (\<lambda>_. do {
              write_bssid k (vif_addr v);
              single_bssid k;
              State_Monad.return (Some (dev\<lparr> ap_vif := Some v \<rparr>))
            })
          else State_Monad.return (Some dev)
      | None \<Rightarrow> State_Monad.return (Some dev))"

definition bss_beacon ::
  "kernel \<Rightarrow> mt7603u_dev \<Rightarrow> bss_conf option \<Rightarrow> bool \<Rightarrow> mt7603u_dev option io" where
  "bss_beacon k dev info enabled_changed =
     (if (case info of Some i \<Rightarrow> enable_beacon i | None \<Rightarrow> False) then
        let bi = conf_beacon_int (the info);
            dev = dev\<lparr> beacon_int := (if bi \<noteq> 0 then bi else 100), beacon_enabled := True \<rparr>
        in and_then (exec_built k (mt7603_rust_build_ap_bss_sync_sequence (beacon_int dev) True
             (Some (ops_scratch k 32)) 32 (Some 0))) (\<lambda>_.
           State_Monad.return (Some (schedule_beacon 0 dev)))
      else if enabled_changed then
        let dev = dev\<lparr> beacon_enabled := False, beacon_work := None \<rparr>
        in and_then (exec_built k (mt7603_rust_build_ap_bss_sync_sequence 0 False
             (Some (ops_scratch k 32)) 32 (Some 0))) (\<lambda>_. State_Monad.return (Some dev))
      else State_Monad.return (Some dev))"

text \<open>
  The channel of the BSS: from the scan cache (an entry may lack a channel), else from the
  configuration, else from the interface.
\<close>

definition bss_tune ::
  "kernel \<Rightarrow> profile \<Rightarrow> mt7603u_dev \<Rightarrow> u8 option option \<Rightarrow> u8 option \<Rightarrow> u8 option \<Rightarrow> mt7603u_dev option io" where
  "bss_tune k prof dev cached conf_ch vif_ch =
     (case cached of
        Some (Some ch) \<Rightarrow> tune k prof dev ch
      | Some None \<Rightarrow> State_Monad.return (Some dev)
      | None \<Rightarrow>
          (case conf_ch of
             Some ch \<Rightarrow> tune k prof dev ch
           | None \<Rightarrow> (case vif_ch of Some ch \<Rightarrow> tune k prof dev ch | None \<Rightarrow> State_Monad.return (Some dev))))"

text \<open>The WTBL entry of the peer, and the cleared block-ack word behind it.\<close>

definition program_peer :: "kernel \<Rightarrow> mac6 \<Rightarrow> bool option io" where
  "program_peer k m =
     and_then (exec_built k (mt7603_rust_build_wtbl_sta_sequence (Some (mac_bytes m))
       (Some (ops_scratch k 32)) 32 (Some 0))) (\<lambda>done.
     if done then do { mt7603_usb_write_reg k 0x4007C 0; State_Monad.return (Some True) }
     else State_Monad.return (Some False))"

definition clear_peer :: "kernel \<Rightarrow> unit io" where
  "clear_peer k = do {
     mt7603_usb_write_reg k 0x28020 0;
     mt7603_usb_write_reg k 0x28024 0;
     mt7603_usb_write_reg k 0x28028 0;
     State_Monad.return ()
   }"

definition clear_bssid :: "kernel \<Rightarrow> unit io" where
  "clear_bssid k = do {
     mt7603_usb_write_reg k RMAC_CB0R0 0;
     mt7603_usb_write_reg k RMAC_CB0R1 0;
     State_Monad.return ()
   }"

definition bss_join ::
  "kernel \<Rightarrow> profile \<Rightarrow> mt7603u_dev \<Rightarrow> vif option \<Rightarrow> bss_conf option \<Rightarrow> u8 option option \<Rightarrow> mt7603u_dev option io" where
  "bss_join k prof dev vif info cached =
     (case Option.bind info bssid of
        Some m \<Rightarrow>
          if is_zero_ether_addr m then
            (if \<not> is_ap vif then do { clear_bssid k; clear_peer k; State_Monad.return (Some dev) }
             else State_Monad.return (Some dev))
          else
            and_then (bss_tune k prof dev cached (Option.bind info bss_chan) (Option.bind vif vif_bss_channel))
              (\<lambda>dev. do {
                r \<leftarrow> mt7603_usb_write_reg k RMAC_CB0R0 (addr_lo m);
                (if r = 0 then do { mt7603_usb_write_reg k RMAC_CB0R1 (addr_hi m); State_Monad.return () }
                 else State_Monad.return ());
                single_bssid k;
                if \<not> is_ap vif then and_then (program_peer k m) (\<lambda>_. State_Monad.return (Some dev))
                else State_Monad.return (Some dev)
              })
      | None \<Rightarrow>
          if \<not> is_ap vif then do { clear_bssid k; clear_peer k; State_Monad.return (Some dev) }
          else State_Monad.return (Some dev))"

definition mt7603_mac80211_bss_info_changed ::
  "kernel \<Rightarrow> profile \<Rightarrow> mt7603u_dev \<Rightarrow> vif option \<Rightarrow> bss_conf option \<Rightarrow> bss_changed \<Rightarrow> u8 option option
   \<Rightarrow> mt7603u_dev option io" where
  "mt7603_mac80211_bss_info_changed k prof dev vif info changed cached =
     and_then (case Option.bind info oper_chan of
         Some ch \<Rightarrow> tune k prof dev ch
       | None \<Rightarrow> State_Monad.return (Some dev)) (\<lambda>dev.
     and_then (if changed_beacon changed \<or> changed_beacon_enabled changed \<or> changed_beacon_int changed
       then and_then (bss_program_ap k dev vif) (\<lambda>dev. bss_beacon k dev info (changed_beacon_enabled changed))
       else State_Monad.return (Some dev)) (\<lambda>dev.
     if changed_bssid changed \<or> changed_assoc changed then bss_join k prof dev vif info cached
     else State_Monad.return (Some dev)))"

section \<open>Stations\<close>

definition mt7603_mac80211_sta_add ::
  "kernel \<Rightarrow> profile \<Rightarrow> mt7603u_dev \<Rightarrow> vif option \<Rightarrow> mac6 \<Rightarrow> u8 option option \<Rightarrow> mt7603u_dev option io" where
  "mt7603_mac80211_sta_add k prof dev vif sta cached =
     and_then (if \<not> is_ap vif \<and> \<not> is_zero_ether_addr sta
       then bss_tune k prof dev cached None (Option.bind vif vif_bss_channel)
       else State_Monad.return (Some dev)) (\<lambda>dev.
     if \<not> is_zero_ether_addr sta then do {
       (if \<not> is_ap vif then write_bssid k sta else State_Monad.return ());
       and_then (program_peer k sta) (\<lambda>_. State_Monad.return (Some dev))
     }
     else State_Monad.return (Some dev))"

definition mt7603_mac80211_sta_remove :: "kernel \<Rightarrow> vif option \<Rightarrow> unit io" where
  "mt7603_mac80211_sta_remove k vif = do {
     (if \<not> is_ap vif then clear_bssid k else State_Monad.return ());
     clear_peer k
   }"

end
