(* ===== verification/Reg_Device.thy ===== *)
theory Reg_Device
  imports Regops
begin

text \<open>
  A device that keeps what is written to it: allocations and control transfers succeed, and a read
  returns the last word written to the address. On such a device a C function that only accesses
  registers computes a result from the register contents and transforms them; \<open>acts\<close> states both
  functions and composes along \<open>do\<close> blocks.
\<close>

section \<open>Register contents\<close>

type_synonym reg_file = "u32 \<Rightarrow> u32"

primrec contents :: "reg_file \<Rightarrow> history \<Rightarrow> reg_file" where
  "contents s [] = s"
| "contents s (e # es) =
     contents (case e of Control_Out a v r \<Rightarrow> if r < 0 then s else s(a := v) | _ \<Rightarrow> s) es"

lemma contents_append: "contents s (xs @ ys) = contents (contents s xs) ys"
  by (induction xs arbitrary: s) auto

definition register_device :: "kernel \<Rightarrow> reg_file \<Rightarrow> bool" where
  "register_device k init \<longleftrightarrow> (\<forall>h n. kmalloc_ok k h n) \<and> (\<forall>h a v. 0 \<le> usb_control_out k h a v) \<and>
     (\<forall>h a. 0 \<le> fst (usb_control_in k h a) \<and> snd (usb_control_in k h a) = contents init h a)"

section \<open>Functions on register contents\<close>

definition acts :: "reg_file \<Rightarrow> 'a io \<Rightarrow> (reg_file \<Rightarrow> 'a \<times> reg_file) \<Rightarrow> bool" where
  "acts init m f \<longleftrightarrow> (\<forall>h. \<exists>es. run_state m h = (fst (f (contents init h)), h @ es) \<and>
     contents init (h @ es) = snd (f (contents init h)))"

lemma acts_return: "acts init (State_Monad.return x) (\<lambda>s. (x, s))"
  by (simp add: acts_def)

lemma acts_bind:
  assumes "acts init m f" "\<And>x. acts init (g x) (f' x)"
  shows "acts init (State_Monad.bind m g) (\<lambda>s. f' (fst (f s)) (snd (f s)))"
  unfolding acts_def
proof
  fix h
  obtain es where es: "run_state m h = (fst (f (contents init h)), h @ es)"
    "contents init (h @ es) = snd (f (contents init h))" using assms(1) unfolding acts_def by blast
  obtain es' where "run_state (g (fst (f (contents init h)))) (h @ es) =
      (fst (f' (fst (f (contents init h))) (contents init (h @ es))), (h @ es) @ es')"
    "contents init ((h @ es) @ es') = snd (f' (fst (f (contents init h))) (contents init (h @ es)))"
    using assms(2) unfolding acts_def by blast
  with es show "\<exists>es. run_state (State_Monad.bind m g) h =
      (fst (f' (fst (f (contents init h))) (snd (f (contents init h)))), h @ es) \<and>
    contents init (h @ es) = snd (f' (fst (f (contents init h))) (snd (f (contents init h))))"
    by (intro exI [of _ "es @ es'"]) simp
qed

lemma acts_if:
  "(b \<Longrightarrow> acts init m f) \<Longrightarrow> (\<not> b \<Longrightarrow> acts init m' f') \<Longrightarrow> acts init (if b then m else m') (if b then f else f')"
  by simp

lemma acts_prod: "(\<And>x y. acts init (g x y) (f x y)) \<Longrightarrow> acts init (case p of (x, y) \<Rightarrow> g x y) (case p of (x, y) \<Rightarrow> f x y)"
  by (cases p) simp

lemma acts_run: "acts init m f \<Longrightarrow> \<exists>es. run_state m h = (fst (f (contents init h)), h @ es) \<and>
     contents init (h @ es) = snd (f (contents init h))"
  by (simp add: acts_def)

lemma acts_eq: "acts init m f \<Longrightarrow> f = f' \<Longrightarrow> acts init m f'"
  by simp

lemma acts_write:
  assumes "register_device k init"
  shows "acts init (mt7603_usb_write_reg k a v) (\<lambda>s. (0, s(physical_addr_map a := v)))"
  using assms unfolding acts_def register_device_def
  by (auto simp: mt7603_usb_write_reg_def Let_def call_defs contents_append not_less)

lemma acts_read:
  assumes "register_device k init"
  shows "acts init (mt7603_usb_read_reg k a old) (\<lambda>s. ((0, s (physical_addr_map a)), s))"
  unfolding acts_def
proof
  fix h
  let ?m = "physical_addr_map a" and ?h = "h @ [Alloc 4 True]"
  obtain c where "usb_control_in k ?h ?m = (c, contents init ?h ?m)" "0 \<le> c"
    using assms unfolding register_device_def by (metis prod.collapse)
  moreover have "kmalloc_ok k h 4" using assms by (simp add: register_device_def)
  ultimately show "\<exists>es. run_state (mt7603_usb_read_reg k a old) h =
      (fst ((0, contents init h ?m), contents init h), h @ es) \<and>
    contents init (h @ es) = snd ((0 :: int, contents init h ?m), contents init h)"
    by (simp add: mt7603_usb_read_reg_def Let_def call_defs contents_append)
qed

text \<open>The write loop applies its operations in order.\<close>

primrec after_ops :: "RegWriteOp list \<Rightarrow> reg_file \<Rightarrow> reg_file" where
  "after_ops [] s = s"
| "after_ops (op # ops) s = after_ops ops (s(physical_addr_map (addr op) := val op))"

lemma acts_execute:
  assumes "register_device k init"
  shows "acts init (mt7603_execute_reg_ops k ops) (\<lambda>s. (0, after_ops ops s))"
proof (induction ops)
  case (Cons op ops)
  have "acts init (if r < 0 then State_Monad.return r else mt7603_execute_reg_ops k ops)
      (if r < 0 then (\<lambda>s. (r, s)) else (\<lambda>s. (0, after_ops ops s)))" for r :: int
    by (intro acts_if acts_return Cons)
  from acts_bind [OF acts_write [OF assms] this] show ?case
    unfolding mt7603_execute_reg_ops.simps by (rule acts_eq) simp
qed (simp add: acts_return)

text \<open>A device of this kind, for evaluation.\<close>

definition reg_sim :: "reg_file \<Rightarrow> kernel" where
  "reg_sim init =
     \<lparr> kmalloc_ok = \<lambda>_ _. True, usb_control_in = \<lambda>h a. (4, contents init h a), usb_control_out = \<lambda>_ _ _. 4,
       usb_bulk_out = \<lambda>_ _. 0, usb_alloc_urb_ok = \<lambda>_. True, usb_submit = \<lambda>_ _. 0,
       completions = \<lambda>_ _. [], stale = \<lambda>_. 0 \<rparr>"

lemma reg_sim_device: "register_device (reg_sim init) init"
  by (simp add: register_device_def reg_sim_def)

end
