(* ===== verification/Keys.thy ===== *)
theory Keys
  imports Mac80211 Reg_Device
begin

text \<open>
  src/src/c/mac80211.c: hardware keys and block-ack sessions. Both callbacks change single
  fields of device tables with a read and a write back.
\<close>

section \<open>The callbacks\<close>

abbreviation EOPNOTSUPP :: int where "EOPNOTSUPP \<equiv> - 95"

datatype set_key_cmd = SET_KEY | DISABLE_KEY

record key_conf =
  key_pairwise :: bool
  key_ccmp :: bool
  keyidx :: u8
  key_bytes :: "u8 list"

text \<open>Pairwise keys and keys of a station go to entry 1, group keys to entry 0.\<close>

definition key_wcid :: "key_conf \<Rightarrow> mac6 option \<Rightarrow> nat" where
  "key_wcid key sta =
     (if key_pairwise key then 1
      else if (case sta of Some m \<Rightarrow> \<not> is_zero_ether_addr m | None \<Rightarrow> False) then 1
      else 0)"

definition wtbl1_entry :: "nat \<Rightarrow> u32" where
  "wtbl1_entry wcid = WTBL1_BASE + of_nat wcid * WTBL1_ENTRY_SIZE"

definition wtbl2_entry :: "nat \<Rightarrow> u32" where
  "wtbl2_entry wcid = 0x40000 + of_nat wcid * 64"

definition wtbl3_entry :: "nat \<Rightarrow> u32" where
  "wtbl3_entry wcid = WTBL3_KEY_BASE + of_nat wcid * WTBL3_ENTRY_SIZE"

text \<open>Read a register, change it, write it back; nothing is written when the read fails.\<close>

definition modify_reg :: "kernel \<Rightarrow> u32 \<Rightarrow> (u32 \<Rightarrow> u32) \<Rightarrow> unit io" where
  "modify_reg k a f = do {
     (ret, dw) \<leftarrow> mt7603_usb_read_reg k a 0;
     if ret = 0 then do { mt7603_usb_write_reg k a (f dw); State_Monad.return () }
     else State_Monad.return ()
   }"

definition forget_dw0 :: "u32 \<Rightarrow> u32" where
  "forget_dw0 dw = dw AND NOT (push_bit 26 1 OR push_bit 23 0x3)"

definition forget_dw2 :: "u32 \<Rightarrow> u32" where
  "forget_dw2 dw = dw AND NOT 0x78"

definition keyed_dw0 :: "nat \<Rightarrow> bool \<Rightarrow> u8 \<Rightarrow> u32 \<Rightarrow> u32" where
  "keyed_dw0 wcid ap kid dw =
     (let dw = dw AND NOT (push_bit 23 0x3);
          dw = dw OR (push_bit 28 1 OR push_bit 22 1 OR push_bit 25 1 OR push_bit 23 (ucast (kid AND 0x3)))
      in if wcid \<noteq> 0 \<or> \<not> ap then dw OR push_bit 26 1 else dw AND NOT (push_bit 26 1))"

definition keyed_dw2 :: "u32 \<Rightarrow> u32" where
  "keyed_dw2 dw = (dw AND NOT 0x78) OR push_bit 3 4 OR push_bit 30 1"

definition key_word :: "u8 list \<Rightarrow> nat \<Rightarrow> u32" where
  "key_word key i =
     ucast (key ! (i * 4)) OR push_bit 8 (ucast (key ! (i * 4 + 1))) OR
     push_bit 16 (ucast (key ! (i * 4 + 2))) OR push_bit 24 (ucast (key ! (i * 4 + 3)))"

primrec write_key :: "kernel \<Rightarrow> u32 \<Rightarrow> u8 list \<Rightarrow> nat list \<Rightarrow> unit io" where
  "write_key k key_base key [] = State_Monad.return ()"
| "write_key k key_base key (i # is) = do {
     mt7603_usb_write_reg k (key_base + of_nat (i * 4)) (key_word key i);
     write_key k key_base key is
   }"

definition install_key :: "kernel \<Rightarrow> nat \<Rightarrow> bool \<Rightarrow> key_conf \<Rightarrow> unit io" where
  "install_key k wcid ap key = do {
     write_key k (wtbl3_entry wcid) (key_bytes key) [0..<4];
     mt7603_usb_write_reg k (wtbl2_entry wcid) 1;
     mt7603_usb_write_reg k (wtbl2_entry wcid + 4) 0;
     modify_reg k (wtbl1_entry wcid) (keyed_dw0 wcid ap (keyidx key));
     modify_reg k (wtbl1_entry wcid + 8) keyed_dw2;
     mt7603_usb_write_reg k WTBL1OR 0x80000000;
     mt7603_usb_write_reg k WTBL1OR 0;
     State_Monad.return ()
   }"

text \<open>The code, and \<open>hw_key_idx\<close> where it is set.\<close>

definition mt7603_mac80211_set_key ::
  "kernel \<Rightarrow> set_key_cmd \<Rightarrow> vif option \<Rightarrow> mac6 option \<Rightarrow> key_conf \<Rightarrow> (int \<times> nat option) io" where
  "mt7603_mac80211_set_key k cmd vif sta key =
     (let wcid = key_wcid key sta
      in if cmd \<noteq> SET_KEY then do {
           modify_reg k (wtbl1_entry wcid) forget_dw0;
           modify_reg k (wtbl1_entry wcid + 8) forget_dw2;
           State_Monad.return (0, None)
         }
         else if \<not> key_ccmp key then State_Monad.return (EOPNOTSUPP, None)
         else do {
           install_key k wcid (is_ap vif) key;
           State_Monad.return (0, Some wcid)
         })"

datatype ampdu_action =
    AMPDU_RX_START | AMPDU_RX_STOP | AMPDU_TX_START | AMPDU_TX_STOP_CONT | AMPDU_TX_STOP_FLUSH
  | AMPDU_TX_STOP_FLUSH_CONT | AMPDU_TX_OPERATIONAL

abbreviation AMPDU_TX_START_IMMEDIATE :: int where "AMPDU_TX_START_IMMEDIATE \<equiv> 1"

definition ampdu_wcid :: "mac6 option \<Rightarrow> u8" where
  "ampdu_wcid sta = (if (case sta of Some m \<Rightarrow> \<not> is_zero_ether_addr m | None \<Rightarrow> False) then 1 else 0)"

text \<open>
  The code, and whether \<open>ieee80211_stop_tx_ba_cb_irqsafe\<close> is called. \<open>tid\<close> and \<open>buf_size\<close> are
  16-bit fields that the call narrows to bytes. A failed read leaves \<open>dw15\<close> at 0.
\<close>

definition mt7603_mac80211_ampdu_action ::
  "kernel \<Rightarrow> bool \<Rightarrow> ampdu_action \<Rightarrow> mac6 option \<Rightarrow> u16 \<Rightarrow> u16 \<Rightarrow> (int \<times> bool) option io" where
  "mt7603_mac80211_ampdu_action k has_vif action sta tid buf_size = do {
     let wcid = ampdu_wcid sta;
     (_, dw15) \<leftarrow> mt7603_usb_read_reg k (0x40000 + ucast wcid * 64 + 15 * 4) 0;
     (case action of
        AMPDU_RX_START \<Rightarrow>
          (case sta of
             Some m \<Rightarrow>
               if \<not> is_zero_ether_addr m then do {
                 mt7603_usb_write_reg k 0x21868 (addr_lo m);
                 mt7603_usb_write_reg k 0x2186C
                   (addr_top m OR push_bit 16 (ucast tid) OR push_bit 22 1);
                 State_Monad.return (Some (0, False))
               }
               else State_Monad.return (Some (0, False))
           | None \<Rightarrow> State_Monad.return (Some (0, False)))
      | AMPDU_TX_START \<Rightarrow> State_Monad.return (Some (AMPDU_TX_START_IMMEDIATE, False))
      | AMPDU_TX_OPERATIONAL \<Rightarrow>
          and_then (exec_built k (mt7603_rust_build_ba_session_sequence wcid (ucast tid)
            (ucast (if buf_size \<noteq> 0 then buf_size else 64)) True dw15 (Some (ops_scratch k 4)) 4 (Some 0)))
          (\<lambda>_. State_Monad.return (Some (0, False)))
      | AMPDU_RX_STOP \<Rightarrow> State_Monad.return (Some (0, False))
      | _ \<Rightarrow>
          and_then (exec_built k (mt7603_rust_build_ba_session_sequence wcid (ucast tid) 0 False dw15
            (Some (ops_scratch k 4)) 4 (Some 0)))
          (\<lambda>_. State_Monad.return (Some (0, has_vif \<and> sta \<noteq> None))))
   }"

section \<open>What the callbacks do to the registers\<close>

text \<open>The bus addresses of the two entries, in the three tables, and of the flush register.\<close>

lemma key_addresses [simp]:
  "physical_addr_map (wtbl3_entry 0) = 0xa5002000" "physical_addr_map (wtbl3_entry 0 + 4) = 0xa5002004"
  "physical_addr_map (wtbl3_entry 0 + 8) = 0xa5002008" "physical_addr_map (wtbl3_entry 0 + 12) = 0xa500200c"
  "physical_addr_map (wtbl3_entry (Suc 0)) = 0xa5002040" "physical_addr_map (wtbl3_entry (Suc 0) + 4) = 0xa5002044"
  "physical_addr_map (wtbl3_entry (Suc 0) + 8) = 0xa5002048" "physical_addr_map (wtbl3_entry (Suc 0) + 12) = 0xa500204c"
  "physical_addr_map (wtbl2_entry 0) = 0xa5000000" "physical_addr_map (wtbl2_entry 0 + 4) = 0xa5000004"
  "physical_addr_map (wtbl2_entry (Suc 0)) = 0xa5000040" "physical_addr_map (wtbl2_entry (Suc 0) + 4) = 0xa5000044"
  "physical_addr_map (wtbl1_entry 0) = 0x60320000" "physical_addr_map (wtbl1_entry 0 + 8) = 0x60320008"
  "physical_addr_map (wtbl1_entry (Suc 0)) = 0x60320020" "physical_addr_map (wtbl1_entry (Suc 0) + 8) = 0x60320028"
  "physical_addr_map WTBL1OR = 0x60322300"
  unfolding wtbl1_entry_def wtbl2_entry_def wtbl3_entry_def by code_simp+

lemma acts_modify:
  assumes "register_device k init"
  shows "acts init (modify_reg k a f) (\<lambda>s. ((), s(physical_addr_map a := f (s (physical_addr_map a)))))"
proof -
  have w: "acts init (do { mt7603_usb_write_reg k a (f dw); State_Monad.return () }) (\<lambda>s. ((), s(physical_addr_map a := f dw)))" for dw
    using acts_bind [OF acts_write [OF assms] acts_return, of a "f dw" "\<lambda>_. ()"] by simp
  have "acts init (case r of (ret, dw) \<Rightarrow> if ret = 0 then do { mt7603_usb_write_reg k a (f dw); State_Monad.return () }
      else State_Monad.return ()) (case r of (ret, dw) \<Rightarrow> if ret = 0 then (\<lambda>s. ((), s(physical_addr_map a := f dw)))
      else (\<lambda>s. ((), s)))" for r :: "int \<times> u32"
    by (intro acts_prod acts_if w acts_return)
  from acts_bind [OF acts_read [OF assms] this] show ?thesis
    unfolding modify_reg_def by (rule acts_eq) simp
qed

text \<open>A keyed entry: key material, packet number, control words.\<close>

definition with_key :: "nat \<Rightarrow> bool \<Rightarrow> key_conf \<Rightarrow> reg_file \<Rightarrow> reg_file" where
  "with_key w ap key s =
     s(physical_addr_map (wtbl3_entry w) := key_word (key_bytes key) 0,
       physical_addr_map (wtbl3_entry w + 4) := key_word (key_bytes key) 1,
       physical_addr_map (wtbl3_entry w + 8) := key_word (key_bytes key) 2,
       physical_addr_map (wtbl3_entry w + 12) := key_word (key_bytes key) 3,
       physical_addr_map (wtbl2_entry w) := 1,
       physical_addr_map (wtbl2_entry w + 4) := 0,
       physical_addr_map (wtbl1_entry w) := keyed_dw0 w ap (keyidx key) (s (physical_addr_map (wtbl1_entry w))),
       physical_addr_map (wtbl1_entry w + 8) := keyed_dw2 (s (physical_addr_map (wtbl1_entry w + 8))),
       physical_addr_map WTBL1OR := 0)"

lemma acts_install:
  assumes "register_device k init" "w = 0 \<or> w = 1"
  shows "acts init (install_key k w ap key) (\<lambda>s. ((), with_key w ap key s))"
proof -
  note rules = acts_bind acts_return acts_write [OF assms(1)] acts_modify [OF assms(1)]
  have four: "[0..<4] = [0, 1, 2, 3 :: nat]" by (simp add: upt_rec)
  show ?thesis
    unfolding install_key_def four write_key.simps
    apply (rule acts_eq)
     apply (rule rules)+
    apply (rule ext)
    using assms(2) by (elim disjE; simp add: with_key_def)
qed

lemma acts_set_key:
  assumes "register_device k init" "key_ccmp key"
  shows "acts init (mt7603_mac80211_set_key k SET_KEY vif sta key)
    (\<lambda>s. ((0, Some (key_wcid key sta)), with_key (key_wcid key sta) (is_ap vif) key s))"
proof -
  have "key_wcid key sta = 0 \<or> key_wcid key sta = 1" by (simp add: key_wcid_def)
  from acts_bind [OF acts_install [OF assms(1) this] acts_return, of _ key "\<lambda>_. (0, Some (key_wcid key sta))"]
  show ?thesis using assms(2) by (simp add: mt7603_mac80211_set_key_def Let_def)
qed

text \<open>The key material of an entry, as bytes in table order.\<close>

definition stored_key :: "nat \<Rightarrow> reg_file \<Rightarrow> u8 list" where
  "stored_key w s = concat (map (\<lambda>a. u32_to_le_bytes (s (physical_addr_map a)))
     [wtbl3_entry w, wtbl3_entry w + 4, wtbl3_entry w + 8, wtbl3_entry w + 12])"

lemma key_word_bytes: "key_word key i = u32_from_le_bytes (key ! (i * 4)) (key ! (i * 4 + 1)) (key ! (i * 4 + 2)) (key ! (i * 4 + 3))"
  by (simp add: key_word_def u32_from_le_bytes_def ac_simps)

lemma stored_with_key:
  assumes "w = 0 \<or> w = 1" "length (key_bytes key) = 16"
  shows "stored_key w (with_key w ap key s) = key_bytes key"
proof -
  have "concat (map (\<lambda>i. u32_to_le_bytes (key_word (key_bytes key) i)) [0, 1, 2, 3]) = map ((!) (key_bytes key)) [0..<16]"
    by (simp add: key_word_bytes bytes_simps upt_conv_Cons) (simp add: numeral_eq_Suc)
  also have "\<dots> = key_bytes key" using assms(2) map_nth by metis
  finally show ?thesis using assms(1) by (elim disjE; simp add: stored_key_def with_key_def)
qed

text \<open>The registers an entry owns, and the one both share.\<close>

definition entry_regs :: "nat \<Rightarrow> u32 set" where
  "entry_regs w = physical_addr_map ` {wtbl3_entry w, wtbl3_entry w + 4, wtbl3_entry w + 8, wtbl3_entry w + 12,
     wtbl2_entry w, wtbl2_entry w + 4, wtbl1_entry w, wtbl1_entry w + 8}"

lemma with_key_frame: "a \<notin> entry_regs w \<Longrightarrow> a \<noteq> physical_addr_map WTBL1OR \<Longrightarrow> with_key w ap key s a = s a"
  by (simp add: with_key_def entry_regs_def)

lemma entries_disjoint: "entry_regs 0 \<inter> entry_regs (Suc 0) = {}" "physical_addr_map WTBL1OR \<notin> entry_regs 0 \<union> entry_regs (Suc 0)"
  by (simp_all add: entry_regs_def)

lemma three_bits: "bit (3 :: u32) n \<longleftrightarrow> n < 2" "bit (3 :: u8) n \<longleftrightarrow> n < 2"
  using bit_mask_iff [where 'a = u32, of 2 n] bit_mask_iff [where 'a = u8, of 2 n]
  by (auto simp: mask_numeral)

lemma single_bit: "bit (push_bit m (1 :: u32)) n \<longleftrightarrow> n = m \<and> n < 32"
  by (simp only: bit_push_bit_iff bit_1_iff) auto

lemma kid_bits:
  "bit (push_bit 23 (3 :: u32)) n \<longleftrightarrow> n = 23 \<or> n = 24"
  "bit (push_bit 23 (ucast (kid AND 3 :: u8) :: u32)) n \<longleftrightarrow> (n = 23 \<or> n = 24) \<and> bit kid (n - 23)"
proof -
  have f: "23 \<le> n \<and> n - 23 < 2 \<longleftrightarrow> n = 23 \<or> n = 24" by auto
  show "bit (push_bit 23 (3 :: u32)) n \<longleftrightarrow> n = 23 \<or> n = 24"
    using f by (simp only: bit_push_bit_iff three_bits) auto
  show "bit (push_bit 23 (ucast (kid AND 3 :: u8) :: u32)) n \<longleftrightarrow> (n = 23 \<or> n = 24) \<and> bit kid (n - 23)"
    using f by (simp only: bit_push_bit_iff bit_ucast_iff bit_and_iff three_bits) auto
qed

lemma keyed_dw0_bits:
  "bit (keyed_dw0 w ap kid dw) n \<longleftrightarrow> n < 32 \<and>
     (if n = 28 \<or> n = 25 \<or> n = 22 then True else if n = 26 then w \<noteq> 0 \<or> \<not> ap
      else if n = 23 \<or> n = 24 then bit kid (n - 23) else bit dw n)"
  using bit_imp_le_length [of dw n]
  by (cases "w \<noteq> 0 \<or> \<not> ap"; simp only: keyed_dw0_def Let_def if_True if_False simp_thms
      bit_or_iff bit_and_iff bit_not_iff single_bit kid_bits) auto

lemma keyed_dw2_bits:
  "bit (keyed_dw2 dw) n \<longleftrightarrow> n < 32 \<and> (if n = 30 then True else if 3 \<le> n \<and> n \<le> 6 then n = 5 else bit dw n)"
proof -
  have m: "(0x78 :: u32) = push_bit 3 (mask 4)" by (simp add: mask_numeral push_bit_eq_mult)
  have f: "push_bit 3 4 = (push_bit 5 1 :: u32)" by simp
  show ?thesis
    unfolding keyed_dw2_def m f
    by (simp only: bit_simps bit_1_iff) auto
qed

text \<open>The fields of a keyed entry.\<close>

lemma key_fields:
  "take_bit 2 (drop_bit 23 (keyed_dw0 w ap kid dw)) = ucast (take_bit 2 kid)"
  "take_bit 4 (drop_bit 3 (keyed_dw2 dw)) = 4"
proof -
  show "take_bit 2 (drop_bit 23 (keyed_dw0 w ap kid dw)) = ucast (take_bit 2 kid)"
    by (rule bit_word_eqI) (auto simp: bit_simps keyed_dw0_bits less_Suc_eq numeral_eq_Suc)
  have "bit (4 :: u32) n \<longleftrightarrow> n = 2" if "n < 32" for n
    using single_bit [of 2 n] that by simp
  then show "take_bit 4 (drop_bit 3 (keyed_dw2 dw)) = 4"
    by (intro bit_word_eqI) (auto simp: bit_take_bit_iff bit_drop_bit_eq keyed_dw2_bits)
qed

section \<open>Properties\<close>

text \<open>C7: on a device that keeps what is written to it, installing a CCMP key puts exactly its 16
  bytes into the key table of the chosen entry (1 for pairwise and station keys, else 0), sets the packet
  number to 1, sets the key index and the CCMP cipher in the control words, marks the entry valid for
  received frames unless it is the group key of an access point, and changes no register outside the entry
  but the flush register, which ends at 0.\<close>

theorem key_installed:
  assumes "register_device k init" "key_ccmp key" "length (key_bytes key) = 16"
  shows "\<exists>es. run_state (mt7603_mac80211_set_key k SET_KEY vif sta key) h = ((0, Some (key_wcid key sta)), h @ es) \<and>
    (let w = key_wcid key sta; s = contents init h; s' = contents init (h @ es) in
       stored_key w s' = key_bytes key \<and>
       s' (physical_addr_map (wtbl2_entry w)) = 1 \<and> s' (physical_addr_map (wtbl2_entry w + 4)) = 0 \<and>
       take_bit 2 (drop_bit 23 (s' (physical_addr_map (wtbl1_entry w)))) = ucast (take_bit 2 (keyidx key)) \<and>
       bit (s' (physical_addr_map (wtbl1_entry w))) 28 \<and>
       bit (s' (physical_addr_map (wtbl1_entry w))) 26 = (w \<noteq> 0 \<or> \<not> is_ap vif) \<and>
       take_bit 4 (drop_bit 3 (s' (physical_addr_map (wtbl1_entry w + 8)))) = 4 \<and>
       (\<forall>a. a \<notin> entry_regs w \<union> {physical_addr_map WTBL1OR} \<longrightarrow> s' a = s a) \<and>
       s' (physical_addr_map WTBL1OR) = 0)"
proof -
  let ?w = "key_wcid key sta"
  have w: "?w = 0 \<or> ?w = 1" by (simp add: key_wcid_def)
  obtain es where es: "run_state (mt7603_mac80211_set_key k SET_KEY vif sta key) h = ((0, Some ?w), h @ es)"
    "contents init (h @ es) = with_key ?w (is_ap vif) key (contents init h)"
    using acts_run [OF acts_set_key [OF assms(1,2)], of vif sta h] by auto
  have at: "with_key ?w ap key s (physical_addr_map (wtbl1_entry ?w)) =
      keyed_dw0 ?w ap (keyidx key) (s (physical_addr_map (wtbl1_entry ?w)))"
    "with_key ?w ap key s (physical_addr_map (wtbl1_entry ?w + 8)) = keyed_dw2 (s (physical_addr_map (wtbl1_entry ?w + 8)))"
    "with_key ?w ap key s (physical_addr_map (wtbl2_entry ?w)) = 1"
    "with_key ?w ap key s (physical_addr_map (wtbl2_entry ?w + 4)) = 0"
    "with_key ?w ap key s (physical_addr_map WTBL1OR) = 0" for ap s
    using w by (elim disjE; simp add: with_key_def)+
  show ?thesis
    by (rule exI [of _ es])
      (simp add: es at Let_def stored_with_key [OF w assms(3)] key_fields keyed_dw0_bits with_key_frame del: key_addresses)
qed

definition sample_key :: key_conf where
  "sample_key = \<lparr> key_pairwise = True, key_ccmp = True, keyidx = 1, key_bytes = map word_of_nat [0..<16] \<rparr>"

theorem key_installed_witness:
  "\<exists>es. run_state (mt7603_mac80211_set_key (reg_sim (\<lambda>_. 0)) SET_KEY None None sample_key) [] = ((0, Some 1), es) \<and>
     stored_key 1 (contents (\<lambda>_. 0) es) = map word_of_nat [0..<16]"
  using key_installed [OF reg_sim_device, of sample_key "\<lambda>_. 0" None None "[]"]
  by (auto simp: sample_key_def key_wcid_def Let_def simp del: upt_conv_Cons)

text \<open>The pairwise and the group key do not disturb each other: after both are installed, in
  either order, each entry holds its own key, and its control words are those of its own installation.\<close>

theorem keys_coexist:
  assumes "register_device k init" "key_ccmp key" "length (key_bytes key) = 16" "key_ccmp key'"
    "length (key_bytes key') = 16" "key_wcid key sta \<noteq> key_wcid key' sta'"
    "run_state (mt7603_mac80211_set_key k SET_KEY vif sta key) h = (r, h1)"
    "run_state (mt7603_mac80211_set_key k SET_KEY vif' sta' key') h1 = (r', h2)"
  shows "stored_key (key_wcid key sta) (contents init h2) = key_bytes key \<and>
    stored_key (key_wcid key' sta') (contents init h2) = key_bytes key' \<and>
    (\<forall>a \<in> entry_regs (key_wcid key sta). contents init h2 a = contents init h1 a)"
proof -
  let ?w = "key_wcid key sta" and ?w' = "key_wcid key' sta'"
  have w: "?w = 0 \<and> ?w' = 1 \<or> ?w = 1 \<and> ?w' = 0" using assms(6) by (auto simp: key_wcid_def split: if_splits option.splits)
  have h1: "contents init h1 = with_key ?w (is_ap vif) key (contents init h)"
    using acts_run [OF acts_set_key [OF assms(1,2)], of vif sta h] assms(7) by auto
  have h2: "contents init h2 = with_key ?w' (is_ap vif') key' (contents init h1)"
    using acts_run [OF acts_set_key [OF assms(1,4)], of vif' sta' h1] assms(8) by auto
  have same: "\<forall>a \<in> entry_regs ?w. contents init h2 a = contents init h1 a"
    unfolding h2 using w entries_disjoint by (auto intro!: with_key_frame)
  then have "stored_key ?w (contents init h2) = stored_key ?w (contents init h1)"
    by (simp add: stored_key_def entry_regs_def del: key_addresses)
  moreover have "stored_key ?w (contents init h1) = key_bytes key"
    unfolding h1 using w assms(3) by (intro stored_with_key) auto
  moreover have "stored_key ?w' (contents init h2) = key_bytes key'"
    unfolding h2 using w assms(5) by (intro stored_with_key) auto
  ultimately show ?thesis using same by simp
qed

theorem keys_coexist_witness:
  "\<exists>h1 h2 r r'. run_state (mt7603_mac80211_set_key (reg_sim (\<lambda>_. 0)) SET_KEY None None sample_key) [] = (r, h1) \<and>
     run_state (mt7603_mac80211_set_key (reg_sim (\<lambda>_. 0)) SET_KEY None None
       (sample_key\<lparr> key_pairwise := False, key_bytes := replicate 16 7 \<rparr>)) h1 = (r', h2) \<and>
     stored_key 1 (contents (\<lambda>_. 0) h2) = map word_of_nat [0..<16] \<and> stored_key 0 (contents (\<lambda>_. 0) h2) = replicate 16 7"
proof -
  obtain r h1 where 1: "run_state (mt7603_mac80211_set_key (reg_sim (\<lambda>_. 0)) SET_KEY None None sample_key) [] = (r, h1)"
    by fastforce
  obtain r' h2 where 2: "run_state (mt7603_mac80211_set_key (reg_sim (\<lambda>_. 0)) SET_KEY None None
      (sample_key\<lparr> key_pairwise := False, key_bytes := replicate 16 7 \<rparr>)) h1 = (r', h2)" by fastforce
  have "stored_key (key_wcid sample_key None) (contents (\<lambda>_. 0) h2) = key_bytes sample_key \<and>
    stored_key (key_wcid (sample_key\<lparr> key_pairwise := False, key_bytes := replicate 16 7 \<rparr>) None) (contents (\<lambda>_. 0) h2) =
      replicate 16 7"
    using keys_coexist [OF reg_sim_device _ _ _ _ _ 1 2] by (simp add: sample_key_def key_wcid_def)
  with 1 2 show ?thesis by (auto simp: sample_key_def key_wcid_def simp del: upt_conv_Cons)
qed

text \<open>C32: the code of a key request depends on the request alone, not on what the bus does: removal
  gives 0, a cipher other than CCMP is declined with -EOPNOTSUPP before any access to the device, and every
  CCMP installation is reported as done. In particular, when no memory can be allocated not a single
  register is written and mac80211 is still told that the hardware holds the key.\<close>

theorem set_key_codes:
  "fst (run_state (mt7603_mac80211_set_key k cmd vif sta key) h) =
     (if cmd = DISABLE_KEY then (0, None) else if \<not> key_ccmp key then (EOPNOTSUPP, None)
      else (0, Some (key_wcid key sta))) \<and>
   (cmd = SET_KEY \<and> \<not> key_ccmp key \<longrightarrow> snd (run_state (mt7603_mac80211_set_key k cmd vif sta key) h) = h) \<and>
   ((\<forall>h n. \<not> kmalloc_ok k h n) \<longrightarrow>
      written_addrs (drop (length h) (snd (run_state (mt7603_mac80211_set_key k cmd vif sta key) h))) = {})"
proof (intro conjI impI)
  show "fst (run_state (mt7603_mac80211_set_key k cmd vif sta key) h) =
     (if cmd = DISABLE_KEY then (0, None) else if \<not> key_ccmp key then (EOPNOTSUPP, None)
      else (0, Some (key_wcid key sta)))"
    by (cases cmd) (simp_all add: mt7603_mac80211_set_key_def Let_def case_prod_beta)
  show "snd (run_state (mt7603_mac80211_set_key k cmd vif sta key) h) = h" if "cmd = SET_KEY \<and> \<not> key_ccmp key"
    using that by (simp add: mt7603_mac80211_set_key_def Let_def)
  assume dead: "\<forall>h n. \<not> kmalloc_ok k h n"
  have access: "footprint.keeps {} (mt7603_usb_read_reg k a old)" "footprint.keeps {} (mt7603_usb_write_reg k a v)" for a old v
    unfolding footprint.keeps_def
    by (rule specI, use dead in \<open>simp add: mt7603_usb_read_reg_def mt7603_usb_write_reg_def call_defs\<close>)+
  have modify: "footprint.keeps {} (modify_reg k a f)" for a f
    unfolding modify_reg_def by (intro footprint.keeps_rules access)
  have words: "footprint.keeps {} (write_key k base bytes is)" for base bytes "is"
  proof (induction "is")
    case (Cons i "is")
    then show ?case unfolding write_key.simps by (intro footprint.keeps_rules access)
  qed (unfold write_key.simps, rule footprint.keeps_return)
  have "footprint.keeps {} (mt7603_mac80211_set_key k cmd vif sta key)"
    unfolding mt7603_mac80211_set_key_def install_key_def Let_def
    by (intro footprint.keeps_rules access modify words)
  then obtain x es where "run_state (mt7603_mac80211_set_key k cmd vif sta key) h = (x, h @ es)" "written_addrs es \<subseteq> {}"
    unfolding footprint.keeps_def by (rule spec_run)
  then show "written_addrs (drop (length h) (snd (run_state (mt7603_mac80211_set_key k cmd vif sta key) h))) = {}"
    by simp
qed

theorem set_key_codes_witness:
  "fst (run_state (mt7603_mac80211_set_key dead_kernel SET_KEY None None sample_key) []) = (0, Some 1) \<and>
   written_addrs (snd (run_state (mt7603_mac80211_set_key dead_kernel SET_KEY None None sample_key) [])) = {}"
  using set_key_codes [of dead_kernel SET_KEY None None sample_key "[]"]
  by (simp add: dead_kernel_def sample_key_def key_wcid_def)

section \<open>Block-ack sessions\<close>

lemma acts_and_then:
  assumes "acts init m f" "\<And>x. acts init (g x) (f' x)"
  shows "acts init (and_then m g) (\<lambda>s. case fst (f s) of None \<Rightarrow> (None, snd (f s)) | Some x \<Rightarrow> f' x (snd (f s)))"
proof -
  have "acts init (case r of None \<Rightarrow> State_Monad.return None | Some x \<Rightarrow> g x)
      (case r of None \<Rightarrow> (\<lambda>s. (None, s)) | Some x \<Rightarrow> f' x)" for r
    by (cases r) (simp_all add: acts_return assms(2))
  from acts_bind [OF assms(1) this] show ?thesis
    unfolding and_then_def by (rule acts_eq) (auto split: option.split)
qed

lemma acts_built:
  assumes "register_device k init" "0 < length block" "length block \<le> n" "n \<le> length region"
  shows "acts init (exec_built k (Some (ffi_outcome True block region n c))) (\<lambda>s. (Some True, after_ops block s))"
  using assms(2-) acts_bind [OF acts_execute [OF assms(1)] acts_return, of block "\<lambda>_. Some True"]
  by (simp add: exec_built_def ffi_outcome_def)

abbreviation ba_reg :: "mac6 option \<Rightarrow> u32" where
  "ba_reg sta \<equiv> 0x4003C + 64 * ucast (ampdu_wcid sta)"

text \<open>The word a transmit session is stored as.\<close>

definition session_word :: "u16 \<Rightarrow> u16 \<Rightarrow> bool \<Rightarrow> u32 \<Rightarrow> u32" where
  "session_word tid buf_size on dw =
     ba_dw15 (ucast tid) (the (ba_range_index (if on then ucast (if buf_size \<noteq> 0 then buf_size else 64) else 0))) on dw"

definition session_request :: "ampdu_action \<Rightarrow> bool \<Rightarrow> bool" where
  "session_request action on \<longleftrightarrow> (if on then action = AMPDU_TX_OPERATIONAL
     else action \<in> {AMPDU_TX_STOP_CONT, AMPDU_TX_STOP_FLUSH, AMPDU_TX_STOP_FLUSH_CONT})"

lemma unat_tid: "unat tid < 8 \<Longrightarrow> unat (ucast (tid :: u16) :: u8) = unat tid"
  by (simp add: unsigned_ucast_eq take_bit_nat_eq_self)

lemma session_call:
  assumes "unat (tid :: u8) < 8" "length region = 4"
  shows "mt7603_rust_build_ba_session_sequence wcid tid sz en prev (Some region) 4 (Some 0) =
    Some (ffi_outcome True (ba_session_ops wcid tid sz en prev) region 4 0)"
  using assms by (simp add: mt7603_rust_build_ba_session_sequence_def ba_session.ffi_write_outcome)

lemma session_bits:
  assumes "unat tid < 8" "n < 32"
  shows "bit (session_word tid sz on dw) n =
    (if n = 24 + unat tid then on
     else if 3 * unat tid \<le> n \<and> n < 3 * unat tid + 3
     then on \<and> bit (the (ba_range_index (ucast (if sz \<noteq> 0 then sz else 64)))) (n - 3 * unat tid)
     else bit dw n)"
proof -
  have "the (ba_range_index b) < 8" for b
    using ba_range_index_best(1) ba_range_index_eq by (metis option.sel)
  then show ?thesis
    using assms by (auto simp: session_word_def ba_dw15_bits unat_tid)
qed

lemma ba_addresses:
  "0x40000 + ucast (ampdu_wcid sta) * 64 + 15 * 4 = ba_reg sta"
  "physical_addr_map (ba_reg sta) = (if ampdu_wcid sta = 0 then 0xa500003c else 0xa500007c)"
proof -
  have "physical_addr_map 0x4003C = 0xa500003c" "physical_addr_map 0x4007C = 0xa500007c" by code_simp+
  then show "physical_addr_map (ba_reg sta) = (if ampdu_wcid sta = 0 then 0xa500003c else 0xa500007c)"
    by (simp add: ampdu_wcid_def)
qed (simp add: ampdu_wcid_def)

lemma acts_session:
  assumes "register_device k init" "unat tid < 8" "session_request action on"
  shows "acts init (mt7603_mac80211_ampdu_action k hv action sta tid sz)
    (\<lambda>s. (Some (0, \<not> on \<and> hv \<and> sta \<noteq> None),
      s(physical_addr_map (ba_reg sta) := session_word tid sz on (s (physical_addr_map (ba_reg sta))))))"
proof -
  have call: "mt7603_rust_build_ba_session_sequence (ampdu_wcid sta) (ucast tid) b en prev (Some (ops_scratch k 4)) 4 (Some 0) =
    Some (ffi_outcome True (ba_session_ops (ampdu_wcid sta) (ucast tid) b en prev) (ops_scratch k 4) 4 0)" for b en prev
    using assms(2) by (intro session_call) (simp_all add: unat_tid ops_scratch_def)
  have "acts init (and_then (exec_built k (Some (ffi_outcome True (ba_session_ops (ampdu_wcid sta) (ucast tid) b en prev)
      (ops_scratch k 4) 4 0))) (\<lambda>_. State_Monad.return (Some y)))
      (\<lambda>s. (Some y, s(physical_addr_map (ba_reg sta) := ba_dw15 (ucast tid) (the (ba_range_index b)) en prev)))" for b en prev y
    by (rule acts_eq [OF acts_and_then [OF acts_built [OF assms(1)] acts_return]])
      (simp_all add: ba_session_ops_def ops_scratch_def)
  note step = this
  show ?thesis
    unfolding mt7603_mac80211_ampdu_action_def Let_def ba_addresses(1)
    apply (rule acts_eq [OF acts_bind [OF acts_read [OF assms(1)], where f' = "\<lambda>r s.
      (Some (0, \<not> on \<and> hv \<and> sta \<noteq> None), s(physical_addr_map (ba_reg sta) := session_word tid sz on (snd r)))"]])
    subgoal for r
      using assms(3) by (cases on; cases action; cases r; simp add: session_request_def call session_word_def step)
    by simp
qed

text \<open>C24: on a device that keeps what is written to it, making a transmit block-ack session
  operational or stopping one changes, of all registers, only word 15 of the station's WTBL2 entry, and of that
  word only the enable bit and the window field of its TID; the sessions of the other TIDs stay as they are.
  Stopping also reports back to mac80211.\<close>

theorem ampdu_session:
  assumes "register_device k init" "unat tid < 8" "session_request action on"
  shows "\<exists>es. run_state (mt7603_mac80211_ampdu_action k has_vif action sta tid sz) h =
      (Some (0, \<not> on \<and> has_vif \<and> sta \<noteq> None), h @ es) \<and>
    (\<forall>a. a \<noteq> physical_addr_map (ba_reg sta) \<longrightarrow> contents init (h @ es) a = contents init h a) \<and>
    (\<forall>n < 32. bit (contents init (h @ es) (physical_addr_map (ba_reg sta))) n =
      (if n = 24 + unat tid then on
       else if 3 * unat tid \<le> n \<and> n < 3 * unat tid + 3
       then on \<and> bit (the (ba_range_index (ucast (if sz \<noteq> 0 then sz else 64)))) (n - 3 * unat tid)
       else bit (contents init h (physical_addr_map (ba_reg sta))) n))"
  using acts_run [OF acts_session [OF assms], of has_vif sta sz h] session_bits [OF assms(2)] by auto

theorem ampdu_session_witness:
  "\<exists>es. run_state (mt7603_mac80211_ampdu_action (reg_sim (\<lambda>_. 0)) True AMPDU_TX_OPERATIONAL None 2 64) [] =
      (Some (0, False), [] @ es) \<and> bit (contents (\<lambda>_. 0) es (physical_addr_map 0x4003C)) 26"
  using ampdu_session [OF reg_sim_device, of 2 AMPDU_TX_OPERATIONAL True "\<lambda>_. 0" True None 64 "[]"]
  by (auto simp: session_request_def ampdu_wcid_def)

text \<open>C35: when the word cannot be read, the session word is computed from 0 and written all the same:
  the write that follows switches off the sessions of all other TIDs of the entry.\<close>

theorem ampdu_forgets_sessions:
  assumes "\<And>h n. kmalloc_ok k h n" "\<And>h a. fst (usb_control_in k h a) < 0" "unat tid < 8"
  shows "\<exists>es v c. run_state (mt7603_mac80211_ampdu_action k has_vif AMPDU_TX_OPERATIONAL sta tid sz) h =
      (Some (0, False), h @ es) \<and> Control_Out (physical_addr_map (ba_reg sta)) v c \<in> set es \<and>
    (\<forall>t < 8. bit v (24 + t) = (t = unat tid))"
proof -
  let ?ops = "ba_session_ops (ampdu_wcid sta) (ucast tid) (ucast (if sz \<noteq> 0 then sz else 64)) True 0"
  have call: "mt7603_rust_build_ba_session_sequence (ampdu_wcid sta) (ucast tid) (ucast (if sz \<noteq> 0 then sz else 64))
      True 0 (Some (ops_scratch k 4)) 4 (Some 0) = Some (ffi_outcome True ?ops (ops_scratch k 4) 4 0)"
    using assms(3) by (intro session_call) (simp_all add: unat_tid ops_scratch_def)
  have ops: "?ops = [op_write (ba_reg sta) (session_word tid sz True 0)]"
    by (simp add: ba_session_ops_def session_word_def)
  have read: "spec (mt7603_usb_read_reg k a 0) (\<lambda>r es. snd r = 0)" for a
    using assms(1,2) by (intro specI)
      (auto simp: mt7603_usb_read_reg_def Let_def call_defs not_le [symmetric] case_prod_beta)
  have bits: "\<forall>t < 8. bit (session_word tid sz True 0) (24 + t) = (t = unat tid)"
    using session_bits [OF assms(3)] assms(3) by auto
  let ?v = "session_word tid sz True 0"
  have exec: "spec (exec_built k (Some (ffi_outcome True ?ops (ops_scratch k 4) 4 0)))
      (\<lambda>r es. r = Some True \<and> (\<exists>c. Control_Out (physical_addr_map (ba_reg sta)) ?v c \<in> set es))"
    unfolding ops using assms(1)
    by (intro specI) (auto simp: exec_built_def ffi_outcome_def mt7603_usb_write_reg_def Let_def call_defs)
  have "spec (mt7603_mac80211_ampdu_action k has_vif AMPDU_TX_OPERATIONAL sta tid sz) (\<lambda>r es. r = Some (0, False) \<and>
      (\<exists>c. Control_Out (physical_addr_map (ba_reg sta)) ?v c \<in> set es))"
    unfolding mt7603_mac80211_ampdu_action_def Let_def ba_addresses(1) case_prod_beta and_then_def ampdu_action.case
    apply (rule spec_bind [OF read])
    apply (simp only: call)
    apply (rule spec_bind [OF exec])
    by (auto intro!: spec_return)
  then show ?thesis using bits by (elim spec_run [where h = h]) blast
qed

definition write_only :: kernel where
  "write_only = (reg_sim (\<lambda>_. 0))\<lparr> usb_control_in := \<lambda>_ _. (- 110, 0) \<rparr>"

theorem ampdu_forgets_sessions_witness:
  "\<exists>es v c. run_state (mt7603_mac80211_ampdu_action write_only True AMPDU_TX_OPERATIONAL None 2 64) [] = (Some (0, False), [] @ es) \<and>
     Control_Out (physical_addr_map (ba_reg None)) v c \<in> set es \<and> (\<forall>t < 8. bit v (24 + t) = (t = unat (2 :: u16)))"
  by (rule ampdu_forgets_sessions) (simp_all add: write_only_def reg_sim_def)

section \<open>Stations of an access point\<close>

lemma execute_footprint:
  "physical_addr_map ` addr ` set ops \<subseteq> A \<Longrightarrow> footprint.keeps A (mt7603_execute_reg_ops k ops)"
proof (induction ops)
  case (Cons op ops)
  then show ?case
    unfolding mt7603_execute_reg_ops.simps
    by (intro footprint.keeps_rules footprint.keeps_spec [OF write_reg_spec]) (auto dest: events_facts(2))
qed (unfold mt7603_execute_reg_ops.simps, rule footprint.keeps_return)

lemma wtbl1_addresses:
  "physical_addr_map 0x28000 = 0x60320000" "physical_addr_map 0x28004 = 0x60320004" "physical_addr_map 0x28008 = 0x60320008"
  "physical_addr_map 0x2800C = 0x6032000c" "physical_addr_map 0x28010 = 0x60320010" "physical_addr_map 0x28020 = 0x60320020"
  "physical_addr_map 0x28024 = 0x60320024" "physical_addr_map 0x28028 = 0x60320028" "physical_addr_map 0x2802C = 0x6032002c"
  "physical_addr_map 0x28030 = 0x60320030" "physical_addr_map 0x2A300 = 0x60322300"
  by code_simp+

lemma peer_addresses:
  "physical_addr_map ` addr ` set (wtbl_sta_ops m) = {0x60320000, 0x60320004, 0x60320008, 0x6032000c, 0x60320010,
     0x60320020, 0x60320024, 0x60320028, 0x6032002c, 0x60320030, 0x60322300}"
  "physical_addr_map 0x4007C = 0xa500007c" "physical_addr_map RMAC_CB0R0 = 0x60140004" "physical_addr_map RMAC_CB0R1 = 0x60140008"
  by (cases m, simp add: wtbl_sta_ops_def wtbl1_addresses, blast) code_simp+

text \<open>What the peer sequence leaves in the words with the address and the cipher.\<close>

lemma peer_words:
  "after_ops (wtbl_sta_ops m) s 0x60320008 = 0" "after_ops (wtbl_sta_ops m) s 0x60320028 = 0x58300000"
  "after_ops (wtbl_sta_ops m) s 0x60320024 = addr_lo m"
  "after_ops (wtbl_sta_ops m) s 0x60320020 = 0x30000000 OR addr_top m"
  by (cases m; simp add: wtbl_sta_ops_def wtbl1_addresses u32_from_le_bytes_def or.commute [of "push_bit 8 _"])+

lemma addr_top_small: "take_bit 16 (addr_top m) = addr_top m"
  by (cases m) (auto intro!: bit_word_eqI simp: bit_simps)

lemma peer_call:
  "mt7603_rust_build_wtbl_sta_sequence (Some (mac_bytes m)) (Some (ops_scratch k 32)) 32 (Some 0) =
     Some (ffi_outcome True (wtbl_sta_ops m) (ops_scratch k 32) 32 0)"
  by (simp add: mt7603_rust_build_wtbl_sta_sequence_def wtbl.ffi_write_outcome)

text \<open>The callbacks for an access point come down to one table update.\<close>

lemma ap_sta_add:
  "is_ap vif \<Longrightarrow> mt7603_mac80211_sta_add k prof dev vif sta cached =
     and_then (State_Monad.return (Some dev)) (\<lambda>dev. if \<not> is_zero_ether_addr sta
       then and_then (program_peer k sta) (\<lambda>_. State_Monad.return (Some dev)) else State_Monad.return (Some dev))"
  by (cases "is_zero_ether_addr sta") (simp_all add: mt7603_mac80211_sta_add_def)

lemma footprint_and_then:
  "footprint.keeps A m \<Longrightarrow> (\<And>x. footprint.keeps A (f x)) \<Longrightarrow> footprint.keeps A (and_then m f)"
  unfolding and_then_def by (intro footprint.keeps_rules) auto

lemma footprint_write: "physical_addr_map a \<in> A \<Longrightarrow> footprint.keeps A (mt7603_usb_write_reg k a v)"
  by (rule footprint.keeps_spec [OF write_reg_spec]) (auto dest: events_facts(2))

definition station_regs :: "u32 set" where
  "station_regs = {0x60320000, 0x60320004, 0x60320008, 0x6032000c, 0x60320010, 0x60320020, 0x60320024, 0x60320028,
     0x6032002c, 0x60320030, 0x60322300, 0xa500007c}"

lemma program_peer_footprint: "footprint.keeps station_regs (program_peer k m)"
proof -
  have "footprint.keeps station_regs (mt7603_execute_reg_ops k (wtbl_sta_ops m))"
    by (rule execute_footprint) (simp add: peer_addresses(1) station_regs_def)
  then have "footprint.keeps station_regs (exec_built k (Some (ffi_outcome True (wtbl_sta_ops m) (ops_scratch k 32) 32 0)))"
    by (simp add: exec_built_def ffi_outcome_def, intro footprint.keeps_bind footprint.keeps_return)
  then show ?thesis
    unfolding program_peer_def peer_call
    by (intro footprint_and_then footprint.keeps_rules footprint_write) (simp_all add: peer_addresses(2) station_regs_def)
qed

text \<open>Adding and removing stations of an access point never writes the BSSID registers of the
  receiver, on any kernel and for any arguments: only words of the WTBL, its flush register and the
  block-ack word of entry 1 are written.\<close>

theorem ap_stations_keep_bssid:
  assumes "is_ap vif"
  shows "\<exists>r es u es'. run_state (mt7603_mac80211_sta_add k prof dev vif sta cached) h = (r, h @ es) \<and>
    run_state (mt7603_mac80211_sta_remove k vif) h = (u, h @ es') \<and>
    written_addrs es \<union> written_addrs es' \<subseteq> station_regs \<and>
    physical_addr_map RMAC_CB0R0 \<notin> station_regs \<and> physical_addr_map RMAC_CB0R1 \<notin> station_regs"
proof -
  have add: "footprint.keeps station_regs (mt7603_mac80211_sta_add k prof dev vif sta cached)"
    unfolding ap_sta_add [OF assms]
    by (intro footprint_and_then footprint.keeps_rules program_peer_footprint)
  have remove: "footprint.keeps station_regs (mt7603_mac80211_sta_remove k vif)"
    using assms unfolding mt7603_mac80211_sta_remove_def clear_peer_def
    by (simp, intro footprint.keeps_rules footprint_write) (simp_all add: station_regs_def wtbl1_addresses)
  obtain r es where "run_state (mt7603_mac80211_sta_add k prof dev vif sta cached) h = (r, h @ es)" "written_addrs es \<subseteq> station_regs"
    using add unfolding footprint.keeps_def by (rule spec_run)
  moreover obtain u es' where "run_state (mt7603_mac80211_sta_remove k vif) h = (u, h @ es')" "written_addrs es' \<subseteq> station_regs"
    using remove unfolding footprint.keeps_def by (rule spec_run)
  ultimately show ?thesis by (auto simp: peer_addresses station_regs_def)
qed

definition ap_interface :: vif where
  "ap_interface = \<lparr> vif_ptr = 1, vif_type = IFTYPE_AP, vif_addr = Mac6 2 0 0 0 0 1, vif_bss_channel = None \<rparr>"

theorem ap_stations_keep_bssid_witness:
  "\<exists>r es. run_state (mt7603_mac80211_sta_add (reg_sim (\<lambda>_. 0)) Release sample_dev (Some ap_interface) (Mac6 2 0 0 0 0 9) None) [] = (r, [] @ es) \<and>
     physical_addr_map RMAC_CB0R0 \<notin> written_addrs es"
  using ap_stations_keep_bssid [of "Some ap_interface" "reg_sim (\<lambda>_. 0)" Release sample_dev "Mac6 2 0 0 0 0 9" None "[]"]
  by (auto simp: is_ap_def ap_interface_def)

lemma acts_program_peer:
  assumes "register_device k init"
  shows "acts init (program_peer k m) (\<lambda>s. (Some True, (after_ops (wtbl_sta_ops m) s)(0xa500007c := 0)))"
proof -
  have rest: "acts init (if b then do { mt7603_usb_write_reg k 0x4007C 0; State_Monad.return (Some True) } else State_Monad.return (Some False))
      (if b then (\<lambda>s. (Some True, s(0xa500007c := 0))) else (\<lambda>s. (Some False, s)))" for b
    using acts_bind [OF acts_write [OF assms, of "0x4007C" 0] acts_return, of "\<lambda>_. Some True"]
    by (simp add: peer_addresses(2) acts_return)
  show ?thesis
    unfolding program_peer_def peer_call
    by (rule acts_eq [OF acts_and_then [OF acts_built [OF assms] rest]]) simp_all
qed

text \<open>C33: adding a station to an access point rewrites entries 0 and 1 of the WTBL from scratch. A
  group key or the key of a station added before is no longer in effect afterwards (the cipher field of both
  entries is 0), and entry 1, the only one used for stations, holds the address of the new station alone.\<close>

theorem station_resets_keys:
  assumes "register_device k init" "is_ap vif" "\<not> is_zero_ether_addr sta"
  shows "\<exists>es. run_state (mt7603_mac80211_sta_add k prof dev vif sta cached) h = (Some dev, h @ es) \<and>
    (let s = contents init (h @ es) in
      take_bit 4 (drop_bit 3 (s (physical_addr_map (wtbl1_entry 0 + 8)))) = 0 \<and>
      take_bit 4 (drop_bit 3 (s (physical_addr_map (wtbl1_entry 1 + 8)))) = 0 \<and>
      s (physical_addr_map (wtbl1_entry 1 + 4)) = addr_lo sta \<and>
      take_bit 16 (s (physical_addr_map (wtbl1_entry 1))) = addr_top sta)"
proof -
  have "acts init (mt7603_mac80211_sta_add k prof dev vif sta cached)
      (\<lambda>s. (Some dev, (after_ops (wtbl_sta_ops sta) s)(0xa500007c := 0)))"
    unfolding ap_sta_add [OF assms(2)] if_P [OF assms(3)]
    by (rule acts_eq [OF acts_and_then [OF acts_return acts_and_then [OF acts_program_peer [OF assms(1)] acts_return]]]) simp
  from acts_run [OF this, of h] obtain es where
    "run_state (mt7603_mac80211_sta_add k prof dev vif sta cached) h = (Some dev, h @ es)"
    "contents init (h @ es) = (after_ops (wtbl_sta_ops sta) (contents init h))(0xa500007c := 0)" by auto
  moreover have "physical_addr_map (wtbl1_entry (Suc 0) + 4) = 0x60320024" unfolding wtbl1_entry_def by code_simp
  ultimately show ?thesis
    by (intro exI [of _ es]) (simp add: peer_words addr_top_small)
qed

theorem station_resets_keys_witness:
  "\<exists>h1 es. run_state (mt7603_mac80211_set_key (reg_sim (\<lambda>_. 0)) SET_KEY (Some ap_interface) None
       (sample_key\<lparr> key_pairwise := False \<rparr>)) [] = ((0, Some 0), h1) \<and>
     take_bit 4 (drop_bit 3 (contents (\<lambda>_. 0) h1 (physical_addr_map (wtbl1_entry 0 + 8)))) = 4 \<and>
     run_state (mt7603_mac80211_sta_add (reg_sim (\<lambda>_. 0)) Release sample_dev (Some ap_interface) (Mac6 2 0 0 0 0 9) None) h1 =
       (Some sample_dev, h1 @ es) \<and>
     take_bit 4 (drop_bit 3 (contents (\<lambda>_. 0) (h1 @ es) (physical_addr_map (wtbl1_entry 0 + 8)))) = 0"
proof -
  let ?key = "sample_key\<lparr> key_pairwise := False \<rparr>"
  have w: "key_ccmp ?key" "key_wcid ?key None = 0" by (simp_all add: sample_key_def key_wcid_def)
  obtain h1 where h1: "run_state (mt7603_mac80211_set_key (reg_sim (\<lambda>_. 0)) SET_KEY (Some ap_interface) None ?key) [] = ((0, Some 0), h1)"
    "contents (\<lambda>_. 0) h1 = with_key 0 (is_ap (Some ap_interface)) ?key (\<lambda>_. 0)"
    using acts_run [OF acts_set_key [OF reg_sim_device w(1)], of "\<lambda>_. 0" "Some ap_interface" None "[]"] w(2) by auto
  have "take_bit 4 (drop_bit 3 (contents (\<lambda>_. 0) h1 (physical_addr_map (wtbl1_entry 0 + 8)))) = 4"
    using key_fields(2) by (simp add: h1(2) with_key_def)
  moreover obtain es where
    "run_state (mt7603_mac80211_sta_add (reg_sim (\<lambda>_. 0)) Release sample_dev (Some ap_interface) (Mac6 2 0 0 0 0 9) None) h1 =
      (Some sample_dev, h1 @ es)"
    "take_bit 4 (drop_bit 3 (contents (\<lambda>_. 0) (h1 @ es) (physical_addr_map (wtbl1_entry 0 + 8)))) = 0"
    using station_resets_keys [OF reg_sim_device, of "Some ap_interface" "Mac6 2 0 0 0 0 9" "\<lambda>_. 0" Release sample_dev None h1]
    by (auto simp: Let_def is_ap_def ap_interface_def is_zero_ether_addr_def)
  ultimately show ?thesis using h1(1) by blast
qed

end
