(* ===== verification/Probe.thy ===== *)
theory Probe
  imports Mac80211
begin

text \<open>
  Bringing a device up and down: registration with mac80211 (src/src/c/mac80211.c) and the USB
  driver's probe and disconnect (src/src/c/usb.c). The answers of \<open>request_firmware\<close>,
  \<open>ieee80211_alloc_hw\<close> and \<open>ieee80211_register_hw\<close> are arguments.
\<close>

section \<open>Registration\<close>

text \<open>The private area of a new \<open>ieee80211_hw\<close> is zeroed.\<close>

definition zero_dev :: mt7603u_dev where
  "zero_dev = \<lparr> ap_vif = None, beacon_work = None, beacon_int = 0, beacon_enabled = False,
     mac_addr = Mac6 0 0 0 0 0 0, current_channel = 0, current_bw = 0, monitor_count = 0, filter_flags = 0,
     cmd_seq = 0, running = False, eeprom_valid = False, rssi_offset = 0, eeprom = replicate 1024 0,
     rx_urbs = replicate 4 (False, False), cmd_urb = False, cmd_buf = False, tx_anchor = [] \<rparr>"

definition dummy_e2p :: "u8 list" where
  "dummy_e2p = (replicate 512 0xff)[4 := 0x00, 5 := 0x0c, 6 := 0x43, 7 := 0x76, 8 := 0x03, 9 := 0x01]"

definition default_mac :: mac6 where
  "default_mac = Mac6 0x00 0x0c 0x43 0x76 0x03 0x01"

text \<open>\<open>e0\<close> is the uninitialised local variable the parser fills on success.\<close>

definition registered_dev :: "int \<Rightarrow> u8 list \<Rightarrow> EepromData \<Rightarrow> mt7603u_dev option" where
  "registered_dev efuse_ret img e0 =
     (let valid = (efuse_ret = 0)
      in case mt7603_rust_parse_eeprom (Some (if valid then take 512 img else dummy_e2p)) 512 (Some e0) of
           Some (ret, Some ee) \<Rightarrow>
             Some (zero_dev\<lparr> eeprom := img, eeprom_valid := valid,
               mac_addr := (if ret = 0 \<and> is_valid ee \<noteq> 0 then e_mac_addr ee else default_mac),
               rssi_offset := (if valid then rssi_offset_2g ee else 0) \<rparr>)
         | _ \<Rightarrow> None)"

definition mt7603_register_mac80211 ::
  "kernel \<Rightarrow> bool \<Rightarrow> int \<Rightarrow> EepromData \<Rightarrow> (int \<times> mt7603u_dev option) option io" where
  "mt7603_register_mac80211 k alloc_ok register_ret e0 =
     (if \<not> alloc_ok then State_Monad.return (Some (ENOMEM, None))
      else do {
        (ret, img) \<leftarrow> mt7603_efuse_read_all k (replicate 1024 0xff) 1024;
        (case registered_dev ret img e0 of
           None \<Rightarrow> State_Monad.return None
         | Some dev \<Rightarrow>
             State_Monad.return (Some (if register_ret < 0 then (register_ret, None) else (0, Some dev))))
      })"

section \<open>Probe and disconnect\<close>

text \<open>\<open>Inl\<close>: \<open>request_firmware\<close> failed with that code. The result is the code and the interface data.\<close>

definition mt7603u_probe ::
  "kernel \<Rightarrow> profile \<Rightarrow> int + u8 list \<Rightarrow> bool \<Rightarrow> int \<Rightarrow> EepromData \<Rightarrow> (int \<times> mt7603u_dev option) option io" where
  "mt7603u_probe k prof firmware alloc_ok register_ret e0 =
     (case firmware of
        Inl ret \<Rightarrow> State_Monad.return (Some (ret, None))
      | Inr fw \<Rightarrow>
          (case mt7603_rust_verify_firmware (Some fw) (length fw) of
             None \<Rightarrow> State_Monad.return None
           | Some ret \<Rightarrow>
               if ret < 0 then State_Monad.return (Some (ret, None))
               else and_then (mt7603_download_firmware k prof fw) (\<lambda>ret.
                 if ret < 0 then State_Monad.return (Some (ret, None))
                 else
                   (case mt7603_rust_get_mac_init_sequence (Some (ops_scratch k 128)) 128 (Some 0) of
                      Some (ret, Some ops, Some count) \<Rightarrow>
                        if ret < 0 then State_Monad.return (Some (ret, None))
                        else do {
                          mt7603_execute_reg_ops k (take count ops);
                          mt7603_register_mac80211 k alloc_ok register_ret e0
                        }
                    | _ \<Rightarrow> State_Monad.return None))))"

definition mt7603u_disconnect :: "ieee80211 \<Rightarrow> mt7603u_dev option \<Rightarrow> mt7603u_dev option io" where
  "mt7603u_disconnect std hw = mt7603_unregister_mac80211 std hw"

section \<open>Advertised channels and rates\<close>

text \<open>Frequency in MHz and number of each channel; bit rate in 100 kb/s and index of each rate.\<close>

definition mt7603_channels_2ghz :: "(nat \<times> u8) list" where
  "mt7603_channels_2ghz = [(2412, 1), (2417, 2), (2422, 3), (2427, 4), (2432, 5), (2437, 6), (2442, 7),
     (2447, 8), (2452, 9), (2457, 10), (2462, 11), (2467, 12), (2472, 13)]"

definition mt7603_rates_2ghz :: "(nat \<times> u8) list" where
  "mt7603_rates_2ghz = [(10, 0), (20, 1), (55, 2), (110, 3), (60, 4), (90, 5), (120, 6), (180, 7),
     (240, 8), (360, 9), (480, 10), (540, 11)]"

section \<open>The registered device\<close>

lemma dummy_mac: "eeprom_mac (take 6 (drop 4 dummy_e2p)) = default_mac" "length dummy_e2p = 512"
  unfolding dummy_e2p_def by code_simp+

lemma registered_eq:
  assumes "length img = 1024"
  shows "registered_dev ret img e0 = Some (zero_dev\<lparr> eeprom := img, eeprom_valid := (ret = 0),
     mac_addr := (if ret = 0 then eeprom_mac (take 6 (drop 4 img)) else default_mac),
     rssi_offset := (if ret = 0 \<and> rssi_in_range (img ! 0x46) then img ! 0x46 else 0) \<rparr>)"
proof -
  let ?buf = "if ret = 0 then take 512 img else dummy_e2p"
  have l: "length ?buf = 512" using assms dummy_mac(2) by simp
  have "take 6 (drop 4 (take 512 img)) = take 6 (drop 4 img)" by (simp add: take_drop)
  then have "eeprom_mac (take 6 (drop 4 ?buf)) = (if ret = 0 then eeprom_mac (take 6 (drop 4 img)) else default_mac)"
    using dummy_mac(1) by simp
  with l show ?thesis
    by (simp add: registered_dev_def mt7603_rust_parse_eeprom_def from_raw_parts_eq ffi_read_def parse_eeprom_long)
qed

end
