(* ===== verification/Lifecycle.thy ===== *)
theory Lifecycle
  imports Keys Probe Rx_Path
begin

text \<open>
  The life of a registered device: every callback mac80211 may invoke, the beacon work and the
  completion handlers, in any order, as a step relation over the device structure and the history of
  kernel calls. The invariant is proved by rule induction from one lemma per callback; it accounts for
  every buffer and URB of the driver, the transmit URBs in flight included.

  A callback is one step, apart from stop, which is three: the handlers of URBs in flight, the
  transmit handler and everything else may run between them. Callbacks do not overlap otherwise.
\<close>

section \<open>Results of computations\<close>

definition returns :: "'a io \<Rightarrow> ('a \<Rightarrow> bool) \<Rightarrow> bool" where
  "returns m P \<longleftrightarrow> spec m (\<lambda>x es. P x)"

lemma returns_return: "P x \<Longrightarrow> returns (State_Monad.return x) P"
  by (simp add: returns_def spec_return)

lemma returns_bind:
  "returns m Q \<Longrightarrow> (\<And>x. Q x \<Longrightarrow> returns (f x) P) \<Longrightarrow> returns (State_Monad.bind m f) P"
  unfolding returns_def by (rule spec_bind)

lemma returns_skip: "spec m Q \<Longrightarrow> (\<And>x. returns (f x) P) \<Longrightarrow> returns (State_Monad.bind m f) P"
  unfolding returns_def by (rule spec_bind)

lemma returns_weaken: "returns m Q \<Longrightarrow> (\<And>x. Q x \<Longrightarrow> P x) \<Longrightarrow> returns m P"
  unfolding returns_def by (rule spec_weaken)

lemma returns_if: "(b \<Longrightarrow> returns m P) \<Longrightarrow> (\<not> b \<Longrightarrow> returns m' P) \<Longrightarrow> returns (if b then m else m') P"
  by simp

text \<open>Computations that do not panic.\<close>

definition yields :: "'a option io \<Rightarrow> ('a \<Rightarrow> bool) \<Rightarrow> bool" where
  "yields m P \<longleftrightarrow> returns m (\<lambda>r. \<exists>x. r = Some x \<and> P x)"

lemma yields_return: "P x \<Longrightarrow> yields (State_Monad.return (Some x)) P"
  by (simp add: yields_def returns_return)

lemma yields_then: "yields m Q \<Longrightarrow> (\<And>x. Q x \<Longrightarrow> yields (f x) P) \<Longrightarrow> yields (and_then m f) P"
  unfolding yields_def and_then_def by (erule returns_bind) auto

lemma yields_skip: "spec m Q \<Longrightarrow> (\<And>x. yields (f x) P) \<Longrightarrow> yields (State_Monad.bind m f) P"
  unfolding yields_def by (rule returns_skip)

lemma yields_if: "(b \<Longrightarrow> yields m P) \<Longrightarrow> (\<not> b \<Longrightarrow> yields m' P) \<Longrightarrow> yields (if b then m else m') P"
  by simp

lemma yields_weaken: "yields m Q \<Longrightarrow> (\<And>x. Q x \<Longrightarrow> P x) \<Longrightarrow> yields m P"
  unfolding yields_def by (erule returns_weaken) auto

section \<open>Calls that do not panic\<close>

definition sound_call :: "(int \<times> 'a list option \<times> nat option) option \<Rightarrow> bool" where
  "sound_call r \<longleftrightarrow> (\<exists>ret buf n. r = Some (ret, Some buf, Some n))"

context slice_writer
begin

lemma ffi_sound: "max_len \<le> length region \<Longrightarrow> sound_call (ffi_write build region max_len c)"
  by (simp add: ffi_write_outcome sound_call_def ffi_outcome_def)

end

lemma sound_calls:
  "sound_call (mt7603_rust_build_chan_switch_cmd prof ch cen b t r seq (Some (cmd_scratch k 128)) 128 (Some c))"
  "length e = 1024 \<Longrightarrow>
   sound_call (mt7603_rust_build_tx_power_ctrl_cmd prof (Some e) 1024 ch seq (Some (cmd_scratch k 128)) 128 (Some c))"
  "length e = 1024 \<Longrightarrow>
   sound_call (mt7603_rust_build_efuse_buffer_mode_cmd prof (Some e) 1024 seq (Some (replicate 1088 0)) 1088 (Some c))"
  "sound_call (mt7603_rust_build_radio_on_off_cmd prof on seq (Some (replicate 1088 0)) 1088 (Some c))"
  "sound_call (mt7603_rust_build_edca_set_cmd prof seq (Some (replicate 1088 0)) 1088 (Some c))"
  "sound_call (mt7603_rust_get_mac_init_sequence (Some (ops_scratch k n)) n (Some c))"
  "sound_call (mt7603_rust_build_own_mac_sequence (Some (mac_bytes m)) (Some (ops_scratch k n)) n (Some c))"
  "sound_call (mt7603_rust_build_wtbl_sta_sequence (Some (mac_bytes m)) (Some (ops_scratch k n)) n (Some c))"
  "sound_call (mt7603_rust_build_wtbl_sta_sequence (Some (replicate 6 0xff)) (Some (ops_scratch k n)) n (Some c))"
  "n \<le> n' \<Longrightarrow> sound_call (mt7603_rust_build_rx_filter_sequence p f (Some (ops_scratch k n')) n (Some c))"
  "sound_call (mt7603_rust_build_ap_bss_sync_sequence bi on (Some (ops_scratch k n)) n (Some c))"
  "sound_call (mt7603_rust_build_ba_session_sequence wcid tid sz en prev (Some (ops_scratch k n)) n (Some c))"
  by (simp_all add: mt7603_rust_build_chan_switch_cmd_def mt7603_rust_build_tx_power_ctrl_cmd_def
      mt7603_rust_build_efuse_buffer_mode_cmd_def mt7603_rust_build_radio_on_off_cmd_def
      mt7603_rust_build_edca_set_cmd_def mt7603_rust_get_mac_init_sequence_def
      mt7603_rust_build_own_mac_sequence_def mt7603_rust_build_wtbl_sta_sequence_def
      mt7603_rust_build_rx_filter_sequence_def mt7603_rust_build_ap_bss_sync_sequence_def
      mt7603_rust_build_ba_session_sequence_def from_raw_parts_eq
      channel_switch.ffi_sound tx_power.ffi_sound efuse.ffi_sound radio.ffi_sound edca.ffi_sound
      mac_init.ffi_sound own_mac.ffi_sound wtbl.ffi_sound rx_filter.ffi_sound bss_sync.ffi_sound
      ba_session.ffi_sound)

lemma send_built_yields: "sound_call r \<Longrightarrow> yields (send_built k r) (\<lambda>_. True)"
  by (auto simp: sound_call_def send_built_def intro!: yields_return yields_skip [OF send_cmd_spec] yields_if)

lemma exec_built_yields: "sound_call r \<Longrightarrow> yields (exec_built k r) (\<lambda>_. True)"
  by (auto simp: sound_call_def exec_built_def intro!: yields_return yields_skip [OF execute_simulates] yields_if)

section \<open>Properties of the calls a callback makes\<close>

text \<open>
  The configuration callbacks only read and write registers, send commands and wait for the transmit
  anchor. A composable property of these four holds of every callback.
\<close>

locale call_property = trace_property +
  assumes reads: "keeps (mt7603_usb_read_reg k a old)"
    and writes: "keeps (mt7603_usb_write_reg k a v)"
    and sends: "keeps (mt7603_usb_send_cmd k f)"
    and waits: "keeps anchor_wait"
begin

lemma and_then_keeps: "keeps m \<Longrightarrow> (\<And>x. keeps (f x)) \<Longrightarrow> keeps (and_then m f)"
  unfolding and_then_def by (intro keeps_rules) auto

lemma execute_keeps: "keeps (mt7603_execute_reg_ops k ops)"
  by (induction ops) (auto intro!: keeps_rules writes)

lemma send_built_keeps: "keeps (send_built k r)"
  unfolding send_built_def by (auto split: option.split intro!: keeps_rules sends)

lemma exec_built_keeps: "keeps (exec_built k r)"
  unfolding exec_built_def by (auto split: option.split intro!: keeps_rules execute_keeps)

lemmas call_keeps = keeps_rules reads writes sends waits and_then_keeps send_built_keeps exec_built_keeps

lemma set_channel_keeps: "keeps (mt7603_set_channel_ext k prof dev ch b cen)"
  unfolding mt7603_set_channel_ext_def Let_def by (intro call_keeps)

lemma tune_keeps: "keeps (tune k prof dev ch)"
  unfolding tune_def mt7603_set_channel_def by (intro call_keeps set_channel_keeps)

lemma register_parts_keep:
  "keeps (single_bssid k)" "keeps (modify_reg k a f)" "keeps (write_bssid k m)" "keeps (clear_bssid k)"
  "keeps (clear_peer k)" "keeps (program_peer k m)"
  unfolding single_bssid_def modify_reg_def write_bssid_def clear_bssid_def clear_peer_def program_peer_def
  by (intro call_keeps)+

lemma bss_tune_keeps: "keeps (bss_tune k prof dev cached c1 c2)"
  unfolding bss_tune_def by (intro call_keeps tune_keeps)

lemma write_key_keeps: "keeps (write_key k base key is)"
  by (induction "is") (auto intro!: call_keeps)

lemmas part_keeps = call_keeps set_channel_keeps tune_keeps register_parts_keep bss_tune_keeps write_key_keeps

lemma config_keeps: "keeps (mt7603_mac80211_config k prof dev cd change)"
  unfolding mt7603_mac80211_config_def mt7603_set_chandef_def Let_def by (intro part_keeps)

lemma interface_keeps:
  "keeps (mt7603_mac80211_add_interface k dev vif)"
  "keeps (mt7603_mac80211_remove_interface k dev vif)"
  "keeps (mt7603_mac80211_configure_filter k dev tf flags)"
  unfolding mt7603_mac80211_add_interface_def mt7603_mac80211_remove_interface_def
    mt7603_mac80211_configure_filter_def Let_def
  by (intro part_keeps)+

lemma bss_keeps: "keeps (mt7603_mac80211_bss_info_changed k prof dev vif info changed cached)"
proof -
  have "keeps (bss_program_ap k dev vif)" for dev
    unfolding bss_program_ap_def by (intro part_keeps)
  moreover have "keeps (bss_beacon k dev info en)" for dev en
    unfolding bss_beacon_def Let_def by (intro part_keeps)
  moreover have "keeps (bss_join k prof dev vif info cached)" for dev
    unfolding bss_join_def by (intro part_keeps)
  ultimately show ?thesis
    unfolding mt7603_mac80211_bss_info_changed_def by (intro part_keeps)
qed

lemma station_keeps:
  "keeps (mt7603_mac80211_sta_add k prof dev vif sta cached)"
  "keeps (mt7603_mac80211_sta_remove k vif)"
  "keeps (mt7603_mac80211_set_key k cmd vif sta' key)"
  "keeps (mt7603_mac80211_ampdu_action k hv action sta' tid sz)"
  unfolding mt7603_mac80211_sta_add_def mt7603_mac80211_sta_remove_def mt7603_mac80211_set_key_def
    install_key_def mt7603_mac80211_ampdu_action_def Let_def
  by (auto intro!: part_keeps split: ampdu_action.split option.split)

lemma start_configure_keeps: "keeps (start_configure k prof dev)"
  unfolding start_configure_def start_calibration_def by (intro part_keeps)

end

text \<open>They release what they allocate, and submit no URB.\<close>

interpretation ledger: call_property balanced
proof
  show "memory.keeps (mt7603_usb_send_cmd k f)" for k f
    by (rule memory.keeps_spec [OF send_cmd_spec]) (auto simp: sends_def balanced_def)
  show "memory.keeps anchor_wait"
    by (rule memory.keeps_spec [OF anchor_wait_spec]) (simp add: balanced_def)
qed (rule keeps_access)+

definition no_submission :: "history \<Rightarrow> bool" where
  "no_submission es \<longleftrightarrow> list_all (\<lambda>e. case e of Urb_Submit ep r \<Rightarrow> False | _ \<Rightarrow> True) es"

interpretation submission: trace_property no_submission
  by unfold_locales (simp_all add: no_submission_def)

interpretation silent: call_property no_submission
proof
  show "submission.keeps (mt7603_usb_read_reg k a old)" for k a old
    by (rule submission.keeps_spec [OF read_reg_spec]) (auto simp: read_events_def no_submission_def)
  show "submission.keeps (mt7603_usb_write_reg k a v)" for k a v
    by (rule submission.keeps_spec [OF write_reg_spec]) (auto simp: write_events_def no_submission_def)
  show "submission.keeps (mt7603_usb_send_cmd k f)" for k f
    unfolding mt7603_usb_send_cmd_def
    by (intro submission.keeps_rules submission.keeps_spec [OF kmalloc_spec] submission.keeps_spec [OF bulk_out_spec]
        submission.keeps_spec [OF kfree_spec]) (simp_all add: no_submission_def)
  show "submission.keeps anchor_wait"
    by (rule submission.keeps_spec [OF anchor_wait_spec]) (simp add: no_submission_def)
qed

section \<open>The invariant of the device structure\<close>

definition rings :: "mt7603u_dev \<Rightarrow> (bool \<times> bool) list \<times> bool \<times> bool \<times> tx_urb list" where
  "rings dev = (rx_urbs dev, cmd_buf dev, cmd_urb dev, tx_anchor dev)"

text \<open>The receive rings are empty.\<close>

definition idle :: "mt7603u_dev \<Rightarrow> bool" where
  "idle dev \<longleftrightarrow> \<not> cmd_buf dev \<and> \<not> cmd_urb dev \<and> list_all (\<lambda>slot. slot = (False, False)) (rx_urbs dev)"

text \<open>A transfer in flight: to one of the two endpoints, in whole words, a descriptor and more.\<close>

definition tx_urb_ok :: "tx_urb \<Rightarrow> bool" where
  "tx_urb_ok u \<longleftrightarrow> (urb_ep u = 0x05 \<or> urb_ep u = 0x08) \<and> 4 dvd length (urb_buf u) \<and> 36 \<le> length (urb_buf u)"

definition dev_ok :: "mt7603u_dev \<Rightarrow> bool" where
  "dev_ok dev \<longleftrightarrow> cmd_seq dev \<le> 15 \<and> current_channel dev \<le> 14 \<and> current_bw dev \<le> 1 \<and>
     length (eeprom dev) = 1024 \<and> length (rx_urbs dev) = 4 \<and>
     (beacon_work dev \<noteq> None \<longrightarrow> beacon_enabled dev) \<and> list_all tx_urb_ok (tx_anchor dev)"

text \<open>What a configuration callback does to the device: it keeps the invariant, the rings and the
  running state.\<close>

definition steady :: "mt7603u_dev \<Rightarrow> mt7603u_dev \<Rightarrow> bool" where
  "steady dev dev' \<longleftrightarrow> dev_ok dev' \<and> rings dev' = rings dev \<and> running dev' = running dev"

lemma steady_refl: "dev_ok dev \<Longrightarrow> steady dev dev"
  by (simp add: steady_def)

lemma steady_trans: "steady dev dev' \<Longrightarrow> steady dev' dev'' \<Longrightarrow> steady dev dev''"
  by (simp add: steady_def)

lemma steady_ok: "steady dev dev' \<Longrightarrow> dev_ok dev'"
  by (simp add: steady_def)

lemma seq_bound: "(x :: u8) mod 15 + 1 \<le> 15"
proof -
  have "unat (x mod 15) < 15" by (simp add: unat_mod)
  then show ?thesis by (simp add: word_le_nat_alt unat_word_ariths)
qed

lemma next_seq_steady: "dev_ok dev \<Longrightarrow> steady dev (next_seq dev)"
  by (simp add: steady_def dev_ok_def rings_def next_seq_def idle_def seq_bound)

lemma clamp_bound: "clamp_channel ch \<le> 14"
  by (auto simp: clamp_channel_def)

lemma set_channel_steady:
  assumes "dev_ok dev"
  shows "yields (mt7603_set_channel_ext k prof dev ch b cen) (steady dev)"
proof -
  let ?dev = "(next_seq (next_seq dev))"
  let ?b = "if b > 1 then 0 else b"
  have len: "length (eeprom (next_seq (next_seq dev))) = 1024"
    using assms by (simp add: dev_ok_def next_seq_def)
  have "steady dev ?dev" using assms by (blast intro: next_seq_steady steady_trans steady_ok)
  then have st: "steady dev (?dev\<lparr> current_channel := clamp_channel ch, current_bw := ?b \<rparr>)"
    using clamp_bound by (auto simp: steady_def dev_ok_def rings_def idle_def not_less)
  show ?thesis
    unfolding mt7603_set_channel_ext_def Let_def
    by (intro yields_skip [OF anchor_wait_spec] yields_then [OF send_built_yields] sound_calls
        yields_skip [OF write_reg_spec] len) (rule yields_return, rule st)
qed

lemma tune_steady: "dev_ok dev \<Longrightarrow> yields (tune k prof dev ch) (steady dev)"
  unfolding tune_def mt7603_set_channel_def
  by (intro yields_if set_channel_steady yields_return steady_refl)

lemma config_steady: "dev_ok dev \<Longrightarrow> yields (mt7603_mac80211_config k prof dev cd change) (steady dev)"
  unfolding mt7603_mac80211_config_def mt7603_set_chandef_def Let_def
  by (auto split: option.split intro!: set_channel_steady yields_return steady_refl yields_if)

lemma yields_after: "memory.keeps m \<Longrightarrow> (\<And>x. yields (f x) P) \<Longrightarrow> yields (State_Monad.bind m f) P"
  unfolding memory.keeps_def by (rule yields_skip)

text \<open>Updates that touch no ring and no bounded field.\<close>

lemma steady_updates:
  assumes "dev_ok dev"
  shows "steady dev (dev\<lparr> filter_flags := f \<rparr>)" "steady dev (dev\<lparr> ap_vif := v \<rparr>)"
    "steady dev (dev\<lparr> monitor_count := n \<rparr>)"
    "steady dev (dev\<lparr> beacon_enabled := False, beacon_work := None \<rparr>)"
    "steady dev (dev\<lparr> beacon_enabled := False, beacon_work := None, ap_vif := v \<rparr>)"
    "steady dev (schedule_beacon d (dev\<lparr> beacon_int := bi, beacon_enabled := True \<rparr>))"
  using assms by (auto simp: steady_def dev_ok_def rings_def idle_def schedule_beacon_def)

lemma interface_steady:
  assumes "dev_ok dev"
  shows "yields (mt7603_mac80211_add_interface k dev vif) (steady dev)"
    "yields (mt7603_mac80211_remove_interface k dev vif) (steady dev)"
    "yields (mt7603_mac80211_configure_filter k dev tf flags) (\<lambda>(dev', _). steady dev dev')"
proof -
  let ?d = "if vif_type vif = IFTYPE_MONITOR then dev\<lparr> monitor_count := monitor_count dev + 1 \<rparr> else dev"
  have d: "steady dev ?d" using assms by (auto intro!: steady_updates steady_refl simp: dev_ok_def)
  have ap: "steady dev (?d\<lparr> ap_vif := Some vif \<rparr>)"
    by (rule steady_trans [OF d steady_updates(2) [OF steady_ok [OF d]]])
  show "yields (mt7603_mac80211_add_interface k dev vif) (steady dev)"
    unfolding mt7603_mac80211_add_interface_def Let_def
    by (intro yields_then [of _ "\<lambda>_. True"] yields_if yields_return exec_built_yields sound_calls
        yields_after [OF ledger.register_parts_keep(3)] d ap) simp_all
  let ?e = "if vif_type vif = IFTYPE_MONITOR \<and> sint (monitor_count dev) > 0
    then dev\<lparr> monitor_count := monitor_count dev - 1 \<rparr> else dev"
  have e: "steady dev ?e" using assms by (auto intro!: steady_updates steady_refl)
  then have "steady dev (?e\<lparr> beacon_enabled := False, beacon_work := None, ap_vif := None \<rparr>)"
    by (blast intro: steady_trans steady_updates(5) steady_ok)
  with e show "yields (mt7603_mac80211_remove_interface k dev vif) (steady dev)"
    unfolding mt7603_mac80211_remove_interface_def Let_def
    by (intro yields_then [of _ "\<lambda>_. True"] yields_if yields_return exec_built_yields sound_calls) auto
  show "yields (mt7603_mac80211_configure_filter k dev tf flags) (\<lambda>(dev', _). steady dev dev')"
    unfolding mt7603_mac80211_configure_filter_def Let_def
    by (intro yields_then [of _ "\<lambda>_. True"] yields_if yields_return exec_built_yields sound_calls)
      (use assms in \<open>auto intro: steady_updates\<close>)
qed

lemma bss_tune_steady: "dev_ok dev \<Longrightarrow> yields (bss_tune k prof dev cached c1 c2) (steady dev)"
  unfolding bss_tune_def by (auto split: option.split intro: tune_steady yields_return steady_refl)

lemma program_peer_yields: "yields (program_peer k m) (\<lambda>_. True)"
  unfolding program_peer_def
  by (intro yields_then [of _ "\<lambda>_. True"] exec_built_yields sound_calls yields_if yields_return
      yields_skip [OF write_reg_spec]) simp_all

lemma bss_program_ap_steady: "dev_ok dev \<Longrightarrow> yields (bss_program_ap k dev vif) (steady dev)"
  unfolding bss_program_ap_def
  by (auto split: option.split intro!: yields_then [OF exec_built_yields] sound_calls yields_if yields_return
      yields_after ledger.register_parts_keep steady_updates steady_refl)

lemma bss_beacon_steady: "dev_ok dev \<Longrightarrow> yields (bss_beacon k dev info en) (steady dev)"
  unfolding bss_beacon_def Let_def
  by (intro yields_if yields_then [OF exec_built_yields] sound_calls yields_return steady_updates steady_refl)

lemma bss_join_steady: "dev_ok dev \<Longrightarrow> yields (bss_join k prof dev vif info cached) (steady dev)"
  unfolding bss_join_def
  by (auto split: option.split intro!: yields_if yields_return yields_after ledger.part_keeps steady_refl
      yields_then [OF bss_tune_steady] yields_then [OF program_peer_yields])

lemma bss_steady:
  assumes "dev_ok dev"
  shows "yields (mt7603_mac80211_bss_info_changed k prof dev vif info changed cached) (steady dev)"
proof -
  have chan: "yields (case Option.bind info oper_chan of Some ch \<Rightarrow> tune k prof dev ch
      | None \<Rightarrow> State_Monad.return (Some dev)) (steady dev)"
    using assms by (auto split: option.split intro: tune_steady yields_return steady_refl)
  have beacon: "yields (and_then (bss_program_ap k d vif) (\<lambda>d. bss_beacon k d info en)) (steady dev)"
    if "steady dev d" for d en
    using that by (blast intro: yields_then yields_weaken bss_program_ap_steady bss_beacon_steady steady_ok steady_trans)
  have join: "yields (bss_join k prof d vif info cached) (steady dev)" if "steady dev d" for d
    using that by (blast intro: yields_weaken bss_join_steady steady_ok steady_trans)
  show ?thesis
    unfolding mt7603_mac80211_bss_info_changed_def
    by (intro yields_then [OF chan] yields_then [of _ "steady dev"] yields_if beacon join yields_return)
qed

lemma sta_add_steady:
  assumes "dev_ok dev"
  shows "yields (mt7603_mac80211_sta_add k prof dev vif sta cached) (steady dev)"
  unfolding mt7603_mac80211_sta_add_def
  by (intro yields_then [of _ "steady dev"] yields_if yields_return yields_after ledger.part_keeps
      bss_tune_steady [OF assms] steady_refl [OF assms] yields_then [OF program_peer_yields])


section \<open>Buffers and URBs of the rings\<close>

definition held_buffers :: "mt7603u_dev \<Rightarrow> int" where
  "held_buffers dev = int (length (filter fst (rx_urbs dev))) + (if cmd_buf dev then 1 else 0)"

definition held_urbs :: "mt7603u_dev \<Rightarrow> int" where
  "held_urbs dev = int (length (filter snd (rx_urbs dev))) + (if cmd_urb dev then 1 else 0) +
     int (length (tx_anchor dev))"

lemma held_rings: "rings dev' = rings dev \<Longrightarrow> held_buffers dev' = held_buffers dev \<and> held_urbs dev' = held_urbs dev"
  by (simp add: rings_def held_buffers_def held_urbs_def)

lemma held_idle: "idle dev \<Longrightarrow> tx_anchor dev = [] \<Longrightarrow> held_buffers dev = 0 \<and> held_urbs dev = 0"
  by (auto simp: idle_def held_buffers_def held_urbs_def list_all_iff filter_empty_conv)

lemma start_rx_slots_spec:
  "spec (start_rx_slots k slots) (\<lambda>r es. fst r \<le> 0 \<and> length (snd r) = length slots \<and>
     live_buffers es = int (length (filter fst (snd r))) - int (length (filter fst slots)) \<and>
     live_urbs es = int (length (filter snd (snd r))) - int (length (filter snd slots)))"
proof (induction slots)
  case Nil
  then show ?case by (simp add: spec_return)
next
  case (Cons slot slots)
  have buf: "spec (if fst slot then State_Monad.return True else kmalloc k 24576)
      (\<lambda>ok es. live_buffers es = of_bool ok - of_bool (fst slot) \<and> live_urbs es = 0)"
    by (auto intro!: spec_if spec_return spec_weaken [OF kmalloc_spec])
  have urb: "spec (if snd slot then State_Monad.return True else alloc_urb k)
      (\<lambda>ok es. live_urbs es = of_bool ok - of_bool (snd slot) \<and> live_buffers es = 0)"
    by (auto intro!: spec_if spec_return spec_weaken [OF alloc_urb_spec])
  show ?case
    unfolding start_rx_slots.simps case_prod_beta
    apply (rule spec_bind [OF buf], rule spec_if)
     apply (rule spec_return, cases slot, auto)[1]
    apply (rule spec_bind [OF urb], rule spec_if)
     apply (rule spec_return, cases slot, auto)[1]
    apply (rule spec_bind [OF submit_urb_spec], rule spec_bind [OF Cons], rule spec_return)
    apply (cases slot, auto)
    done
qed

lemma start_cmd_ring_spec:
  "spec (start_cmd_ring k buf urb) (\<lambda>r es. live_buffers es = of_bool (fst r) - of_bool buf \<and>
     live_urbs es = of_bool (snd r) - of_bool urb)"
  by (rule specI) (auto simp: start_cmd_ring_def call_defs)

text \<open>Only the receive rings change, and the history accounts for the difference.\<close>

definition rings_only :: "mt7603u_dev \<Rightarrow> mt7603u_dev \<Rightarrow> bool" where
  "rings_only dev dev' \<longleftrightarrow> length (rx_urbs dev') = length (rx_urbs dev) \<and>
     dev' = dev\<lparr> rx_urbs := rx_urbs dev', cmd_buf := cmd_buf dev', cmd_urb := cmd_urb dev' \<rparr>"

definition accounts :: "mt7603u_dev \<Rightarrow> mt7603u_dev \<Rightarrow> history \<Rightarrow> bool" where
  "accounts dev dev' es \<longleftrightarrow>
     live_buffers es = held_buffers dev' - held_buffers dev \<and> live_urbs es = held_urbs dev' - held_urbs dev"

lemma start_rx_spec:
  "spec (mt7603_start_rx k dev) (\<lambda>r es. rings_only dev (snd r) \<and> accounts dev (snd r) es)"
  unfolding mt7603_start_rx_def Let_def case_prod_beta
  apply (rule spec_bind [OF clear_halt_spec], rule spec_bind [OF clear_halt_spec])
  apply (rule spec_bind [OF start_rx_slots_spec], rule spec_if)
   apply (rule spec_return, auto simp: accounts_def rings_only_def held_buffers_def held_urbs_def)[1]
  apply (rule spec_bind [OF start_cmd_ring_spec], rule spec_return)
  apply (auto simp: accounts_def rings_only_def held_buffers_def held_urbs_def)
  done

lemma release_ring_spec:
  "spec (release_ring ep buf urb) (\<lambda>_ es. live_buffers es = - of_bool buf \<and> live_urbs es = - of_bool urb)"
  by (rule specI) (auto simp: release_ring_def call_defs)

lemma release_slots_spec:
  "spec (release_slots slots) (\<lambda>_ es. live_buffers es = - int (length (filter fst slots)) \<and>
     live_urbs es = - int (length (filter snd slots)))"
proof (induction slots)
  case (Cons slot slots)
  show ?case
    unfolding release_slots.simps
    by (rule spec_bind [OF release_ring_spec], rule spec_weaken [OF Cons]) auto
qed (simp add: spec_return)

lemma stop_rx_spec:
  "spec (mt7603_stop_rx dev) (\<lambda>dev' es. rings_only dev dev' \<and> accounts dev dev' es \<and> idle dev')"
  unfolding mt7603_stop_rx_def
  apply (rule spec_bind [OF release_ring_spec], rule spec_bind [OF release_slots_spec], rule spec_return)
  apply (auto simp: accounts_def rings_only_def idle_def held_buffers_def held_urbs_def list_all_iff comp_def
      filter_map)
  done

section \<open>Transmit URBs\<close>

lemma transmit_spec:
  assumes "length txwi = 32" "dev_ok dev"
  shows "spec (transmit k std ans txwi info s dev) (\<lambda>r es.
    (\<forall>dev'. r = Some dev' \<longrightarrow> dev_ok dev' \<and> dev' = dev\<lparr> tx_anchor := tx_anchor dev' \<rparr> \<and> accounts dev dev' es) \<and>
    (\<not> running dev \<longrightarrow> es = []))"
proof (cases "tx_frame dev std ans txwi info s")
  case None
  then show ?thesis by (simp add: transmit_def spec_return)
next
  case (Some frame)
  show ?thesis
  proof (cases frame)
    case None
    with Some assms(2) show ?thesis by (simp add: transmit_def spec_return accounts_def)
  next
    case frame: (Some f)
    obtain ep buf meta where f: "f = (ep, buf, meta)" by (cases f)
    have "running dev \<and> tx_urb_ok \<lparr> urb_ep = ep, urb_buf = buf, urb_meta = meta, urb_no_ack = ctl_no_ack info \<rparr>"
      using tx_frame_shape [OF _ assms(1)] Some frame f by (simp add: tx_urb_ok_def)
    with assms(2) show ?thesis
      unfolding transmit_def Some frame f
      by (intro specI) (auto simp: call_defs dev_ok_def accounts_def held_buffers_def held_urbs_def)
  qed
qed

lemma transmit_run:
  assumes "run_state (transmit k std ans txwi info s dev) h = (Some dev', h')" "length txwi = 32" "dev_ok dev"
  shows "\<exists>es. h' = h @ es \<and> dev_ok dev' \<and> accounts dev dev' es \<and> (\<not> running dev \<longrightarrow> es = [])"
  by (rule specD [OF transmit_spec [OF assms(2,3)] assms(1)]) blast

lemma beacon_work_spec:
  assumes "length txwi = 32" "dev_ok dev"
  shows "spec (mt7603_beacon_work k std ans txwi now bcn dev) (\<lambda>r es.
    (\<forall>dev'. r = Some dev' \<longrightarrow> dev_ok dev' \<and> running dev' = running dev \<and> accounts dev dev' es) \<and>
    (\<not> running dev \<longrightarrow> es = []))"
proof -
  let ?dev = "dev\<lparr> beacon_work := None \<rparr>"
  have ok: "dev_ok ?dev" using assms(2) by (simp add: dev_ok_def)
  have same: "held_buffers ?dev = held_buffers dev" "held_urbs ?dev = held_urbs dev" "running ?dev = running dev"
    by (simp_all add: held_buffers_def held_urbs_def)
  show ?thesis
  proof (cases "running dev \<and> beacon_enabled dev \<and> ap_vif dev \<noteq> None")
    case False
    then show ?thesis
      using ok same by (auto simp: mt7603_beacon_work_def Let_def accounts_def intro!: spec_return)
  next
    case True
    have sent: "spec (case bcn of None \<Rightarrow> State_Monad.return (Some ?dev)
        | Some (info, s) \<Rightarrow> transmit k std ans txwi info (s\<lparr> skb_data := beacon_stamp now (skb_data s) \<rparr>) ?dev)
      (\<lambda>r es. \<forall>d. r = Some d \<longrightarrow> dev_ok d \<and> d = ?dev\<lparr> tx_anchor := tx_anchor d \<rparr> \<and> accounts dev d es)"
      using ok same transmit_spec [OF assms(1) ok, THEN spec_weaken]
      by (cases bcn) (auto intro!: spec_return simp: accounts_def)
    have again: "dev_ok (schedule_beacon n d) \<and> running (schedule_beacon n d) = running dev \<and>
        accounts dev (schedule_beacon n d) es"
      if "dev_ok d" "d = ?dev\<lparr> tx_anchor := tx_anchor d \<rparr>" "accounts dev d es" for d es n
    proof -
      have "beacon_enabled d = beacon_enabled dev" "running d = running dev"
        using arg_cong [OF that(2), of beacon_enabled] arg_cong [OF that(2), of running] by simp_all
      then show ?thesis
        using that(1,3) True by (auto simp: schedule_beacon_def dev_ok_def accounts_def held_buffers_def held_urbs_def)
    qed
    show ?thesis
      unfolding mt7603_beacon_work_def Let_def and_then_def same(3)
      by (rule spec_if, use True in simp, rule spec_bind [OF sent])
        (use again True in \<open>auto split: option.split intro!: spec_return\<close>)
  qed
qed

lemma beacon_work_run:
  assumes "run_state (mt7603_beacon_work k std ans txwi now bcn dev) h = (Some dev', h')" "length txwi = 32" "dev_ok dev"
  shows "\<exists>es. h' = h @ es \<and> dev_ok dev' \<and> accounts dev dev' es \<and> (\<not> running dev \<longrightarrow> es = [])"
  by (rule specD [OF beacon_work_spec [OF assms(2,3)] assms(1)]) blast





lemma tx_urb_complete_spec: "spec (tx_urb_complete d std status c) (\<lambda>_ es. es = [Urb_Free])"
  by (rule specI) (auto simp: tx_urb_complete_def call_defs Let_def split: option.split)

lemma kill_urbs_spec: "spec (kill_urbs std dev us) (\<lambda>_ es. es = replicate (length us) Urb_Free)"
  by (induction us) (auto intro!: spec_return spec_bind [OF tx_urb_complete_spec])

lemma live_urbs_replicate: "live_urbs (replicate n Urb_Free) = - int n" "live_buffers (replicate n Urb_Free) = 0"
  by (induction n) auto

lemma kill_anchored_spec:
  "spec (usb_kill_anchored_urbs std dev) (\<lambda>dev' es. dev' = dev\<lparr> tx_anchor := [] \<rparr> \<and>
     es = Anchor_Kill # replicate (length (tx_anchor dev)) Urb_Free \<and> accounts dev dev' es)"
  unfolding usb_kill_anchored_urbs_def
  apply (rule spec_bind [OF anchor_kill_spec], rule spec_bind [OF kill_urbs_spec], rule spec_return)
  apply (simp add: accounts_def held_buffers_def held_urbs_def live_urbs_replicate)
  done

section \<open>Start and stop\<close>

lemma start_calibration_steady: "dev_ok dev \<Longrightarrow> yields (start_calibration k prof dev) (steady dev)"
  unfolding start_calibration_def
  by (intro yields_if yields_then [OF send_built_yields] sound_calls yields_return next_seq_steady steady_refl)
    (simp_all add: dev_ok_def)

lemma start_configure_steady:
  assumes "dev_ok dev"
  shows "yields (start_configure k prof dev) (steady dev)"
  unfolding start_configure_def
  by (intro yields_then [OF start_calibration_steady [OF assms]] yields_then [OF exec_built_yields]
      yields_then [OF send_built_yields] sound_calls yields_skip [OF write_reg_spec] yields_return)
    (blast intro: steady_trans next_seq_steady steady_ok)

lemma yields_balanced:
  "yields m P \<Longrightarrow> memory.keeps m \<Longrightarrow> spec m (\<lambda>r es. (\<exists>x. r = Some x \<and> P x) \<and> balanced es)"
  unfolding yields_def returns_def memory.keeps_def by (rule spec_conj)

lemma spec_and_then:
  assumes "spec m (\<lambda>r es. (\<exists>x. r = Some x \<and> P x) \<and> R es)"
    "\<And>x es. P x \<Longrightarrow> R es \<Longrightarrow> spec (f x) (\<lambda>y es'. Q y (es @ es'))"
  shows "spec (and_then m f) Q"
  unfolding and_then_def by (rule spec_bind [OF assms(1)]) (auto intro: assms(2))

lemma accounts_steady: "accounts dev d xs \<Longrightarrow> steady d dev' \<Longrightarrow> balanced ys \<Longrightarrow> accounts dev dev' (xs @ ys)"
  using held_rings [of dev' d] by (auto simp: accounts_def steady_def balanced_def)

lemma accounts_quiet:
  "balanced xs \<Longrightarrow> accounts dev dev' ys \<Longrightarrow> accounts dev dev' (xs @ ys)"
  "accounts dev dev' xs \<Longrightarrow> balanced ys \<Longrightarrow> accounts dev dev' (xs @ ys)"
  by (auto simp: accounts_def balanced_def)

lemma started_ok:
  assumes "dev_ok dev" "rings_only ((next_seq dev)\<lparr> running := True \<rparr>) d"
  shows "dev_ok d \<and> running d \<and> eeprom d = eeprom dev \<and> eeprom_valid d = eeprom_valid dev \<and>
    cmd_seq d = cmd_seq (next_seq dev)"
proof -
  let ?d = "(next_seq dev)\<lparr> running := True \<rparr>"
  have "d = ?d\<lparr> rx_urbs := rx_urbs d, cmd_buf := cmd_buf d, cmd_urb := cmd_urb d \<rparr>" "length (rx_urbs d) = 4"
    using assms by (auto simp: rings_only_def dev_ok_def next_seq_def)
  moreover have "dev_ok (?d\<lparr> rx_urbs := r, cmd_buf := b, cmd_urb := u \<rparr>)" if "length r = 4" for r b u
    using assms(1) that by (auto simp: dev_ok_def next_seq_def seq_bound)
  moreover have "running (?d\<lparr> rx_urbs := r, cmd_buf := b, cmd_urb := u \<rparr>)"
    "eeprom (?d\<lparr> rx_urbs := r, cmd_buf := b, cmd_urb := u \<rparr>) = eeprom dev"
    "eeprom_valid (?d\<lparr> rx_urbs := r, cmd_buf := b, cmd_urb := u \<rparr>) = eeprom_valid dev"
    "cmd_seq (?d\<lparr> rx_urbs := r, cmd_buf := b, cmd_urb := u \<rparr>) = cmd_seq (next_seq dev)" for r b u
    by (simp_all add: next_seq_def)
  ultimately show ?thesis by metis
qed

lemma start_spec:
  assumes "dev_ok dev"
  shows "spec (mt7603_mac80211_start k prof dev) (\<lambda>r es. \<exists>ret dev'. r = Some (ret, dev') \<and> dev_ok dev' \<and>
    running dev' \<and> accounts dev dev' es)"
proof -
  let ?d = "(next_seq dev)\<lparr> running := True \<rparr>"
  have ok: "dev_ok d" "running d" if "rings_only ?d d" for d
    using started_ok [OF assms that] by simp_all
  have finish: "dev_ok d3 \<and> running d3 \<and> accounts dev d3 (es1 @ es2 @ Alloc n True # es3 @ Free # es4)"
    if "calm es1" "rings_only ?d d1" "accounts ?d d1 es2" "steady d1 d2" "balanced es3" "steady d2 d3" "balanced es4"
    for d1 d2 d3 es1 es2 es3 es4 n
  proof -
    have "steady d1 d3" using that by (blast intro: steady_trans)
    moreover have "accounts dev d1 es2" using that(3) by (simp add: accounts_def held_buffers_def held_urbs_def next_seq_def)
    ultimately have "accounts dev d3 (es2 @ (Alloc n True # es3 @ Free # es4))"
      using that(5,7) by (intro accounts_steady) (auto simp: balanced_def)
    then show ?thesis
      using that(1) \<open>steady d1 d3\<close> ok(2) [OF that(2)]
      by (auto intro!: accounts_quiet(1) simp: calm_def steady_def)
  qed
  have fail: "dev_ok d1 \<and> running d1 \<and> accounts dev d1 (es1 @ es2 @ [Alloc n False])"
    if "calm es1" "rings_only ?d d1" "accounts ?d d1 es2" for d1 es1 es2 n
    using that ok [OF that(2)] by (auto simp: accounts_def held_buffers_def held_urbs_def next_seq_def calm_def balanced_def)
  show ?thesis
    unfolding mt7603_mac80211_start_def mt7603_set_channel_def Let_def case_prod_beta
    apply (rule spec_bind [OF enable_udma_spec], rule spec_bind [OF start_rx_spec])
    apply (rule spec_bind [OF kmalloc_spec], rule spec_if)
     apply (rule spec_return, use fail in auto)[1]
    apply (rule spec_and_then [OF yields_balanced [OF start_configure_steady ledger.start_configure_keeps]])
     apply (rule ok, simp)
    apply (rule spec_bind [OF kfree_spec])
    apply (rule spec_and_then [OF yields_balanced [OF set_channel_steady ledger.set_channel_keeps]])
     apply (erule steady_ok)
    apply (rule spec_return)
    using finish apply auto
    done
qed

lemma rings_only_ok:
  assumes "dev_ok dev" "rings_only dev d"
  shows "dev_ok d \<and> running d = running dev \<and> beacon_work d = beacon_work dev \<and> tx_anchor d = tx_anchor dev"
proof -
  have l: "length (rx_urbs d) = 4" using assms by (simp add: rings_only_def dev_ok_def)
  have "dev_ok (dev\<lparr> rx_urbs := r, cmd_buf := b, cmd_urb := u \<rparr>)" if "length r = 4" for r b u
    using assms(1) that by (auto simp: dev_ok_def)
  moreover have d: "d = dev\<lparr> rx_urbs := rx_urbs d, cmd_buf := cmd_buf d, cmd_urb := cmd_urb d \<rparr>"
    using assms(2) by (simp add: rings_only_def)
  ultimately have "dev_ok d" using l by metis
  then show ?thesis
    using arg_cong [OF d, of running] arg_cong [OF d, of beacon_work] arg_cong [OF d, of tx_anchor] by simp
qed


lemma stop_flags_ok: "dev_ok dev \<Longrightarrow> dev_ok (stop_flags dev)" "accounts dev (stop_flags dev) []"
  by (auto simp: stop_flags_def dev_ok_def accounts_def held_buffers_def held_urbs_def)




section \<open>Callbacks in any order\<close>

text \<open>
  A step is one callback, one of the three parts of stop and disconnect, the queued beacon work, or the
  completion of an URB; the handler of a receive URB may submit it again, that of a transmit URB takes
  it off the anchor. Callbacks that leave the device structure alone still add to the history. The
  callbacks with an empty body are left out.
\<close>

definition resubmit :: "kernel \<Rightarrow> u8 \<Rightarrow> bool \<Rightarrow> unit io" where
  "resubmit k ep again =
     (if again then do { submit_urb k ep; State_Monad.return () } else State_Monad.return ())"

definition mt7603_cmd_rsp_complete :: "kernel \<Rightarrow> mt7603u_dev \<Rightarrow> int \<Rightarrow> unit io" where
  "mt7603_cmd_rsp_complete k dev status =
     resubmit k MT7603_CMD_RSP_BULK_IN (running dev \<and> status \<noteq> - 2 \<and> status \<noteq> - 108 \<and> status \<noteq> - 104)"

inductive drv_step :: "kernel \<Rightarrow> profile \<Rightarrow> mt7603u_dev \<times> history \<Rightarrow> mt7603u_dev \<times> history \<Rightarrow> bool"
  for k prof where
  start: "run_state (mt7603_mac80211_start k prof dev) h = (Some (ret, dev'), h') \<Longrightarrow>
    drv_step k prof (dev, h) (dev', h')"
| stop_begins: "drv_step k prof (dev, h) (stop_flags dev, h)"
| stop_receive: "\<not> running dev \<Longrightarrow> run_state (mt7603_stop_rx dev) h = (dev', h') \<Longrightarrow>
    drv_step k prof (dev, h) (dev', h')"
| stop_transmit: "\<not> running dev \<Longrightarrow> run_state (usb_kill_anchored_urbs std dev) h = (dev', h') \<Longrightarrow>
    drv_step k prof (dev, h) (dev', h')"
| add_interface: "run_state (mt7603_mac80211_add_interface k dev v) h = (Some dev', h') \<Longrightarrow>
    drv_step k prof (dev, h) (dev', h')"
| remove_interface: "run_state (mt7603_mac80211_remove_interface k dev v) h = (Some dev', h') \<Longrightarrow>
    drv_step k prof (dev, h) (dev', h')"
| config: "run_state (mt7603_mac80211_config k prof dev cd change) h = (Some dev', h') \<Longrightarrow>
    drv_step k prof (dev, h) (dev', h')"
| configure_filter: "run_state (mt7603_mac80211_configure_filter k dev tf flags) h = (Some (dev', tf'), h') \<Longrightarrow>
    drv_step k prof (dev, h) (dev', h')"
| bss_info_changed: "run_state (mt7603_mac80211_bss_info_changed k prof dev vif info changed cached) h = (Some dev', h') \<Longrightarrow>
    drv_step k prof (dev, h) (dev', h')"
| sta_add: "run_state (mt7603_mac80211_sta_add k prof dev vif sta cached) h = (Some dev', h') \<Longrightarrow>
    drv_step k prof (dev, h) (dev', h')"
| sta_remove: "run_state (mt7603_mac80211_sta_remove k vif) h = (u, h') \<Longrightarrow> drv_step k prof (dev, h) (dev, h')"
| set_key: "run_state (mt7603_mac80211_set_key k cmd vif sta key) h = (r, h') \<Longrightarrow> drv_step k prof (dev, h) (dev, h')"
| ampdu: "run_state (mt7603_mac80211_ampdu_action k hv action sta tid sz) h = (Some r, h') \<Longrightarrow>
    drv_step k prof (dev, h) (dev, h')"
| tx: "length txwi = 32 \<Longrightarrow> run_state (transmit k std ans txwi txi skb dev) h = (Some dev', h') \<Longrightarrow>
    drv_step k prof (dev, h) (dev', h')"
| beacon: "beacon_work dev \<noteq> None \<Longrightarrow> length txwi = 32 \<Longrightarrow>
    run_state (mt7603_beacon_work k std ans txwi now bcn dev) h = (Some dev', h') \<Longrightarrow>
    drv_step k prof (dev, h) (dev', h')"
| tx_complete: "tx_anchor dev = us @ u # vs \<Longrightarrow>
    run_state (tx_urb_complete (Some dev) std status (Some u)) h = (r, h') \<Longrightarrow>
    drv_step k prof (dev, h) (dev\<lparr> tx_anchor := us @ vs \<rparr>, h')"
| cmd_rsp_complete: "cmd_urb dev \<Longrightarrow> run_state (mt7603_cmd_rsp_complete k dev status) h = (u, h') \<Longrightarrow>
    drv_step k prof (dev, h) (dev, h')"
| rx_complete: "(True, True) \<in> set (rx_urbs dev) \<Longrightarrow>
    mt7603_rx_complete (current_channel dev) (rssi_offset dev) (running dev) alloc_skb info status buf = Some (items, again) \<Longrightarrow>
    run_state (resubmit k MT7603_DATA_BULK_IN again) h = (u, h') \<Longrightarrow> drv_step k prof (dev, h) (dev, h')"

inductive_cases drv_stepE: "drv_step k prof (dev, h) (dev', h')"

text \<open>The stop callback is its three parts.\<close>

lemma stop_rx_running: "returns (mt7603_stop_rx dev) (\<lambda>d. running d = running dev)"
  unfolding mt7603_stop_rx_def
  by (rule returns_skip [OF release_ring_spec], rule returns_skip [OF release_slots_spec], rule returns_return) simp

lemma stop_steps:
  assumes "run_state (mt7603_mac80211_stop std dev) h = (dev', h')"
  shows "(drv_step k prof)\<^sup>*\<^sup>* (dev, h) (dev', h')"
proof -
  obtain d h1 where d: "run_state (mt7603_stop_rx (stop_flags dev)) h = (d, h1)"
    "run_state (usb_kill_anchored_urbs std d) h1 = (dev', h')"
    using assms by (auto simp: mt7603_mac80211_stop_def Let_def split: prod.splits)
  have "\<not> running (stop_flags dev)" by (simp add: stop_flags_def)
  moreover have "running d = running (stop_flags dev)"
    using specD [OF stop_rx_running [unfolded returns_def] d(1)] by blast
  ultimately have s: "drv_step k prof (stop_flags dev, h) (d, h1)" "drv_step k prof (d, h1) (dev', h')"
    by (auto intro: drv_step.stop_receive [OF _ d(1)] drv_step.stop_transmit [OF _ d(2)])
  have "drv_step k prof (dev, h) (stop_flags dev, h)" by (rule drv_step.stop_begins)
  then show ?thesis using s by (rule converse_rtranclp_into_rtranclp [OF _ converse_rtranclp_into_rtranclp [OF _ r_into_rtranclp]])
qed

text \<open>The invariant of a run: the structure is well formed and owns what the history has allocated.\<close>

definition drv_inv :: "mt7603u_dev \<times> history \<Rightarrow> bool" where
  "drv_inv s \<longleftrightarrow> dev_ok (fst s) \<and> live_buffers (snd s) = held_buffers (fst s) \<and> live_urbs (snd s) = held_urbs (fst s)"

lemma inv_accounts: "drv_inv (dev, h) \<Longrightarrow> dev_ok dev' \<Longrightarrow> accounts dev dev' es \<Longrightarrow> drv_inv (dev', h @ es)"
  by (auto simp: drv_inv_def accounts_def)

lemma inv_steady:
  assumes "drv_inv (dev, h)" "yields m (\<lambda>x. steady dev (f x))" "memory.keeps m" "run_state m h = (Some x, h')"
  shows "drv_inv (f x, h')"
proof -
  obtain es where es: "h' = h @ es" "steady dev (f x)" "balanced es"
    using specD [OF yields_balanced [OF assms(2,3)] assms(4)] by auto
  have "accounts dev (f x) ([] @ es)"
    by (rule accounts_steady [OF _ es(2,3)]) (simp add: accounts_def)
  then show ?thesis
    unfolding es(1) by (intro inv_accounts [OF assms(1) steady_ok [OF es(2)]]) simp
qed

lemma inv_plain:
  assumes "drv_inv (dev, h)" "dev_ok dev \<Longrightarrow> yields m (steady dev)" "memory.keeps m" "run_state m h = (Some dev', h')"
  shows "drv_inv (dev', h')"
  by (rule inv_steady [where f = "\<lambda>x. x", OF assms(1) assms(2) assms(3,4)]) (use assms(1) in \<open>simp add: drv_inv_def\<close>)

lemma inv_same:
  assumes "drv_inv (dev, h)" "memory.keeps m" "run_state m h = (x, h')"
  shows "drv_inv (dev, h')"
proof -
  obtain es where "h' = h @ es" "balanced es"
    using specD [OF assms(2) [unfolded memory.keeps_def] assms(3)] by auto
  then show ?thesis using assms(1) by (simp add: drv_inv_def balanced_def)
qed

lemma resubmit_keeps: "memory.keeps (resubmit k ep again)"
  unfolding resubmit_def
  by (intro memory.keeps_rules memory.keeps_spec [OF submit_urb_spec]) (simp add: balanced_def)

lemma drv_step_inv:
  assumes "drv_step k prof s s'" "drv_inv s"
  shows "drv_inv s'"
  using assms
proof (induction rule: drv_step.induct)
  case (start dev h ret dev' h')
  then have "dev_ok dev" by (simp add: drv_inv_def)
  then obtain es where "h' = h @ es" "dev_ok dev'" "accounts dev dev' es"
    using specD [OF start_spec start(1)] by auto
  then show ?case using inv_accounts [OF start(2)] by simp
next
  case (stop_begins dev h)
  then have "dev_ok dev" by (simp add: drv_inv_def)
  from inv_accounts [OF stop_begins stop_flags_ok(1) [OF this] stop_flags_ok(2)] show ?case by simp
next
  case (stop_receive dev h dev' h')
  then have ok: "dev_ok dev" by (simp add: drv_inv_def)
  obtain es where es: "h' = h @ es" "rings_only dev dev'" "accounts dev dev' es"
    using specD [OF stop_rx_spec stop_receive(2)] by blast
  from inv_accounts [OF stop_receive(3) conjunct1 [OF rings_only_ok [OF ok es(2)]] es(3)] show ?case by (simp add: es(1))
next
  case (stop_transmit dev std h dev' h')
  then have ok: "dev_ok dev" by (simp add: drv_inv_def)
  obtain es where es: "h' = h @ es" "dev' = dev\<lparr> tx_anchor := [] \<rparr>" "accounts dev dev' es"
    using specD [OF kill_anchored_spec stop_transmit(2)] by blast
  have "dev_ok dev'" using ok es(2) by (simp add: dev_ok_def)
  from inv_accounts [OF stop_transmit(3) this es(3)] show ?case by (simp add: es(1))
next
  case (tx txwi std ans txi skb dev h dev' h')
  then have "dev_ok dev" by (simp add: drv_inv_def)
  then obtain es where "h' = h @ es" "dev_ok dev'" "accounts dev dev' es"
    using transmit_run [OF tx(2,1)] by blast
  then show ?case using inv_accounts [OF tx(3)] by simp
next
  case (tx_complete dev us u vs std status h r h')
  obtain es where "h' = h @ es" "es = [Urb_Free]" using specD [OF tx_urb_complete_spec tx_complete(2)] by blast
  then show ?case
    using tx_complete(1,3) by (auto simp: drv_inv_def dev_ok_def held_buffers_def held_urbs_def)
next
  case (add_interface dev v h dev' h')
  show ?case by (rule inv_plain [OF add_interface(2) interface_steady(1) ledger.interface_keeps(1) add_interface(1)])
next
  case (remove_interface dev v h dev' h')
  show ?case by (rule inv_plain [OF remove_interface(2) interface_steady(2) ledger.interface_keeps(2) remove_interface(1)])
next
  case (config dev cd change h dev' h')
  show ?case by (rule inv_plain [OF config(2) config_steady ledger.config_keeps config(1)])
next
  case (configure_filter dev tf flags h dev' tf' h')
  then have "dev_ok dev" by (simp add: drv_inv_def)
  then have "yields (mt7603_mac80211_configure_filter k dev tf flags) (\<lambda>x. steady dev (fst x))"
    by (rule yields_weaken [OF interface_steady(3)]) auto
  from inv_steady [where f = fst, OF configure_filter(2) this ledger.interface_keeps(3) configure_filter(1)]
  show ?case by simp
next
  case (bss_info_changed dev vif info changed cached h dev' h')
  show ?case by (rule inv_plain [OF bss_info_changed(2) bss_steady ledger.bss_keeps bss_info_changed(1)])
next
  case (sta_add dev vif sta cached h dev' h')
  show ?case by (rule inv_plain [OF sta_add(2) sta_add_steady ledger.station_keeps(1) sta_add(1)])
next
  case (beacon dev txwi std ans now bcn h dev' h')
  then have "dev_ok dev" by (simp add: drv_inv_def)
  then obtain es where "h' = h @ es" "dev_ok dev'" "accounts dev dev' es"
    using beacon_work_run [OF beacon(3,2)] by blast
  then show ?case using inv_accounts [OF beacon(4)] by simp
next
  case (sta_remove vif h u h' dev)
  show ?case by (rule inv_same [OF sta_remove(2) ledger.station_keeps(2) sta_remove(1)])
next
  case (set_key cmd vif sta key h r h' dev)
  show ?case by (rule inv_same [OF set_key(2) ledger.station_keeps(3) set_key(1)])
next
  case (cmd_rsp_complete dev status h u h')
  then show ?case unfolding mt7603_cmd_rsp_complete_def by (metis inv_same resubmit_keeps)
next
  case (rx_complete dev alloc_skb info status buf items again h u h')
  show ?case by (rule inv_same [OF rx_complete(4) resubmit_keeps rx_complete(3)])
next
  case (ampdu hv action sta tid sz h r h' dev)
  show ?case by (rule inv_same [OF ampdu(2) ledger.station_keeps(4) ampdu(1)])
qed

text \<open>A device that probe has registered, after any callbacks.\<close>

inductive reachable :: "kernel \<Rightarrow> profile \<Rightarrow> mt7603u_dev \<Rightarrow> history \<Rightarrow> bool" for k prof where
  registered: "registered_dev ret img e0 = Some dev \<Longrightarrow> length img = 1024 \<Longrightarrow> balanced h \<Longrightarrow> reachable k prof dev h"
| callback: "reachable k prof dev h \<Longrightarrow> drv_step k prof (dev, h) (dev', h') \<Longrightarrow> reachable k prof dev' h'"

lemma registered_ok: "registered_dev ret img e0 = Some dev \<Longrightarrow> length img = 1024 \<Longrightarrow> dev_ok dev \<and> idle dev \<and> tx_anchor dev = []"
  by (auto simp: registered_eq dev_ok_def idle_def zero_dev_def list_all_iff)

lemma reachable_inv: "reachable k prof dev h \<Longrightarrow> drv_inv (dev, h)"
proof (induction rule: reachable.induct)
  case (registered ret img e0 dev h)
  then show ?case using registered_ok held_idle by (simp add: drv_inv_def balanced_def)
qed (rule drv_step_inv)

lemma reachable_ok: "reachable k prof dev h \<Longrightarrow> dev_ok dev"
  using reachable_inv by (force simp: drv_inv_def)

text \<open>A device whose eFuse could not be read.\<close>

definition sample_registered :: mt7603u_dev where
  "sample_registered = zero_dev\<lparr> eeprom := replicate 1024 0xFF, eeprom_valid := False, mac_addr := default_mac, rssi_offset := 0 \<rparr>"

lemma sample_reachable: "reachable k prof sample_registered []"
proof (rule registered [of "- 1" "replicate 1024 0xFF"])
  show "registered_dev (- 1) (replicate 1024 0xFF) EepromData_default = Some sample_registered"
    by (simp add: registered_eq sample_registered_def)
qed (simp_all add: balanced_def)

text \<open>What a step of a stopped device submits: nothing, unless it is a start.\<close>

lemma stop_rx_silent: "submission.keeps (mt7603_stop_rx dev)"
proof -
  have ring: "submission.keeps (release_ring ep buf urb)" for ep buf urb
    unfolding release_ring_def
    by (intro submission.keeps_rules submission.keeps_spec [OF kill_urb_spec] submission.keeps_spec [OF free_urb_spec]
        submission.keeps_spec [OF kfree_spec]) (simp_all add: no_submission_def)
  have "submission.keeps (release_slots slots)" for slots
    by (induction slots) (auto intro!: submission.keeps_rules ring)
  then show ?thesis
    unfolding mt7603_stop_rx_def by (intro submission.keeps_rules ring)
qed

lemma kill_silent: "submission.keeps (usb_kill_anchored_urbs std dev)"
  by (rule submission.keeps_spec [OF kill_anchored_spec]) (auto simp: no_submission_def list_all_iff)

lemma silent_run: "submission.keeps m \<Longrightarrow> run_state m h = (x, h') \<Longrightarrow> \<exists>es. h' = h @ es \<and> no_submission es"
  unfolding submission.keeps_def by (erule specD) auto

lemma drv_step_silent:
  assumes "drv_step k prof s s'" "drv_inv s" "\<not> running (fst s)" "\<not> running (fst s')"
  shows "\<exists>es. snd s' = snd s @ es \<and> no_submission es"
  using assms
proof (induction rule: drv_step.induct)
  case (start dev h ret dev' h')
  then have "dev_ok dev" by (simp add: drv_inv_def)
  then have "running dev'" using specD [OF start_spec start(1)] by auto
  with start(4) show ?case by simp
next
  case (stop_begins dev h)
  then show ?case by (simp add: no_submission_def)
next
  case (stop_receive dev h dev' h')
  then show ?case using silent_run [OF stop_rx_silent] by simp
next
  case (stop_transmit dev std h dev' h')
  then show ?case using silent_run [OF kill_silent] by simp
next
  case (tx txwi std ans txi skb dev h dev' h')
  then have "dev_ok dev" "\<not> running dev" by (simp_all add: drv_inv_def)
  then have "h' = h @ []" using transmit_run [OF tx(2,1)] by blast
  then show ?case by (auto simp: no_submission_def)
next
  case (beacon dev txwi std ans now bcn h dev' h')
  then have "dev_ok dev" "\<not> running dev" by (simp_all add: drv_inv_def)
  then have "h' = h @ []" using beacon_work_run [OF beacon(3,2)] by blast
  then show ?case by (auto simp: no_submission_def)
next
  case (tx_complete dev us u vs std status h r h')
  obtain es where "h' = h @ es" "es = [Urb_Free]" using specD [OF tx_urb_complete_spec tx_complete(2)] by blast
  then show ?case by (simp add: no_submission_def)
next
  case (add_interface dev v h dev' h')
  then show ?case using silent_run [OF silent.interface_keeps(1)] by simp
next
  case (remove_interface dev v h dev' h')
  then show ?case using silent_run [OF silent.interface_keeps(2)] by simp
next
  case (config dev cd change h dev' h')
  then show ?case using silent_run [OF silent.config_keeps] by simp
next
  case (configure_filter dev tf flags h dev' tf' h')
  then show ?case using silent_run [OF silent.interface_keeps(3)] by simp
next
  case (bss_info_changed dev vif info changed cached h dev' h')
  then show ?case using silent_run [OF silent.bss_keeps] by simp
next
  case (sta_add dev vif sta cached h dev' h')
  then show ?case using silent_run [OF silent.station_keeps(1)] by simp
next
  case (sta_remove vif h u h' dev)
  then show ?case using silent_run [OF silent.station_keeps(2)] by simp
next
  case (set_key cmd vif sta key h r h' dev)
  then show ?case using silent_run [OF silent.station_keeps(3)] by simp
next
  case (ampdu hv action sta tid sz h r h' dev)
  then show ?case using silent_run [OF silent.station_keeps(4)] by simp
next
  case (cmd_rsp_complete dev status h u h')
  then show ?case by (simp add: mt7603_cmd_rsp_complete_def resubmit_def no_submission_def)
next
  case (rx_complete dev alloc_skb info status buf items again h u h')
  then have "\<not> again" by (auto simp: mt7603_rx_complete_def bind_eq_Some_conv split: if_splits)
  with rx_complete(3) show ?case by (simp add: resubmit_def no_submission_def)
qed

section \<open>A device in use\<close>

lemma start_rx_filled:
  assumes "\<And>h. kmalloc_ok k h 24576" "\<And>h. kmalloc_ok k h 512" "\<And>h. usb_alloc_urb_ok k h"
  shows "spec (mt7603_start_rx k dev) (\<lambda>r es. r = (0, dev\<lparr> rx_urbs := map (\<lambda>_. (True, True)) (rx_urbs dev),
    cmd_buf := True, cmd_urb := True \<rparr>))"
proof -
  have "run_state (start_rx_slots k slots) h = ((0, map (\<lambda>_. (True, True)) slots), snd (run_state (start_rx_slots k slots) h))"
    for slots h
    by (induction slots arbitrary: h) (auto simp: call_defs assms case_prod_beta prod_eq_iff)
  then have "fst (run_state (start_rx_slots k slots) h) = (0, map (\<lambda>_. (True, True)) slots)" for slots h
    by (metis fst_conv)
  then have slots: "spec (start_rx_slots k slots) (\<lambda>r es. r = (0, map (\<lambda>_. (True, True)) slots))" for slots
    using start_rx_slots_spec [of k slots] unfolding spec_def by metis
  have ring: "spec (start_cmd_ring k b u) (\<lambda>r es. r = (True, True))" for b u
    by (rule specI) (auto simp: start_cmd_ring_def call_defs assms)
  show ?thesis
    unfolding mt7603_start_rx_def Let_def case_prod_beta
    by (rule spec_bind [OF clear_halt_spec], rule spec_bind [OF clear_halt_spec], rule spec_bind [OF slots],
        rule spec_if, simp, rule spec_bind [OF ring], rule spec_return) simp
qed

lemma start_filled:
  assumes "dev_ok dev" "\<And>h n. kmalloc_ok k h n" "\<And>h. usb_alloc_urb_ok k h"
  shows "returns (mt7603_mac80211_start k prof dev) (\<lambda>r. \<exists>ret d. r = Some (ret, d) \<and> dev_ok d \<and> running d \<and>
    rx_urbs d = replicate 4 (True, True) \<and> tx_anchor d = tx_anchor dev)"
proof -
  let ?d = "(next_seq dev)\<lparr> running := True \<rparr>"
  let ?f = "?d\<lparr> rx_urbs := map (\<lambda>_. (True, True)) (rx_urbs ?d), cmd_buf := True, cmd_urb := True \<rparr>"
  have ok: "dev_ok ?f" using assms(1) by (auto simp: dev_ok_def next_seq_def seq_bound)
  have four: "rx_urbs ?f = replicate 4 (True, True)" "tx_anchor ?f = tx_anchor dev"
    using assms(1) by (auto simp: dev_ok_def next_seq_def map_replicate_const)
  have rx: "returns (mt7603_start_rx k ?d) (\<lambda>r. r = (0, ?f))"
    unfolding returns_def by (rule start_rx_filled) (simp_all add: assms(2,3))
  have conf: "yields (start_configure k prof ?f) (steady ?f)" by (rule start_configure_steady [OF ok])
  have chan: "yields (mt7603_set_channel k prof d 1) (\<lambda>d'. dev_ok d' \<and> running d' \<and>
      rx_urbs d' = replicate 4 (True, True) \<and> tx_anchor d' = tx_anchor dev)"
    if "steady ?f d" for d
    unfolding mt7603_set_channel_def
    by (rule yields_weaken [OF set_channel_steady [OF steady_ok [OF that]]])
      (use that four in \<open>auto simp: steady_def rings_def\<close>)
  have tail: "yields (and_then (start_configure k prof ?f) (\<lambda>dev. do {
      kfree; and_then (mt7603_set_channel k prof dev 1) (\<lambda>dev. State_Monad.return (Some (0, dev))) }))
      (\<lambda>x. dev_ok (snd x) \<and> running (snd x) \<and> rx_urbs (snd x) = replicate 4 (True, True) \<and> tx_anchor (snd x) = tx_anchor dev)"
    by (rule yields_then [OF conf], rule yields_skip [OF kfree_spec], rule yields_then [OF chan], assumption,
        rule yields_return) simp
  have "yields (mt7603_mac80211_start k prof dev) (\<lambda>(ret, d). dev_ok d \<and> running d \<and>
      rx_urbs d = replicate 4 (True, True) \<and> tx_anchor d = tx_anchor dev)"
    unfolding mt7603_mac80211_start_def Let_def yields_def case_prod_beta
    apply (rule returns_skip [OF enable_udma_spec], rule returns_bind [OF rx], rule returns_skip [OF kmalloc_spec], rule returns_if)
     apply (rule returns_return, use ok four in simp)
    apply (simp only: snd_conv, rule tail [unfolded yields_def])
    done
  then show ?thesis unfolding yields_def by (rule returns_weaken) auto
qed


lemma sample_in_use:
  "\<exists>dev h. reachable (answering 4) Release dev h \<and> running dev \<and> rx_urbs dev = replicate 4 (True, True) \<and> tx_anchor dev = []"
proof -
  have start: "returns (mt7603_mac80211_start (answering 4) Release sample_registered) (\<lambda>r. \<exists>ret d. r = Some (ret, d) \<and>
      dev_ok d \<and> running d \<and> rx_urbs d = replicate 4 (True, True) \<and> tx_anchor d = tx_anchor sample_registered)"
    by (rule start_filled [OF reachable_ok [OF sample_reachable]]) (simp_all add: answering_def)
  obtain ret dev h where "run_state (mt7603_mac80211_start (answering 4) Release sample_registered) [] = (Some (ret, dev), h)"
    "running dev" "rx_urbs dev = replicate 4 (True, True)" "tx_anchor dev = []"
    by (rule spec_run [OF start [unfolded returns_def], where h = "[]"]) (auto simp: sample_registered_def zero_dev_def)
  then show ?thesis by (blast intro: callback sample_reachable drv_step.start)
qed

text \<open>The sample frame is accepted by the host controller and stays in flight.\<close>

lemma sample_transmits: "\<exists>dev h. reachable (answering 4) Release dev h \<and> length (tx_anchor dev) = 1"
proof -
  obtain dev h where d: "reachable (answering 4) Release dev h" "running dev" "tx_anchor dev = []"
    using sample_in_use by blast
  obtain dev' h' where
    "run_state (transmit (answering 4) linux_std sample_answers (replicate 32 0) sample_info sample_skb dev) h = (Some dev', h')"
    "length (tx_anchor dev') = 1"
    using d(2,3) by (auto simp: transmit_def sample_frame call_defs answering_def)
  then show ?thesis using callback [OF d(1) drv_step.tx, of "replicate 32 0"] by (metis length_replicate)
qed

section \<open>Properties of a run\<close>

text \<open>C1: in every state that registration and any sequence of mac80211 callbacks (transmission
  included), parts of stop, beacon work and URB completions can lead to, whatever the bus, the device
  and the allocator answer: the command sequence number fits its four bits, the channel is at most 14
  and the bandwidth 20 or 40 MHz, a beacon is queued only while beaconing is enabled, every transfer in
  flight goes to one of the two transmit endpoints in whole words, and the buffers and URBs the driver
  has allocated and not released are exactly those of its receive rings and its transmit anchor.\<close>

theorem driver_invariant:
  assumes "reachable k prof dev h"
  shows "cmd_seq dev \<le> 15 \<and> current_channel dev \<le> 14 \<and> current_bw dev \<le> 1 \<and>
    length (eeprom dev) = 1024 \<and> length (rx_urbs dev) = 4 \<and> (beacon_work dev = None \<or> beacon_enabled dev) \<and>
    list_all (\<lambda>u. (urb_ep u = 0x05 \<or> urb_ep u = 0x08) \<and> 4 dvd length (urb_buf u) \<and> 36 \<le> length (urb_buf u)) (tx_anchor dev) \<and>
    live_buffers h = int (length (filter fst (rx_urbs dev))) + (if cmd_buf dev then 1 else 0) \<and>
    live_urbs h = int (length (filter snd (rx_urbs dev))) + (if cmd_urb dev then 1 else 0) + int (length (tx_anchor dev))"
  using reachable_inv [OF assms]
  by (auto simp: drv_inv_def dev_ok_def held_buffers_def held_urbs_def tx_urb_ok_def [abs_def])

theorem driver_invariant_witness:
  "\<exists>dev h. reachable (answering 4) Release dev h \<and> length (tx_anchor dev) = 1 \<and>
     live_urbs h = int (length (filter snd (rx_urbs dev))) + (if cmd_urb dev then 1 else 0) + 1"
proof -
  obtain dev h where "reachable (answering 4) Release dev h" "length (tx_anchor dev) = 1"
    using sample_transmits by blast
  with driver_invariant [OF this(1)] show ?thesis by (intro exI [of _ dev] exI [of _ h]) simp
qed





text \<open>C12: from a reachable state in which the device is not running, be it inside stop with URBs still
  in flight, whatever callbacks, frames to transmit, parts of stop, beacon work and completions follow, no
  URB, receive or transmit, is submitted until the device is started again: the handlers see that the
  device is not running.\<close>

theorem quiet_until_started:
  assumes "reachable k prof dev h" "\<not> running dev"
    "(\<lambda>s s'. drv_step k prof s s' \<and> \<not> running (fst s'))\<^sup>*\<^sup>* (dev, h) (dev', h')"
  shows "\<exists>es. h' = h @ es \<and> (\<forall>ep r. Urb_Submit ep r \<notin> set es)"
proof -
  have "drv_inv s \<and> \<not> running (fst s) \<and> (\<exists>es. snd s = h @ es \<and> no_submission es)"
    if "(\<lambda>s s'. drv_step k prof s s' \<and> \<not> running (fst s'))\<^sup>*\<^sup>* (dev, h) s" for s
    using that
  proof (induction rule: rtranclp_induct)
    case base
    then show ?case using reachable_inv [OF assms(1)] assms(2) by (simp add: no_submission_def)
  next
    case (step s s')
    then obtain es where "snd s' = snd s @ es" "no_submission es" using drv_step_silent [of k prof s s'] by auto
    with step show ?case using drv_step_inv [of k prof s s'] by (auto simp: no_submission_def)
  qed
  from this [OF assms(3)] show ?thesis
    unfolding no_submission_def list_all_iff by fastforce
qed

text \<open>A received aggregate completes inside stop: the handler runs and does not submit its URB again.\<close>

theorem quiet_until_started_witness:
  "\<exists>dev h h'. (True, True) \<in> set (rx_urbs dev) \<and> drv_step (answering 4) Release (dev, h) (dev, h') \<and>
     (\<exists>es. h' = h @ es \<and> (\<forall>ep r. Urb_Submit ep r \<notin> set es))"
proof -
  obtain dev h where d: "reachable (answering 4) Release dev h" "rx_urbs dev = replicate 4 (True, True)"
    using sample_in_use by blast
  let ?d = "stop_flags dev"
  have r: "reachable (answering 4) Release ?d h" by (rule callback [OF d(1) drv_step.stop_begins])
  have s: "\<not> running ?d" "(True, True) \<in> set (rx_urbs ?d)" using d(2) by (simp_all add: stop_flags_def)
  have "mt7603_rx_complete (current_channel ?d) (rssi_offset ?d) (running ?d) (\<lambda>_. True) RxInfo_default 0 [] = Some ([], False)"
    using s(1) by (simp add: mt7603_rx_complete_def)
  then have step: "drv_step (answering 4) Release (?d, h) (?d, h)"
    by (rule drv_step.rx_complete [OF s(2)]) (simp add: resubmit_def)
  then have "(\<lambda>s s'. drv_step (answering 4) Release s s' \<and> \<not> running (fst s'))\<^sup>*\<^sup>* (?d, h) (?d, h)"
    using s(1) by (intro r_into_rtranclp) simp
  from quiet_until_started [OF r s(1) this] show ?thesis using step s(2) by blast
qed

end
