(* ===== verification/Bringup.thy ===== *)
theory Bringup
  imports Lifecycle Rx_Path
begin

text \<open>
  What the device is told while it is brought up: the commands of a channel change and of a start,
  with their sequence numbers, and what probe and registration make of bad firmware, a blank eFuse and
  exhausted memory.
\<close>

section \<open>Commands sent when memory suffices\<close>

definition allocating :: "kernel \<Rightarrow> bool" where
  "allocating k \<longleftrightarrow> (\<forall>h n. kmalloc_ok k h n)"

definition commands :: "history \<Rightarrow> u8 list list" where
  "commands es = map fst (sent_frames es)"

lemma commands_append [simp]: "commands (xs @ ys) = commands xs @ commands ys"
  by (simp add: commands_def)

definition tells :: "'a option io \<Rightarrow> u8 list list \<Rightarrow> 'a \<Rightarrow> bool" where
  "tells m plan x \<longleftrightarrow> spec m (\<lambda>r es. r = Some x \<and> commands es = plan)"

lemma tells_return: "tells (State_Monad.return (Some x)) [] x"
  by (simp add: tells_def spec_return commands_def)

lemma tells_then: "tells m p x \<Longrightarrow> tells (f x) q y \<Longrightarrow> tells (and_then m f) (p @ q) y"
  unfolding tells_def and_then_def by (rule spec_bind, assumption) (auto elim: spec_weaken)

lemma tells_cons: "tells m [c] x \<Longrightarrow> tells (f x) q y \<Longrightarrow> tells (and_then m f) (c # q) y"
  using tells_then [of m "[c]"] by simp

lemma tells_skip: "tells m [] x \<Longrightarrow> tells (f x) q y \<Longrightarrow> tells (and_then m f) q y"
  using tells_then [of m "[]"] by simp

lemma tells_quiet: "quiet.keeps m \<Longrightarrow> (\<And>x. tells (f x) q y) \<Longrightarrow> tells (State_Monad.bind m f) q y"
  unfolding tells_def quiet.keeps_def
  by (rule spec_bind, assumption) (auto simp: commands_def elim!: spec_weaken)

lemma kmalloc_allocating: "allocating k \<Longrightarrow> spec (kmalloc k n) (\<lambda>ok es. ok \<and> es = [Alloc n True])"
  by (rule spec_weaken [OF spec_conj [OF kmalloc_spec, of _ _ "\<lambda>ok _. ok"]])
    (auto simp: kmalloc_def allocating_def spec_def)

lemma send_cmd_tells: "allocating k \<Longrightarrow> spec (mt7603_usb_send_cmd k f) (\<lambda>_ es. commands es = [padded f])"
  by (rule specI) (auto simp: allocating_def mt7603_usb_send_cmd_def call_defs commands_def padded_def)

lemma send_built_tells:
  assumes "allocating k" "0 < length block" "length block \<le> n" "n \<le> length region"
  shows "tells (send_built k (Some (ffi_outcome True block region n c))) [padded block] ()"
  using assms(2-) send_cmd_tells [OF assms(1)] unfolding tells_def ffi_outcome_def send_built_def
  by (auto intro!: spec_bind spec_return)

text \<open>A register sequence sends no command, and its builder does not panic.\<close>

lemma exec_built_tells:
  assumes "sound_call r"
  shows "\<exists>b. tells (exec_built k r) [] b"
proof -
  obtain ret ops n where r: "r = Some (ret, Some ops, Some n)" using assms by (auto simp: sound_call_def)
  show ?thesis
    unfolding r exec_built_def option.case prod.case
    by (cases "ret = 0 \<and> n > 0") (auto intro: tells_quiet [OF execute_quiet] tells_return)
qed

section \<open>The plans\<close>

definition ext_command :: "u8 \<Rightarrow> u8 \<Rightarrow> u8 list \<Rightarrow> u8 list" where
  "ext_command ext seq payload = padded (fw_txd_block EXT_CID P1_Q0 CMD_SET ext seq True FW_TXD_FULL_SIZE payload)"

definition channel_plan :: "u8 list \<Rightarrow> u8 \<Rightarrow> u8 \<Rightarrow> u8 \<Rightarrow> u8 \<Rightarrow> u8 list list" where
  "channel_plan e2p seq ch cen b =
     [ext_command EXT_CMD_CHANNEL_SWITCH seq
        ([ch, cen, b, 2, 2] @ replicate 7 0 @ replicate 21 0xFF @ replicate 3 0),
      ext_command EXT_CMD_SET_TX_POWER_CTRL (mt7603_next_cmd_seq seq) (tx_power_payload e2p ch)]"

definition start_plan :: "bool \<Rightarrow> u8 list \<Rightarrow> u8 \<Rightarrow> u8 list list" where
  "start_plan calibrated e2p seq =
     (let next = mt7603_next_cmd_seq; first = (if calibrated then next seq else seq)
      in (if calibrated then [ext_command EXT_CMD_EFUSE_BUFFER_MODE seq (replicate 964 0)] else []) @
         [ext_command EXT_CMD_RADIO_ON_OFF_CTRL first [1, 0, 0, 0],
          ext_command EXT_CMD_EDCA_SET (next first) edca_payload] @
         channel_plan e2p (next (next first)) 1 1 0)"

text \<open>Both ways the C code steps a sequence number agree on numbers of four bits.\<close>

lemma next_seq_eq: "x \<le> 15 \<Longrightarrow> x mod 15 + 1 = mt7603_next_cmd_seq x"
proof -
  assume "x \<le> 15"
  then have "unat x \<le> 15" by (simp add: word_le_nat_alt)
  then consider "x = 15" | "x < 15" using word_le_less_eq by (metis \<open>x \<le> 15\<close>)
  then show ?thesis
    by cases (auto simp: mt7603_next_cmd_seq_def mod_word_less)
qed

lemma cmd_seq_next: "dev_ok dev \<Longrightarrow> cmd_seq (next_seq dev) = mt7603_next_cmd_seq (cmd_seq dev)"
  by (simp add: next_seq_def dev_ok_def next_seq_eq)

lemma length_payloads: "length (tx_power_payload e2p ch) = 44" "length edca_payload = 36"
  by (simp_all add: tx_power_payload_def edca_payload_def edca_entry_def wmm_tables)

lemma built_calls:
  assumes "length e = 1024"
  shows "mt7603_rust_build_chan_switch_cmd prof ch cen b 2 2 seq (Some (cmd_scratch k 128)) 128 (Some c) =
      Some (ffi_outcome True (fw_txd_block EXT_CID P1_Q0 CMD_SET EXT_CMD_CHANNEL_SWITCH seq True FW_TXD_FULL_SIZE
        ([ch, cen, b, 2, 2] @ replicate 7 0 @ replicate 21 0xFF @ replicate 3 0)) (cmd_scratch k 128) 128 c)"
    "mt7603_rust_build_tx_power_ctrl_cmd prof (Some e) 1024 ch seq (Some (cmd_scratch k 128)) 128 (Some c) =
      Some (ffi_outcome True (fw_txd_block EXT_CID P1_Q0 CMD_SET EXT_CMD_SET_TX_POWER_CTRL seq True FW_TXD_FULL_SIZE
        (tx_power_payload e ch)) (cmd_scratch k 128) 128 c)"
    "mt7603_rust_build_efuse_buffer_mode_cmd prof (Some e) 1024 seq (Some (replicate 1088 0)) 1088 (Some c) =
      Some (ffi_outcome True (fw_txd_block EXT_CID P1_Q0 CMD_SET EXT_CMD_EFUSE_BUFFER_MODE seq True FW_TXD_FULL_SIZE
        (replicate 964 0)) (replicate 1088 0) 1088 c)"
    "mt7603_rust_build_radio_on_off_cmd prof True seq (Some (replicate 1088 0)) 1088 (Some c) =
      Some (ffi_outcome True (fw_txd_block EXT_CID P1_Q0 CMD_SET EXT_CMD_RADIO_ON_OFF_CTRL seq True FW_TXD_FULL_SIZE
        [1, 0, 0, 0]) (replicate 1088 0) 1088 c)"
    "mt7603_rust_build_edca_set_cmd prof seq (Some (replicate 1088 0)) 1088 (Some c) =
      Some (ffi_outcome True (fw_txd_block EXT_CID P1_Q0 CMD_SET EXT_CMD_EDCA_SET seq True FW_TXD_FULL_SIZE
        edca_payload) (replicate 1088 0) 1088 c)"
  using assms
  by (simp_all add: mt7603_rust_build_chan_switch_cmd_def mt7603_rust_build_tx_power_ctrl_cmd_def
      mt7603_rust_build_efuse_buffer_mode_cmd_def mt7603_rust_build_radio_on_off_cmd_def
      mt7603_rust_build_edca_set_cmd_def from_raw_parts_eq channel_switch.ffi_write_outcome
      tx_power.ffi_write_outcome efuse.ffi_write_outcome radio.ffi_write_outcome edca.ffi_write_outcome)

lemma ext_tells:
  assumes "allocating k" "length payload + 32 \<le> n" "n \<le> length region"
  shows "tells (send_built k (Some (ffi_outcome True
    (fw_txd_block EXT_CID P1_Q0 CMD_SET ext seq True FW_TXD_FULL_SIZE payload) region n c)))
    [ext_command ext seq payload] ()"
  unfolding ext_command_def using assms by (intro send_built_tells) (simp_all add: length_fw_txd_block)

lemma quiet_calls: "quiet.keeps anchor_wait" "quiet.keeps (clear_halt ep)" "quiet.keeps kfree" "quiet.keeps (kmalloc k n)"
    "quiet.keeps (alloc_urb k)" "quiet.keeps (submit_urb k ep)"
  by (rule quiet.keeps_spec [OF anchor_wait_spec] quiet.keeps_spec [OF clear_halt_spec]
      quiet.keeps_spec [OF kfree_spec] quiet.keeps_spec [OF kmalloc_spec] quiet.keeps_spec [OF alloc_urb_spec]
      quiet.keeps_spec [OF submit_urb_spec]; simp)+

lemma next_seq_frame [simp]: "eeprom (next_seq dev) = eeprom dev" "eeprom_valid (next_seq dev) = eeprom_valid dev"
    "mac_addr (next_seq dev) = mac_addr dev"
  by (simp_all add: next_seq_def)

section \<open>Changing the channel\<close>

definition tuned :: "mt7603u_dev \<Rightarrow> u8 \<Rightarrow> u8 \<Rightarrow> mt7603u_dev" where
  "tuned dev ch b = (next_seq (next_seq dev))\<lparr> current_channel := clamp_channel ch, current_bw := (if b > 1 then 0 else b) \<rparr>"

definition central_channel :: "u8 \<Rightarrow> u8 \<Rightarrow> u8" where
  "central_channel ch cen = (if cen < 1 \<or> cen > 14 then clamp_channel ch else cen)"

lemma set_channel_tells:
  assumes "allocating k" "dev_ok dev"
  shows "tells (mt7603_set_channel_ext k prof dev ch b cen)
    (channel_plan (eeprom dev) (mt7603_next_cmd_seq (cmd_seq dev)) (clamp_channel ch) (central_channel ch cen)
      (if b > 1 then 0 else b)) (tuned dev ch b)"
proof -
  have e: "length (eeprom dev) = 1024" using assms(2) by (simp add: dev_ok_def)
  have seq: "cmd_seq (next_seq dev) = mt7603_next_cmd_seq (cmd_seq dev)"
    "cmd_seq (next_seq (next_seq dev)) = mt7603_next_cmd_seq (mt7603_next_cmd_seq (cmd_seq dev))"
    using assms(2) steady_ok [OF next_seq_steady] by (simp_all add: cmd_seq_next)
  note chan = ext_tells [OF assms(1), of _ 128 "cmd_scratch k 128"]
  show ?thesis
    unfolding mt7603_set_channel_ext_def Let_def channel_plan_def seq next_seq_frame built_calls [OF e]
      central_channel_def [symmetric] tuned_def
    apply (rule tells_quiet [OF quiet_calls(1)])
    apply (rule tells_cons [OF chan])
      apply (simp_all)[2]
    apply (rule tells_quiet [OF keeps_access(6)])
    apply (rule tells_cons [OF chan])
      apply (simp_all add: length_payloads tells_return)
    done
qed

section \<open>Starting\<close>

lemma start_calibration_tells:
  assumes "allocating k" "dev_ok dev"
  shows "tells (start_calibration k prof dev)
    (if eeprom_valid dev then [ext_command EXT_CMD_EFUSE_BUFFER_MODE (cmd_seq dev) (replicate 964 0)] else [])
    (if eeprom_valid dev then next_seq dev else dev)"
proof -
  have e: "length (eeprom dev) = 1024" using assms(2) by (simp add: dev_ok_def)
  have "tells (and_then (send_built k (mt7603_rust_build_efuse_buffer_mode_cmd prof (Some (eeprom dev)) 1024 (cmd_seq dev)
      (Some (replicate 1088 0)) 1088 (Some 0))) (\<lambda>_. State_Monad.return (Some (next_seq dev))))
    [ext_command EXT_CMD_EFUSE_BUFFER_MODE (cmd_seq dev) (replicate 964 0)] (next_seq dev)"
    unfolding built_calls [OF e]
    by (intro tells_cons [OF ext_tells [OF assms(1)]] tells_return) simp_all
  then show ?thesis by (simp add: start_calibration_def tells_return)
qed

lemma start_configure_tells:
  assumes "allocating k" "dev_ok dev"
  defines "d \<equiv> if eeprom_valid dev then next_seq dev else dev"
  shows "tells (start_configure k prof dev)
    ((if eeprom_valid dev then [ext_command EXT_CMD_EFUSE_BUFFER_MODE (cmd_seq dev) (replicate 964 0)] else []) @
     [ext_command EXT_CMD_RADIO_ON_OFF_CTRL (cmd_seq d) [1, 0, 0, 0],
      ext_command EXT_CMD_EDCA_SET (cmd_seq (next_seq d)) edca_payload]) (next_seq d)"
proof -
  obtain b1 b2 b3 where
    "tells (exec_built k (mt7603_rust_get_mac_init_sequence (Some (ops_scratch k 128)) 128 (Some 0))) [] b1"
    "tells (exec_built k (mt7603_rust_build_own_mac_sequence (Some (mac_bytes (mac_addr d)))
       (Some (ops_scratch k 128)) 128 (Some 0))) [] b2"
    "tells (exec_built k (mt7603_rust_build_wtbl_sta_sequence (Some (replicate 6 0xff))
       (Some (ops_scratch k 128)) 128 (Some 0))) [] b3"
    using exec_built_tells sound_calls(6,7,9) by metis
  note regs = tells_skip [OF this(1)] tells_skip [OF this(2)] tells_skip [OF this(3)]
  note cmd = ext_tells [OF assms(1), of _ 1088 "replicate 1088 0"]
  have e: "length (replicate 1024 (0 :: u8)) = 1024" by simp
  show ?thesis
    unfolding start_configure_def built_calls(4,5) [OF e]
    apply (rule tells_then [OF start_calibration_tells [OF assms(1,2)], folded d_def])
    apply (rule regs, rule regs, rule regs)
    apply (rule tells_cons [OF cmd])
      apply simp_all[2]
    apply (rule tells_cons [OF cmd])
      apply (simp_all add: length_payloads)[2]
    apply (rule tells_quiet [OF keeps_access(6)], rule tells_return)
    done
qed

lemma start_rx_quiet: "quiet.keeps (mt7603_start_rx k dev)"
proof -
  have "quiet.keeps (start_rx_slots k slots)" for slots
    by (induction slots) (auto intro!: quiet.keeps_rules quiet_calls)
  then show ?thesis
    unfolding mt7603_start_rx_def start_cmd_ring_def Let_def by (intro quiet.keeps_rules quiet_calls) auto
qed

lemma udma_quiet: "quiet.keeps (mt7603_usb_enable_udma k agg)"
  unfolding mt7603_usb_enable_udma_def Let_def by (intro quiet.keeps_rules keeps_access)

lemma start_tells:
  assumes "allocating k" "dev_ok dev"
  shows "spec (mt7603_mac80211_start k prof dev) (\<lambda>r es. \<exists>dev'. r = Some (0, dev') \<and> current_channel dev' = 1 \<and>
    commands es = start_plan (eeprom_valid dev) (eeprom dev) (mt7603_next_cmd_seq (cmd_seq dev)))"
proof -
  let ?d = "(next_seq dev)\<lparr> running := True \<rparr>"
  have rest: "\<exists>dev'. tells (and_then (start_configure k prof d) (\<lambda>dev. do {
       kfree;
       and_then (mt7603_set_channel k prof dev 1) (\<lambda>dev. State_Monad.return (Some (0, dev)))
     })) (start_plan (eeprom_valid dev) (eeprom dev) (mt7603_next_cmd_seq (cmd_seq dev))) (0, dev') \<and> current_channel dev' = 1"
    if "rings_only ?d d" for d
  proof -
    note d = started_ok [OF assms(2) that]
    define d1 where "d1 = (if eeprom_valid d then next_seq d else d)"
    have d1: "dev_ok d1" "eeprom d1 = eeprom dev" "cmd_seq d1 = (if eeprom_valid dev
        then mt7603_next_cmd_seq (mt7603_next_cmd_seq (cmd_seq dev)) else mt7603_next_cmd_seq (cmd_seq dev))"
      using d assms(2) steady_ok [OF next_seq_steady] by (auto simp: d1_def cmd_seq_next)
    note conf = start_configure_tells [OF assms(1), of d prof, folded d1_def]
    have ch: "tells (mt7603_set_channel k prof (next_seq d1) 1) (channel_plan (eeprom dev)
        (mt7603_next_cmd_seq (mt7603_next_cmd_seq (cmd_seq d1))) 1 1 0) (tuned (next_seq d1) 1 0)"
      using set_channel_tells [OF assms(1) steady_ok [OF next_seq_steady [OF d1(1)]], of prof 1 0 1] d1
      by (simp add: mt7603_set_channel_def clamp_channel_def central_channel_def cmd_seq_next)
    have plan: "start_plan (eeprom_valid dev) (eeprom dev) (mt7603_next_cmd_seq (cmd_seq dev)) =
      ((if eeprom_valid d then [ext_command EXT_CMD_EFUSE_BUFFER_MODE (cmd_seq d) (replicate 964 0)] else []) @
       [ext_command EXT_CMD_RADIO_ON_OFF_CTRL (cmd_seq d1) [1, 0, 0, 0],
        ext_command EXT_CMD_EDCA_SET (cmd_seq (next_seq d1)) edca_payload]) @
       channel_plan (eeprom dev) (mt7603_next_cmd_seq (mt7603_next_cmd_seq (cmd_seq d1))) 1 1 0 @ []"
      using d d1 assms(2) by (simp add: start_plan_def Let_def cmd_seq_next)
    show ?thesis
      unfolding plan
      by (intro exI [of _ "tuned (next_seq d1) 1 0"] conjI tells_then [OF conf] tells_quiet [OF quiet_calls(3)]
          tells_then [OF ch] tells_return) (use d in \<open>simp_all add: tuned_def clamp_channel_def\<close>)
  qed
  show ?thesis
    unfolding mt7603_mac80211_start_def Let_def case_prod_beta
    apply (rule spec_bind [OF enable_udma_spec], rule spec_bind [OF spec_conj [OF start_rx_spec
        start_rx_quiet [unfolded quiet.keeps_def]]])
    apply (rule spec_bind [OF kmalloc_allocating [OF assms(1)]])
    apply (rule spec_if, simp)
    subgoal for r es x es' ok es''
      using rest [of "snd x"] unfolding tells_def
      by (elim exE conjE) (auto elim!: spec_weaken simp: calm_def commands_def)
    done
qed

section \<open>Probe\<close>

text \<open>Computations that send no command and release what they allocate.\<close>

interpretation calmly: trace_property calm
  by unfold_locales (auto simp: calm_def balanced_def)

lemma calm_calls:
  "calmly.keeps (mt7603_usb_read_reg k a old)" "calmly.keeps (mt7603_usb_write_reg k a v)" "calmly.keeps sleep"
  by (rule calmly.keeps_spec [OF read_reg_spec], erule calm_access)
    (rule calmly.keeps_spec [OF write_reg_spec], erule calm_access,
     rule calmly.keeps_spec [OF sleep_spec], simp add: calm_def balanced_def)

lemmas calm_rules = calmly.keeps_rules calm_calls

lemma execute_calm: "calmly.keeps (mt7603_execute_reg_ops k ops)"
  by (induction ops) (auto intro!: calm_rules)

lemma efuse_calm: "calmly.keeps (mt7603_efuse_read_all k buf len)"
proof -
  have poll: "calmly.keeps (efuse_poll k n v)" for k n v
    by (induction n arbitrary: v) (auto intro!: calm_rules)
  have rdata: "calmly.keeps (efuse_rdata k is d)" for k "is" d
    by (induction "is" arbitrary: d) (auto intro!: calm_rules)
  have block: "calmly.keeps (mt7603_efuse_read_block k a d)" for k a d
    unfolding mt7603_efuse_read_block_def Let_def by (intro calm_rules poll rdata)
  have blocks: "calmly.keeps (efuse_blocks k i buf len)" for i buf
  proof (induction k i buf len rule: efuse_blocks.induct)
    case (1 k i buf len)
    then have "calmly.keeps (efuse_blocks k (i + 16) (take i buf @ d) len)" if "i + 16 \<le> len" for d
      using that by blast
    then show ?case
      unfolding efuse_blocks.simps [of k i buf len] by (intro calm_rules block) blast
  qed
  show ?thesis unfolding mt7603_efuse_read_all_def by (intro calm_rules blocks)
qed

lemma verify_call:
  "mt7603_rust_verify_firmware (Some fw) (length fw) =
     Some (if 1024 \<le> length fw \<and> take 4 fw = [0x46, 0x00, 0x01, 0x00] then 0 else EINVAL)"
  by (simp add: mt7603_rust_verify_firmware_def from_raw_parts_def verify_firmware_spec)

lemma probe_reject:
  assumes "\<not> (1024 \<le> length fw \<and> take 4 fw = [0x46, 0x00, 0x01, 0x00])"
  shows "mt7603u_probe k prof (Inr fw) a reg e0 = State_Monad.return (Some (EINVAL, None))"
  unfolding mt7603u_probe_def sum.case verify_call if_not_P [OF assms] by simp

text \<open>A device that registration hands out.\<close>

lemma register_spec:
  "spec (mt7603_register_mac80211 k a reg e0) (\<lambda>r es. calm es \<and> (\<exists>ret hw. r = Some (ret, hw) \<and>
     (\<forall>dev. hw = Some dev \<longrightarrow> ret = 0 \<and> (\<exists>ret' img. length img = 1024 \<and> registered_dev ret' img e0 = Some dev))))"
proof -
  have ok: "\<exists>dev. registered_dev ret img e0 = Some dev" if "length img = 1024" for ret img
    using registered_eq [OF that] by simp
  show ?thesis
    unfolding mt7603_register_mac80211_def
    apply (rule spec_if, simp add: spec_return calm_def balanced_def)
    apply (rule spec_bind [OF spec_conj [OF efuse_calm [unfolded calmly.keeps_def] efuse_read_all_spec]], simp)
    subgoal for x es
      using ok [of "snd x" "fst x"] by (cases x) (auto intro!: spec_return, blast)
    done
qed

definition probe_post :: "profile \<Rightarrow> int + u8 list \<Rightarrow> EepromData \<Rightarrow> mt7603u_dev \<Rightarrow> int \<Rightarrow> history \<Rightarrow> bool" where
  "probe_post prof fw e0 dev ret es \<longleftrightarrow> ret = 0 \<and> balanced es \<and>
     (\<exists>ret' img. length img = 1024 \<and> registered_dev ret' img e0 = Some dev) \<and>
     (\<exists>bytes dl. fw = Inr bytes \<and> 1024 \<le> length bytes \<and> take 4 bytes = [0x46, 0x00, 0x01, 0x00] \<and>
        fw_dl_len prof bytes = Some (Some dl) \<and> unat dl \<le> length bytes \<and>
        received_image (map fst (sent_frames es)) = take (unat dl) bytes)"

lemma download_received:
  assumes "download_post prof fw (Some 0) es"
  shows "\<exists>dl. fw_dl_len prof fw = Some (Some dl) \<and> unat dl \<le> length fw \<and>
    received_image (map fst (sent_frames es)) = take (unat dl) fw"
proof -
  obtain seq rs ds dl where d: "sent_frames es = rs @ ds" "rs = [] \<or> (\<exists>c. rs = [(padded (restart_frame 1), c)])"
    "fw_dl_len prof fw = Some (Some dl)" "follows (download_plan fw dl seq) ds True" "unat dl \<le> length fw"
    using assms by (rule download_post_success)
  with follows_sent [OF d(4)] show ?thesis by (auto simp: received_plan)
qed

lemma probe_spec:
  "spec (mt7603u_probe k prof fw a reg e0) (\<lambda>r es. \<forall>ret dev. r = Some (ret, Some dev) \<longrightarrow> probe_post prof fw e0 dev ret es)"
proof (cases fw)
  case (Inl ret)
  then show ?thesis by (simp add: mt7603u_probe_def spec_return)
next
  case (Inr bytes)
  obtain ops n where init: "mt7603_rust_get_mac_init_sequence (Some (ops_scratch k 128)) 128 (Some 0) = Some (0, Some ops, Some n)"
    by (simp add: mt7603_rust_get_mac_init_sequence_def mac_init.ffi_write_outcome ffi_outcome_def static_seq_def)
  show ?thesis
  proof (cases "1024 \<le> length bytes \<and> take 4 bytes = [0x46, 0x00, 0x01, 0x00]")
    case True
    have good: "probe_post prof fw e0 dev 0 (es1 @ es2 @ es3)"
      if "download_post prof bytes (Some 0) es1" "released (Some 0) es1" "calm es2" "calm es3"
        "length img = 1024" "registered_dev ret' img e0 = Some dev" for dev es1 es2 es3 img ret'
      using that download_received [OF that(1)] True Inr
      by (auto simp: probe_post_def calm_def balanced_def released_def)
    show ?thesis
      unfolding mt7603u_probe_def Inr sum.case verify_call if_P [OF True] option.case and_then_def init
      apply (simp only: less_irrefl if_False)
      apply (rule spec_bind [OF download_spec])
      subgoal for r es
        apply (cases r, simp add: spec_return)
        apply (simp only: option.case prod.case less_irrefl if_False, rule spec_if, simp add: spec_return)
        apply (rule spec_bind [OF execute_calm [unfolded calmly.keeps_def]])
        apply (rule spec_weaken [OF register_spec])
        using good Inr by (fastforce simp: released_def)
      done
  next
    case False
    show ?thesis unfolding Inr probe_reject [OF False] by (simp add: spec_return)
  qed
qed

section \<open>Properties\<close>

lemma answering_allocating: "allocating (answering c)"
  by (simp add: allocating_def answering_def)

lemma tells_run: "tells m plan x \<Longrightarrow> \<exists>es. run_state m h = (Some x, h @ es) \<and> commands es = plan"
  unfolding tells_def by (erule spec_run [where h = h]) auto

text \<open>C6: probe hands out a device only with the code 0 and only after the firmware was accepted
  (at least 1024 bytes, signature in front) and the boot ROM has received exactly the announced part of
  the image; what the probe allocated is then released, and the device satisfies the invariant of a
  registered one. An image that is not accepted is answered with -EINVAL before the first access to the
  device.\<close>

theorem probe_outcome:
  assumes "run_state (mt7603u_probe k prof fw alloc_ok register_ret e0) h = (r, h @ es)" "balanced h"
  shows "(\<forall>ret dev. r = Some (ret, Some dev) \<longrightarrow> ret = 0 \<and> reachable k prof dev (h @ es) \<and>
      (\<exists>bytes dl. fw = Inr bytes \<and> fw_dl_len prof bytes = Some (Some dl) \<and> unat dl \<le> length bytes \<and>
         received_image (map fst (sent_frames es)) = take (unat dl) bytes)) \<and>
    (\<forall>bytes. fw = Inr bytes \<and> \<not> (1024 \<le> length bytes \<and> take 4 bytes = [0x46, 0x00, 0x01, 0x00]) \<longrightarrow>
      r = Some (EINVAL, None) \<and> es = [])"
proof -
  have "ret = 0 \<and> reachable k prof dev (h @ es) \<and>
      (\<exists>bytes dl. fw = Inr bytes \<and> fw_dl_len prof bytes = Some (Some dl) \<and> unat dl \<le> length bytes \<and>
         received_image (map fst (sent_frames es)) = take (unat dl) bytes)" if "r = Some (ret, Some dev)" for ret dev
  proof -
    have p: "probe_post prof fw e0 dev ret es"
      using specD [OF probe_spec assms(1)] that by (metis same_append_eq)
    then have "balanced (h @ es)" using assms(2) by (auto simp: probe_post_def balanced_def)
    with p show ?thesis unfolding probe_post_def by (blast intro: registered)
  qed
  moreover have "r = Some (EINVAL, None) \<and> es = []"
    if "fw = Inr bytes \<and> \<not> (1024 \<le> length bytes \<and> take 4 bytes = [0x46, 0x00, 0x01, 0x00])" for bytes
    using assms(1) that by (auto simp: probe_reject)
  ultimately show ?thesis by blast
qed

theorem probe_outcome_witness:
  "\<exists>dev es. run_state (mt7603u_probe (answering 0) Release (Inr sample_fw) True 0 EepromData_default) [] = (Some (0, Some dev), es) \<and>
     reachable (answering 0) Release dev es \<and> received_image (map fst (sent_frames es)) = take 6 sample_fw"
proof -
  have fw: "1024 \<le> length sample_fw \<and> take 4 sample_fw = [0x46, 0x00, 0x01, 0x00]"
    using sample_fw_len(2) by (simp add: sample_fw_def numeral_eq_Suc)
  have init: "mt7603_rust_get_mac_init_sequence (Some (ops_scratch k 128)) 128 (Some 0) =
      Some (0, Some (static_seq @ drop (length static_seq) (ops_scratch k 128)), Some (length static_seq))" for k
    by (simp add: mt7603_rust_get_mac_init_sequence_def mac_init.ffi_write_outcome ffi_outcome_def static_seq_def)
  have reg: "spec (mt7603_register_mac80211 (answering 0) True 0 EepromData_default) (\<lambda>r es. \<exists>dev. r = Some (0, Some dev))"
    unfolding mt7603_register_mac80211_def
    apply (simp, rule spec_bind [OF efuse_read_all_spec], simp)
    subgoal for x es by (cases x) (auto simp: registered_eq intro!: spec_return)
    done
  have "spec (mt7603u_probe (answering 0) Release (Inr sample_fw) True 0 EepromData_default) (\<lambda>r es. \<exists>dev. r = Some (0, Some dev))"
    unfolding mt7603u_probe_def sum.case verify_call if_P [OF fw] option.case and_then_def init
    apply (simp only: less_irrefl if_False)
    apply (rule spec_bind [OF answering_download [unfolded result_def]])
    apply (simp only: option.case prod.case less_irrefl if_False)
    apply (rule spec_bind [OF execute_simulates], rule reg)
    done
  then obtain dev es where r: "run_state (mt7603u_probe (answering 0) Release (Inr sample_fw) True 0 EepromData_default) [] =
      (Some (0, Some dev), [] @ es)"
    by (rule spec_run [where h = "[]"]) auto
  show ?thesis
    using probe_outcome [OF r] r sample_fw_len by (auto simp: balanced_def)
qed

text \<open>C31: what identifies a registered device. When the eFuse image could be read, the address is
  its six bytes at offset 4, or the fallback 00:0c:43:76:03:01 when these are all 0x00 or all 0xff, and
  the RSSI offset is its signed byte at 0x46, or 0 when that is outside -10 to 10; otherwise the
  address is the built-in one and the offset 0. So the address is never zero or broadcast. The image
  is kept for calibration and marked valid exactly when it could be read.\<close>

theorem registered_identity:
  assumes "length img = 1024" "m = take 6 (drop 4 img)"
  shows "\<exists>dev. registered_dev ret img e0 = Some dev \<and>
    (if ret = 0
     then (if m = replicate 6 0x00 \<or> m = replicate 6 0xFF then mac_addr dev = Mac6 0x00 0x0C 0x43 0x76 0x03 0x01
           else mac_bytes (mac_addr dev) = m) \<and>
          rssi_offset dev = (if - 10 \<le> sint (img ! 0x46) \<and> sint (img ! 0x46) \<le> 10 then img ! 0x46 else 0)
     else mac_addr dev = Mac6 0x00 0x0C 0x43 0x76 0x03 0x01 \<and> rssi_offset dev = 0) \<and>
    mac_addr dev \<noteq> Mac6 0 0 0 0 0 0 \<and> mac_addr dev \<noteq> Mac6 0xFF 0xFF 0xFF 0xFF 0xFF 0xFF \<and>
    eeprom dev = img \<and> eeprom_valid dev = (ret = 0)"
proof -
  have l: "length m = 6" using assms by simp
  have "eeprom_mac m \<noteq> Mac6 0 0 0 0 0 0 \<and> eeprom_mac m \<noteq> Mac6 0xFF 0xFF 0xFF 0xFF 0xFF 0xFF"
    using l by (rule eeprom_mac_usable)
  moreover have "m = replicate 6 b \<longleftrightarrow> list_all (\<lambda>x. x = b) m" for b
    using l replicate_length_same [of m b] by (auto simp: list_all_iff)
  moreover have "mac_bytes (the (mac6_of_slice m)) = m"
  proof -
    obtain a b c d e f where "m = [a, b, c, d, e, f]"
      using l by (auto simp: numeral_eq_Suc length_Suc_conv)
    then show ?thesis by (simp add: mac6_of_slice_def)
  qed
  ultimately show ?thesis
    by (simp add: registered_eq [OF assms(1)] assms(2) [symmetric] default_mac_def rssi_in_range_def eeprom_mac_def
        fallback_mac_def)
qed

theorem registered_identity_witness:
  "\<exists>dev. registered_dev 0 ((replicate 1024 0xFF)[0x46 := 0xFE]) EepromData_default = Some dev \<and>
     mac_addr dev = Mac6 0x00 0x0C 0x43 0x76 0x03 0x01 \<and> sint (rssi_offset dev) = - 2"
  using registered_identity [of "(replicate 1024 0xFF)[0x46 := 0xFE]" "replicate 6 0xFF" 0 EepromData_default]
  by (auto simp: drop_update_swap take_update_swap list_update_beyond)

lemma set_channel_result:
  assumes "dev_ok dev"
  shows "yields (mt7603_set_channel_ext k prof dev ch b cen) (\<lambda>d. d = tuned dev ch b)"
proof -
  have len: "length (eeprom (next_seq (next_seq dev))) = 1024"
    using assms by (simp add: dev_ok_def next_seq_def)
  show ?thesis
    unfolding mt7603_set_channel_ext_def Let_def
    by (intro yields_skip [OF anchor_wait_spec] yields_then [OF send_built_yields] sound_calls
        yields_skip [OF write_reg_spec] len yields_return) (simp add: tuned_def)
qed

text \<open>C23: asked for a channel, the driver ends on it, whatever the bus and the allocator answer
  (channels outside 1 to 14 give channel 1), with two more command numbers used and the bandwidth of the
  request, and nothing else in the device structure changes. When the channel is already set and no
  change is announced it does nothing at all: no kernel call, no change. Otherwise, if memory suffices,
  exactly two commands are sent, numbered consecutively: the channel switch with control channel, central
  channel and bandwidth, and the transmit power of the control channel from the EEPROM image. For 40 MHz the
  central channel comes from the centre frequency, when that is a 2.4 GHz channel.\<close>

theorem config_tunes:
  assumes "reachable k prof dev h" "chan cd = Some ch"
  shows "\<exists>dev' es. run_state (mt7603_mac80211_config k prof dev cd change) h = (Some dev', h @ es) \<and>
    (if change \<or> ch \<noteq> current_channel dev
     then dev' = dev\<lparr> cmd_seq := mt7603_next_cmd_seq (mt7603_next_cmd_seq (cmd_seq dev)),
            current_channel := clamp_channel ch, current_bw := (if width_40 cd then 1 else 0) \<rparr> \<and>
          (allocating k \<longrightarrow> commands es =
             channel_plan (eeprom dev) (mt7603_next_cmd_seq (cmd_seq dev)) (clamp_channel ch)
               (central_channel ch (if width_40 cd \<and> center_freq1 cd \<ge> 2412 then of_nat ((center_freq1 cd - 2407) div 5) else ch))
               (if width_40 cd then 1 else 0))
     else dev' = dev \<and> es = [])"
proof (cases "change \<or> ch \<noteq> current_channel dev")
  case True
  have ok: "dev_ok dev" by (rule reachable_ok [OF assms(1)])
  let ?b = "if width_40 cd then 1 else 0 :: u8"
  let ?cen = "if width_40 cd \<and> center_freq1 cd \<ge> 2412 then of_nat ((center_freq1 cd - 2407) div 5) else ch"
  have run: "mt7603_mac80211_config k prof dev cd change = mt7603_set_channel_ext k prof dev ch ?b ?cen"
    using True assms(2) by (simp add: mt7603_mac80211_config_def mt7603_set_chandef_def Let_def)
  have two: "cmd_seq (next_seq (next_seq dev)) = mt7603_next_cmd_seq (mt7603_next_cmd_seq (cmd_seq dev))"
    using ok steady_ok [OF next_seq_steady] by (simp add: cmd_seq_next)
  then have t: "tuned dev ch ?b = dev\<lparr> cmd_seq := mt7603_next_cmd_seq (mt7603_next_cmd_seq (cmd_seq dev)),
      current_channel := clamp_channel ch, current_bw := ?b \<rparr>"
    by (simp add: tuned_def next_seq_def)
  obtain es where es: "run_state (mt7603_mac80211_config k prof dev cd change) h = (Some (tuned dev ch ?b), h @ es)"
    by (rule spec_run [OF set_channel_result [OF ok, unfolded yields_def returns_def, of k prof ch ?b ?cen], where h = h])
      (auto simp: run)
  have "commands es = channel_plan (eeprom dev) (mt7603_next_cmd_seq (cmd_seq dev)) (clamp_channel ch)
      (central_channel ch ?cen) ?b" if "allocating k"
    using tells_run [OF set_channel_tells [OF that ok, of prof ch ?b ?cen], of h] es unfolding run by force
  then show ?thesis using es True unfolding t by auto
next
  case False
  then show ?thesis
    using assms(2) by (simp add: mt7603_mac80211_config_def)
qed

theorem config_tunes_witness:
  "\<exists>dev' es. run_state (mt7603_mac80211_config (answering 4) Release sample_registered
       \<lparr> chan = Some 6, width_40 = True, center_freq1 = 2447 \<rparr> False) [] = (Some dev', [] @ es) \<and>
     current_channel dev' = 6 \<and> commands es = channel_plan (replicate 1024 0xFF) 1 6 8 1"
  using config_tunes [OF sample_reachable [of "answering 4" Release],
      of "\<lparr> chan = Some 6, width_40 = True, center_freq1 = 2447 \<rparr>" 6 False] answering_allocating [of 4]
  by (auto simp: sample_registered_def zero_dev_def clamp_channel_def central_channel_def mt7603_next_cmd_seq_def)

text \<open>C10: starting a device when memory suffices returns 0 on channel 1, whatever the bus answers,
  and sends exactly these commands in this order with consecutive sequence numbers: the calibration
  request (only when the eFuse was read), radio on, the EDCA table, and the two commands of channel 1.\<close>

theorem start_commands:
  assumes "reachable k prof dev h" "allocating k"
  shows "\<exists>dev' es. run_state (mt7603_mac80211_start k prof dev) h = (Some (0, dev'), h @ es) \<and>
    current_channel dev' = 1 \<and>
    commands es = start_plan (eeprom_valid dev) (eeprom dev) (mt7603_next_cmd_seq (cmd_seq dev))"
  by (rule spec_run [OF start_tells [OF assms(2) reachable_ok [OF assms(1)]], where h = h]) auto

theorem start_commands_witness:
  "\<exists>dev' es. run_state (mt7603_mac80211_start (answering 4) Release sample_registered) [] = (Some (0, dev'), [] @ es) \<and>
     current_channel dev' = 1 \<and> commands es = start_plan False (replicate 1024 0xFF) 1"
  using start_commands [OF sample_reachable [of "answering 4" Release] answering_allocating]
  by (simp add: sample_registered_def zero_dev_def mt7603_next_cmd_seq_def)

text \<open>Submissions of receive URBs.\<close>

definition rx_submissions :: "history \<Rightarrow> nat" where
  "rx_submissions es = length (filter (\<lambda>e. case e of Urb_Submit ep r \<Rightarrow> ep = MT7603_DATA_BULK_IN | _ \<Rightarrow> False) es)"

lemma rx_submissions_append [simp]: "rx_submissions (xs @ ys) = rx_submissions xs + rx_submissions ys"
  by (simp add: rx_submissions_def)

lemma rx_submissions_silent: "no_submission es \<Longrightarrow> rx_submissions es = 0"
  by (auto simp: no_submission_def rx_submissions_def list_all_iff filter_empty_conv split: event.splits)

lemma udma_silent: "submission.keeps (mt7603_usb_enable_udma k agg)"
proof -
  have "submission.keeps (mt7603_usb_cfg_read k a old)" for a old
    by (rule submission.keeps_spec [OF cfg_read_spec]) (auto simp: read_events_def no_submission_def)
  moreover have "submission.keeps (mt7603_usb_cfg_write k a v)" for a v
    by (rule submission.keeps_spec [OF cfg_write_spec]) (auto simp: write_events_def no_submission_def)
  ultimately show ?thesis
    unfolding mt7603_usb_enable_udma_def by (intro submission.keeps_rules)
qed

lemma start_rx_submits:
  assumes "\<And>h. kmalloc_ok k h 24576" "\<And>h. usb_alloc_urb_ok k h"
  shows "spec (mt7603_start_rx k dev) (\<lambda>r es. rx_submissions es = length (rx_urbs dev))"
proof -
  have slots: "spec (start_rx_slots k slots) (\<lambda>r es. fst r = 0 \<and> rx_submissions es = length slots)" for slots
  proof (induction slots)
    case (Cons slot slots)
    have buf: "spec (if fst slot then State_Monad.return True else kmalloc k 24576) (\<lambda>ok es. ok \<and> rx_submissions es = 0)"
      by (rule specI) (auto simp: call_defs assms(1) rx_submissions_def)
    have urb: "spec (if snd slot then State_Monad.return True else alloc_urb k) (\<lambda>ok es. ok \<and> rx_submissions es = 0)"
      by (rule specI) (auto simp: call_defs assms(2) rx_submissions_def)
    show ?case
      unfolding start_rx_slots.simps case_prod_beta
      apply (rule spec_bind [OF buf], rule spec_if, simp)
      apply (rule spec_bind [OF urb], rule spec_if, simp)
      apply (rule spec_bind [OF submit_urb_spec], rule spec_bind [OF Cons], rule spec_return)
      apply (simp add: rx_submissions_def)
      done
  qed (simp add: spec_return rx_submissions_def)
  have ring: "spec (start_cmd_ring k b u) (\<lambda>r es. rx_submissions es = 0)" for b u
    by (rule specI) (auto simp: start_cmd_ring_def call_defs rx_submissions_def)
  show ?thesis
    unfolding mt7603_start_rx_def Let_def case_prod_beta
    apply (rule spec_bind [OF clear_halt_spec], rule spec_bind [OF clear_halt_spec], rule spec_bind [OF slots])
    apply (rule spec_if, simp, rule spec_bind [OF ring], rule spec_return)
    apply (auto simp: rx_submissions_def)
    done
qed

text \<open>C34: when only the command buffer cannot be allocated, start fails with -ENOMEM and sends no
  command, but it leaves the device marked as running, with the five URBs of the receive rings and
  their buffers allocated and the four receive URBs submitted.\<close>

theorem failed_start_keeps_running:
  assumes "reachable k prof dev h" "\<And>h n. kmalloc_ok k h n \<longleftrightarrow> n \<noteq> 1088" "\<And>h. usb_alloc_urb_ok k h"
  shows "\<exists>dev' es. run_state (mt7603_mac80211_start k prof dev) h = (Some (ENOMEM, dev'), h @ es) \<and>
    running dev' \<and> rx_urbs dev' = replicate 4 (True, True) \<and> cmd_urb dev' \<and> cmd_buf dev' \<and>
    live_urbs (h @ es) = 5 + int (length (tx_anchor dev)) \<and> live_buffers (h @ es) = 5 \<and>
    rx_submissions es = 4 \<and> commands es = []"
proof -
  have ok: "dev_ok dev" by (rule reachable_ok [OF assms(1)])
  have rx: "spec (mt7603_start_rx k d) (\<lambda>r es. r = (0, d\<lparr> rx_urbs := map (\<lambda>_. (True, True)) (rx_urbs d),
      cmd_buf := True, cmd_urb := True \<rparr>) \<and> rx_submissions es = length (rx_urbs d))" for d
    by (rule spec_conj [OF start_rx_filled start_rx_submits]) (simp_all add: assms(2,3))
  have buf: "spec (kmalloc k (1024 + 64)) (\<lambda>r es. \<not> r \<and> es = [Alloc 1088 False])"
    by (rule spec_weaken [OF spec_conj [OF kmalloc_spec, of _ _ "\<lambda>ok _. \<not> ok"]])
      (auto simp: kmalloc_def assms(2) spec_def)
  have "spec (mt7603_mac80211_start k prof dev) (\<lambda>r es. \<exists>dev'. r = Some (ENOMEM, dev') \<and> running dev' \<and>
      rx_urbs dev' = replicate 4 (True, True) \<and> cmd_urb dev' \<and> cmd_buf dev' \<and> tx_anchor dev' = tx_anchor dev \<and>
      rx_submissions es = 4 \<and> commands es = [])"
    unfolding mt7603_mac80211_start_def Let_def case_prod_beta
    apply (rule spec_bind [OF spec_conj [OF enable_udma_spec udma_silent [unfolded submission.keeps_def]]])
    apply (rule spec_bind [OF spec_conj [OF rx start_rx_quiet [unfolded quiet.keeps_def]]])
    apply (rule spec_bind [OF buf], rule spec_if)
     apply (rule spec_return)
    using ok apply (auto simp: dev_ok_def next_seq_def map_replicate_const calm_def commands_def rx_submissions_silent)
     apply (simp_all add: rx_submissions_def)
    done
  then obtain dev' es where
    "run_state (mt7603_mac80211_start k prof dev) h = (Some (ENOMEM, dev'), h @ es)" "running dev'"
    "rx_urbs dev' = replicate 4 (True, True)" "cmd_urb dev'" "cmd_buf dev'" "tx_anchor dev' = tx_anchor dev"
    "rx_submissions es = 4" "commands es = []" "dev_ok dev'" "accounts dev dev' es"
    by (rule spec_run [OF spec_conj [OF _ start_spec [OF ok, of k prof]], where h = h]) auto
  then show ?thesis
    using inv_accounts [OF reachable_inv [OF assms(1)]] by (auto simp: drv_inv_def held_urbs_def held_buffers_def)
qed

definition short_of_memory :: kernel where
  "short_of_memory = (answering 4)\<lparr> kmalloc_ok := \<lambda>_ n. n \<noteq> 1088 \<rparr>"

theorem failed_start_keeps_running_witness:
  "\<exists>dev' es. run_state (mt7603_mac80211_start short_of_memory Release sample_registered) [] = (Some (ENOMEM, dev'), [] @ es) \<and>
     running dev' \<and> live_urbs ([] @ es) = 5 \<and> live_buffers ([] @ es) = 5 \<and> rx_submissions es = 4 \<and> commands es = []"
proof -
  have "tx_anchor sample_registered = []" by (simp add: sample_registered_def zero_dev_def)
  with failed_start_keeps_running [OF sample_reachable, of short_of_memory Release] show ?thesis
    by (force simp: short_of_memory_def answering_def)
qed

text \<open>Each advertised channel is accepted as it is by the channel change, the receive path
  reports its advertised frequency when it is current, and the formula for central channels gives its
  number back.\<close>

theorem advertised_channels:
  "list_all (\<lambda>(freq, ch). clamp_channel ch = ch \<and> rx_freq ch = freq \<and> of_nat ((freq - 2407) div 5) = ch \<and>
     central_channel ch (of_nat ((freq - 2407) div 5)) = ch) mt7603_channels_2ghz \<and>
   distinct (map snd mt7603_channels_2ghz) \<and> sorted (map fst mt7603_channels_2ghz)"
  by (simp add: mt7603_channels_2ghz_def clamp_channel_def rx_freq_def central_channel_def)

end
