(* ===== verification/Join.thy ===== *)
theory Join
  imports Bringup
begin

text \<open>
  Joining, leaving and serving a BSS: what the largest callback, \<open>bss_info_changed\<close>, leaves in the
  registers of a device that keeps what is written to it.
\<close>

section \<open>Calls that leave the registers alone\<close>

lemma contents_unwritten: "written_addrs es = {} \<Longrightarrow> contents s es = s"
  by (induction es arbitrary: s) (auto split: event.splits)

lemma acts_skip:
  assumes "spec m (\<lambda>_ es. written_addrs es = {})" "\<And>x. acts init (g x) f"
  shows "acts init (State_Monad.bind m g) f"
  unfolding acts_def
proof
  fix h
  obtain x es where m: "run_state m h = (x, h @ es)" "written_addrs es = {}"
    by (rule spec_run [OF assms(1), where h = h])
  moreover have "contents init (h @ es) = contents init h" using m(2) by (simp add: contents_append contents_unwritten)
  ultimately show "\<exists>es. run_state (State_Monad.bind m g) h = (fst (f (contents init h)), h @ es) \<and>
      contents init (h @ es) = snd (f (contents init h))"
    using acts_run [OF assms(2) [of x], where h = "h @ es"] by auto
qed

lemma acts_send_built: "sound_call r \<Longrightarrow> acts init (send_built k r) (\<lambda>s. (Some (), s))"
  unfolding sound_call_def send_built_def
  by (auto intro!: acts_skip [OF spec_weaken [OF send_cmd_spec]] acts_return simp: sends_def)

lemma acts_follow:
  assumes "acts init m (\<lambda>s. (Some x, t s))" "acts init (g x) f"
  shows "acts init (and_then m g) (\<lambda>s. f (t s))"
  unfolding acts_def and_then_def
proof
  fix h
  obtain es where "run_state m h = (Some x, h @ es)" "contents init (h @ es) = t (contents init h)"
    using acts_run [OF assms(1), of h] by auto
  then show "\<exists>es. run_state (do { r \<leftarrow> m; (case r of None \<Rightarrow> State_Monad.return None | Some x \<Rightarrow> g x) }) h =
      (fst (f (t (contents init h))), h @ es) \<and> contents init (h @ es) = snd (f (t (contents init h)))"
    using acts_run [OF assms(2), of "h @ es"] by auto
qed

section \<open>Tuning\<close>

lemma acts_set_channel:
  assumes "register_device k init" "dev_ok dev"
  shows "acts init (mt7603_set_channel_ext k prof dev ch b cen) (\<lambda>s. (Some (tuned dev ch b), s(physical_addr_map 0x21890 := 1)))"
proof -
  have e: "length (eeprom (next_seq (next_seq dev))) = 1024" using assms(2) by (simp add: dev_ok_def)
  note send = acts_send_built [OF sound_calls(1)] acts_send_built [OF sound_calls(2) [OF e]]
  show ?thesis
    unfolding mt7603_set_channel_ext_def Let_def tuned_def [symmetric]
    apply (rule acts_skip [OF spec_weaken [OF anchor_wait_spec]], simp)
    apply (rule acts_eq)
     apply (rule acts_and_then [OF send(1)])
     apply (rule acts_bind [OF acts_write [OF assms(1)]])
     apply (rule acts_and_then [OF send(2) acts_return])
    apply simp
    done
qed

definition retuned :: "mt7603u_dev \<Rightarrow> u8 option \<Rightarrow> mt7603u_dev" where
  "retuned dev ch = (case ch of Some c \<Rightarrow> if c \<noteq> current_channel dev then tuned dev c 0 else dev | None \<Rightarrow> dev)"

definition tune_regs :: "mt7603u_dev \<Rightarrow> u8 option \<Rightarrow> reg_file \<Rightarrow> reg_file" where
  "tune_regs dev ch s = (if ch \<noteq> None \<and> ch \<noteq> Some (current_channel dev) then s(physical_addr_map 0x21890 := 1) else s)"

lemma retuned_ok: "dev_ok dev \<Longrightarrow> dev_ok (retuned dev ch)"
  using next_seq_steady [of dev] next_seq_steady [of "next_seq dev"] clamp_bound
  by (auto simp: retuned_def tuned_def steady_def dev_ok_def idle_def split: option.split)

lemma acts_tune:
  assumes "register_device k init" "dev_ok dev"
  shows "acts init (case ch of Some c \<Rightarrow> tune k prof dev c | None \<Rightarrow> State_Monad.return (Some dev))
    (\<lambda>s. (Some (retuned dev ch), tune_regs dev ch s))"
  using acts_set_channel [OF assms] acts_return
  by (auto simp: tune_def mt7603_set_channel_def retuned_def tune_regs_def split: option.split)

text \<open>The channel a join tunes to: that of the scan cache, else of the configuration, else of the interface.\<close>

definition join_channel :: "u8 option option \<Rightarrow> u8 option \<Rightarrow> u8 option \<Rightarrow> u8 option" where
  "join_channel cached conf_ch vif_ch =
     (case cached of Some c \<Rightarrow> c | None \<Rightarrow> (case conf_ch of Some c \<Rightarrow> Some c | None \<Rightarrow> vif_ch))"

lemma bss_tune_channel:
  "bss_tune k prof dev cached conf_ch vif_ch =
     (case join_channel cached conf_ch vif_ch of Some c \<Rightarrow> tune k prof dev c | None \<Rightarrow> State_Monad.return (Some dev))"
  by (auto simp: bss_tune_def join_channel_def split: option.split)

section \<open>Joining and leaving\<close>

lemma join_addresses:
  "physical_addr_map RMAC_RMACDR = 0x60140078" "physical_addr_map 0x21890 = 0x60140090"
  by code_simp+

definition single :: "u32 \<Rightarrow> u32" where
  "single rmacdr = rmacdr AND NOT (push_bit 24 0x3)"

lemma single_bssid_modify: "single_bssid k = modify_reg k RMAC_RMACDR single"
  unfolding single_bssid_def modify_reg_def single_def ..

lemma acts_single_bssid:
  "register_device k init \<Longrightarrow> acts init (single_bssid k) (\<lambda>s. ((), s(0x60140078 := single (s 0x60140078))))"
  using acts_modify [of k init RMAC_RMACDR single] by (simp add: single_bssid_modify join_addresses)

text \<open>The registers of a station that has joined, and of one that has left.\<close>

definition joined :: "mac6 \<Rightarrow> reg_file \<Rightarrow> reg_file" where
  "joined m s = (after_ops (wtbl_sta_ops m)
     (s(0x60140004 := addr_lo m, 0x60140008 := addr_hi m, 0x60140078 := single (s 0x60140078))))(0xa500007c := 0)"

definition left :: "reg_file \<Rightarrow> reg_file" where
  "left s = s(0x60140004 := 0, 0x60140008 := 0, 0x60320020 := 0, 0x60320024 := 0, 0x60320028 := 0)"

lemma acts_join:
  assumes "register_device k init" "dev_ok dev" "\<not> is_ap vif" "Option.bind info bssid = Some m" "\<not> is_zero_ether_addr m"
    "join_channel cached (Option.bind info bss_chan) (Option.bind vif vif_bss_channel) = ch"
  shows "acts init (bss_join k prof dev vif info cached) (\<lambda>s. (Some (retuned dev ch), joined m (tune_regs dev ch s)))"
proof -
  have second: "acts init (if r = 0 then do { mt7603_usb_write_reg k RMAC_CB0R1 (addr_hi m); State_Monad.return () } else State_Monad.return ())
      (\<lambda>s. ((), if r = 0 then s(0x60140008 := addr_hi m) else s))" for r :: int
    using acts_bind [OF acts_write [OF assms(1), of RMAC_CB0R1 "addr_hi m"] acts_return, of "\<lambda>_. ()"]
    by (cases "r = 0") (simp_all add: peer_addresses acts_return)
  have rest: "acts init (do {
        r \<leftarrow> mt7603_usb_write_reg k RMAC_CB0R0 (addr_lo m);
        (if r = 0 then do { mt7603_usb_write_reg k RMAC_CB0R1 (addr_hi m); State_Monad.return () } else State_Monad.return ());
        single_bssid k;
        and_then (program_peer k m) (\<lambda>_. State_Monad.return (Some dev'))
      }) (\<lambda>s. (Some dev', joined m s))" for dev'
    apply (rule acts_eq)
     apply (rule acts_bind [OF acts_write [OF assms(1)]])
     apply (rule acts_bind [OF second])
     apply (rule acts_bind [OF acts_single_bssid [OF assms(1)]])
     apply (rule acts_and_then [OF acts_program_peer [OF assms(1)] acts_return])
    apply (simp add: joined_def peer_addresses)
    done
  show ?thesis
    unfolding bss_join_def assms(4) option.case if_not_P [OF assms(5)] bss_tune_channel assms(6) if_P [OF assms(3)]
    by (rule acts_eq [OF acts_and_then [OF acts_tune [OF assms(1,2)] rest]]) simp
qed

lemma acts_leave:
  assumes "register_device k init" "\<not> is_ap vif" "case Option.bind info bssid of Some m \<Rightarrow> is_zero_ether_addr m | None \<Rightarrow> True"
  shows "acts init (bss_join k prof dev vif info cached) (\<lambda>s. (Some dev, left s))"
proof -
  have "acts init (do { clear_bssid k; clear_peer k; State_Monad.return (Some dev) }) (\<lambda>s. (Some dev, left s))"
    unfolding clear_bssid_def clear_peer_def State_Monad.bind_assoc State_Monad.bind_left_identity
    apply (rule acts_eq)
     apply (rule acts_bind acts_write [OF assms(1)] acts_return)+
    apply (simp add: left_def peer_addresses wtbl1_addresses)
    done
  then show ?thesis using assms(2,3) by (auto simp: bss_join_def split: option.splits)
qed

lemma and_then_return: "and_then (State_Monad.return (Some x)) f = f x"
  by (simp add: and_then_def)

text \<open>Changes that concern only the BSS come down to a tuning and a join.\<close>

lemma bss_change:
  assumes "\<not> changed_beacon c" "\<not> changed_beacon_enabled c" "\<not> changed_beacon_int c" "changed_bssid c \<or> changed_assoc c"
  shows "mt7603_mac80211_bss_info_changed k prof dev vif info c cached =
    and_then (case Option.bind info oper_chan of Some ch \<Rightarrow> tune k prof dev ch | None \<Rightarrow> State_Monad.return (Some dev))
      (\<lambda>dev. bss_join k prof dev vif info cached)"
  using assms by (simp add: mt7603_mac80211_bss_info_changed_def and_then_return)

lemma after_ops_other: "a \<notin> physical_addr_map ` addr ` set ops \<Longrightarrow> after_ops ops s a = s a"
  by (induction ops arbitrary: s) auto

lemma joined_words:
  "joined m s 0x60140004 = addr_lo m" "joined m s 0x60140008 = addr_hi m" "joined m s 0x60140078 = single (s 0x60140078)"
  "joined m s 0x60320024 = addr_lo m" "joined m s 0x60320020 = 0x30000000 OR addr_top m" "joined m s 0xa500007c = 0"
  by (simp_all add: joined_def peer_words after_ops_other peer_addresses(1))

section \<open>Properties\<close>

text \<open>C15: when a station joins a BSS, the receiver's BSSID registers hold its address with the enable
  bit, the mask for several BSSIDs is cleared and every other bit of that register kept, entry 1 of the
  WTBL holds the address, its block-ack sessions are gone, and the device is on the channel of the BSS.\<close>

theorem station_joins:
  assumes "register_device k init" "reachable k prof dev h" "\<not> is_ap vif" "Option.bind info bssid = Some m"
    "\<not> is_zero_ether_addr m" "\<not> changed_beacon c" "\<not> changed_beacon_enabled c" "\<not> changed_beacon_int c"
    "changed_bssid c \<or> changed_assoc c"
    "join_channel cached (Option.bind info bss_chan) (Option.bind vif vif_bss_channel) = Some ch" "1 \<le> ch" "ch \<le> 14"
  shows "\<exists>dev' es. run_state (mt7603_mac80211_bss_info_changed k prof dev vif info c cached) h = (Some dev', h @ es) \<and>
    current_channel dev' = ch \<and>
    (let s = contents init h; s' = contents init (h @ es) in
      s' (physical_addr_map RMAC_CB0R0) = addr_lo m \<and> s' (physical_addr_map RMAC_CB0R1) = addr_hi m \<and>
      s' (physical_addr_map RMAC_RMACDR) = s (physical_addr_map RMAC_RMACDR) AND NOT (push_bit 24 3) \<and>
      s' (physical_addr_map (wtbl1_entry 1 + 4)) = addr_lo m \<and>
      take_bit 16 (s' (physical_addr_map (wtbl1_entry 1))) = addr_top m \<and>
      s' (physical_addr_map 0x4007C) = 0)"
proof -
  have ok: "dev_ok dev" by (rule reachable_ok [OF assms(2)])
  define d where "d = retuned dev (Option.bind info oper_chan)"
  have "dev_ok d" unfolding d_def by (rule retuned_ok [OF ok])
  note join = acts_join [OF assms(1) this assms(3,4,5), of cached "Some ch" prof, OF assms(10)]
  let ?s = "\<lambda>s. tune_regs d (Some ch) (tune_regs dev (Option.bind info oper_chan) s)"
  have "acts init (mt7603_mac80211_bss_info_changed k prof dev vif info c cached)
      (\<lambda>s. (Some (retuned d (Some ch)), joined m (?s s)))"
    unfolding bss_change [OF assms(6-9)]
    using acts_follow [where x = d and t = "tune_regs dev (Option.bind info oper_chan)" and
        g = "\<lambda>dev. bss_join k prof dev vif info cached", OF _ join]
      acts_tune [OF assms(1) ok, of prof "Option.bind info oper_chan"] by (simp add: d_def)
  from acts_run [OF this, of h] obtain es where es:
    "run_state (mt7603_mac80211_bss_info_changed k prof dev vif info c cached) h = (Some (retuned d (Some ch)), h @ es)"
    "contents init (h @ es) = joined m (?s (contents init h))" by auto
  have "\<not> ch < 1" "\<not> 14 < ch" using assms(11,12) by auto
  then have "current_channel (retuned d (Some ch)) = ch" by (simp add: retuned_def tuned_def clamp_channel_def)
  moreover have "?s s 0x60140078 = s 0x60140078" for s by (simp add: tune_regs_def join_addresses)
  moreover have "physical_addr_map (wtbl1_entry (Suc 0) + 4) = 0x60320024" unfolding wtbl1_entry_def by code_simp
  ultimately show ?thesis
    using es by (auto simp: Let_def joined_words peer_addresses join_addresses single_def addr_top_small)
qed

text \<open>A scan result on channel 6, and the change that announces it.\<close>

definition sample_bss :: bss_conf where
  "sample_bss = \<lparr> bssid = Some (Mac6 2 0 0 0 0 7), oper_chan = None, bss_chan = Some 6, enable_beacon = False, conf_beacon_int = 0 \<rparr>"

definition bssid_change :: bss_changed where
  "bssid_change = \<lparr> changed_beacon = False, changed_beacon_enabled = False, changed_beacon_int = False,
     changed_bssid = True, changed_assoc = False \<rparr>"

theorem station_joins_witness:
  "\<exists>dev' es. run_state (mt7603_mac80211_bss_info_changed (reg_sim (\<lambda>_. 0)) Release sample_registered None (Some sample_bss)
       bssid_change None) [] = (Some dev', [] @ es) \<and> current_channel dev' = 6 \<and>
     contents (\<lambda>_. 0) es (physical_addr_map RMAC_CB0R0) = 2"
  using station_joins [OF reg_sim_device sample_reachable, of None "Some sample_bss" "Mac6 2 0 0 0 0 7" bssid_change None 6 "\<lambda>_. 0" Release]
  by (auto simp: sample_bss_def bssid_change_def is_ap_def is_zero_ether_addr_def join_channel_def Let_def)

text \<open>When a station leaves (no BSSID, or the zero address), the BSSID registers and the three
  words of entry 1 of the WTBL are 0 and no other register has changed; an access point's registers are left
  alone by the same request.\<close>

theorem station_leaves:
  assumes "register_device k init" "case Option.bind info bssid of Some m \<Rightarrow> is_zero_ether_addr m | None \<Rightarrow> True"
    "Option.bind info oper_chan = None" "\<not> changed_beacon c" "\<not> changed_beacon_enabled c" "\<not> changed_beacon_int c"
    "changed_bssid c \<or> changed_assoc c"
  shows "\<exists>es. run_state (mt7603_mac80211_bss_info_changed k prof dev vif info c cached) h = (Some dev, h @ es) \<and>
    (\<forall>a. contents init (h @ es) a = (if \<not> is_ap vif \<and> a \<in> physical_addr_map ` {RMAC_CB0R0, RMAC_CB0R1, 0x28020, 0x28024, 0x28028}
      then 0 else contents init h a))"
proof (cases "is_ap vif")
  case True
  then have "mt7603_mac80211_bss_info_changed k prof dev vif info c cached = State_Monad.return (Some dev)"
    using assms(2,3) unfolding bss_change [OF assms(4-7)] by (auto simp: and_then_return bss_join_def split: option.splits)
  with True show ?thesis by simp
next
  case False
  from acts_run [OF acts_leave [OF assms(1) False assms(2), of prof dev cached], of h] show ?thesis
    using False assms(3) unfolding bss_change [OF assms(4-7)]
    by (auto simp: and_then_return left_def peer_addresses wtbl1_addresses)
qed

theorem station_leaves_witness:
  "\<exists>es. run_state (mt7603_mac80211_bss_info_changed (reg_sim (\<lambda>_. 9)) Release sample_registered None None bssid_change None) [] =
       (Some sample_registered, [] @ es) \<and> contents (\<lambda>_. 9) es (physical_addr_map RMAC_CB0R0) = 0 \<and>
     contents (\<lambda>_. 9) es (physical_addr_map WTBL1OR) = 9"
  using station_leaves [OF reg_sim_device, of None bssid_change "\<lambda>_. 9" Release sample_registered None None "[]"]
  by (auto simp: bssid_change_def is_ap_def peer_addresses wtbl1_addresses)

end
