(* ===== verification/Spec2Isabelle.thy ===== *)
theory Spec2Isabelle
  imports Lib Abi Crate_Tests Reg_Exec Runner Efuse Upload Rx_Path Tx_Path Join
begin

text \<open>
  The MT7603U driver, modelled and verified.

  \<^bold>\<open>The program.\<close> The repository is a Linux driver for the MT7603U USB Wi-Fi chip. The data
  formats are the business of a \<open>no_std\<close> Rust crate (src/src/rust/src) of pure functions: parsers of
  device data (EEPROM image, receive descriptor, beacon, association request), builders of frames
  (MCU commands, transmit descriptor, probe request, beacon, association response) and builders of
  register-write sequences (MAC initialisation, own address, channel, receive filter, block-ack,
  station WTBL, AP BSS-sync). A C layer (src/src/c) owns the USB device and the mac80211 callbacks,
  calls the crate through 28 \<open>extern "C"\<close> functions, sends its commands over bulk endpoints and
  executes its register sequences with vendor requests; user\_runner.rs does the latter from user space.

  \<^bold>\<open>Theories of the crate.\<close>
  \<^item> \<open>Mt_Prelude\<close>: words, \<open>Result\<close>, bounds-checked slices, little-endian bytes, loops.
  \<^item> \<open>Util\<close> (util.rs): \<open>copy_bytes\<close>, and the locale \<open>slice_writer\<close>, the contract of a builder.
  \<^item> \<open>Ffi_Types\<close> (ffi.rs): the \<open>repr(C)\<close> records, and the register map a write sequence leaves.
  \<^item> \<open>Regmap\<close> (regmap.rs): \<open>physical_addr_map\<close>, against an interval map (locale \<open>window_table\<close>).
  \<^item> \<open>Eeprom\<close> (eeprom.rs), \<open>Rx\<close> (rx.rs), \<open>Tx\<close> (tx.rs): \<open>parse_eeprom\<close>, \<open>parse_rx_frame\<close>,
    \<open>tx_rate_to_tmi\<close> and \<open>build_txwi\<close>.
  \<^item> \<open>Frames\<close>: reference management frames and element lists, shared by the next two.
  \<^item> \<open>Sta\<close> (sta.rs), \<open>Ap\<close> (ap.rs): frame builders, \<open>parse_beacon\<close>, \<open>parse_assoc_req\<close>, WTBL and
    BSS-sync sequences.
  \<^item> \<open>Mcu\<close> (mcu.rs): FW\_TXD framing, all command builders, \<open>fw_dl_len\<close>, \<open>verify_firmware\<close>.
  \<^item> \<open>Mac\<close> (mac.rs): the register sequences of the MAC.
  \<^item> \<open>Lib\<close> (lib.rs): the 28 entry points of the C ABI.
  \<^item> \<open>Abi\<close> (ffi.rs against mt7603u\_rust.h): the layout of the shared structures, computed from both
    declarations, and their bytes in memory (locale \<open>c_struct\<close>).
  \<^item> \<open>Crate_Tests\<close>: the unit tests of the crate, translated and shown to pass.
  \<^item> \<open>Runner\<close> (bin/user\_runner.rs): the whole \<open>main\<close>.

  \<^bold>\<open>Theories of the C layer.\<close>
  \<^item> \<open>Reg_Exec\<close> (regops.c): execution of a register sequence as a step relation.
  \<^item> \<open>Kernel_Io\<close>: the kernel services the C code calls, as a parameter, and the history of calls.
  \<^item> \<open>Regops\<close>, \<open>Efuse\<close> (regops.c): register access, the write loop, the eFuse reader.
  \<^item> \<open>Reg_Device\<close>: devices that keep what is written to them, and a calculus for the effect of a
    computation on the register contents.
  \<^item> \<open>Upload\<close> (usb.c): command transport, response sessions and the firmware upload.
  \<^item> \<open>Rx_Path\<close>, \<open>Tx_Path\<close> (mac80211.c): the receive completion handler; the device structure, the
    frame that a transmission puts together, and what its completion makes of it.
  \<^item> \<open>Mac80211\<close> (mac80211.c): receive rings, channels, transmit URBs and the beacon work, start and stop,
    interfaces, filters, BSS changes, stations. \<open>Keys\<close>: hardware keys and block-ack sessions. \<open>Probe\<close> (also usb.c): registration, probe,
    disconnect.
  \<^item> \<open>Lifecycle\<close>: every callback with a body (transmission included), the three parts of stop, the beacon
    work and the three URB completion handlers, in any order, as the step relation \<open>drv_step\<close>, with its
    invariant. \<open>Bringup\<close>: the commands of a start and of a channel change, probe as a whole.
    \<open>Join\<close>: joining and leaving a BSS.

  \<^bold>\<open>Conventions.\<close> A Rust integer of \<open>w\<close> bits is a word of \<open>w\<close> bits, \<open>usize\<close> is \<open>nat\<close> (only small
  constants are ever added to slice lengths). \<open>Result<T, i32>\<close> is \<open>'a rresult\<close>. A function that
  can panic returns an \<open>option\<close>, \<^term>\<open>None\<close> being a panic or a violated \<open>unsafe\<close> precondition; a
  function that writes a \<open>&mut\<close> slice returns its final content next to the result. Where debug
  and release builds differ (\<open>debug_assert!\<close>, integer overflow) the build profile is an argument.
  A \<open>while\<close> loop is a recursive function with a termination proof, so no fuel is used anywhere.
  A C function is a computation of the state monad over the history of kernel calls; the answers of the
  kernel, of the bus and of the device come from the record \<open>kernel\<close>, whose functions may depend on
  everything that happened before. Theorems that hold for every kernel hold for every failure of
  allocations and transfers; a theorem about a well-behaved device says so in its hypotheses
  (\<open>control_reliable\<close>, \<open>efuse_device\<close>, \<open>register_device\<close>, \<open>allocating\<close>), and its witness gives such a
  device. \<open>struct mt7603u_dev\<close> is the record \<open>mt7603u_dev\<close>; a callback takes and returns it.

  \<^bold>\<open>Interfaces.\<close> \<open>slice_writer\<close> (Util) says what a builder promises: arguments rejected with
  -EINVAL and short slices with -ENOSPC leave the slice alone, otherwise exactly one reference
  block is written to its front. It is interpreted on every builder of the crate whose errors
  leave the slice alone (all but \<open>build_txwi\<close>); \<open>Lib\<close> extends it with the memory effect of the C
  entry points. \<open>window_table\<close> (Regmap) states what makes an address table injective and is
  interpreted on the table of the chip. \<open>trace_property\<close> (Kernel_Io) lifts a property of histories
  from kernel calls to whole C functions; it is interpreted for balanced allocation, for silence on the
  command endpoint, and for the registers written. \<open>call_property\<close> (Lifecycle) extends it to every
  configuration callback from four kinds of calls, and is interpreted twice: callbacks release what they
  allocate, and they submit no URB. \<open>c_struct\<close> (Abi) says what a record needs to cross the language
  border (named fields of the declared sizes that determine it) and is interpreted on all five.

  \<^bold>\<open>What is shown.\<close> Parsers are total and equal to specifications over their input; builders are
  equal to reference blocks, and decoders read the arguments back (beacon, FW\_TXD, association
  response, transmit descriptor, own address, WTBL entry, block-ack word). The address map is the
  documented interval map and injective. Every C entry point keeps the caller's memory on failure. The
  two declarations of each shared structure agree, and what one language writes into a field the other
  reads from the field of that name. The firmware upload follows its plan on every kernel, releases its memory, restores the scheduler, and a
  success means that the boot ROM has received the announced bytes. The receive handler finishes on
  every transfer and hands up only bytes it received; the transmit completion restores the frame that
  was queued. In every state that registration and any sequence of callbacks, parts of stop, beacon work
  and URB completions can reach, the device structure is well formed and its rings and its transmit anchor
  account for every buffer and URB, no callback panics (a frame to transmit has to hold its own header),
  stopping or disconnecting releases everything, and a device that is not running submits nothing, even
  while stop still has URBs in flight.
  On a device that keeps its registers, key installation, block-ack updates, joining and leaving have
  exactly the stated effect. Some theorems state limits of the code: which rates make
  \<open>tx_rate_to_tmi\<close> panic, that the descriptor's byte count can wrap, that a hidden SSID hides the
  channel, that a failed command leaks its response session, that a start without memory leaves the
  device running, that set\_key never reports a failure, that a failed read ends other block-ack
  sessions, that adding a station to an access point resets the keys installed before, and that two
  shared structures hold the padding their schema forbids. The model passes the 65 unit tests of the
  crate, whose expected values were written against the real code; for the two tests on the shipped
  firmware image the facts they use of that file (length, signature, length word) are hypotheses.

  \<^bold>\<open>Not modelled.\<close> Logging, the debug dumps and the callbacks with empty bodies (scan notifications,
  \<open>conf_tx\<close>, \<open>sta_notify\<close>, rate table updates); the two one-line functions of core.c; the variants of the
  C code for Linux before 6.9; the shell tools. A callback or completion handler is one step, apart from
  stop, between whose parts (flags, receive rings, transmit anchor) anything else may run. Other
  interleavings inside a callback are not modelled, because the code they would run against (the USB core
  and mac80211, with their locks) is not part of the repository; so the theorems do not speak about a
  frame that passes the running test of the transmit handler on one processor while stop runs on another.
  \<open>usb_kill_anchored_urbs\<close> and \<open>usb_kill_urb\<close> have the effect the kernel documents for them.
\<close>

section \<open>Properties across components\<close>

text \<open>Legacy rates survive the air: the rate code the transmit side puts into a descriptor
  for OFDM rate i, received in a receive vector of OFDM mode, is reported as legacy index 4 + i,
  and a CCK code with long preamble as the CCK index itself; with short preamble the 1 Mb/s rate,
  which has none, becomes 2 Mb/s and the others keep their index.\<close>

theorem legacy_rate_roundtrip:
  "list_all (\<lambda>i. map_option (\<lambda>t. rxv_rate_enc (take_bit 6 t OR push_bit 12 MODE_OFDM))
       (tx_rate_to_tmi MODE_OFDM (word_of_nat i) stbc nss preamb) = Some (4 + word_of_nat i)) [0..<8] \<and>
   list_all (\<lambda>i. map_option (\<lambda>t. rxv_rate_enc (take_bit 6 t OR push_bit 12 MODE_CCK))
       (tx_rate_to_tmi MODE_CCK (word_of_nat i) stbc nss LONG_PREAMBLE) = Some (word_of_nat i)) [0..<4] \<and>
   list_all (\<lambda>i. map_option (\<lambda>t. rxv_rate_enc (take_bit 6 t OR push_bit 12 MODE_CCK))
       (tx_rate_to_tmi MODE_CCK (word_of_nat i) stbc nss SHORT_PREAMBLE) =
       Some (word_of_nat (max 1 i))) [0..<4]"
  by (simp add: upt_conv_Cons tx_rate_to_tmi_def load_def rxv_rate_enc_def ofdm_rate_idx_def
      word_le_nat_alt)

text \<open>The word a block-ack update writes lies inside the WTBL2 memory, below the key memory
  of WTBL3, exactly for the client ids below 128; the code accepts every id up to 255.\<close>

theorem ba_session_address:
  assumes "build_ba_session_sequence wcid tid ba_size enable prev out = Some (Ok n, op # rest)"
  shows "unat (addr op) = 0x4003C + 64 * unat wcid \<and>
    (addr op < WTBL3_KEY_BASE \<longleftrightarrow> unat wcid < 128)"
proof -
  have "op = hd (ba_session_ops wcid tid ba_size enable prev)"
    using assms unfolding ba_session.ok_iff by (simp add: ba_session_ops_def)
  then have "addr op = 0x4003C + 64 * ucast wcid" by (simp add: ba_session_ops_def)
  moreover have "unat wcid < 256" by (rule unat_less_simps)
  ultimately show ?thesis
    by (auto simp: unat_word_ariths word_less_nat_alt)
qed

theorem ba_session_address_witness:
  "unat (addr (hd (ba_session_ops 200 0 8 True 0))) = 0x4003C + 64 * 200"
proof -
  have "build_ba_session_sequence 200 0 8 True 0 [op_write 0 0] =
      Some (Ok 1, [hd (ba_session_ops 200 0 8 True 0)])"
    by (subst ba_session.build_cases) (simp add: ba_session_ops_def)
  from ba_session_address [OF this] show ?thesis by simp
qed

end
